(* ===== verification/Prelude.thy ===== *)
theory Prelude
  imports Main "HOL-Library.Word"
begin

text \<open>
  Shared types and lemmas of the development.  Go results of shape \<open>(value, error)\<close> are
  values of \<open>res\<close>: the value, the error, or a run-time panic (a nil dereference).
  Integers keep Go's widths: \<open>uint64\<close> and \<open>uint\<close> are 64-bit words, \<open>int64\<close> is an
  \<open>int\<close> whose arithmetic wraps through \<open>wrap64\<close>.
\<close>

named_theorems res_simps \<open>equations of the result type and its combinators\<close>
named_theorems tab_simps \<open>lookups and updates of database tables\<close>
named_theorems frame_simps \<open>parts of the state that an operation leaves alone\<close>

type_synonym u64 = "64 word"
type_synonym u32 = "32 word"

section \<open>Results\<close>

datatype ('e, 'a) res = Ok 'a | Fail 'e | Panic

fun bindR :: "('e, 'a) res \<Rightarrow> ('a \<Rightarrow> ('e, 'b) res) \<Rightarrow> ('e, 'b) res" where
  "bindR (Ok x) f = f x"
| "bindR (Fail e) f = Fail e"
| "bindR Panic f = Panic"

fun mapE :: "('e \<Rightarrow> 'f) \<Rightarrow> ('e, 'a) res \<Rightarrow> ('f, 'a) res" where
  "mapE g (Ok x) = Ok x"
| "mapE g (Fail e) = Fail (g e)"
| "mapE g Panic = Panic"

text \<open>\<open>if cond { return err }\<close>: the guard clause of the Go sources.\<close>

definition guardR :: "bool \<Rightarrow> 'e \<Rightarrow> ('e, 'a) res \<Rightarrow> ('e, 'a) res" where
  "guardR bad e k = (if bad then Fail e else k)"

lemma bindR_Ok_iff [res_simps]:
  "bindR m f = Ok y \<longleftrightarrow> (\<exists>x. m = Ok x \<and> f x = Ok y)"
  by (cases m) auto

lemma mapE_Ok_iff [res_simps]: "mapE g m = Ok x \<longleftrightarrow> m = Ok x"
  by (cases m) auto

lemma guardR_Ok_iff [res_simps]: "guardR b e k = Ok x \<longleftrightarrow> \<not> b \<and> k = Ok x"
  by (simp add: guardR_def)

lemma guardR_simps [simp]: "guardR True e k = Fail e" "guardR False e k = k"
  by (simp_all add: guardR_def)

lemma bindR_Panic_iff:
  "bindR m f = Panic \<longleftrightarrow> m = Panic \<or> (\<exists>x. m = Ok x \<and> f x = Panic)"
  by (cases m) auto

lemma bindR_Fail_iff: "bindR m f = Fail e \<longleftrightarrow> m = Fail e \<or> (\<exists>x. m = Ok x \<and> f x = Fail e)"
  by (cases m) auto

lemma bindR_assoc: "bindR (bindR m f) g = bindR m (\<lambda>x. bindR (f x) g)"
  by (cases m) auto

lemma bindR_cong [fundef_cong]:
  "\<lbrakk>m = m'; \<And>x. m' = Ok x \<Longrightarrow> f x = f' x\<rbrakk> \<Longrightarrow> bindR m f = bindR m' f'"
  by (cases m') auto

text \<open>A \<open>for idx, x := range xs\<close> loop whose body only checks: the first error stops it.\<close>

primrec checkAll :: "(nat \<Rightarrow> 'x \<Rightarrow> ('e, unit) res) \<Rightarrow> nat \<Rightarrow> 'x list \<Rightarrow> ('e, unit) res" where
  "checkAll f i [] = Ok ()"
| "checkAll f i (x # xs) = bindR (f i x) (\<lambda>_. checkAll f (Suc i) xs)"

lemma checkAll_Ok_iff [res_simps]:
  "checkAll f i xs = Ok () \<longleftrightarrow> (\<forall>j < length xs. f (i + j) (xs ! j) = Ok ())"
proof (induction xs arbitrary: i)
  case Nil
  then show ?case by simp
next
  case (Cons x xs)
  have "(\<forall>j < length (x # xs). f (i + j) ((x # xs) ! j) = Ok ())
    \<longleftrightarrow> f i x = Ok () \<and> (\<forall>j < length xs. f (Suc i + j) (xs ! j) = Ok ())"
    by (simp add: All_less_Suc2)
  then show ?case using Cons.IH [of "Suc i"] by (auto simp: bindR_Ok_iff)
qed

lemma checkAll_each:
  "checkAll f i xs = Ok () \<Longrightarrow> x \<in> set xs \<Longrightarrow> \<exists>j. f j x = Ok ()"
  unfolding checkAll_Ok_iff by (metis in_set_conv_nth)

text \<open>A loop that threads a state and stops at the first error.\<close>

primrec foldR :: "('x \<Rightarrow> 's \<Rightarrow> ('e, 's) res) \<Rightarrow> 'x list \<Rightarrow> 's \<Rightarrow> ('e, 's) res" where
  "foldR f [] s = Ok s"
| "foldR f (x # xs) s = bindR (f x s) (foldR f xs)"

lemma foldR_invariant:
  assumes "foldR f xs s = Ok t" and "P s"
    and "\<And>x s t. x \<in> set xs \<Longrightarrow> P s \<Longrightarrow> f x s = Ok t \<Longrightarrow> P t"
  shows "P t"
  using assms
proof (induction xs arbitrary: s)
  case Nil
  then show ?case by simp
next
  case (Cons x xs)
  from Cons.prems(1) obtain s' where s': "f x s = Ok s'" "foldR f xs s' = Ok t"
    by (auto simp: bindR_Ok_iff)
  have "P s'" using Cons.prems(2,3) s'(1) by (meson list.set_intros(1))
  with s'(2) Cons.prems(3) show ?case by (intro Cons.IH [of s']) auto
qed

text \<open>\<open>mapR f xs\<close>: the loops that append one converted element per iteration.\<close>

primrec mapR :: "('x \<Rightarrow> ('e, 'y) res) \<Rightarrow> 'x list \<Rightarrow> ('e, 'y list) res" where
  "mapR f [] = Ok []"
| "mapR f (x # xs) = bindR (f x) (\<lambda>y. bindR (mapR f xs) (\<lambda>ys. Ok (y # ys)))"

lemma mapR_Ok: "(\<And>x. x \<in> set xs \<Longrightarrow> f x = Ok (g x)) \<Longrightarrow> mapR f xs = Ok (map g xs)"
  by (induction xs) auto

lemma mapR_Ok_list: "mapR f xs = Ok ys \<Longrightarrow> length ys = length xs \<and> (\<forall>i < length xs. f (xs ! i) = Ok (ys ! i))"
  by (induction xs arbitrary: ys) (auto simp: bindR_Ok_iff nth_Cons split: nat.splits)

section \<open>Signed 64-bit arithmetic\<close>

definition wrap64 :: "int \<Rightarrow> int" where
  "wrap64 x = (x + 2 ^ 63) mod 2 ^ 64 - 2 ^ 63"

definition in_i64 :: "int \<Rightarrow> bool" where
  "in_i64 x \<longleftrightarrow> - (2 ^ 63) \<le> x \<and> x < 2 ^ 63"

lemma wrap64_in_i64 [simp]: "in_i64 (wrap64 x)"
proof -
  have "0 \<le> (x + 2 ^ 63) mod 2 ^ 64" "(x + 2 ^ 63) mod 2 ^ 64 < 2 ^ 64" by simp_all
  then show ?thesis unfolding wrap64_def in_i64_def by simp
qed

lemma wrap64_id: "in_i64 x \<Longrightarrow> wrap64 x = x"
  unfolding wrap64_def in_i64_def by simp

text \<open>\<open>int(x)\<close> and \<open>int64(x)\<close> of a \<open>uint64\<close>; \<open>uint64(i)\<close> of an \<open>int64\<close>.\<close>

definition int_of_u64 :: "u64 \<Rightarrow> int" where
  "int_of_u64 w = wrap64 (uint w)"

definition u64_of_int :: "int \<Rightarrow> u64" where
  "u64_of_int i = word_of_int i"

lemma int_of_u64_small: "uint w < 2 ^ 63 \<Longrightarrow> int_of_u64 w = uint w"
  unfolding int_of_u64_def by (rule wrap64_id) (simp add: in_i64_def order.trans [of _ 0])

lemma uint_u64_of_int: "uint (u64_of_int i) = i mod 2 ^ 64"
  by (simp add: u64_of_int_def uint_word_of_int)

section \<open>Tables: lists of rows with a key\<close>

text \<open>
  \<open>first_by key P rows\<close> is the row that gorm's \<open>First\<close> returns: the least by primary key among
  those that satisfy the condition.
\<close>

definition least_by :: "('r \<Rightarrow> u64) \<Rightarrow> 'r \<Rightarrow> 'r \<Rightarrow> 'r" where
  "least_by key x y = (if key x < key y then x else y)"

definition first_by :: "('r \<Rightarrow> u64) \<Rightarrow> ('r \<Rightarrow> bool) \<Rightarrow> 'r list \<Rightarrow> 'r option" where
  "first_by key P rows =
     (case filter P rows of [] \<Rightarrow> None | r # rs \<Rightarrow> Some (fold (least_by key) rs r))"

lemma fold_least_by_in: "fold (least_by key) rs r \<in> insert r (set rs)"
proof (induction rs arbitrary: r)
  case Nil
  then show ?case by simp
next
  case (Cons x rs)
  have "fold (least_by key) rs (least_by key x r) \<in> insert (least_by key x r) (set rs)"
    by (rule Cons.IH)
  moreover have "least_by key x r \<in> {x, r}" by (simp add: least_by_def)
  ultimately show ?case by auto
qed

lemma fold_least_by_le: "y \<in> insert r (set rs) \<Longrightarrow> key (fold (least_by key) rs r) \<le> key y"
proof (induction rs arbitrary: r y)
  case Nil
  then show ?case by simp
next
  case (Cons x rs)
  have le: "key (fold (least_by key) rs (least_by key x r)) \<le> key (least_by key x r)"
    by (rule Cons.IH) simp
  have m: "key (least_by key x r) \<le> key x" "key (least_by key x r) \<le> key r"
    by (auto simp: least_by_def)
  from Cons.prems consider "y = r" | "y = x" | "y \<in> set rs" by auto
  then show ?case
  proof cases
    case 1
    with le m(2) show ?thesis by simp
  next
    case 2
    with le m(1) show ?thesis by simp
  next
    case 3
    then show ?thesis using Cons.IH [of y "least_by key x r"] by simp
  qed
qed

lemma first_by_SomeD [tab_simps]:
  assumes "first_by key P rows = Some r"
  shows "r \<in> set rows \<and> P r \<and> (\<forall>y \<in> set rows. P y \<longrightarrow> key r \<le> key y)"
proof -
  from assms obtain x xs where f: "filter P rows = x # xs" and r: "r = fold (least_by key) xs x"
    by (auto simp: first_by_def split: list.splits)
  have s: "insert x (set xs) = {y \<in> set rows. P y}"
    using f by (metis list.simps(15) set_filter)
  have "r \<in> insert x (set xs)" unfolding r by (rule fold_least_by_in)
  moreover have "\<forall>y \<in> insert x (set xs). key r \<le> key y" unfolding r by (blast intro: fold_least_by_le)
  ultimately show ?thesis unfolding s by blast
qed

lemma first_by_None_iff [tab_simps]: "first_by key P rows = None \<longleftrightarrow> (\<forall>r \<in> set rows. \<not> P r)"
proof -
  have "first_by key P rows = None \<longleftrightarrow> filter P rows = []"
    by (simp add: first_by_def split: list.split)
  then show ?thesis by (simp add: filter_empty_conv)
qed

lemma first_by_unique:
  assumes "distinct (map key rows)" and "r \<in> set rows" and "P r" and "\<And>y. P y \<Longrightarrow> key y = key r"
  shows "first_by key P rows = Some r"
proof (cases "first_by key P rows")
  case None
  with assms(2,3) show ?thesis by (auto simp: first_by_None_iff)
next
  case (Some y)
  then have "y \<in> set rows" "P y" by (auto dest: first_by_SomeD)
  with assms have "y = r" by (metis distinct_map inj_on_def)
  with Some show ?thesis by simp
qed

text \<open>Replacing the rows that carry a key, as \<open>UPDATE ... WHERE id = k\<close> does.\<close>

definition replace_by :: "('r \<Rightarrow> u64) \<Rightarrow> 'r \<Rightarrow> 'r list \<Rightarrow> 'r list" where
  "replace_by key r rows = map (\<lambda>y. if key y = key r then r else y) rows"

lemma map_key_replace_by [simp]: "map key (replace_by key r rows) = map key rows"
  by (simp add: replace_by_def)

lemma image_key_replace_by [simp]: "key ` set (replace_by key r rows) = key ` set rows"
  by (metis map_key_replace_by set_map)

lemma set_replace_by:
  "key r \<in> key ` set rows \<Longrightarrow> set (replace_by key r rows) = insert r {y \<in> set rows. key y \<noteq> key r}"
  by (auto simp: replace_by_def image_iff)

lemma in_replace_by: "y \<in> set (replace_by key r rows) \<Longrightarrow> y = r \<or> (y \<in> set rows \<and> key y \<noteq> key r)"
  by (auto simp: replace_by_def split: if_splits)

lemma key_unique: "distinct (map key rows) \<Longrightarrow> x \<in> set rows \<Longrightarrow> y \<in> set rows \<Longrightarrow> key x = key y \<Longrightarrow> x = y"
  by (simp add: distinct_map inj_on_def)

section \<open>Codecs\<close>

text \<open>
  The contract of a textual encoding: what is printed parses back.  Configuration values, session
  payloads and session keys all travel through such pairs.
\<close>

locale codec =
  fixes enc :: "'a \<Rightarrow> string" and dec :: "string \<Rightarrow> 'a option" and dom_ok :: "'a \<Rightarrow> bool"
  assumes dec_enc: "dom_ok x \<Longrightarrow> dec (enc x) = Some x"
begin

lemma enc_inj: "dom_ok x \<Longrightarrow> dom_ok y \<Longrightarrow> enc x = enc y \<Longrightarrow> x = y"
  by (metis dec_enc option.inject)

lemma dec_enc_inj_on: "inj_on enc {x. dom_ok x}"
  by (auto intro: inj_onI enc_inj)

end

end
