(* ===== verification/Go_Std.thy ===== *)
theory Go_Std
  imports Prelude
begin

text \<open>
  What the sources use of Go's standard library, on byte strings: \<open>unicode/utf8\<close> rune counting,
  \<open>strconv\<close> printing and parsing, \<open>strings.Split\<close>, \<open>encoding/hex\<close> and
  \<open>encoding/base64\<close> (URL alphabet, padded).  The round trips of the codecs are interpretations of
  the locale \<open>codec\<close>.
\<close>

section \<open>unicode/utf8\<close>

abbreviation byte :: "char \<Rightarrow> nat" where
  "byte c \<equiv> of_char c"

text \<open>The \<open>first\<close> table: size and accepted range of the second byte, by leading byte.\<close>

definition utf8_first :: "nat \<Rightarrow> (nat \<times> nat \<times> nat) option" where
  "utf8_first c =
     (if 0xC2 \<le> c \<and> c \<le> 0xDF then Some (2, 0x80, 0xBF)
      else if c = 0xE0 then Some (3, 0xA0, 0xBF)
      else if c = 0xED then Some (3, 0x80, 0x9F)
      else if 0xE1 \<le> c \<and> c \<le> 0xEF then Some (3, 0x80, 0xBF)
      else if c = 0xF0 then Some (4, 0x90, 0xBF)
      else if 0xF1 \<le> c \<and> c \<le> 0xF3 then Some (4, 0x80, 0xBF)
      else if c = 0xF4 then Some (4, 0x80, 0x8F)
      else None)"

definition cont_byte :: "char \<Rightarrow> bool" where
  "cont_byte c \<longleftrightarrow> 0x80 \<le> byte c \<and> byte c \<le> 0xBF"

text \<open>Bytes taken by the rune that starts a non-empty string; an invalid sequence takes one.\<close>

definition runeSize :: "string \<Rightarrow> nat" where
  "runeSize s =
     (case s of [] \<Rightarrow> 1 | c # _ \<Rightarrow>
       (case utf8_first (byte c) of None \<Rightarrow> 1
        | Some (sz, lo, hi) \<Rightarrow>
            (if length s < sz then 1
             else if byte (s ! 1) < lo \<or> hi < byte (s ! 1) then 1
             else if sz = 2 then 2
             else if \<not> cont_byte (s ! 2) then 1
             else if sz = 3 then 3
             else if \<not> cont_byte (s ! 3) then 1
             else 4)))"

lemma runeSize_bounds: "1 \<le> runeSize s \<and> runeSize s \<le> 4"
  by (auto simp: runeSize_def split: list.split option.split)

lemma utf8_first_size: "utf8_first c = Some (n, lo, hi) \<Longrightarrow> n \<in> {2, 3, 4}"
  by (auto simp: utf8_first_def split: if_splits)

lemma runeSize_le_length: "s \<noteq> [] \<Longrightarrow> runeSize s \<le> length s"
proof -
  assume "s \<noteq> []"
  then obtain c cs where s: "s = c # cs" by (cases s) auto
  show ?thesis
  proof (cases "utf8_first (byte c)")
    case None
    then show ?thesis by (simp add: runeSize_def s)
  next
    case (Some t)
    obtain n lo hi where t: "t = (n, lo, hi)" by (cases t)
    have "n \<in> {2, 3, 4}" using Some t by (auto dest: utf8_first_size)
    then show ?thesis using Some t s by (auto simp: runeSize_def Suc_le_eq)
  qed
qed

function RuneCountInString :: "string \<Rightarrow> nat" where
  "RuneCountInString s = (if s = [] then 0 else Suc (RuneCountInString (drop (runeSize s) s)))"
  by pat_completeness auto
termination
proof (relation "measure length")
  fix s :: string
  assume "s \<noteq> []"
  with runeSize_bounds [of s] show "(drop (runeSize s) s, s) \<in> measure length" by simp
qed simp

declare RuneCountInString.simps [simp del]

lemma RuneCountInString_Nil [simp]: "RuneCountInString [] = 0"
  by (simp add: RuneCountInString.simps)

lemma RuneCountInString_le_length: "RuneCountInString s \<le> length s"
proof (induction s rule: RuneCountInString.induct)
  case (1 s)
  show ?case
  proof (cases "s = []")
    case False
    with 1 have "RuneCountInString (drop (runeSize s) s) \<le> length (drop (runeSize s) s)" by simp
    with False runeSize_bounds [of s] runeSize_le_length [of s] show ?thesis
      by (simp add: RuneCountInString.simps [of s]) linarith
  qed simp
qed

lemma RuneCountInString_ge: "length s \<le> 4 * RuneCountInString s"
proof (induction s rule: RuneCountInString.induct)
  case (1 s)
  show ?case
  proof (cases "s = []")
    case False
    with 1 have "length (drop (runeSize s) s) \<le> 4 * RuneCountInString (drop (runeSize s) s)" by simp
    with False runeSize_bounds [of s] runeSize_le_length [of s] show ?thesis
      by (simp add: RuneCountInString.simps [of s]) linarith
  qed simp
qed

lemma runeSize_ascii: "byte c < 0x80 \<Longrightarrow> runeSize (c # cs) = 1"
  by (simp add: runeSize_def utf8_first_def)

lemma RuneCountInString_ascii: "\<forall>c \<in> set s. byte c < 0x80 \<Longrightarrow> RuneCountInString s = length s"
proof (induction s)
  case (Cons c cs)
  then show ?case
    by (subst RuneCountInString.simps) (simp add: runeSize_ascii)
qed simp

section \<open>strconv\<close>

definition digit_char :: "nat \<Rightarrow> char" where
  "digit_char d = char_of (48 + d)"

definition digit_val :: "char \<Rightarrow> nat option" where
  "digit_val c = (if 48 \<le> byte c \<and> byte c \<le> 57 then Some (byte c - 48) else None)"

lemma digit_val_char: "d < 10 \<Longrightarrow> digit_val (digit_char d) = Some d"
  by (simp add: digit_val_def digit_char_def of_char_of)

fun FormatNat :: "nat \<Rightarrow> string" where
  "FormatNat n = (if n < 10 then [digit_char n] else FormatNat (n div 10) @ [digit_char (n mod 10)])"

declare FormatNat.simps [simp del]

fun parse_digits :: "nat \<Rightarrow> string \<Rightarrow> nat option" where
  "parse_digits acc [] = Some acc"
| "parse_digits acc (c # cs) =
     (case digit_val c of None \<Rightarrow> None | Some d \<Rightarrow> parse_digits (10 * acc + d) cs)"

lemma parse_digits_append:
  "parse_digits acc (s @ t) = (case parse_digits acc s of None \<Rightarrow> None | Some a \<Rightarrow> parse_digits a t)"
  by (induction s arbitrary: acc) (auto split: option.split)

lemma parse_FormatNat: "parse_digits 0 (FormatNat n) = Some n"
proof (induction n rule: FormatNat.induct)
  case (1 n)
  show ?case
  proof (cases "n < 10")
    case True
    then show ?thesis by (simp add: FormatNat.simps [of n] digit_val_char)
  next
    case False
    with 1 have "parse_digits 0 (FormatNat (n div 10)) = Some (n div 10)" by simp
    with False show ?thesis
      by (simp add: FormatNat.simps [of n] parse_digits_append digit_val_char)
  qed
qed

lemma FormatNat_not_Nil [simp]: "FormatNat n \<noteq> []"
  by (subst FormatNat.simps) simp

lemma digit_char_range: "d < 10 \<Longrightarrow> byte (digit_char d) \<in> {48..57}"
  by (simp add: digit_char_def of_char_of)

lemma FormatNat_digits: "c \<in> set (FormatNat n) \<Longrightarrow> byte c \<in> {48..57}"
proof (induction n rule: FormatNat.induct)
  case (1 n)
  show ?case
  proof (cases "n < 10")
    case True
    with 1 have "c = digit_char n" by (simp add: FormatNat.simps [of n])
    with True show ?thesis using digit_char_range by simp
  next
    case False
    with 1(2) have "c \<in> set (FormatNat (n div 10)) \<or> c = digit_char (n mod 10)"
      by (auto simp: FormatNat.simps [of n])
    with False 1(1) show ?thesis using digit_char_range [of "n mod 10"] by auto
  qed
qed

text \<open>\<open>ParseUint(s, 10, 64)\<close> and \<open>FormatUint(u, 10)\<close>.\<close>

definition FormatUint :: "u64 \<Rightarrow> string" where
  "FormatUint u = FormatNat (unat u)"

definition ParseUint :: "string \<Rightarrow> u64 option" where
  "ParseUint s =
     (if s = [] then None
      else case parse_digits 0 s of None \<Rightarrow> None
        | Some n \<Rightarrow> if n < 2 ^ 64 then Some (of_nat n) else None)"

lemma ParseUint_FormatUint: "ParseUint (FormatUint u) = Some u"
proof -
  have "unat u < 2 ^ 64" using unsigned_less [of u, where ?'a = nat] by simp
  then show ?thesis by (simp add: ParseUint_def FormatUint_def parse_FormatNat)
qed

interpretation uint_codec: codec FormatUint ParseUint "\<lambda>_. True"
  by unfold_locales (rule ParseUint_FormatUint)

text \<open>\<open>ParseInt(s, 10, 64)\<close>, \<open>FormatInt(i, 10)\<close>, \<open>Itoa\<close> and \<open>Atoi\<close>.\<close>

definition FormatInt :: "int \<Rightarrow> string" where
  "FormatInt i = (if i < 0 then CHR ''-'' # FormatNat (nat (- i)) else FormatNat (nat i))"

definition ParseInt :: "string \<Rightarrow> int option" where
  "ParseInt s =
     (case s of [] \<Rightarrow> None
      | c # cs \<Rightarrow>
        (let neg = (c = CHR ''-''); t = (if c = CHR ''-'' \<or> c = CHR ''+'' then cs else s)
         in case ParseUint t of None \<Rightarrow> None
            | Some u \<Rightarrow>
                if \<not> neg \<and> 2 ^ 63 \<le> unat u then None
                else if neg \<and> 2 ^ 63 < unat u then None
                else Some (if neg then - int (unat u) else int (unat u))))"

lemma ParseUint_FormatNat: "n < 2 ^ 64 \<Longrightarrow> ParseUint (FormatNat n) = Some (of_nat n)"
  by (simp add: ParseUint_def parse_FormatNat)

lemma FormatNat_hd: "FormatNat n = c # cs \<Longrightarrow> c \<noteq> CHR ''-'' \<and> c \<noteq> CHR ''+''"
  using FormatNat_digits [of c n] by auto

lemma unat_of_nat_u64: "n < 2 ^ 64 \<Longrightarrow> unat (of_nat n :: u64) = n"
  by (simp add: unat_of_nat take_bit_nat_eq_self)

lemma ParseInt_FormatInt: "in_i64 i \<Longrightarrow> ParseInt (FormatInt i) = Some i"
proof -
  assume i: "in_i64 i"
  obtain c cs where f: "FormatNat (nat i) = c # cs" by (cases "FormatNat (nat i)") auto
  show ?thesis
  proof (cases "i < 0")
    case True
    define k where "k = nat (- i)"
    from True i have k: "k \<le> 2 ^ 63" "k < 2 ^ 64" "i = - int k"
      by (simp_all add: in_i64_def nat_le_iff k_def)
    obtain u where u: "ParseUint (FormatNat k) = Some u" "unat u = k"
      using ParseUint_FormatNat [OF k(2)] unat_of_nat_u64 [OF k(2)] by blast
    have "ParseInt (CHR ''-'' # FormatNat k) = Some (- int k)"
      using k(1) by (simp add: ParseInt_def u Let_def)
    moreover have "FormatInt i = CHR ''-'' # FormatNat k" using True by (simp add: FormatInt_def k_def)
    ultimately show ?thesis using k(3) by (simp only:)
  next
    case False
    with i have b: "nat i < 2 ^ 63" by (simp add: in_i64_def nat_less_iff)
    then have "nat i < 2 ^ 64" by simp
    then have p: "ParseUint (c # cs) = Some (of_nat (nat i))" "unat (of_nat (nat i) :: u64) = nat i"
      using ParseUint_FormatNat [of "nat i"] by (simp_all add: f unat_of_nat_u64)
    from False b show ?thesis using FormatNat_hd [OF f] p
      by (simp add: ParseInt_def FormatInt_def f Let_def not_le)
  qed
qed

interpretation int_codec: codec FormatInt ParseInt in_i64
  by unfold_locales (rule ParseInt_FormatInt)

definition Itoa :: "int \<Rightarrow> string" where
  "Itoa i = FormatInt i"

definition Atoi :: "string \<Rightarrow> int option" where
  "Atoi s = ParseInt s"

definition FormatBool :: "bool \<Rightarrow> string" where
  "FormatBool b = (if b then ''true'' else ''false'')"

definition ParseBool :: "string \<Rightarrow> bool option" where
  "ParseBool s =
     (if s \<in> {''1'', ''t'', ''T'', ''true'', ''TRUE'', ''True''} then Some True
      else if s \<in> {''0'', ''f'', ''F'', ''false'', ''FALSE'', ''False''} then Some False
      else None)"

interpretation bool_codec: codec FormatBool ParseBool "\<lambda>_. True"
  by unfold_locales (auto simp: FormatBool_def ParseBool_def)

section \<open>time\<close>

text \<open>A day in nanoseconds, the unit of \<open>time.Duration\<close>.\<close>

definition day_ns :: int where
  "day_ns = 24 * 3600 * 10 ^ 9"

section \<open>strings\<close>

text \<open>\<open>strings.Split(s, ".")\<close> for a one-byte separator.\<close>

fun SplitChar :: "char \<Rightarrow> string \<Rightarrow> string list" where
  "SplitChar c [] = [[]]"
| "SplitChar c (x # xs) =
     (if x = c then [] # SplitChar c xs
      else case SplitChar c xs of [] \<Rightarrow> [[x]] | w # ws \<Rightarrow> (x # w) # ws)"

lemma SplitChar_not_Nil [simp]: "SplitChar c s \<noteq> []"
  by (cases s) (auto split: list.split)

lemma SplitChar_no_sep: "c \<notin> set s \<Longrightarrow> SplitChar c s = [s]"
  by (induction s) auto

lemma SplitChar_append: "c \<notin> set s \<Longrightarrow> SplitChar c (s @ c # t) = s # SplitChar c t"
  by (induction s) (auto split: list.split)

definition TrimPrefix :: "string \<Rightarrow> string \<Rightarrow> string" where
  "TrimPrefix s p = (if take (length p) s = p then drop (length p) s else s)"

lemma TrimPrefix_append [simp]: "TrimPrefix (p @ s) p = s"
  by (simp add: TrimPrefix_def)

section \<open>encoding/hex\<close>

definition hex_digit :: "nat \<Rightarrow> char" where
  "hex_digit d = ''0123456789abcdef'' ! d"

definition HexEncode :: "string \<Rightarrow> string" where
  "HexEncode bs = concat (map (\<lambda>c. [hex_digit (byte c div 16), hex_digit (byte c mod 16)]) bs)"

lemma length_HexEncode [simp]: "length (HexEncode bs) = 2 * length bs"
  by (induction bs) (simp_all add: HexEncode_def)

section \<open>encoding/base64 (URLEncoding)\<close>

text \<open>The alphabet \<open>A-Z a-z 0-9 - _\<close>, by sextet.\<close>

definition b64_char :: "nat \<Rightarrow> char" where
  "b64_char n =
     (if n < 26 then char_of (n + 65) else if n < 52 then char_of (n + 71)
      else if n < 62 then char_of (n - 4) else if n = 62 then CHR ''-'' else CHR ''_'')"

definition b64_val :: "char \<Rightarrow> nat option" where
  "b64_val c =
     (let n = byte c in
      if 65 \<le> n \<and> n \<le> 90 then Some (n - 65)
      else if 97 \<le> n \<and> n \<le> 122 then Some (n - 71)
      else if 48 \<le> n \<and> n \<le> 57 then Some (n + 4)
      else if n = 45 then Some 62 else if n = 95 then Some 63 else None)"

abbreviation pad :: char where
  "pad \<equiv> CHR ''=''"

fun b64_encode_nat :: "nat list \<Rightarrow> string" where
  "b64_encode_nat [] = []"
| "b64_encode_nat [x] = [b64_char (x div 4), b64_char (x mod 4 * 16), pad, pad]"
| "b64_encode_nat [x, y] =
     [b64_char (x div 4), b64_char (x mod 4 * 16 + y div 16), b64_char (y mod 16 * 4), pad]"
| "b64_encode_nat (x # y # z # r) =
     b64_char (x div 4) # b64_char (x mod 4 * 16 + y div 16)
       # b64_char (y mod 16 * 4 + z div 64) # b64_char (z mod 64) # b64_encode_nat r"

definition Base64Encode :: "string \<Rightarrow> string" where
  "Base64Encode bs = b64_encode_nat (map of_char bs)"

text \<open>
  \<open>DecodeString\<close>: line breaks are skipped anywhere, every quantum has four characters, padding only
  ends the last one, and the bits below a padded quantum are not checked (the encoding is not strict).
\<close>

fun b64_decode_nat :: "string \<Rightarrow> nat list option" where
  "b64_decode_nat [] = Some []"
| "b64_decode_nat (a # b # c # d # r) =
     (case (b64_val a, b64_val b) of
        (Some x, Some y) \<Rightarrow>
          (if c = pad then
             (if d = pad \<and> r = [] then Some [(x * 4 + y div 16) mod 256] else None)
           else case b64_val c of None \<Rightarrow> None
             | Some z \<Rightarrow>
                 (if d = pad then
                    (if r = [] then Some [(x * 4 + y div 16) mod 256, (y mod 16 * 16 + z div 4) mod 256]
                     else None)
                  else case b64_val d of None \<Rightarrow> None
                    | Some w \<Rightarrow>
                        map_option (\<lambda>t. (x * 4 + y div 16) mod 256
                          # (y mod 16 * 16 + z div 4) mod 256 # (z mod 4 * 64 + w) mod 256 # t)
                          (b64_decode_nat r)))
      | _ \<Rightarrow> None)"
| "b64_decode_nat _ = None"

definition Base64Decode :: "string \<Rightarrow> string option" where
  "Base64Decode s =
     map_option (map char_of) (b64_decode_nat (filter (\<lambda>c. byte c \<noteq> 10 \<and> byte c \<noteq> 13) s))"

lemma byte_b64_char:
  "n < 64 \<Longrightarrow> byte (b64_char n) =
     (if n < 26 then n + 65 else if n < 52 then n + 71 else if n < 62 then n - 4
      else if n = 62 then 45 else 95)"
  by (simp add: b64_char_def of_char_of)

lemma byte_neq: "byte c \<noteq> byte d \<Longrightarrow> c \<noteq> d"
  by auto

lemma b64_char_facts:
  assumes "n < 64"
  shows b64_val_char: "b64_val (b64_char n) = Some n"
    and b64_char_pad: "b64_char n \<noteq> pad"
    and b64_char_dot: "b64_char n \<noteq> CHR ''.''"
    and b64_char_nl: "byte (b64_char n) \<noteq> 10" "byte (b64_char n) \<noteq> 13"
proof -
  note b = byte_b64_char [OF assms]
  show "b64_val (b64_char n) = Some n" unfolding b64_val_def b Let_def using assms by (auto split: if_splits)
  show "b64_char n \<noteq> pad" by (rule byte_neq) (use assms in \<open>auto simp: b\<close>)
  show "b64_char n \<noteq> CHR ''.''" by (rule byte_neq) (use assms in \<open>auto simp: b\<close>)
  show "byte (b64_char n) \<noteq> 10" "byte (b64_char n) \<noteq> 13" using assms by (auto simp: b)
qed

lemma b64_sextets:
  assumes "x < 256" "y < 256" "z < 256"
  shows "x div 4 < 64" "x mod 4 * 16 < (64::nat)" "x mod 4 * 16 + y div 16 < 64"
    "y mod 16 * 4 < (64::nat)" "y mod 16 * 4 + z div 64 < 64" "z mod 64 < (64::nat)"
proof -
  have m: "x mod 4 < 4" "y mod 16 < 16" by simp_all
  have d: "x div 4 < 64" "y div 16 < 16" "z div 64 < 4"
    using assms by (simp_all add: less_mult_imp_div_less)
  show "x div 4 < 64" by (rule d)
  show "x mod 4 * 16 < 64" "x mod 4 * 16 + y div 16 < 64" using m d by linarith+
  show "y mod 16 * 4 < 64" "y mod 16 * 4 + z div 64 < 64" using m d by linarith+
  show "z mod 64 < 64" by simp
qed

lemma b64_join:
  assumes "x < 256" "y < 256" "z < (256::nat)"
  shows "(x div 4 * 4 + (x mod 4 * 16 + y div 16) div 16) mod 256 = x"
    "(x div 4 * 4 + (x mod 4 * 16) div 16) mod 256 = x"
    "((x mod 4 * 16 + y div 16) mod 16 * 16 + (y mod 16 * 4 + z div 64) div 4) mod 256 = y"
    "((x mod 4 * 16 + y div 16) mod 16 * 16 + (y mod 16 * 4) div 4) mod 256 = y"
    "((y mod 16 * 4 + z div 64) mod 4 * 64 + z mod 64) mod 256 = z"
proof -
  have d: "y div 16 < 16" "z div 64 < 4" using assms by (simp_all add: less_mult_imp_div_less)
  have m: "y mod 16 < 16" by simp
  have e1: "(x mod 4 * 16 + y div 16) div 16 = x mod 4" "(x mod 4 * 16 + y div 16) mod 16 = y div 16"
    using d by simp_all
  have e2: "(y mod 16 * 4 + z div 64) div 4 = y mod 16" "(y mod 16 * 4 + z div 64) mod 4 = z div 64"
    using d by simp_all
  show "(x div 4 * 4 + (x mod 4 * 16 + y div 16) div 16) mod 256 = x"
    unfolding e1 using assms by simp
  show "(x div 4 * 4 + (x mod 4 * 16) div 16) mod 256 = x" using assms by simp
  show "((x mod 4 * 16 + y div 16) mod 16 * 16 + (y mod 16 * 4 + z div 64) div 4) mod 256 = y"
    unfolding e1 e2 using assms by simp
  show "((x mod 4 * 16 + y div 16) mod 16 * 16 + (y mod 16 * 4) div 4) mod 256 = y"
    unfolding e1 using assms by simp
  show "((y mod 16 * 4 + z div 64) mod 4 * 64 + z mod 64) mod 256 = z"
    unfolding e2 using assms by simp
qed

lemma b64_decode4:
  assumes "a < 64" "b < 64" "c < 64" "d < 64"
  shows "b64_decode_nat (b64_char a # b64_char b # b64_char c # b64_char d # r) =
    map_option (\<lambda>t. (a * 4 + b div 16) mod 256 # (b mod 16 * 16 + c div 4) mod 256
      # (c mod 4 * 64 + d) mod 256 # t) (b64_decode_nat r)"
  using assms by (simp add: b64_val_char b64_char_pad)

lemma b64_decode3:
  assumes "a < 64" "b < 64" "c < 64"
  shows "b64_decode_nat [b64_char a, b64_char b, b64_char c, pad] =
    Some [(a * 4 + b div 16) mod 256, (b mod 16 * 16 + c div 4) mod 256]"
  using assms by (simp add: b64_val_char b64_char_pad)

lemma b64_decode2:
  assumes "a < 64" "b < 64"
  shows "b64_decode_nat [b64_char a, b64_char b, pad, pad] = Some [(a * 4 + b div 16) mod 256]"
  using assms by (simp add: b64_val_char)

lemma b64_decode_encode_nat: "\<forall>x \<in> set bs. x < 256 \<Longrightarrow> b64_decode_nat (b64_encode_nat bs) = Some bs"
proof (induction bs rule: b64_encode_nat.induct)
  case 1
  then show ?case by simp
next
  case (2 x)
  then have x: "x < 256" by simp
  show ?case
    unfolding b64_encode_nat.simps b64_decode2 [OF b64_sextets(1,2) [OF x x x]] b64_join(2) [OF x x x] ..
next
  case (3 x y)
  then have xy: "x < 256" "y < 256" by simp_all
  note o = xy(1) xy(2) xy(2)
  show ?case
    unfolding b64_encode_nat.simps b64_decode3 [OF b64_sextets(1,3,4) [OF o]] b64_join(1,4) [OF o] ..
next
  case (4 x y z r)
  then have o: "x < 256" "y < 256" "z < 256" and r: "b64_decode_nat (b64_encode_nat r) = Some r"
    by simp_all
  show ?case
    unfolding b64_encode_nat.simps b64_decode4 [OF b64_sextets(1,3,5,6) [OF o]] b64_join(1,3,5) [OF o] r
    by simp
qed

definition b64_ok :: "char \<Rightarrow> bool" where
  "b64_ok c \<longleftrightarrow> c \<noteq> CHR ''.'' \<and> byte c \<noteq> 10 \<and> byte c \<noteq> 13"

lemma b64_ok_char: "n < 64 \<Longrightarrow> b64_ok (b64_char n)" and b64_ok_pad: "b64_ok pad"
  using b64_char_facts [of n] by (auto simp: b64_ok_def)

lemma b64_encode_ok: "\<forall>x \<in> set bs. x < 256 \<Longrightarrow> list_all b64_ok (b64_encode_nat bs)"
proof (induction bs rule: b64_encode_nat.induct)
  case (2 x)
  then have x: "x < 256" by simp
  show ?case unfolding b64_encode_nat.simps list.pred_inject
    by (intro conjI b64_ok_char b64_ok_pad b64_sextets [OF x x x] list.pred_inject(1))
next
  case (3 x y)
  then have xy: "x < 256" "y < 256" by simp_all
  show ?case unfolding b64_encode_nat.simps list.pred_inject
    by (intro conjI b64_ok_char b64_ok_pad b64_sextets [OF xy(1) xy(2) xy(2)] list.pred_inject(1))
next
  case (4 x y z r)
  then have o: "x < 256" "y < 256" "z < 256" and r: "list_all b64_ok (b64_encode_nat r)" by simp_all
  show ?case unfolding b64_encode_nat.simps list.pred_inject
    by (intro conjI b64_ok_char b64_sextets [OF o] r)
next
  case 1
  show ?case by (simp add: list.pred_inject(1))
qed

lemma bytes_below: "\<forall>x \<in> set (map of_char (bs :: string)). x < (256 :: nat)"
  by auto

lemma b64_encode_chars: "c \<in> set (Base64Encode bs) \<Longrightarrow> c \<noteq> CHR ''.'' \<and> byte c \<noteq> 10 \<and> byte c \<noteq> 13"
  using b64_encode_ok [OF bytes_below, of bs] unfolding Base64Encode_def list_all_iff b64_ok_def by blast

lemma Base64Encode_no_dot: "CHR ''.'' \<notin> set (Base64Encode bs)"
  using b64_encode_chars by blast

lemma Base64Decode_Encode: "Base64Decode (Base64Encode bs) = Some bs"
proof -
  have "filter (\<lambda>c. byte c \<noteq> 10 \<and> byte c \<noteq> 13) (Base64Encode bs) = Base64Encode bs"
    using b64_encode_chars by (intro filter_True) blast
  then show ?thesis
    unfolding Base64Decode_def
    by (simp add: Base64Encode_def b64_decode_encode_nat [OF bytes_below] comp_def)
qed

interpretation b64_codec: codec Base64Encode Base64Decode "\<lambda>_. True"
  by unfold_locales (rule Base64Decode_Encode)

end
