(* ===== verification/Data_Model.thy ===== *)
theory Data_Model
  imports Go_Std
begin

text \<open>
  The data of the system: the rows of \<open>common/database/model\<close>, the messages of the identity
  service's protocol (\<open>services/identity/proto\<close>), the errors, and the state of a service (database,
  key-value store, published events).  A Go pointer is an \<open>option\<close>, \<open>uint64\<close> a 64-bit word,
  \<open>int64\<close> an \<open>int\<close>, a string a list of bytes that is valid UTF-8 (as protobuf requires).
\<close>

section \<open>Rows (common/database/model/model.go)\<close>

record m_tenant =
  mt_ID :: u64
  mt_Name :: string
  mt_Remarks :: "string option"
  mt_UseFlag :: bool
  mt_CreatedAt :: int
  mt_UpdatedAt :: int

record m_tenant_solution =
  mts_TenantID :: u64
  mts_Solution :: string

record m_role =
  mr_ID :: u64
  mr_Solution :: string
  mr_Role :: string

record m_group =
  mg_ID :: u64
  mg_TenantID :: u64
  mg_Name :: string
  mg_Remarks :: "string option"
  mg_CreatedAt :: int
  mg_UpdatedAt :: int
  mg_DeletedFlag :: bool

record m_user =
  mu_ID :: u64
  mu_TenantID :: u64
  mu_Account :: string
  mu_Name :: string
  mu_Department :: "string option"
  mu_Position :: "string option"
  mu_Email :: "string option"
  mu_Contact :: "string option"
  mu_LanguageSet :: "string option"
  mu_Timezone :: "string option"
  mu_Password :: string
  mu_OldPassword :: "string option"
  mu_PasswordUpdatedAt :: "int option"
  mu_PasswordUpdateFlag :: "bool option"
  mu_LastLoggedInAt :: "int option"
  mu_LastLoggedInIP :: "string option"
  mu_LastLoginFailedCount :: "u64 option"
  mu_LastLoginFailedAt :: "int option"
  mu_CreatedAt :: int
  mu_UpdatedAt :: int

record m_user_role =
  mur_UserID :: u64
  mur_RoleID :: u64

record m_user_group =
  mug_UserID :: u64
  mug_GroupID :: u64

record m_user_receive_event =
  mue_Code :: string
  mue_UserID :: u64
  mue_ReceiveFlag :: "bool option"

record m_global_config =
  mgc_Key :: string
  mgc_Value :: string

record m_tenant_config =
  mtc_TenantID :: u64
  mtc_Key :: string
  mtc_Value :: string

record m_service_config =
  msc_Name :: string
  msc_Key :: string
  msc_Value :: string

text \<open>The rows of the notification service; \<open>n_event\<close> is a stored \<open>model.Event\<close>.\<close>

record m_tenant_receive_event =
  mte_Code :: string
  mte_TenantID :: u64
  mte_ReceiveFlag :: bool

record m_event_code =
  mec_Code :: string
  mec_Solution :: string
  mec_Level :: string
  mec_Class1 :: string
  mec_Class2 :: string
  mec_Class3 :: string

record m_event_error =
  mee_Code :: string
  mee_Solution :: string
  mee_Service :: string
  mee_Contents :: string

record n_event =
  nv_ID :: u64
  nv_TenantID :: u64
  nv_Code :: string
  nv_ErrorCode :: "string option"
  nv_Contents :: string
  nv_CreatedAt :: int

section \<open>Protocol messages (services/identity/proto)\<close>

text \<open>A \<open>Solution\<close> message has the one field \<open>solution\<close> and a \<open>Session\<close> the one field \<open>key\<close>.\<close>

record p_tenant =
  pt_Id :: u64
  pt_Name :: string
  pt_UseFlag :: "bool option"
  pt_Solutions :: "string list"
  pt_Remarks :: string
  pt_CreatedAt :: int
  pt_UpdatedAt :: int

record p_role =
  pr_Id :: u64
  pr_Solution :: string
  pr_Role :: string

record p_group =
  pg_Id :: u64
  pg_Tenant :: "p_tenant option"
  pg_Name :: string
  pg_Remarks :: string
  pg_CreatedAt :: u64
  pg_UpdatedAt :: u64

record p_user =
  pu_Id :: u64
  pu_Tenant :: "p_tenant option"
  pu_Account :: string
  pu_Roles :: "p_role list"
  pu_Groups :: "p_group list"
  pu_Name :: string
  pu_Department :: string
  pu_Position :: string
  pu_Email :: string
  pu_Contact :: string
  pu_LanguageSet :: string
  pu_Timezone :: string
  pu_CreatedAt :: int
  pu_LastLoggedInAt :: int
  pu_UpdatedAt :: int
  pu_PasswordUpdatedAt :: int
  pu_PasswordUpdateFlag :: bool
  pu_Session :: "string option"

record p_simple_user =
  ps_Id :: u64
  ps_Tenant :: "p_tenant option"
  ps_Account :: string
  ps_Roles :: "p_role list"
  ps_Groups :: "p_group list"
  ps_Name :: string
  ps_Department :: string
  ps_Position :: string
  ps_Email :: string
  ps_Contact :: string

record p_config =
  pc_GlobalTimezone :: "string option"
  pc_GlobalLanguageSet :: "string option"
  pc_UserLoginRestrictionEnable :: "bool option"
  pc_UserLoginRestrictionTryCount :: "u64 option"
  pc_UserLoginRestrictionTime :: "int option"
  pc_UserReuseOldPassword :: "bool option"
  pc_UserPasswordChangeCycle :: "u64 option"
  pc_UserSessionTimeout :: "u64 option"

record p_pagination =
  pp_Page :: u64
  pp_TotalPage :: u64
  pp_TotalItems :: u64

record get_users_request =
  gu_Limit :: "u64 option"
  gu_Offset :: "u64 option"
  gu_Solution :: string
  gu_Role :: string
  gu_GroupId :: u64
  gu_Name :: string
  gu_Department :: string
  gu_Position :: string
  gu_LoginOnly :: bool
  gu_ExcludeGroupId :: u64

record update_password_request =
  up_UserId :: u64
  up_CurrentPassword :: string
  up_NewPassword :: string

record login_request =
  lr_Account :: string
  lr_Password :: string
  lr_Force :: bool

record session_payload =
  sp_ID :: u64
  sp_CreateDate :: int
  sp_ExpiryDate :: int
  sp_MagicNumber :: u64
  sp_ClientIP :: string

section \<open>Errors\<close>

text \<open>
  \<open>DBError\<close> carries the SQLSTATE of a driver error.  A \<open>goerr\<close> is an error of the standard
  library or of a package (\<open>PlainErr\<close>, its message), of the database layer, a wrapped
  \<open>errors.Error\<close> (message and value map) or a go-micro error (HTTP status and event message).
\<close>

datatype dberr = ErrRecordNotFound | DBError string

datatype goerr =
    PlainErr string
  | DBErr dberr
  | GoErr string "(string \<times> gval) list"
  | MicroErr int string "goerr option"
and gval = VStr string | VU64 u64 | VInt int | VStrs "string list" | VCause "goerr option"

section \<open>State\<close>

record db =
  t_tenant :: "m_tenant list"
  t_tenant_solution :: "m_tenant_solution list"
  t_role :: "m_role list"
  t_group :: "m_group list"
  t_user :: "m_user list"
  t_user_role :: "m_user_role list"
  t_user_group :: "m_user_group list"
  t_user_receive_event :: "m_user_receive_event list"
  t_global_config :: "m_global_config list"
  t_tenant_config :: "m_tenant_config list"
  t_service_config :: "m_service_config list"
  seq_tenant :: u64
  seq_group :: u64
  seq_user :: u64
  t_tenant_receive_event :: "m_tenant_receive_event list"
  t_event_code :: "m_event_code list"
  t_event_error :: "m_event_error list"
  t_event :: "n_event list"
  seq_event :: u64

text \<open>
  The key-value store keeps with a key its value and the lifetime in seconds it was leased with
  (\<open>None\<close>: no lease).  \<open>m_event\<close> is the \<open>model.Event\<close> that \<open>ReportEvent\<close> publishes, and \<open>publication\<close>
  what the notification service publishes: a created event under its topic, a delivery to a queue.
\<close>

type_synonym kv = "(string \<times> string \<times> int option) list"

record m_event =
  me_TenantID :: u64
  me_Code :: string
  me_ErrorCode :: string
  me_CreatedAt :: int
  me_Contents :: "goerr option"

datatype publication =
    EventCreated string n_event m_event_code m_tenant
  | Delivery string n_event m_user

record sys =
  s_db :: db
  s_kv :: kv
  s_out :: "m_event list"
  s_pub :: "publication list"

text \<open>The metadata headers of a request (\<open>context.Context\<close> with go-micro metadata).\<close>

type_synonym ctx = "string \<rightharpoonup> string"

text \<open>
  What \<open>NewIdentityHandler\<close> caches: the ids of the two roles and of the admin account, and the
  authorization policies (subject, object, action) that casbin loads.
\<close>

record globals =
  gl_Admin :: u64
  gl_Manager :: u64
  gl_adminUser :: u64
  gl_policy :: "(string \<times> string \<times> string) list"

text \<open>
  What a call depends on beside its arguments and the state: the clock, the failures of the database
  (\<open>e_fault site key\<close>: SQLSTATE of the statement, if it fails), of the store and of the broker, the
  gap that the next sequence value skips, and the code that is not part of this repository: SQL
  \<open>LIKE\<close>, the email and time zone validators, the password generator, SHA-256, RSA-PSS, random
  numbers, JSON of the session payload and of the user header, and casbin's role manager.
\<close>

record env =
  e_now :: int
  e_fault :: "string \<Rightarrow> u64 \<Rightarrow> string option"
  e_gap :: u64
  e_kv_fault :: "string \<Rightarrow> string \<Rightarrow> string option"
  e_publish :: "string \<Rightarrow> bool"
  e_like :: "string \<Rightarrow> string \<Rightarrow> bool"
  e_IsExistingEmail :: "string \<Rightarrow> bool"
  e_LoadLocation :: "string \<Rightarrow> bool"
  e_Intn :: "nat \<Rightarrow> nat"
  e_Generate :: "nat \<Rightarrow> nat \<Rightarrow> nat \<Rightarrow> nat \<Rightarrow> string option"
  e_sha256 :: "string \<Rightarrow> string"
  e_SignPSS :: "string \<Rightarrow> string option"
  e_VerifyPSS :: "string \<Rightarrow> string \<Rightarrow> bool"
  e_Uint64 :: u64
  e_MarshalPayload :: "session_payload \<Rightarrow> string"
  e_UnmarshalPayload :: "string \<Rightarrow> session_payload option option"
  e_UnmarshalUser :: "string \<Rightarrow> p_user option"
  e_HasLink :: "string \<Rightarrow> string \<Rightarrow> string \<Rightarrow> bool"
  e_EnforceErr :: "string \<Rightarrow> string \<Rightarrow> string \<Rightarrow> goerr option"

end
