(* ===== verification/Errors.thy ===== *)
theory Errors
  imports Data_Model
begin

text \<open>
  \<open>common/errors\<close>, \<open>common/metadata\<close>, \<open>common/event\<close> and \<open>common/util\<close>: error values and
  their comparison by message, request metadata, the events reported with every status, and the
  table \<open>util.CreateError\<close> from internal errors to HTTP status codes.
\<close>

section \<open>error.go\<close>

text \<open>
  \<open>Error()\<close>.  The text of a go-micro error is its JSON object and that of a driver error starts with
  \<open>pq: \<close>; only these beginnings matter, because messages are compared with the sentinels below.
\<close>

fun error_msg :: "goerr \<Rightarrow> string" where
  "error_msg (PlainErr m) = m"
| "error_msg (DBErr ErrRecordNotFound) = ''record not found''"
| "error_msg (DBErr (DBError c)) = ''pq: '' @ c"
| "error_msg (GoErr m _) = m"
| "error_msg (MicroErr c d _) = ''{'' @ ''\"id\":\"cdm\",\"code\":'' @ Itoa c @ '',\"detail\":'' @ d"

text \<open>\<open>errors.New\<close>: a sentinel.  \<open>errors.Wrap\<close> of a sentinel keeps its message and adds values.\<close>

definition errors_New :: "string \<Rightarrow> goerr" where
  "errors_New m = GoErr m []"

definition errors_Wrap :: "goerr \<Rightarrow> (string \<times> gval) list \<Rightarrow> goerr" where
  "errors_Wrap e vs = GoErr (error_msg e) vs"

definition errors_Equal :: "goerr option \<Rightarrow> goerr \<Rightarrow> bool" where
  "errors_Equal a b = (case a of None \<Rightarrow> False | Some e \<Rightarrow> error_msg e = error_msg b)"

definition errors_value :: "goerr \<Rightarrow> string \<Rightarrow> gval option" where
  "errors_value e k = (case e of GoErr _ vs \<Rightarrow> map_of vs k | _ \<Rightarrow> None)"

section \<open>param.go\<close>

definition ErrRequiredParameter :: goerr where
  "ErrRequiredParameter = errors_New ''required parameter''"

definition ErrUnchangeableParameter :: goerr where
  "ErrUnchangeableParameter = errors_New ''unchangeable parameter''"

definition ErrConflictParameterValue :: goerr where
  "ErrConflictParameterValue = errors_New ''conflict parameter value''"

definition ErrInvalidParameterValue :: goerr where
  "ErrInvalidParameterValue = errors_New ''invalid parameter value''"

definition ErrLengthOverflowParameterValue :: goerr where
  "ErrLengthOverflowParameterValue = errors_New ''length overflow parameter value''"

definition ErrOutOfRangeParameterValue :: goerr where
  "ErrOutOfRangeParameterValue = errors_New ''out of range parameter value''"

definition ErrUnavailableParameterValue :: goerr where
  "ErrUnavailableParameterValue = errors_New ''unavailable parameter value''"

definition ErrPatternMismatchParameterValue :: goerr where
  "ErrPatternMismatchParameterValue = errors_New ''pattern mismatch parameter value''"

definition ErrFormatMismatchParameterValue :: goerr where
  "ErrFormatMismatchParameterValue = errors_New ''format mismatch parameter value''"

definition RequiredParameter :: "string \<Rightarrow> goerr" where
  "RequiredParameter param = errors_Wrap ErrRequiredParameter [(''param'', VStr param)]"

definition UnchangeableParameter :: "string \<Rightarrow> goerr" where
  "UnchangeableParameter param = errors_Wrap ErrUnchangeableParameter [(''param'', VStr param)]"

definition ConflictParameterValue :: "string \<Rightarrow> gval \<Rightarrow> goerr" where
  "ConflictParameterValue param v =
     errors_Wrap ErrConflictParameterValue [(''param'', VStr param), (''value'', v)]"

definition InvalidParameterValue :: "string \<Rightarrow> gval \<Rightarrow> string \<Rightarrow> goerr" where
  "InvalidParameterValue param v cause =
     errors_Wrap ErrInvalidParameterValue
       [(''param'', VStr param), (''value'', v), (''cause'', VStr cause)]"

definition LengthOverflowParameterValue :: "string \<Rightarrow> string \<Rightarrow> u64 \<Rightarrow> goerr" where
  "LengthOverflowParameterValue param v maxLength =
     errors_Wrap ErrLengthOverflowParameterValue
       [(''param'', VStr param), (''value'', VStr v), (''max_length'', VU64 maxLength)]"

definition OutOfRangeParameterValue :: "string \<Rightarrow> gval \<Rightarrow> int \<Rightarrow> int \<Rightarrow> goerr" where
  "OutOfRangeParameterValue param v lo hi =
     errors_Wrap ErrOutOfRangeParameterValue
       [(''param'', VStr param), (''value'', v), (''min'', VInt lo), (''max'', VInt hi)]"

definition UnavailableParameterValue :: "string \<Rightarrow> gval \<Rightarrow> string list \<Rightarrow> goerr" where
  "UnavailableParameterValue param v availableValues =
     errors_Wrap ErrUnavailableParameterValue
       [(''param'', VStr param), (''value'', v), (''available_values'', VStrs availableValues)]"

definition PatternMismatchParameterValue :: "string \<Rightarrow> gval \<Rightarrow> string \<Rightarrow> goerr" where
  "PatternMismatchParameterValue param v pattern =
     errors_Wrap ErrPatternMismatchParameterValue
       [(''param'', VStr param), (''value'', v), (''pattern'', VStr pattern)]"

definition FormatMismatchParameterValue :: "string \<Rightarrow> gval \<Rightarrow> string \<Rightarrow> goerr" where
  "FormatMismatchParameterValue param v format =
     errors_Wrap ErrFormatMismatchParameterValue
       [(''param'', VStr param), (''value'', v), (''format'', VStr format)]"

section \<open>metadata.go\<close>

definition metadata_ErrNotFound :: goerr where
  "metadata_ErrNotFound = PlainErr ''not found metadata''"

definition HeaderAuthenticatedSession :: string where
  "HeaderAuthenticatedSession = ''X-Authenticated-Session''"

definition HeaderAuthenticatedUser :: string where
  "HeaderAuthenticatedUser = ''X-Authenticated-User''"

definition HeaderClientIP :: string where
  "HeaderClientIP = ''X-Client-Ip''"

definition HeaderTenantID :: string where
  "HeaderTenantID = ''X-Tenant-Id''"

definition GetAuthenticatedSession :: "ctx \<Rightarrow> (goerr, string) res" where
  "GetAuthenticatedSession ctx =
     (case ctx HeaderAuthenticatedSession of None \<Rightarrow> Fail metadata_ErrNotFound | Some v \<Rightarrow> Ok v)"

definition GetAuthenticatedUser :: "env \<Rightarrow> ctx \<Rightarrow> (goerr, p_user) res" where
  "GetAuthenticatedUser E ctx =
     (case ctx HeaderAuthenticatedUser of None \<Rightarrow> Fail metadata_ErrNotFound
      | Some v \<Rightarrow> (case e_UnmarshalUser E v of
            None \<Rightarrow> Fail (PlainErr ''json: cannot unmarshal user'') | Some u \<Rightarrow> Ok u))"

definition GetClientIP :: "ctx \<Rightarrow> (goerr, string) res" where
  "GetClientIP ctx =
     (case ctx HeaderClientIP of None \<Rightarrow> Fail metadata_ErrNotFound | Some v \<Rightarrow> Ok v)"

definition GetTenantID :: "ctx \<Rightarrow> (goerr, u64) res" where
  "GetTenantID ctx =
     (case ctx HeaderTenantID of None \<Rightarrow> Fail metadata_ErrNotFound
      | Some v \<Rightarrow> (case ParseUint v of
            None \<Rightarrow> Fail (PlainErr (''strconv.ParseUint: parsing '' @ v)) | Some i \<Rightarrow> Ok i))"

section \<open>request.go\<close>

definition ErrInvalidRequest :: goerr where
  "ErrInvalidRequest = errors_New ''invalid request''"

definition ErrUnauthenticatedRequest :: goerr where
  "ErrUnauthenticatedRequest = errors_New ''unauthenticated request''"

definition ErrUnauthorizedRequest :: goerr where
  "ErrUnauthorizedRequest = errors_New ''unauthorized request''"

definition ErrNoContent :: goerr where
  "ErrNoContent = errors_New ''no content''"

definition InvalidRequest :: "ctx \<Rightarrow> goerr" where
  "InvalidRequest ctx =
     (let ip = (case GetClientIP ctx of Ok v \<Rightarrow> v | _ \<Rightarrow> ''unknown'')
      in errors_Wrap ErrInvalidRequest [(''client_ip'', VStr ip)])"

definition UnauthenticatedRequest :: "ctx \<Rightarrow> goerr" where
  "UnauthenticatedRequest ctx =
     (let ip = (case GetClientIP ctx of Ok v \<Rightarrow> v | _ \<Rightarrow> ''unknown'');
          key = (case GetAuthenticatedSession ctx of Ok v \<Rightarrow> v | _ \<Rightarrow> ''unknown'')
      in errors_Wrap ErrUnauthenticatedRequest [(''client_ip'', VStr ip), (''session_key'', VStr key)])"

definition UnauthorizedRequest :: "env \<Rightarrow> ctx \<Rightarrow> goerr" where
  "UnauthorizedRequest E ctx =
     (let ip = (case GetClientIP ctx of Ok v \<Rightarrow> v | _ \<Rightarrow> ''unknown'');
          (name, account) = (case GetAuthenticatedUser E ctx of
             Ok u \<Rightarrow> (pu_Name u, pu_Account u) | _ \<Rightarrow> (''unknown'', ''unknown''))
      in errors_Wrap ErrUnauthorizedRequest
           [(''client_ip'', VStr ip), (''user_name'', VStr name), (''user_account'', VStr account)])"

section \<open>system.go\<close>

definition ErrUnusableDatabase :: goerr where
  "ErrUnusableDatabase = errors_New ''unusable database''"

definition ErrUnusableStore :: goerr where
  "ErrUnusableStore = errors_New ''unusable key-value store''"

definition ErrUnusableBroker :: goerr where
  "ErrUnusableBroker = errors_New ''unusable broker''"

definition ErrUnknown :: goerr where
  "ErrUnknown = errors_New ''unknown error''"

text \<open>The \<open>cause\<close> entry is the error that Go formats with its stack; \<open>db_error\<close> is the error itself.\<close>

definition UnusableDatabase :: "goerr option \<Rightarrow> goerr" where
  "UnusableDatabase cause =
     errors_Wrap ErrUnusableDatabase [(''cause'', VCause cause), (''db_error'', VCause cause)]"

definition UnusableStore :: "goerr option \<Rightarrow> goerr" where
  "UnusableStore cause = errors_Wrap ErrUnusableStore [(''cause'', VCause cause)]"

definition UnusableBroker :: "goerr option \<Rightarrow> goerr" where
  "UnusableBroker cause = errors_Wrap ErrUnusableBroker [(''cause'', VCause cause)]"

definition Unknown :: "goerr option \<Rightarrow> goerr" where
  "Unknown cause = errors_Wrap ErrUnknown [(''cause'', VCause cause)]"

definition UnwrapUnusableDatabase :: "goerr \<Rightarrow> goerr" where
  "UnwrapUnusableDatabase err =
     (if \<not> errors_Equal (Some err) ErrUnusableDatabase then err
      else case errors_value err ''db_error'' of Some (VCause (Some e)) \<Rightarrow> e | _ \<Rightarrow> err)"

section \<open>ipc.go\<close>

definition ErrIPCFailed :: goerr where
  "ErrIPCFailed = errors_New ''inter process communication failed''"

definition ErrIPCSuccess :: goerr where
  "ErrIPCSuccess = errors_New ''inter process communication success''"

text \<open>\<open>microErr.Parse(err.Error()).Code\<close>: zero unless the error is a go-micro error.\<close>

definition micro_code :: "goerr \<Rightarrow> int" where
  "micro_code e = (case e of MicroErr c _ _ \<Rightarrow> c | _ \<Rightarrow> 0)"

definition IsIPCFailed :: "goerr option \<Rightarrow> bool" where
  "IsIPCFailed cause = (case cause of None \<Rightarrow> False | Some e \<Rightarrow> 400 \<le> micro_code e)"

definition IsIPCSuccess :: "goerr option \<Rightarrow> bool" where
  "IsIPCSuccess cause =
     (case cause of None \<Rightarrow> False | Some e \<Rightarrow> 200 \<le> micro_code e \<and> micro_code e < 300)"

definition IPCFailed :: "goerr \<Rightarrow> goerr" where
  "IPCFailed cause =
     errors_Wrap ErrIPCFailed [(''code'', VInt (micro_code cause)), (''message'', VCause (Some cause))]"

definition IPCSuccess :: "goerr \<Rightarrow> goerr" where
  "IPCSuccess cause =
     errors_Wrap ErrIPCSuccess [(''code'', VInt (micro_code cause)), (''message'', VCause (Some cause))]"

definition ipc_code_value :: "goerr \<Rightarrow> int" where
  "ipc_code_value e = (case errors_value e ''code'' of Some (VInt c) \<Rightarrow> c | _ \<Rightarrow> 0)"

text \<open>The type assertion \<open>err.(*Error)\<close> panics on an error that is not an \<open>errors.Error\<close>.\<close>

definition GetIPCStatusCode :: "goerr option \<Rightarrow> (goerr, int) res" where
  "GetIPCStatusCode err =
     (case err of None \<Rightarrow> Ok 0
      | Some e \<Rightarrow>
          if errors_Equal err ErrIPCFailed \<or> errors_Equal err ErrIPCSuccess then
            (case e of GoErr _ _ \<Rightarrow> Ok (ipc_code_value e) | _ \<Rightarrow> Panic)
          else if IsIPCFailed err then Ok (ipc_code_value (IPCFailed e))
          else if IsIPCSuccess err then Ok (ipc_code_value (IPCSuccess e))
          else Ok 0)"

definition IsIPCStatusSuccess :: "goerr option \<Rightarrow> (goerr, bool) res" where
  "IsIPCStatusSuccess err = bindR (GetIPCStatusCode err) (\<lambda>c. Ok (200 \<le> c \<and> c < 300))"

definition IsIPCStatusClientErrors :: "goerr option \<Rightarrow> (goerr, bool) res" where
  "IsIPCStatusClientErrors err = bindR (GetIPCStatusCode err) (\<lambda>c. Ok (400 \<le> c \<and> c < 500))"

definition IsIPCStatusServerErrors :: "goerr option \<Rightarrow> (goerr, bool) res" where
  "IsIPCStatusServerErrors err = bindR (GetIPCStatusCode err) (\<lambda>c. Ok (500 \<le> c \<and> c < 600))"

section \<open>status.go and event.go\<close>

text \<open>\<open>event.ReportEvent\<close>: one message to the queue \<open>cdm.cloud.report.event\<close>, unless publishing fails.\<close>

definition ReportEvent ::
  "env \<Rightarrow> u64 \<Rightarrow> string \<Rightarrow> string \<Rightarrow> goerr option \<Rightarrow> m_event list \<Rightarrow> (goerr, m_event list) res" where
  "ReportEvent E tenantID eventCode errorCode contents out =
     (if e_publish E eventCode
      then Ok (out @ [\<lparr>me_TenantID = tenantID, me_Code = eventCode, me_ErrorCode = errorCode,
                       me_CreatedAt = 0, me_Contents = contents\<rparr>])
      else Fail (PlainErr ''could not publish message''))"

definition reportEvent ::
  "env \<Rightarrow> ctx \<Rightarrow> string \<Rightarrow> string \<Rightarrow> goerr option \<Rightarrow> sys \<Rightarrow> sys" where
  "reportEvent E ctx eventCode errorCode contents s =
     (case GetTenantID ctx of
        Ok i \<Rightarrow> (case ReportEvent E i eventCode errorCode contents (s_out s) of
                   Ok out \<Rightarrow> s\<lparr>s_out := out\<rparr> | _ \<Rightarrow> s)
      | _ \<Rightarrow> s)"

definition createEventMessage :: "string \<Rightarrow> string \<Rightarrow> string" where
  "createEventMessage eventCode errorCode =
     (if errorCode = [] then eventCode else eventCode @ '':'' @ errorCode)"

text \<open>\<open>StatusXxx\<close>: report the event, then return the go-micro error with the status code.\<close>

definition StatusError ::
  "int \<Rightarrow> env \<Rightarrow> ctx \<Rightarrow> string \<Rightarrow> string \<Rightarrow> goerr option \<Rightarrow> sys \<Rightarrow> (goerr, 'a) res \<times> sys" where
  "StatusError code E ctx eventCode errorCode contents s =
     (Fail (MicroErr code (createEventMessage eventCode errorCode) contents),
      reportEvent E ctx eventCode errorCode contents s)"

definition StatusNoContent ::
  "env \<Rightarrow> ctx \<Rightarrow> string \<Rightarrow> string \<Rightarrow> goerr option \<Rightarrow> sys \<Rightarrow> (goerr, 'a) res \<times> sys" where
  "StatusNoContent = StatusError 204"

definition StatusBadRequest ::
  "env \<Rightarrow> ctx \<Rightarrow> string \<Rightarrow> string \<Rightarrow> goerr option \<Rightarrow> sys \<Rightarrow> (goerr, 'a) res \<times> sys" where
  "StatusBadRequest = StatusError 400"

definition StatusUnauthenticated ::
  "env \<Rightarrow> ctx \<Rightarrow> string \<Rightarrow> string \<Rightarrow> goerr option \<Rightarrow> sys \<Rightarrow> (goerr, 'a) res \<times> sys" where
  "StatusUnauthenticated = StatusError 401"

definition StatusUnauthorized ::
  "env \<Rightarrow> ctx \<Rightarrow> string \<Rightarrow> string \<Rightarrow> goerr option \<Rightarrow> sys \<Rightarrow> (goerr, 'a) res \<times> sys" where
  "StatusUnauthorized = StatusError 403"

definition StatusNotFound ::
  "env \<Rightarrow> ctx \<Rightarrow> string \<Rightarrow> string \<Rightarrow> goerr option \<Rightarrow> sys \<Rightarrow> (goerr, 'a) res \<times> sys" where
  "StatusNotFound = StatusError 404"

definition StatusConflict ::
  "env \<Rightarrow> ctx \<Rightarrow> string \<Rightarrow> string \<Rightarrow> goerr option \<Rightarrow> sys \<Rightarrow> (goerr, 'a) res \<times> sys" where
  "StatusConflict = StatusError 409"

definition StatusPreconditionFailed ::
  "env \<Rightarrow> ctx \<Rightarrow> string \<Rightarrow> string \<Rightarrow> goerr option \<Rightarrow> sys \<Rightarrow> (goerr, 'a) res \<times> sys" where
  "StatusPreconditionFailed = StatusError 412"

definition StatusInternalServerError ::
  "env \<Rightarrow> ctx \<Rightarrow> string \<Rightarrow> string \<Rightarrow> goerr option \<Rightarrow> sys \<Rightarrow> (goerr, 'a) res \<times> sys" where
  "StatusInternalServerError = StatusError 500"

definition StatusNotImplemented ::
  "env \<Rightarrow> ctx \<Rightarrow> string \<Rightarrow> string \<Rightarrow> goerr option \<Rightarrow> sys \<Rightarrow> (goerr, 'a) res \<times> sys" where
  "StatusNotImplemented = StatusError 501"

definition StatusBadGateway ::
  "env \<Rightarrow> ctx \<Rightarrow> string \<Rightarrow> string \<Rightarrow> goerr option \<Rightarrow> sys \<Rightarrow> (goerr, 'a) res \<times> sys" where
  "StatusBadGateway = StatusError 502"

definition StatusServiceUnavailable ::
  "env \<Rightarrow> ctx \<Rightarrow> string \<Rightarrow> string \<Rightarrow> goerr option \<Rightarrow> sys \<Rightarrow> (goerr, 'a) res \<times> sys" where
  "StatusServiceUnavailable = StatusError 503"

definition StatusOK :: "env \<Rightarrow> ctx \<Rightarrow> string \<Rightarrow> 'a \<Rightarrow> sys \<Rightarrow> (goerr, 'a) res \<times> sys" where
  "StatusOK E ctx eventCode rsp s = (Ok rsp, reportEvent E ctx eventCode [] None s)"

section \<open>util.CreateError\<close>

definition ErrNotFoundKey :: goerr where
  "ErrNotFoundKey = PlainErr ''not found key''"

definition CreateError ::
  "env \<Rightarrow> ctx \<Rightarrow> string \<Rightarrow> goerr \<Rightarrow> sys \<Rightarrow> (goerr, 'a) res \<times> sys" where
  "CreateError E ctx eventCode err s =
     (let eq = errors_Equal (Some err) in
      if eq ErrRequiredParameter then StatusBadRequest E ctx eventCode ''required_parameter'' (Some err) s
      else if eq ErrUnchangeableParameter then StatusBadRequest E ctx eventCode ''unchangeable_parameter'' (Some err) s
      else if eq ErrConflictParameterValue then StatusConflict E ctx eventCode ''conflict_parameter'' (Some err) s
      else if eq ErrInvalidParameterValue then StatusBadRequest E ctx eventCode ''invalid_parameter'' (Some err) s
      else if eq ErrLengthOverflowParameterValue then StatusBadRequest E ctx eventCode ''length_overflow_parameter'' (Some err) s
      else if eq ErrOutOfRangeParameterValue then StatusBadRequest E ctx eventCode ''out_of_range_parameter'' (Some err) s
      else if eq ErrUnavailableParameterValue then StatusBadRequest E ctx eventCode ''unavailable_parameter'' (Some err) s
      else if eq ErrPatternMismatchParameterValue then StatusBadRequest E ctx eventCode ''pattern_mismatch_parameter_value'' (Some err) s
      else if eq ErrFormatMismatchParameterValue then StatusBadRequest E ctx eventCode ''format_mismatch_parameter'' (Some err) s
      else if eq ErrInvalidRequest then StatusInternalServerError E ctx eventCode ''invalid_request'' (Some err) s
      else if eq ErrUnauthenticatedRequest then StatusUnauthenticated E ctx eventCode ''unauthenticated_request'' (Some err) s
      else if eq ErrUnauthorizedRequest then StatusUnauthorized E ctx eventCode ''unauthorized_request'' (Some err) s
      else if eq ErrNoContent then StatusNoContent E ctx eventCode ''no_content'' None s
      else if eq ErrUnusableDatabase then StatusInternalServerError E ctx eventCode ''unusable_database'' (Some err) s
      else if eq ErrUnusableStore then StatusInternalServerError E ctx eventCode ''unusable_store'' (Some err) s
      else if eq ErrUnusableBroker then StatusInternalServerError E ctx eventCode ''unusable_broker'' (Some err) s
      else if eq ErrUnknown then StatusInternalServerError E ctx eventCode ''unknown'' (Some err) s
      else if eq ErrIPCFailed then
        (case GetIPCStatusCode (Some err) of
           Ok c \<Rightarrow> if c = 412 then StatusPreconditionFailed E ctx eventCode ''ipc_failed'' (Some err) s
                   else StatusInternalServerError E ctx eventCode ''ipc_failed'' (Some err) s
         | _ \<Rightarrow> (Panic, s))
      else if eq metadata_ErrNotFound then StatusUnauthorized E ctx eventCode ''not_found_tenant'' (Some err) s
      else if eq ErrNotFoundKey then StatusNotFound E ctx eventCode ''not_found_key'' (Some err) s
      else StatusInternalServerError E ctx eventCode ''unknown'' (Some (Unknown (Some err))) s)"

section \<open>Lemmas\<close>

lemma errors_Equal_Some [simp]: "errors_Equal (Some a) b \<longleftrightarrow> error_msg a = error_msg b"
  by (simp add: errors_Equal_def)

lemma errors_Equal_None [simp]: "\<not> errors_Equal None b"
  by (simp add: errors_Equal_def)

lemma error_msg_Wrap [simp]: "error_msg (errors_Wrap e vs) = error_msg e"
  by (simp add: errors_Wrap_def)

lemma error_msg_New [simp]: "error_msg (errors_New m) = m"
  by (simp add: errors_New_def)

lemmas sentinel_defs =
  ErrRequiredParameter_def ErrUnchangeableParameter_def ErrConflictParameterValue_def
  ErrInvalidParameterValue_def ErrLengthOverflowParameterValue_def ErrOutOfRangeParameterValue_def
  ErrUnavailableParameterValue_def ErrPatternMismatchParameterValue_def
  ErrFormatMismatchParameterValue_def ErrInvalidRequest_def ErrUnauthenticatedRequest_def
  ErrUnauthorizedRequest_def ErrNoContent_def ErrUnusableDatabase_def ErrUnusableStore_def
  ErrUnusableBroker_def ErrUnknown_def ErrIPCFailed_def ErrIPCSuccess_def metadata_ErrNotFound_def
  ErrNotFoundKey_def

lemmas status_defs =
  StatusNoContent_def StatusBadRequest_def StatusUnauthenticated_def StatusUnauthorized_def
  StatusNotFound_def StatusConflict_def StatusPreconditionFailed_def StatusInternalServerError_def
  StatusNotImplemented_def StatusBadGateway_def StatusServiceUnavailable_def StatusError_def

lemma error_msg_system [simp]:
  "error_msg (UnusableDatabase c) = ''unusable database''"
  "error_msg (UnusableStore c) = ''unusable key-value store''"
  "error_msg (Unknown c) = ''unknown error''"
  by (simp_all add: UnusableDatabase_def UnusableStore_def Unknown_def sentinel_defs)

lemma reportEvent_frame [simp, frame_simps]:
  "s_db (reportEvent E ctx ec er c s) = s_db s" "s_kv (reportEvent E ctx ec er c s) = s_kv s"
  by (simp_all add: reportEvent_def split: res.split)

lemma Unwrap_UnusableDatabase [simp]: "UnwrapUnusableDatabase (UnusableDatabase (Some e)) = e"
  by (simp add: UnwrapUnusableDatabase_def errors_value_def)
     (simp add: UnusableDatabase_def errors_Wrap_def sentinel_defs)

text \<open>What \<open>CreateError\<close> returns and what it leaves alone, on every branch at once.\<close>

definition status_result :: "env \<Rightarrow> ctx \<Rightarrow> string \<Rightarrow> sys \<Rightarrow> (goerr, 'a) res \<times> sys \<Rightarrow> bool" where
  "status_result E ctx ev s r \<longleftrightarrow>
     (\<exists>code er c. r = StatusError code E ctx ev er c s \<and> 204 \<le> code \<and> code \<le> 500)"

lemma status_resultI: "204 \<le> code \<Longrightarrow> code \<le> 500 \<Longrightarrow>
    status_result E ctx ev s (StatusError code E ctx ev er c s)"
  by (auto simp: status_result_def)

lemma status_result_frame:
  "status_result E ctx ev s r \<Longrightarrow>
    s_db (snd r) = s_db s \<and> s_kv (snd r) = s_kv s \<and> (\<forall>x. fst r \<noteq> Ok x) \<and> fst r \<noteq> Panic"
  by (auto simp: status_result_def StatusError_def)

lemmas status_intros =
  status_resultI [where code = 400, folded StatusBadRequest_def]
  status_resultI [where code = 401, folded StatusUnauthenticated_def]
  status_resultI [where code = 403, folded StatusUnauthorized_def]
  status_resultI [where code = 404, folded StatusNotFound_def]
  status_resultI [where code = 409, folded StatusConflict_def]
  status_resultI [where code = 412, folded StatusPreconditionFailed_def]
  status_resultI [where code = 500, folded StatusInternalServerError_def]
  status_resultI [where code = 204, folded StatusNoContent_def]

lemma status_result_if:
  "\<lbrakk>c \<Longrightarrow> status_result E ctx ev s x; \<not> c \<Longrightarrow> status_result E ctx ev s y\<rbrakk>
    \<Longrightarrow> status_result E ctx ev s (if c then x else y)"
  by simp

text \<open>The IPC branch asserts the dynamic type of the error; everything else of the table is total.\<close>

definition ipc_safe :: "goerr \<Rightarrow> bool" where
  "ipc_safe err \<longleftrightarrow> errors_Equal (Some err) ErrIPCFailed \<longrightarrow> (case err of GoErr _ _ \<Rightarrow> True | _ \<Rightarrow> False)"

lemma GetIPCStatusCode_GoErr:
  "ipc_safe err \<Longrightarrow> errors_Equal (Some err) ErrIPCFailed \<Longrightarrow> \<exists>c. GetIPCStatusCode (Some err) = Ok c"
  by (auto simp: ipc_safe_def GetIPCStatusCode_def split: goerr.splits)

lemma CreateError_status:
  assumes "ipc_safe err"
  shows "status_result E ctx ev s (CreateError E ctx ev err s)"
proof -
  let ?ipc = "case GetIPCStatusCode (Some err) of
      Ok c \<Rightarrow> if c = 412 then StatusPreconditionFailed E ctx ev ''ipc_failed'' (Some err) s
              else StatusInternalServerError E ctx ev ''ipc_failed'' (Some err) s
    | _ \<Rightarrow> (Panic, s)"
  have ipc: "status_result E ctx ev s ?ipc" if "errors_Equal (Some err) ErrIPCFailed"
    using GetIPCStatusCode_GoErr [OF assms that] by (auto intro!: status_intros)
  show ?thesis
    unfolding CreateError_def Let_def
    by (intro status_result_if status_intros ipc) simp_all
qed

end
