(* ===== verification/Database.thy ===== *)
theory Database
  imports Errors
begin

text \<open>
  The database as the sources use it through gorm: queries and writes of one row, with the constraints
  of the schema (primary keys, unique columns, foreign keys), \<open>common/database/model\<close> with its
  hooks and relations, \<open>common/config\<close> and \<open>database.Transaction\<close> of
  \<open>common/database/connection.go\<close>.
\<close>

section \<open>Statements\<close>

text \<open>Any statement may fail; \<open>site\<close> names it and \<open>k\<close> is the key it is about.\<close>

definition exec :: "env \<Rightarrow> string \<Rightarrow> u64 \<Rightarrow> (dberr, 'a) res \<Rightarrow> (dberr, 'a) res" where
  "exec E site k m = (case e_fault E site k of Some c \<Rightarrow> Fail (DBError c) | None \<Rightarrow> m)"

definition db_First :: "env \<Rightarrow> string \<Rightarrow> u64 \<Rightarrow> 'r option \<Rightarrow> (dberr, 'r) res" where
  "db_First E site k r = exec E site k (case r of None \<Rightarrow> Fail ErrRecordNotFound | Some x \<Rightarrow> Ok x)"

definition db_Find :: "env \<Rightarrow> string \<Rightarrow> u64 \<Rightarrow> 'r list \<Rightarrow> (dberr, 'r list) res" where
  "db_Find E site k rs = exec E site k (Ok rs)"

text \<open>
  \<open>case err == gorm.ErrRecordNotFound: return nf; case err != nil: return UnusableDatabase(err)\<close>, and
  the form without the first case.
\<close>

definition orNotFound :: "goerr \<Rightarrow> (dberr, 'a) res \<Rightarrow> (goerr, 'a) res" where
  "orNotFound nf = mapE (\<lambda>e. case e of ErrRecordNotFound \<Rightarrow> nf | DBError c \<Rightarrow> UnusableDatabase (Some (DBErr e)))"

definition orUnusable :: "(dberr, 'a) res \<Rightarrow> (goerr, 'a) res" where
  "orUnusable = mapE (\<lambda>e. UnusableDatabase (Some (DBErr e)))"

text \<open>
  \<open>if err := First(...); err == nil { return conflict } else if err != ErrRecordNotFound { ... }\<close>
\<close>

definition mustBeAbsent :: "goerr \<Rightarrow> (dberr, 'a) res \<Rightarrow> (goerr, unit) res" where
  "mustBeAbsent conflict m =
     (case m of Ok _ \<Rightarrow> Fail conflict
      | Fail ErrRecordNotFound \<Rightarrow> Ok ()
      | Fail e \<Rightarrow> Fail (UnusableDatabase (Some (DBErr e)))
      | Panic \<Rightarrow> Panic)"

text \<open>SQLSTATE codes: foreign key violation, unique violation, sequence limit.\<close>

definition fk_violation :: dberr where
  "fk_violation = DBError ''23503''"

definition unique_violation :: dberr where
  "unique_violation = DBError ''23505''"

definition sequence_limit :: dberr where
  "sequence_limit = DBError ''2200H''"

text \<open>\<open>NEXTVAL\<close>: values handed out to rolled back or concurrent transactions are skipped.\<close>

definition nextval :: "env \<Rightarrow> u64 \<Rightarrow> (dberr, u64 \<times> u64) res" where
  "nextval E q =
     (if unat q + unat (e_gap E) < 2 ^ 63 - 1 then Ok (q + e_gap E, q + e_gap E + 1)
      else Fail sequence_limit)"

section \<open>Saving rows\<close>

subsection \<open>cdm_tenant\<close>

definition tenant_create :: "env \<Rightarrow> m_tenant \<Rightarrow> db \<Rightarrow> (dberr, m_tenant \<times> db) res" where
  "tenant_create E t d = exec E ''cdm_tenant.insert'' (mt_ID t)
     (bindR (if mt_ID t = 0 then nextval E (seq_tenant d) else Ok (mt_ID t, seq_tenant d)) (\<lambda>(i, q).
        let t' = t\<lparr>mt_ID := i, mt_CreatedAt := e_now E, mt_UpdatedAt := e_now E\<rparr> in
        guardR (\<exists>y \<in> set (t_tenant d). mt_ID y = i) unique_violation
          (Ok (t', d\<lparr>t_tenant := t_tenant d @ [t'], seq_tenant := q\<rparr>))))"

definition tenant_save :: "env \<Rightarrow> m_tenant \<Rightarrow> db \<Rightarrow> (dberr, m_tenant \<times> db) res" where
  "tenant_save E t d =
     (if mt_ID t = 0 then tenant_create E t d
      else exec E ''cdm_tenant.update'' (mt_ID t)
        (case first_by mt_ID (\<lambda>y. mt_ID y = mt_ID t) (t_tenant d) of
           None \<Rightarrow> tenant_create E t d
         | Some old \<Rightarrow>
             let t' = t\<lparr>mt_UpdatedAt := e_now E\<rparr>;
                 row = t'\<lparr>mt_CreatedAt := (if mt_CreatedAt t = 0 then mt_CreatedAt old else mt_CreatedAt t)\<rparr>
             in Ok (t', d\<lparr>t_tenant := replace_by mt_ID row (t_tenant d)\<rparr>)))"

definition tenant_solution_insert :: "env \<Rightarrow> m_tenant_solution \<Rightarrow> db \<Rightarrow> (dberr, db) res" where
  "tenant_solution_insert E r d = exec E ''cdm_tenant_solution.insert'' (mts_TenantID r)
     (guardR (\<not> (\<exists>t \<in> set (t_tenant d). mt_ID t = mts_TenantID r)) fk_violation
       (guardR (r \<in> set (t_tenant_solution d)) unique_violation
         (Ok (d\<lparr>t_tenant_solution := t_tenant_solution d @ [r]\<rparr>))))"

definition tenant_solution_save :: "env \<Rightarrow> m_tenant_solution \<Rightarrow> db \<Rightarrow> (dberr, db) res" where
  "tenant_solution_save E r d =
     (if mts_TenantID r = 0 then tenant_solution_insert E r d
      else exec E ''cdm_tenant_solution.first'' (mts_TenantID r)
        (if r \<in> set (t_tenant_solution d) then Ok d else tenant_solution_insert E r d))"

definition tenant_solution_delete :: "env \<Rightarrow> u64 \<Rightarrow> db \<Rightarrow> (dberr, db) res" where
  "tenant_solution_delete E tid d = exec E ''cdm_tenant_solution.delete'' tid
     (Ok (d\<lparr>t_tenant_solution := filter (\<lambda>r. mts_TenantID r \<noteq> tid) (t_tenant_solution d)\<rparr>))"

subsection \<open>cdm_group\<close>

definition group_constraints :: "m_group \<Rightarrow> db \<Rightarrow> (dberr, unit) res" where
  "group_constraints g d =
     guardR (\<not> (\<exists>t \<in> set (t_tenant d). mt_ID t = mg_TenantID g)) fk_violation (Ok ())"

definition group_create :: "env \<Rightarrow> m_group \<Rightarrow> db \<Rightarrow> (dberr, m_group \<times> db) res" where
  "group_create E g d = exec E ''cdm_group.insert'' (mg_ID g)
     (bindR (if mg_ID g = 0 then nextval E (seq_group d) else Ok (mg_ID g, seq_group d)) (\<lambda>(i, q).
        let g' = g\<lparr>mg_ID := i, mg_CreatedAt := e_now E, mg_UpdatedAt := e_now E\<rparr> in
        guardR (\<exists>y \<in> set (t_group d). mg_ID y = i) unique_violation
          (bindR (group_constraints g' d) (\<lambda>_.
             Ok (g', d\<lparr>t_group := t_group d @ [g'], seq_group := q\<rparr>)))))"

definition group_save :: "env \<Rightarrow> m_group \<Rightarrow> db \<Rightarrow> (dberr, m_group \<times> db) res" where
  "group_save E g d =
     (if mg_ID g = 0 then group_create E g d
      else exec E ''cdm_group.update'' (mg_ID g)
        (case first_by mg_ID (\<lambda>y. mg_ID y = mg_ID g) (t_group d) of
           None \<Rightarrow> group_create E g d
         | Some old \<Rightarrow>
             let g' = g\<lparr>mg_UpdatedAt := e_now E\<rparr>;
                 row = g'\<lparr>mg_CreatedAt := (if mg_CreatedAt g = 0 then mg_CreatedAt old else mg_CreatedAt g)\<rparr>
             in bindR (group_constraints row d) (\<lambda>_.
                  Ok (g', d\<lparr>t_group := replace_by mg_ID row (t_group d)\<rparr>))))"

subsection \<open>cdm_user\<close>

definition user_constraints :: "m_user \<Rightarrow> db \<Rightarrow> (dberr, unit) res" where
  "user_constraints u d =
     guardR (\<not> (\<exists>t \<in> set (t_tenant d). mt_ID t = mu_TenantID u)) fk_violation
       (guardR (\<exists>y \<in> set (t_user d). mu_ID y \<noteq> mu_ID u \<and> mu_Account y = mu_Account u) unique_violation
         (guardR (\<exists>y \<in> set (t_user d). mu_ID y \<noteq> mu_ID u \<and> mu_Email u \<noteq> None \<and> mu_Email y = mu_Email u)
            unique_violation (Ok ())))"

definition user_create :: "env \<Rightarrow> m_user \<Rightarrow> db \<Rightarrow> (dberr, m_user \<times> db) res" where
  "user_create E u d = exec E ''cdm_user.insert'' (mu_ID u)
     (bindR (if mu_ID u = 0 then nextval E (seq_user d) else Ok (mu_ID u, seq_user d)) (\<lambda>(i, q).
        let u' = u\<lparr>mu_ID := i, mu_CreatedAt := e_now E, mu_UpdatedAt := e_now E\<rparr> in
        guardR (\<exists>y \<in> set (t_user d). mu_ID y = i) unique_violation
          (bindR (user_constraints u' d) (\<lambda>_.
             Ok (u', d\<lparr>t_user := t_user d @ [u'], seq_user := q\<rparr>)))))"

definition user_save :: "env \<Rightarrow> m_user \<Rightarrow> db \<Rightarrow> (dberr, m_user \<times> db) res" where
  "user_save E u d =
     (if mu_ID u = 0 then user_create E u d
      else exec E ''cdm_user.update'' (mu_ID u)
        (case first_by mu_ID (\<lambda>y. mu_ID y = mu_ID u) (t_user d) of
           None \<Rightarrow> user_create E u d
         | Some old \<Rightarrow>
             let u' = u\<lparr>mu_UpdatedAt := e_now E\<rparr>;
                 row = u'\<lparr>mu_CreatedAt := (if mu_CreatedAt u = 0 then mu_CreatedAt old else mu_CreatedAt u)\<rparr>
             in bindR (user_constraints row d) (\<lambda>_.
                  Ok (u', d\<lparr>t_user := replace_by mu_ID row (t_user d)\<rparr>))))"

text \<open>\<open>db.Delete(user, userID)\<close>: rows that refer to the user keep it from being deleted.\<close>

definition user_delete :: "env \<Rightarrow> u64 \<Rightarrow> u64 \<Rightarrow> db \<Rightarrow> (dberr, db) res" where
  "user_delete E i j d = exec E ''cdm_user.delete'' i
     (if i \<noteq> j then Ok d
      else guardR ((\<exists>r \<in> set (t_user_role d). mur_UserID r = i) \<or> (\<exists>r \<in> set (t_user_group d). mug_UserID r = i) \<or>
                   (\<exists>r \<in> set (t_user_receive_event d). mue_UserID r = i)) fk_violation
             (Ok (d\<lparr>t_user := filter (\<lambda>u. mu_ID u \<noteq> i) (t_user d)\<rparr>)))"

subsection \<open>cdm_user_role and cdm_user_group\<close>

definition user_role_insert :: "env \<Rightarrow> m_user_role \<Rightarrow> db \<Rightarrow> (dberr, db) res" where
  "user_role_insert E r d = exec E ''cdm_user_role.insert'' (mur_RoleID r)
     (guardR (\<not> (\<exists>u \<in> set (t_user d). mu_ID u = mur_UserID r) \<or> \<not> (\<exists>x \<in> set (t_role d). mr_ID x = mur_RoleID r))
        fk_violation
       (guardR (r \<in> set (t_user_role d)) unique_violation
         (Ok (d\<lparr>t_user_role := t_user_role d @ [r]\<rparr>))))"

definition user_role_save :: "env \<Rightarrow> m_user_role \<Rightarrow> db \<Rightarrow> (dberr, db) res" where
  "user_role_save E r d =
     (if mur_UserID r = 0 then user_role_insert E r d
      else exec E ''cdm_user_role.first'' (mur_RoleID r)
        (if r \<in> set (t_user_role d) then Ok d else user_role_insert E r d))"

definition user_role_delete :: "env \<Rightarrow> u64 \<Rightarrow> db \<Rightarrow> (dberr, db) res" where
  "user_role_delete E uid d = exec E ''cdm_user_role.delete'' uid
     (Ok (d\<lparr>t_user_role := filter (\<lambda>r. mur_UserID r \<noteq> uid) (t_user_role d)\<rparr>))"

definition user_group_insert :: "env \<Rightarrow> m_user_group \<Rightarrow> db \<Rightarrow> (dberr, db) res" where
  "user_group_insert E r d = exec E ''cdm_user_group.insert'' (mug_GroupID r)
     (guardR (\<not> (\<exists>u \<in> set (t_user d). mu_ID u = mug_UserID r) \<or> \<not> (\<exists>x \<in> set (t_group d). mg_ID x = mug_GroupID r))
        fk_violation
       (guardR (r \<in> set (t_user_group d)) unique_violation
         (Ok (d\<lparr>t_user_group := t_user_group d @ [r]\<rparr>))))"

definition user_group_save :: "env \<Rightarrow> m_user_group \<Rightarrow> db \<Rightarrow> (dberr, db) res" where
  "user_group_save E r d =
     (if mug_UserID r = 0 then user_group_insert E r d
      else exec E ''cdm_user_group.first'' (mug_GroupID r)
        (if r \<in> set (t_user_group d) then Ok d else user_group_insert E r d))"

definition user_group_delete :: "env \<Rightarrow> (m_user_group \<Rightarrow> u64) \<Rightarrow> u64 \<Rightarrow> db \<Rightarrow> (dberr, db) res" where
  "user_group_delete E col i d = exec E ''cdm_user_group.delete'' i
     (Ok (d\<lparr>t_user_group := filter (\<lambda>r. col r \<noteq> i) (t_user_group d)\<rparr>))"

subsection \<open>cdm_tenant_config\<close>

definition same_config :: "m_tenant_config \<Rightarrow> m_tenant_config \<Rightarrow> bool" where
  "same_config a b \<longleftrightarrow> mtc_TenantID a = mtc_TenantID b \<and> mtc_Key a = mtc_Key b"

definition tenant_config_insert :: "env \<Rightarrow> m_tenant_config \<Rightarrow> db \<Rightarrow> (dberr, db) res" where
  "tenant_config_insert E c d = exec E (''cdm_tenant_config.insert '' @ mtc_Key c) (mtc_TenantID c)
     (guardR (\<not> (\<exists>t \<in> set (t_tenant d). mt_ID t = mtc_TenantID c)) fk_violation
       (guardR (\<exists>y \<in> set (t_tenant_config d). same_config y c) unique_violation
         (Ok (d\<lparr>t_tenant_config := t_tenant_config d @ [c]\<rparr>))))"

definition tenant_config_save :: "env \<Rightarrow> m_tenant_config \<Rightarrow> db \<Rightarrow> (dberr, db) res" where
  "tenant_config_save E c d =
     (if mtc_TenantID c = 0 then tenant_config_insert E c d
      else exec E (''cdm_tenant_config.update '' @ mtc_Key c) (mtc_TenantID c)
        (if \<exists>y \<in> set (t_tenant_config d). same_config y c
         then Ok (d\<lparr>t_tenant_config := map (\<lambda>y. if same_config y c then c else y) (t_tenant_config d)\<rparr>)
         else tenant_config_insert E c d))"

section \<open>Relations (model_relations.go)\<close>

definition user_Groups :: "env \<Rightarrow> db \<Rightarrow> u64 \<Rightarrow> (dberr, m_group list) res" where
  "user_Groups E d uid =
     bindR (db_Find E ''user.Groups relations'' uid (filter (\<lambda>r. mug_UserID r = uid) (t_user_group d))) (\<lambda>rels.
       let arr = map mug_GroupID rels in
       db_Find E ''user.Groups'' uid (filter (\<lambda>g. mg_ID g \<in> set arr) (t_group d)))"

definition user_Roles :: "env \<Rightarrow> db \<Rightarrow> u64 \<Rightarrow> (dberr, m_role list) res" where
  "user_Roles E d uid =
     bindR (db_Find E ''user.Roles relations'' uid (filter (\<lambda>r. mur_UserID r = uid) (t_user_role d))) (\<lambda>rels.
       let arr = map mur_RoleID rels in
       db_Find E ''user.Roles'' uid (filter (\<lambda>x. mr_ID x \<in> set arr) (t_role d)))"

section \<open>Configuration values (common/config)\<close>

text \<open>\<open>nil\<close> both when the row is missing and when the query fails.\<close>

definition cfg_value :: "(dberr, string) res \<Rightarrow> string option" where
  "cfg_value m = (case m of Ok v \<Rightarrow> Some v | _ \<Rightarrow> None)"

definition GlobalConfig :: "env \<Rightarrow> db \<Rightarrow> string \<Rightarrow> string option" where
  "GlobalConfig E d key = cfg_value (db_First E (''GlobalConfig '' @ key) 0
     (map_option mgc_Value (find (\<lambda>c. mgc_Key c = key) (t_global_config d))))"

definition TenantConfig :: "env \<Rightarrow> db \<Rightarrow> u64 \<Rightarrow> string \<Rightarrow> string option" where
  "TenantConfig E d tenantID key = cfg_value (db_First E (''TenantConfig '' @ key) tenantID
     (map_option mtc_Value (find (\<lambda>c. mtc_TenantID c = tenantID \<and> mtc_Key c = key) (t_tenant_config d))))"

definition ServiceConfig :: "env \<Rightarrow> db \<Rightarrow> string \<Rightarrow> string \<Rightarrow> string option" where
  "ServiceConfig E d name key = cfg_value (db_First E (''ServiceConfig '' @ name @ key) 0
     (map_option msc_Value (find (\<lambda>c. msc_Name c = name \<and> msc_Key c = key) (t_service_config d))))"

text \<open>\<open>Value.Bool\<close>, \<open>Value.Int64\<close> and \<open>Value.Uint64\<close>; the error is a \<open>strconv\<close> one.\<close>

definition value_err :: "'a option \<Rightarrow> (goerr, 'a) res" where
  "value_err m = (case m of Some v \<Rightarrow> Ok v | None \<Rightarrow> Fail (PlainErr ''strconv: parsing value''))"

definition Value_Bool :: "string \<Rightarrow> (goerr, bool) res" where
  "Value_Bool v = value_err (ParseBool v)"

definition Value_Int64 :: "string \<Rightarrow> (goerr, int) res" where
  "Value_Int64 v = value_err (ParseInt v)"

definition Value_Uint64 :: "string \<Rightarrow> (goerr, u64) res" where
  "Value_Uint64 v = value_err (ParseUint v)"

section \<open>Transactions (connection.go)\<close>

text \<open>
  How the server answers \<open>RELEASE SAVEPOINT\<close>: committed, a retryable conflict (SQLSTATE 40001 or
  CR000), or another failure, after which the writes may or may not have been applied.
\<close>

datatype release = Released | ReleaseRetryable string | ReleaseFailed string bool

text \<open>
  One attempt at the body: what it observes, the answer to \<open>RELEASE\<close>, and the answer to
  \<open>ROLLBACK TO SAVEPOINT\<close> before a retry (\<open>Some\<close>: it failed).
\<close>

record attempt =
  at_env :: env
  at_release :: release
  at_restart :: "string option"

record trial =
  tr_begin :: "string option"
  tr_savepoint :: "string option"
  tr_attempts :: "attempt list"

definition retryable :: "goerr \<Rightarrow> bool" where
  "retryable e = (case e of DBErr (DBError c) \<Rightarrow> c = ''40001'' \<or> c = ''CR000'' | _ \<Rightarrow> False)"

text \<open>The database forgets the writes of the body; the store and the broker do not.\<close>

definition rollback :: "sys \<Rightarrow> sys \<Rightarrow> sys" where
  "rollback s s' = s'\<lparr>s_db := s_db s\<rparr>"

text \<open>
  \<open>crdb.ExecuteInTx\<close> around the closure of \<open>Transaction\<close>: it repeats the body while conflicts are
  retryable.  The result is \<open>None\<close> when the attempts given do not suffice to end the loop.
\<close>

type_synonym 'a body = "env \<Rightarrow> sys \<Rightarrow> (goerr, 'a) res \<times> sys"

fun executeInTx :: "attempt list \<Rightarrow> 'a body \<Rightarrow> sys \<Rightarrow> ((goerr, 'a) res \<times> sys) option" where
  "executeInTx [] body s = None"
| "executeInTx (a # as) body s =
     (case body (at_env a) s of
        (Panic, s') \<Rightarrow> Some (Panic, s')
      | (Fail e, s') \<Rightarrow>
          (let cause = (if errors_Equal (Some e) ErrUnusableDatabase then UnwrapUnusableDatabase e else e) in
           if retryable cause \<and> at_restart a = None then executeInTx as body (rollback s s')
           else Some (Fail e, rollback s s'))
      | (Ok x, s') \<Rightarrow>
          (case at_release a of
             Released \<Rightarrow> Some (Ok x, s')
           | ReleaseRetryable c \<Rightarrow>
               (case at_restart a of
                  None \<Rightarrow> executeInTx as body (rollback s s')
                | Some r \<Rightarrow> Some (Fail (UnusableDatabase (Some (DBErr (DBError r)))), rollback s s'))
           | ReleaseFailed c applied \<Rightarrow>
               Some (Fail (UnusableDatabase (Some (DBErr (DBError c)))),
                     if applied then s' else rollback s s')))"

definition Transaction :: "trial \<Rightarrow> 'a body \<Rightarrow> sys \<Rightarrow> ((goerr, 'a) res \<times> sys) option" where
  "Transaction tr body s =
     (case tr_begin tr of
        Some c \<Rightarrow> Some (Fail (UnusableDatabase (Some (DBErr (DBError c)))), s)
      | None \<Rightarrow>
        (case tr_savepoint tr of
           Some c \<Rightarrow> Some (Fail (UnusableDatabase (Some (DBErr (DBError c)))), s)
         | None \<Rightarrow> executeInTx (tr_attempts tr) body s))"

end
