(* ===== verification/Schema.thy ===== *)
theory Schema
  imports Database
begin

text \<open>
  The integrity of the database: keys are unique, references resolve, a user and the groups it belongs
  to are of one tenant, and a counted login failure has a time.  What each write of a row keeps of it.
\<close>

section \<open>The invariant\<close>

definition tenant_exists :: "db \<Rightarrow> u64 \<Rightarrow> bool" where
  "tenant_exists d i \<longleftrightarrow> (\<exists>t \<in> set (t_tenant d). mt_ID t = i)"

definition same_email :: "m_user \<Rightarrow> m_user \<Rightarrow> bool" where
  "same_email x y \<longleftrightarrow> mu_Email x \<noteq> None \<and> mu_Email x = mu_Email y"

definition users_wf :: "db \<Rightarrow> bool" where
  "users_wf d \<longleftrightarrow>
     distinct (map mu_ID (t_user d)) \<and> distinct (map mu_Account (t_user d)) \<and>
     (\<forall>x \<in> set (t_user d). tenant_exists d (mu_TenantID x)) \<and>
     (\<forall>x \<in> set (t_user d). \<forall>y \<in> set (t_user d). same_email x y \<longrightarrow> mu_ID x = mu_ID y)"

definition groups_wf :: "db \<Rightarrow> bool" where
  "groups_wf d \<longleftrightarrow>
     distinct (map mg_ID (t_group d)) \<and> (\<forall>x \<in> set (t_group d). tenant_exists d (mg_TenantID x))"

definition tenants_wf :: "db \<Rightarrow> bool" where
  "tenants_wf d \<longleftrightarrow> distinct (map mt_ID (t_tenant d)) \<and> distinct (map mr_ID (t_role d))"

definition user_roles_wf :: "db \<Rightarrow> bool" where
  "user_roles_wf d \<longleftrightarrow> distinct (t_user_role d) \<and>
     (\<forall>r \<in> set (t_user_role d). mur_UserID r \<in> mu_ID ` set (t_user d) \<and> mur_RoleID r \<in> mr_ID ` set (t_role d))"

text \<open>Membership joins a user and a group of the same tenant.\<close>

definition member_ok :: "db \<Rightarrow> m_user_group \<Rightarrow> bool" where
  "member_ok d r \<longleftrightarrow> (\<exists>u \<in> set (t_user d). \<exists>g \<in> set (t_group d).
     mu_ID u = mug_UserID r \<and> mg_ID g = mug_GroupID r \<and> mu_TenantID u = mg_TenantID g)"

definition members_wf :: "db \<Rightarrow> bool" where
  "members_wf d \<longleftrightarrow> distinct (t_user_group d) \<and> (\<forall>r \<in> set (t_user_group d). member_ok d r)"

definition login_wf :: "m_user \<Rightarrow> bool" where
  "login_wf u \<longleftrightarrow> (case mu_LastLoginFailedCount u of None \<Rightarrow> True | Some c \<Rightarrow> c = 0 \<or> mu_LastLoginFailedAt u \<noteq> None)"

definition logins_wf :: "db \<Rightarrow> bool" where
  "logins_wf d \<longleftrightarrow> (\<forall>u \<in> set (t_user d). login_wf u)"

definition cfg_key :: "m_tenant_config \<Rightarrow> u64 \<times> string" where
  "cfg_key c = (mtc_TenantID c, mtc_Key c)"

definition configs_wf :: "db \<Rightarrow> bool" where
  "configs_wf d \<longleftrightarrow> distinct (map cfg_key (t_tenant_config d)) \<and> distinct (t_tenant_solution d)"

definition db_wf :: "db \<Rightarrow> bool" where
  "db_wf d \<longleftrightarrow> users_wf d \<and> groups_wf d \<and> tenants_wf d \<and> user_roles_wf d \<and> members_wf d \<and>
     logins_wf d \<and> configs_wf d"

lemmas wf_defs = users_wf_def groups_wf_def tenants_wf_def user_roles_wf_def members_wf_def
  logins_wf_def configs_wf_def member_ok_def tenant_exists_def

lemma db_wf_users: "db_wf d \<Longrightarrow> users_wf d"
  and db_wf_groups: "db_wf d \<Longrightarrow> groups_wf d"
  and db_wf_members: "db_wf d \<Longrightarrow> members_wf d"
  and db_wf_user_roles: "db_wf d \<Longrightarrow> user_roles_wf d"
  and db_wf_tenants: "db_wf d \<Longrightarrow> tenants_wf d"
  and db_wf_logins: "db_wf d \<Longrightarrow> logins_wf d"
  and db_wf_configs: "db_wf d \<Longrightarrow> configs_wf d"
  by (simp_all add: db_wf_def)

section \<open>Queries\<close>

lemma exec_Ok_iff [res_simps]: "exec E site k m = Ok x \<longleftrightarrow> e_fault E site k = None \<and> m = Ok x"
  by (auto simp: exec_def split: option.split)

lemma db_First_Ok_iff [res_simps]: "db_First E site k r = Ok x \<longleftrightarrow> e_fault E site k = None \<and> r = Some x"
  by (auto simp: db_First_def exec_Ok_iff split: option.splits)

lemma db_Find_Ok_iff [res_simps]: "db_Find E site k rs = Ok xs \<longleftrightarrow> e_fault E site k = None \<and> xs = rs"
  by (auto simp: db_Find_def exec_Ok_iff)

lemma orNotFound_Ok_iff [res_simps]: "orNotFound nf m = Ok x \<longleftrightarrow> m = Ok x"
  by (simp add: orNotFound_def mapE_Ok_iff)

lemma orUnusable_Ok_iff [res_simps]: "orUnusable m = Ok x \<longleftrightarrow> m = Ok x"
  by (simp add: orUnusable_def mapE_Ok_iff)

lemma mustBeAbsent_Ok_iff [res_simps]: "mustBeAbsent c m = Ok x \<longleftrightarrow> m = Fail ErrRecordNotFound"
  by (auto simp: mustBeAbsent_def split: res.splits dberr.splits)

lemma db_First_absent: "db_First E site k r = Fail ErrRecordNotFound \<longleftrightarrow> e_fault E site k = None \<and> r = None"
  by (auto simp: db_First_def exec_def split: option.splits)

lemma no_Panic [simp]:
  "orUnusable m = Panic \<longleftrightarrow> m = Panic" "orNotFound nf m = Panic \<longleftrightarrow> m = Panic"
  "db_First E site k r \<noteq> Panic" "db_Find E site k rs \<noteq> Panic"
  by (cases m; simp add: orUnusable_def orNotFound_def db_First_def db_Find_def exec_def
      split: option.splits)+

section \<open>What a write does\<close>

lemma user_constraints_Ok_iff [res_simps]:
  "user_constraints u d = Ok () \<longleftrightarrow> tenant_exists d (mu_TenantID u) \<and>
     (\<forall>y \<in> set (t_user d). mu_ID y \<noteq> mu_ID u \<longrightarrow> mu_Account y \<noteq> mu_Account u) \<and>
     (\<forall>y \<in> set (t_user d). mu_ID y \<noteq> mu_ID u \<and> mu_Email u \<noteq> None \<longrightarrow> mu_Email y \<noteq> mu_Email u)"
  by (auto simp: user_constraints_def guardR_Ok_iff tenant_exists_def)

definition user_row :: "env \<Rightarrow> m_user \<Rightarrow> m_user \<Rightarrow> m_user" where
  "user_row E u old = u\<lparr>mu_UpdatedAt := e_now E,
     mu_CreatedAt := (if mu_CreatedAt u = 0 then mu_CreatedAt old else mu_CreatedAt u)\<rparr>"

lemma user_row_fields [simp]:
  "mu_ID (user_row E u old) = mu_ID u" "mu_TenantID (user_row E u old) = mu_TenantID u"
  "mu_Account (user_row E u old) = mu_Account u" "mu_Email (user_row E u old) = mu_Email u"
  "mu_Password (user_row E u old) = mu_Password u" "mu_OldPassword (user_row E u old) = mu_OldPassword u"
  "mu_LastLoginFailedCount (user_row E u old) = mu_LastLoginFailedCount u"
  "mu_LastLoginFailedAt (user_row E u old) = mu_LastLoginFailedAt u"
  "mu_PasswordUpdateFlag (user_row E u old) = mu_PasswordUpdateFlag u"
  "mu_PasswordUpdatedAt (user_row E u old) = mu_PasswordUpdatedAt u"
  by (simp_all add: user_row_def)

lemma user_create_Ok:
  assumes "user_create E u d = Ok (u', d')"
  shows "\<exists>q. d' = d\<lparr>t_user := t_user d @ [u'], seq_user := q\<rparr> \<and> mu_ID u' \<notin> mu_ID ` set (t_user d) \<and>
    user_constraints u' d = Ok () \<and>
    u' = u\<lparr>mu_ID := mu_ID u', mu_CreatedAt := e_now E, mu_UpdatedAt := e_now E\<rparr>"
proof -
  from assms obtain i q where "guardR (\<exists>y \<in> set (t_user d). mu_ID y = i) unique_violation
      (bindR (user_constraints (u\<lparr>mu_ID := i, mu_CreatedAt := e_now E, mu_UpdatedAt := e_now E\<rparr>) d)
         (\<lambda>_. Ok (u\<lparr>mu_ID := i, mu_CreatedAt := e_now E, mu_UpdatedAt := e_now E\<rparr>,
           d\<lparr>t_user := t_user d @ [u\<lparr>mu_ID := i, mu_CreatedAt := e_now E, mu_UpdatedAt := e_now E\<rparr>],
             seq_user := q\<rparr>))) = Ok (u', d')"
    unfolding user_create_def exec_Ok_iff bindR_Ok_iff Let_def by (auto split: prod.splits)
  then show ?thesis by (intro exI [of _ q]) (auto simp: res_simps)
qed

lemma user_save_cases:
  assumes "user_save E u d = Ok (u', d')"
  obtains (create) q where "d' = d\<lparr>t_user := t_user d @ [u'], seq_user := q\<rparr>"
      "mu_ID u' \<notin> mu_ID ` set (t_user d)" "user_constraints u' d = Ok ()"
      "u' = u\<lparr>mu_ID := mu_ID u', mu_CreatedAt := e_now E, mu_UpdatedAt := e_now E\<rparr>"
      "mu_ID u = 0 \<or> mu_ID u \<notin> mu_ID ` set (t_user d)"
    | (update) old where "old \<in> set (t_user d)" "mu_ID old = mu_ID u" "mu_ID u \<noteq> 0"
      "u' = u\<lparr>mu_UpdatedAt := e_now E\<rparr>" "user_constraints (user_row E u old) d = Ok ()"
      "d' = d\<lparr>t_user := replace_by mu_ID (user_row E u old) (t_user d)\<rparr>"
proof (cases "mu_ID u = 0")
  case True
  then have "user_create E u d = Ok (u', d')" using assms by (simp add: user_save_def)
  with True show ?thesis using user_create_Ok create by blast
next
  case nz: False
  show ?thesis
  proof (cases "first_by mu_ID (\<lambda>y. mu_ID y = mu_ID u) (t_user d)")
    case None
    then have "user_create E u d = Ok (u', d')"
      using assms nz by (simp add: user_save_def exec_Ok_iff)
    moreover have "mu_ID u \<notin> mu_ID ` set (t_user d)"
      using None by (auto simp: first_by_None_iff)
    ultimately show ?thesis using user_create_Ok create by blast
  next
    case (Some old)
    then have "old \<in> set (t_user d)" "mu_ID old = mu_ID u" by (auto dest: first_by_SomeD)
    with Some assms nz show ?thesis
      by (intro update [of old]) (auto simp: user_save_def res_simps Let_def user_row_def)
  qed
qed

lemma group_constraints_Ok_iff [res_simps]:
  "group_constraints g d = Ok () \<longleftrightarrow> tenant_exists d (mg_TenantID g)"
  by (auto simp: group_constraints_def guardR_Ok_iff tenant_exists_def)

definition group_row :: "env \<Rightarrow> m_group \<Rightarrow> m_group \<Rightarrow> m_group" where
  "group_row E g old = g\<lparr>mg_UpdatedAt := e_now E,
     mg_CreatedAt := (if mg_CreatedAt g = 0 then mg_CreatedAt old else mg_CreatedAt g)\<rparr>"

lemma group_row_fields [simp]:
  "mg_ID (group_row E g old) = mg_ID g" "mg_TenantID (group_row E g old) = mg_TenantID g"
  "mg_Name (group_row E g old) = mg_Name g" "mg_DeletedFlag (group_row E g old) = mg_DeletedFlag g"
  "mg_Remarks (group_row E g old) = mg_Remarks g"
  by (simp_all add: group_row_def)

lemma group_create_Ok:
  assumes "group_create E g d = Ok (g', d')"
  shows "\<exists>q. d' = d\<lparr>t_group := t_group d @ [g'], seq_group := q\<rparr> \<and> mg_ID g' \<notin> mg_ID ` set (t_group d) \<and>
    tenant_exists d (mg_TenantID g') \<and>
    g' = g\<lparr>mg_ID := mg_ID g', mg_CreatedAt := e_now E, mg_UpdatedAt := e_now E\<rparr>"
proof -
  from assms obtain i q where "guardR (\<exists>y \<in> set (t_group d). mg_ID y = i) unique_violation
      (bindR (group_constraints (g\<lparr>mg_ID := i, mg_CreatedAt := e_now E, mg_UpdatedAt := e_now E\<rparr>) d)
         (\<lambda>_. Ok (g\<lparr>mg_ID := i, mg_CreatedAt := e_now E, mg_UpdatedAt := e_now E\<rparr>,
           d\<lparr>t_group := t_group d @ [g\<lparr>mg_ID := i, mg_CreatedAt := e_now E, mg_UpdatedAt := e_now E\<rparr>],
             seq_group := q\<rparr>))) = Ok (g', d')"
    unfolding group_create_def exec_Ok_iff bindR_Ok_iff Let_def by (auto split: prod.splits)
  then show ?thesis by (intro exI [of _ q]) (auto simp: res_simps)
qed

lemma group_save_cases:
  assumes "group_save E g d = Ok (g', d')"
  obtains (create) q where "d' = d\<lparr>t_group := t_group d @ [g'], seq_group := q\<rparr>"
      "mg_ID g' \<notin> mg_ID ` set (t_group d)" "tenant_exists d (mg_TenantID g')"
      "g' = g\<lparr>mg_ID := mg_ID g', mg_CreatedAt := e_now E, mg_UpdatedAt := e_now E\<rparr>"
      "mg_ID g = 0 \<or> mg_ID g \<notin> mg_ID ` set (t_group d)"
    | (update) old where "old \<in> set (t_group d)" "mg_ID old = mg_ID g" "mg_ID g \<noteq> 0"
      "g' = g\<lparr>mg_UpdatedAt := e_now E\<rparr>" "tenant_exists d (mg_TenantID g)"
      "d' = d\<lparr>t_group := replace_by mg_ID (group_row E g old) (t_group d)\<rparr>"
proof (cases "mg_ID g = 0")
  case True
  then have "group_create E g d = Ok (g', d')" using assms by (simp add: group_save_def)
  with True show ?thesis using group_create_Ok create by blast
next
  case nz: False
  show ?thesis
  proof (cases "first_by mg_ID (\<lambda>y. mg_ID y = mg_ID g) (t_group d)")
    case None
    then have "group_create E g d = Ok (g', d')"
      using assms nz by (simp add: group_save_def exec_Ok_iff)
    moreover have "mg_ID g \<notin> mg_ID ` set (t_group d)"
      using None by (auto simp: first_by_None_iff)
    ultimately show ?thesis using group_create_Ok create by blast
  next
    case (Some old)
    then have "old \<in> set (t_group d)" "mg_ID old = mg_ID g" by (auto dest: first_by_SomeD)
    with Some assms nz show ?thesis
      by (intro update [of old]) (auto simp: group_save_def res_simps Let_def group_row_def)
  qed
qed

section \<open>Writes keep the invariant\<close>

text \<open>Each part of the invariant depends on its own tables only.\<close>

lemma users_wf_frame [simp, frame_simps]:
  "users_wf (d\<lparr>t_tenant_solution := x0\<rparr>) \<longleftrightarrow> users_wf d"
  "users_wf (d\<lparr>t_group := x1\<rparr>) \<longleftrightarrow> users_wf d"
  "users_wf (d\<lparr>t_user_role := x2\<rparr>) \<longleftrightarrow> users_wf d"
  "users_wf (d\<lparr>t_user_group := x3\<rparr>) \<longleftrightarrow> users_wf d"
  "users_wf (d\<lparr>t_tenant_config := x4\<rparr>) \<longleftrightarrow> users_wf d"
  "users_wf (d\<lparr>seq_tenant := x5\<rparr>) \<longleftrightarrow> users_wf d"
  "users_wf (d\<lparr>seq_group := x6\<rparr>) \<longleftrightarrow> users_wf d"
  "users_wf (d\<lparr>seq_user := x7\<rparr>) \<longleftrightarrow> users_wf d"
  by (simp_all add: users_wf_def tenant_exists_def member_ok_def)

lemma groups_wf_frame [simp, frame_simps]:
  "groups_wf (d\<lparr>t_tenant_solution := x0\<rparr>) \<longleftrightarrow> groups_wf d"
  "groups_wf (d\<lparr>t_user := x1\<rparr>) \<longleftrightarrow> groups_wf d"
  "groups_wf (d\<lparr>t_user_role := x2\<rparr>) \<longleftrightarrow> groups_wf d"
  "groups_wf (d\<lparr>t_user_group := x3\<rparr>) \<longleftrightarrow> groups_wf d"
  "groups_wf (d\<lparr>t_tenant_config := x4\<rparr>) \<longleftrightarrow> groups_wf d"
  "groups_wf (d\<lparr>seq_tenant := x5\<rparr>) \<longleftrightarrow> groups_wf d"
  "groups_wf (d\<lparr>seq_group := x6\<rparr>) \<longleftrightarrow> groups_wf d"
  "groups_wf (d\<lparr>seq_user := x7\<rparr>) \<longleftrightarrow> groups_wf d"
  by (simp_all add: groups_wf_def tenant_exists_def member_ok_def)

lemma tenants_wf_frame [simp, frame_simps]:
  "tenants_wf (d\<lparr>t_tenant_solution := x0\<rparr>) \<longleftrightarrow> tenants_wf d"
  "tenants_wf (d\<lparr>t_group := x1\<rparr>) \<longleftrightarrow> tenants_wf d"
  "tenants_wf (d\<lparr>t_user := x2\<rparr>) \<longleftrightarrow> tenants_wf d"
  "tenants_wf (d\<lparr>t_user_role := x3\<rparr>) \<longleftrightarrow> tenants_wf d"
  "tenants_wf (d\<lparr>t_user_group := x4\<rparr>) \<longleftrightarrow> tenants_wf d"
  "tenants_wf (d\<lparr>t_tenant_config := x5\<rparr>) \<longleftrightarrow> tenants_wf d"
  "tenants_wf (d\<lparr>seq_tenant := x6\<rparr>) \<longleftrightarrow> tenants_wf d"
  "tenants_wf (d\<lparr>seq_group := x7\<rparr>) \<longleftrightarrow> tenants_wf d"
  "tenants_wf (d\<lparr>seq_user := x8\<rparr>) \<longleftrightarrow> tenants_wf d"
  by (simp_all add: tenants_wf_def tenant_exists_def member_ok_def)

lemma user_roles_wf_frame [simp, frame_simps]:
  "user_roles_wf (d\<lparr>t_tenant := x0\<rparr>) \<longleftrightarrow> user_roles_wf d"
  "user_roles_wf (d\<lparr>t_tenant_solution := x1\<rparr>) \<longleftrightarrow> user_roles_wf d"
  "user_roles_wf (d\<lparr>t_group := x2\<rparr>) \<longleftrightarrow> user_roles_wf d"
  "user_roles_wf (d\<lparr>t_user_group := x3\<rparr>) \<longleftrightarrow> user_roles_wf d"
  "user_roles_wf (d\<lparr>t_tenant_config := x4\<rparr>) \<longleftrightarrow> user_roles_wf d"
  "user_roles_wf (d\<lparr>seq_tenant := x5\<rparr>) \<longleftrightarrow> user_roles_wf d"
  "user_roles_wf (d\<lparr>seq_group := x6\<rparr>) \<longleftrightarrow> user_roles_wf d"
  "user_roles_wf (d\<lparr>seq_user := x7\<rparr>) \<longleftrightarrow> user_roles_wf d"
  by (simp_all add: user_roles_wf_def tenant_exists_def member_ok_def)

lemma members_wf_frame [simp, frame_simps]:
  "members_wf (d\<lparr>t_tenant := x0\<rparr>) \<longleftrightarrow> members_wf d"
  "members_wf (d\<lparr>t_tenant_solution := x1\<rparr>) \<longleftrightarrow> members_wf d"
  "members_wf (d\<lparr>t_user_role := x2\<rparr>) \<longleftrightarrow> members_wf d"
  "members_wf (d\<lparr>t_tenant_config := x3\<rparr>) \<longleftrightarrow> members_wf d"
  "members_wf (d\<lparr>seq_tenant := x4\<rparr>) \<longleftrightarrow> members_wf d"
  "members_wf (d\<lparr>seq_group := x5\<rparr>) \<longleftrightarrow> members_wf d"
  "members_wf (d\<lparr>seq_user := x6\<rparr>) \<longleftrightarrow> members_wf d"
  by (simp_all add: members_wf_def tenant_exists_def member_ok_def)

lemma logins_wf_frame [simp, frame_simps]:
  "logins_wf (d\<lparr>t_tenant := x0\<rparr>) \<longleftrightarrow> logins_wf d"
  "logins_wf (d\<lparr>t_tenant_solution := x1\<rparr>) \<longleftrightarrow> logins_wf d"
  "logins_wf (d\<lparr>t_group := x2\<rparr>) \<longleftrightarrow> logins_wf d"
  "logins_wf (d\<lparr>t_user_role := x3\<rparr>) \<longleftrightarrow> logins_wf d"
  "logins_wf (d\<lparr>t_user_group := x4\<rparr>) \<longleftrightarrow> logins_wf d"
  "logins_wf (d\<lparr>t_tenant_config := x5\<rparr>) \<longleftrightarrow> logins_wf d"
  "logins_wf (d\<lparr>seq_tenant := x6\<rparr>) \<longleftrightarrow> logins_wf d"
  "logins_wf (d\<lparr>seq_group := x7\<rparr>) \<longleftrightarrow> logins_wf d"
  "logins_wf (d\<lparr>seq_user := x8\<rparr>) \<longleftrightarrow> logins_wf d"
  by (simp_all add: logins_wf_def tenant_exists_def member_ok_def)

lemma configs_wf_frame [simp, frame_simps]:
  "configs_wf (d\<lparr>t_tenant := x0\<rparr>) \<longleftrightarrow> configs_wf d"
  "configs_wf (d\<lparr>t_group := x1\<rparr>) \<longleftrightarrow> configs_wf d"
  "configs_wf (d\<lparr>t_user := x2\<rparr>) \<longleftrightarrow> configs_wf d"
  "configs_wf (d\<lparr>t_user_role := x3\<rparr>) \<longleftrightarrow> configs_wf d"
  "configs_wf (d\<lparr>t_user_group := x4\<rparr>) \<longleftrightarrow> configs_wf d"
  "configs_wf (d\<lparr>seq_tenant := x5\<rparr>) \<longleftrightarrow> configs_wf d"
  "configs_wf (d\<lparr>seq_group := x6\<rparr>) \<longleftrightarrow> configs_wf d"
  "configs_wf (d\<lparr>seq_user := x7\<rparr>) \<longleftrightarrow> configs_wf d"
  by (simp_all add: configs_wf_def tenant_exists_def member_ok_def)

lemma distinct_map_replace:
  assumes "distinct (map key rows)" and "\<And>y. y \<in> set rows \<Longrightarrow> key y \<noteq> key r \<Longrightarrow> f y \<noteq> f r"
    and "distinct (map f rows)"
  shows "distinct (map f (replace_by key r rows))"
  using assms
proof (induction rows)
  case Nil
  then show ?case by (simp add: replace_by_def)
next
  case (Cons a rows)
  then have IH: "distinct (map f (replace_by key r rows))" by simp
  have "f (if key a = key r then r else a) \<notin> f ` set (replace_by key r rows)"
  proof (cases "key a = key r")
    case True
    then have "key r \<notin> key ` set rows" using Cons.prems(1) by auto
    then have "y \<in> set rows \<and> key y \<noteq> key r" if "y \<in> set (replace_by key r rows)" for y
      using that by (force simp: replace_by_def image_iff split: if_splits)
    with True Cons.prems(2) show ?thesis by fastforce
  next
    case False
    with Cons.prems(2) [of a] Cons.prems(3) show ?thesis by (auto dest!: in_replace_by)
  qed
  moreover have "replace_by key r (a # rows) = (if key a = key r then r else a) # replace_by key r rows"
    by (simp add: replace_by_def)
  ultimately show ?case using IH by (simp del: if_image_distrib)
qed

lemma users_wf_create:
  assumes "users_wf d" "mu_ID u \<notin> mu_ID ` set (t_user d)" "user_constraints u d = Ok ()"
  shows "users_wf (d\<lparr>t_user := t_user d @ [u], seq_user := q\<rparr>)"
proof -
  have ids: "mu_ID y \<noteq> mu_ID u" if "y \<in> set (t_user d)" for y using assms(2) that by (metis imageI)
  have acc: "\<forall>y \<in> set (t_user d). mu_Account y \<noteq> mu_Account u"
    and em: "\<forall>y \<in> set (t_user d). mu_Email u \<noteq> None \<longrightarrow> mu_Email y \<noteq> mu_Email u"
    using assms(3) ids by (simp_all add: user_constraints_Ok_iff)
  have ten: "tenant_exists d (mu_TenantID u)" using assms(3) by (simp add: user_constraints_Ok_iff)
  from acc have "mu_Account u \<notin> mu_Account ` set (t_user d)" by fastforce
  with assms(1,2) acc em ten show ?thesis
    by (simp add: users_wf_def tenant_exists_def same_email_def) metis
qed

lemma users_wf_update:
  assumes "users_wf d" "mu_ID row \<in> mu_ID ` set (t_user d)" "user_constraints row d = Ok ()"
  shows "users_wf (d\<lparr>t_user := replace_by mu_ID row (t_user d)\<rparr>)"
proof -
  note c = assms(3) [unfolded user_constraints_Ok_iff]
  have s: "set (replace_by mu_ID row (t_user d)) = insert row {y \<in> set (t_user d). mu_ID y \<noteq> mu_ID row}"
    by (rule set_replace_by [OF assms(2)])
  have "distinct (map mu_Account (replace_by mu_ID row (t_user d)))"
    using assms(1) c by (intro distinct_map_replace) (auto simp: users_wf_def)
  moreover have "\<forall>x \<in> set (replace_by mu_ID row (t_user d)). \<forall>y \<in> set (replace_by mu_ID row (t_user d)).
      same_email x y \<longrightarrow> mu_ID x = mu_ID y"
    unfolding s using assms(1) c by (auto simp: users_wf_def same_email_def) metis+
  moreover have "\<forall>x \<in> set (replace_by mu_ID row (t_user d)). tenant_exists d (mu_TenantID x)"
    unfolding s using assms(1) c by (auto simp: users_wf_def)
  ultimately show ?thesis using assms(1) by (simp add: users_wf_def tenant_exists_def)
qed

lemma members_wf_mono:
  assumes "members_wf d" "t_user_group d' = t_user_group d"
    and "\<And>u. u \<in> set (t_user d) \<Longrightarrow> \<exists>v \<in> set (t_user d'). mu_ID v = mu_ID u \<and> mu_TenantID v = mu_TenantID u"
    and "\<And>g. g \<in> set (t_group d) \<Longrightarrow> \<exists>h \<in> set (t_group d'). mg_ID h = mg_ID g \<and> mg_TenantID h = mg_TenantID g"
  shows "members_wf d'"
proof -
  have "member_ok d' r" if r: "member_ok d r" for r
  proof -
    from r obtain u g where ug: "u \<in> set (t_user d)" "g \<in> set (t_group d)" "mu_ID u = mug_UserID r"
      "mg_ID g = mug_GroupID r" "mu_TenantID u = mg_TenantID g" by (auto simp: member_ok_def)
    obtain v where v: "v \<in> set (t_user d')" "mu_ID v = mu_ID u" "mu_TenantID v = mu_TenantID u"
      using assms(3) [OF ug(1)] by blast
    obtain h where "h \<in> set (t_group d')" "mg_ID h = mg_ID g" "mg_TenantID h = mg_TenantID g"
      using assms(4) [OF ug(2)] by blast
    with v ug show ?thesis unfolding member_ok_def by metis
  qed
  with assms(1,2) show ?thesis by (simp add: members_wf_def)
qed

lemma user_roles_wf_mono:
  "user_roles_wf d \<Longrightarrow> t_user_role d' = t_user_role d \<Longrightarrow> t_role d' = t_role d \<Longrightarrow>
    mu_ID ` set (t_user d) \<subseteq> mu_ID ` set (t_user d') \<Longrightarrow> user_roles_wf d'"
  by (auto simp: user_roles_wf_def)

lemma user_save_wf:
  assumes wf: "db_wf d" and save: "user_save E u d = Ok (u', d')" and l: "login_wf u"
    and ten: "\<And>old. mu_ID u \<noteq> 0 \<Longrightarrow> old \<in> set (t_user d) \<Longrightarrow> mu_ID old = mu_ID u \<Longrightarrow> mu_TenantID old = mu_TenantID u"
  shows "db_wf d'"
  using save
proof (cases rule: user_save_cases)
  case (create q)
  have "mu_LastLoginFailedCount u' = mu_LastLoginFailedCount u" "mu_LastLoginFailedAt u' = mu_LastLoginFailedAt u"
    by (subst create(4), simp)+
  then have lw: "logins_wf d'" using l db_wf_logins [OF wf] 
    by (simp add: logins_wf_def login_wf_def create(1) split: option.splits)
  have "users_wf d'" using users_wf_create [OF db_wf_users [OF wf] create(2,3)] create(1) by simp
  moreover have "members_wf d'" by (rule members_wf_mono [OF db_wf_members [OF wf]]) (auto simp: create(1))
  moreover have "user_roles_wf d'"
    by (rule user_roles_wf_mono [OF db_wf_user_roles [OF wf]]) (auto simp: create(1))
  ultimately show ?thesis using wf lw by (simp add: db_wf_def create(1))
next
  case (update old)
  let ?row = "user_row E u old"
  have mem: "mu_ID ?row \<in> mu_ID ` set (t_user d)" using update(1,2) by (metis user_row_fields(1) imageI)
  have s: "set (t_user d') = insert ?row {y \<in> set (t_user d). mu_ID y \<noteq> mu_ID ?row}"
    unfolding update(6) by (simp add: set_replace_by [OF mem])
  have "users_wf d'" unfolding update(6) by (rule users_wf_update [OF db_wf_users [OF wf] mem update(5)])
  moreover have "members_wf d'"
  proof (rule members_wf_mono [OF db_wf_members [OF wf]])
    fix v assume v: "v \<in> set (t_user d)"
    show "\<exists>w \<in> set (t_user d'). mu_ID w = mu_ID v \<and> mu_TenantID w = mu_TenantID v"
      using v ten [OF update(3), of v] unfolding s by (cases "mu_ID v = mu_ID u") auto
  qed (auto simp: update(6))
  moreover have "user_roles_wf d'"
    by (rule user_roles_wf_mono [OF db_wf_user_roles [OF wf]]) (use s in \<open>auto simp: update(6)\<close>)
  moreover have "logins_wf d'"
    using db_wf_logins [OF wf] l unfolding logins_wf_def s
    by (simp add: login_wf_def split: option.splits)
  ultimately show ?thesis using wf by (simp add: db_wf_def update(6))
qed

lemma user_save_same_wf:
  assumes "db_wf d" "user_save E u d = Ok (u', d')" "user \<in> set (t_user d)"
    and "mu_ID u = mu_ID user" "mu_TenantID u = mu_TenantID user" "login_wf u"
  shows "db_wf d'"
proof (rule user_save_wf [OF assms(1,2,6)])
  fix old assume "old \<in> set (t_user d)" "mu_ID old = mu_ID u"
  then have "old = user" using assms(1,3,4) by (intro key_unique [of mu_ID "t_user d"]) (auto simp: db_wf_def users_wf_def)
  with assms(5) show "mu_TenantID old = mu_TenantID u" by simp
qed

lemma user_save_row:
  assumes "user_save E u d = Ok (u', d')"
  obtains row where "row \<in> set (t_user d')" "mu_ID row = mu_ID u'" "mu_TenantID row = mu_TenantID u"
    "mu_Account row = mu_Account u" "mu_Password row = mu_Password u"
  using assms
proof (cases rule: user_save_cases)
  case (create q)
  have "mu_TenantID u' = mu_TenantID u" "mu_Account u' = mu_Account u" "mu_Password u' = mu_Password u"
    by (subst create(4), simp)+
  then show ?thesis using create(1) by (intro that [of u']) simp_all
next
  case (update old)
  have "mu_ID (user_row E u old) \<in> mu_ID ` set (t_user d)" using update(1,2) by (metis user_row_fields(1) imageI)
  then have "user_row E u old \<in> set (t_user d')" by (simp add: update(6) set_replace_by)
  then show ?thesis using update(4) by (intro that [of "user_row E u old"]) simp_all
qed

lemma user_save_frame:
  assumes "user_save E u d = Ok (u', d')"
  shows "t_group d' = t_group d" "t_role d' = t_role d" "t_tenant d' = t_tenant d" "t_user_role d' = t_user_role d"
    "t_user_group d' = t_user_group d" "t_tenant_config d' = t_tenant_config d"
    "mu_ID ` set (t_user d) \<subseteq> mu_ID ` set (t_user d')"
  using assms by (cases rule: user_save_cases; auto simp: image_Un)+

lemma group_save_wf:
  assumes wf: "db_wf d" and save: "group_save E g d = Ok (g', d')"
    and ten: "\<And>old. old \<in> set (t_group d) \<Longrightarrow> mg_ID old = mg_ID g \<Longrightarrow> mg_TenantID old = mg_TenantID g"
  shows "db_wf d'"
  using save
proof (cases rule: group_save_cases)
  case (create q)
  have "groups_wf d'" using db_wf_groups [OF wf] create by (simp add: groups_wf_def tenant_exists_def)
  moreover have "members_wf d'" by (rule members_wf_mono [OF db_wf_members [OF wf]]) (auto simp: create(1))
  ultimately show ?thesis using wf by (simp add: db_wf_def create(1))
next
  case (update old)
  let ?row = "group_row E g old"
  have mem: "mg_ID ?row \<in> mg_ID ` set (t_group d)" using update(1,2) by (metis group_row_fields(1) imageI)
  have s: "set (t_group d') = insert ?row {y \<in> set (t_group d). mg_ID y \<noteq> mg_ID ?row}"
    unfolding update(6) by (simp add: set_replace_by [OF mem])
  have "groups_wf d'" using db_wf_groups [OF wf] update(5) s
    by (auto simp: groups_wf_def update(6) tenant_exists_def)
  moreover have "members_wf d'"
  proof (rule members_wf_mono [OF db_wf_members [OF wf]])
    fix v assume v: "v \<in> set (t_group d)"
    show "\<exists>w \<in> set (t_group d'). mg_ID w = mg_ID v \<and> mg_TenantID w = mg_TenantID v"
      using v ten [of v] unfolding s by (cases "mg_ID v = mg_ID g") auto
  qed (auto simp: update(6))
  ultimately show ?thesis using wf by (simp add: db_wf_def update(6))
qed

section \<open>Relations and settings keep it\<close>

lemma member_ok_frame [simp]: "member_ok (d\<lparr>t_user_group := x\<rparr>) r \<longleftrightarrow> member_ok d r"
  by (simp add: member_ok_def)

lemma user_role_save_Ok:
  assumes "user_role_save E r d = Ok d'"
  shows "r \<in> set (t_user_role d) \<and> d' = d \<or>
    r \<notin> set (t_user_role d) \<and> d' = d\<lparr>t_user_role := t_user_role d @ [r]\<rparr> \<and>
    mur_UserID r \<in> mu_ID ` set (t_user d) \<and> mur_RoleID r \<in> mr_ID ` set (t_role d)"
  using assms by (auto simp: user_role_save_def user_role_insert_def res_simps split: if_splits intro: rev_image_eqI)

lemma user_role_delete_Ok [res_simps]:
  "user_role_delete E uid d = Ok d' \<longleftrightarrow> e_fault E ''cdm_user_role.delete'' uid = None \<and>
     d' = d\<lparr>t_user_role := filter (\<lambda>r. mur_UserID r \<noteq> uid) (t_user_role d)\<rparr>"
  by (auto simp: user_role_delete_def res_simps)

lemma user_group_save_Ok:
  assumes "user_group_save E r d = Ok d'"
  shows "r \<in> set (t_user_group d) \<and> d' = d \<or>
    r \<notin> set (t_user_group d) \<and> d' = d\<lparr>t_user_group := t_user_group d @ [r]\<rparr>"
  using assms by (auto simp: user_group_save_def user_group_insert_def res_simps split: if_splits)

lemma user_group_delete_Ok [res_simps]:
  "user_group_delete E col i d = Ok d' \<longleftrightarrow> e_fault E ''cdm_user_group.delete'' i = None \<and>
     d' = d\<lparr>t_user_group := filter (\<lambda>r. col r \<noteq> i) (t_user_group d)\<rparr>"
  by (auto simp: user_group_delete_def res_simps)

lemma user_role_save_wf: "db_wf d \<Longrightarrow> user_role_save E r d = Ok d' \<Longrightarrow> db_wf d'"
  by (drule user_role_save_Ok) (auto simp: db_wf_def user_roles_wf_def)

lemma user_role_delete_wf: "db_wf d \<Longrightarrow> user_role_delete E uid d = Ok d' \<Longrightarrow> db_wf d'"
  by (auto simp: db_wf_def user_roles_wf_def res_simps)

lemma user_group_save_wf: "db_wf d \<Longrightarrow> user_group_save E r d = Ok d' \<Longrightarrow> member_ok d r \<Longrightarrow> db_wf d'"
  by (drule user_group_save_Ok) (auto simp: db_wf_def members_wf_def)

lemma user_group_delete_wf: "db_wf d \<Longrightarrow> user_group_delete E col i d = Ok d' \<Longrightarrow> db_wf d'"
  by (auto simp: db_wf_def members_wf_def res_simps)

lemma user_delete_Ok:
  assumes "user_delete E i i d = Ok d'"
  shows "d' = d\<lparr>t_user := filter (\<lambda>u. mu_ID u \<noteq> i) (t_user d)\<rparr> \<and>
    (\<forall>r \<in> set (t_user_role d). mur_UserID r \<noteq> i) \<and> (\<forall>r \<in> set (t_user_group d). mug_UserID r \<noteq> i) \<and>
    (\<forall>r \<in> set (t_user_receive_event d). mue_UserID r \<noteq> i)"
  using assms by (auto simp: user_delete_def res_simps)

lemma user_delete_wf:
  assumes wf: "db_wf d" and del: "user_delete E i i d = Ok d'"
  shows "db_wf d'"
proof -
  note d = user_delete_Ok [OF del]
  have "users_wf d'" using db_wf_users [OF wf] d
    by (auto simp: users_wf_def tenant_exists_def intro: distinct_map_filter)
  moreover have "user_roles_wf d'" using db_wf_user_roles [OF wf] d
    by (fastforce simp: user_roles_wf_def)
  moreover have "members_wf d'" using db_wf_members [OF wf] d
    by (fastforce simp: members_wf_def member_ok_def)
  ultimately show ?thesis using wf d by (simp add: db_wf_def logins_wf_def)
qed

lemma tenant_save_Ok:
  assumes "tenant_save E t d = Ok (t', d')"
  shows "(\<exists>q. d' = d\<lparr>t_tenant := t_tenant d @ [t'], seq_tenant := q\<rparr> \<and> mt_ID t' \<notin> mt_ID ` set (t_tenant d)) \<or>
    (\<exists>row. d' = d\<lparr>t_tenant := replace_by mt_ID row (t_tenant d)\<rparr> \<and> mt_ID row = mt_ID t \<and> mt_ID t' = mt_ID t \<and>
       mt_ID t \<in> mt_ID ` set (t_tenant d) \<and> mt_Name row = mt_Name t \<and> mt_UseFlag row = mt_UseFlag t \<and>
       mt_Remarks row = mt_Remarks t)"
proof -
  have create: "\<exists>q. d' = d\<lparr>t_tenant := t_tenant d @ [t'], seq_tenant := q\<rparr> \<and> mt_ID t' \<notin> mt_ID ` set (t_tenant d)"
    if c: "tenant_create E t d = Ok (t', d')"
  proof -
    from c obtain i q where "guardR (\<exists>y \<in> set (t_tenant d). mt_ID y = i) unique_violation
        (Ok (t\<lparr>mt_ID := i, mt_CreatedAt := e_now E, mt_UpdatedAt := e_now E\<rparr>, d\<lparr>t_tenant := t_tenant d @
           [t\<lparr>mt_ID := i, mt_CreatedAt := e_now E, mt_UpdatedAt := e_now E\<rparr>], seq_tenant := q\<rparr>)) = Ok (t', d')"
      unfolding tenant_create_def exec_Ok_iff bindR_Ok_iff Let_def by (auto split: prod.splits)
    then show ?thesis by (intro exI [of _ q]) (auto simp: res_simps)
  qed
  consider "mt_ID t = 0" | "mt_ID t \<noteq> 0" "first_by mt_ID (\<lambda>y. mt_ID y = mt_ID t) (t_tenant d) = None"
    | old where "mt_ID t \<noteq> 0" "first_by mt_ID (\<lambda>y. mt_ID y = mt_ID t) (t_tenant d) = Some old"
    by (cases "first_by mt_ID (\<lambda>y. mt_ID y = mt_ID t) (t_tenant d)") auto
  then show ?thesis
  proof cases
    case 1
    then show ?thesis using create assms by (simp add: tenant_save_def)
  next
    case 2
    then show ?thesis using create assms by (simp add: tenant_save_def exec_Ok_iff)
  next
    case (3 old)
    have "old \<in> set (t_tenant d)" "mt_ID old = mt_ID t" using first_by_SomeD [OF 3(2)] by simp_all
    then have mem: "mt_ID t \<in> mt_ID ` set (t_tenant d)" by (metis imageI)
    obtain row where row: "row = t\<lparr>mt_UpdatedAt := e_now E,
      mt_CreatedAt := (if mt_CreatedAt t = 0 then mt_CreatedAt old else mt_CreatedAt t)\<rparr>" by blast
    have eqs: "t\<lparr>mt_UpdatedAt := e_now E\<rparr> = t'" "d\<lparr>t_tenant := replace_by mt_ID row (t_tenant d)\<rparr> = d'"
      using 3 assms unfolding tenant_save_def Let_def row by (auto simp: exec_Ok_iff split: if_splits)
    have "mt_ID row = mt_ID t" "mt_Name row = mt_Name t" "mt_UseFlag row = mt_UseFlag t"
      "mt_Remarks row = mt_Remarks t" by (simp_all add: row)
    moreover have "mt_ID t' = mt_ID t" by (simp add: eqs(1) [symmetric])
    ultimately show ?thesis using mem eqs(2) [symmetric] by blast
  qed
qed

lemma tenant_save_ids:
  assumes "tenant_save E t d = Ok (t', d')"
  shows "mt_ID ` set (t_tenant d) \<subseteq> mt_ID ` set (t_tenant d')"
  using tenant_save_Ok [OF assms] by (elim disjE exE conjE) (auto simp: image_Un)

lemma tenant_exists_image: "tenant_exists d i \<longleftrightarrow> i \<in> mt_ID ` set (t_tenant d)"
  by (auto simp: tenant_exists_def)

lemma tenant_save_wf:
  assumes wf: "db_wf d" and save: "tenant_save E t d = Ok (t', d')"
  shows "db_wf d'"
proof -
  note ids = tenant_save_ids [OF save]
  have f: "t_user d' = t_user d" "t_group d' = t_group d" "t_role d' = t_role d"
    "t_user_role d' = t_user_role d" "t_user_group d' = t_user_group d"
    "t_tenant_config d' = t_tenant_config d" "t_tenant_solution d' = t_tenant_solution d"
    using tenant_save_Ok [OF save] by auto
  have "users_wf d'" using db_wf_users [OF wf] ids by (auto simp: users_wf_def f tenant_exists_image)
  moreover have "groups_wf d'" using db_wf_groups [OF wf] ids by (auto simp: groups_wf_def f tenant_exists_image)
  moreover have "tenants_wf d'" using db_wf_tenants [OF wf] tenant_save_Ok [OF save]
    by (elim disjE exE conjE) (simp_all add: tenants_wf_def)
  ultimately show ?thesis using wf
    by (simp add: db_wf_def f user_roles_wf_def members_wf_def member_ok_def logins_wf_def configs_wf_def)
qed

lemma tenant_solution_save_Ok:
  assumes "tenant_solution_save E r d = Ok d'"
  shows "r \<in> set (t_tenant_solution d) \<and> d' = d \<or>
    r \<notin> set (t_tenant_solution d) \<and> d' = d\<lparr>t_tenant_solution := t_tenant_solution d @ [r]\<rparr>"
  using assms by (auto simp: tenant_solution_save_def tenant_solution_insert_def res_simps split: if_splits)

lemma tenant_solution_save_wf: "db_wf d \<Longrightarrow> tenant_solution_save E r d = Ok d' \<Longrightarrow> db_wf d'"
  by (drule tenant_solution_save_Ok) (auto simp: db_wf_def configs_wf_def)

lemma tenant_solution_delete_Ok [res_simps]:
  "tenant_solution_delete E i d = Ok d' \<longleftrightarrow> e_fault E ''cdm_tenant_solution.delete'' i = None \<and>
     d' = d\<lparr>t_tenant_solution := filter (\<lambda>r. mts_TenantID r \<noteq> i) (t_tenant_solution d)\<rparr>"
  by (auto simp: tenant_solution_delete_def res_simps)

lemma tenant_solution_delete_wf: "db_wf d \<Longrightarrow> tenant_solution_delete E i d = Ok d' \<Longrightarrow> db_wf d'"
  by (auto simp: db_wf_def configs_wf_def res_simps)

lemma same_config_key: "same_config a b \<longleftrightarrow> cfg_key a = cfg_key b"
  by (simp add: same_config_def cfg_key_def)

lemma tenant_config_save_Ok:
  assumes "tenant_config_save E c d = Ok d'"
  shows "cfg_key c \<in> cfg_key ` set (t_tenant_config d) \<and>
      d' = d\<lparr>t_tenant_config := map (\<lambda>y. if cfg_key y = cfg_key c then c else y) (t_tenant_config d)\<rparr> \<or>
    cfg_key c \<notin> cfg_key ` set (t_tenant_config d) \<and> d' = d\<lparr>t_tenant_config := t_tenant_config d @ [c]\<rparr>"
proof (cases "\<exists>y \<in> set (t_tenant_config d). cfg_key y = cfg_key c")
  case True
  then show ?thesis using assms
    by (auto simp: tenant_config_save_def tenant_config_insert_def res_simps same_config_key split: if_splits
        intro: rev_image_eqI)
next
  case False
  then show ?thesis using assms
    by (auto simp: tenant_config_save_def tenant_config_insert_def res_simps same_config_key split: if_splits)
qed

lemma tenant_config_save_wf: "db_wf d \<Longrightarrow> tenant_config_save E c d = Ok d' \<Longrightarrow> db_wf d'"
proof -
  assume wf: "db_wf d" and save: "tenant_config_save E c d = Ok d'"
  have "map cfg_key (map (\<lambda>y. if cfg_key y = cfg_key c then c else y) (t_tenant_config d)) = map cfg_key (t_tenant_config d)"
    by simp
  with wf tenant_config_save_Ok [OF save] show ?thesis
    by (elim disjE conjE) (simp_all add: db_wf_def configs_wf_def del: map_map)
qed

end
