(* ===== verification/Store.thy ===== *)
theory Store
  imports Errors "HOL-Library.AList" "HOL-Library.Sublist" "HOL-Library.Char_ord" "HOL-Library.List_Lexorder"
begin

text \<open>
  \<open>common/store\<close>: the key-value store over etcd.  The interface \<open>store.Store\<close> is the locale
  \<open>kv_store\<close>, interpreted on the association lists that model the server's contents.  An expired lease
  removes a key between two calls (\<open>kv_expire\<close>), never inside one.
\<close>

section \<open>The contract of the store\<close>

locale kv_store =
  fixes lookup :: "'s \<Rightarrow> string \<Rightarrow> 'v option"
    and put :: "string \<Rightarrow> 'v \<Rightarrow> 's \<Rightarrow> 's"
    and del :: "string \<Rightarrow> 's \<Rightarrow> 's"
  assumes lookup_put: "lookup (put k v s) k' = (if k' = k then Some v else lookup s k')"
    and lookup_del: "lookup (del k s) k' = (if k' = k then None else lookup s k')"
begin

lemma put_overwrites: "lookup (put k v (put k w s)) = lookup (put k v s)"
  by (rule ext) (simp add: lookup_put)

lemma del_put: "lookup (put k v (del k s)) = lookup (put k v s)"
  by (rule ext) (simp add: lookup_put lookup_del)

lemma put_other: "k \<noteq> k' \<Longrightarrow> lookup (put k v s) k' = lookup s k'"
  by (simp add: lookup_put)

lemma del_gone: "lookup (del k s) k = None"
  by (simp add: lookup_del)

lemma del_other: "k \<noteq> k' \<Longrightarrow> lookup (del k s) k' = lookup s k'"
  by (simp add: lookup_del)

end

section \<open>etcd_store.go\<close>

definition kv_lookup :: "kv \<Rightarrow> string \<Rightarrow> (string \<times> int option) option" where
  "kv_lookup m k = map_of m k"

definition kv_put :: "string \<Rightarrow> string \<times> int option \<Rightarrow> kv \<Rightarrow> kv" where
  "kv_put k v m = AList.update k v m"

definition kv_del :: "string \<Rightarrow> kv \<Rightarrow> kv" where
  "kv_del k m = AList.delete k m"

interpretation etcd: kv_store kv_lookup kv_put kv_del
  by unfold_locales (simp_all add: kv_lookup_def kv_put_def kv_del_def update_conv delete_conv)

definition kv_fault :: "env \<Rightarrow> string \<Rightarrow> string \<Rightarrow> (goerr, 'a) res \<Rightarrow> (goerr, 'a) res" where
  "kv_fault E op k m = (case e_kv_fault E op k of Some c \<Rightarrow> Fail (PlainErr (''etcdserver: '' @ c)) | None \<Rightarrow> m)"

definition store_Get :: "env \<Rightarrow> kv \<Rightarrow> string \<Rightarrow> (goerr, string) res" where
  "store_Get E m key = kv_fault E ''get'' key
     (case kv_lookup m key of None \<Rightarrow> Fail ErrNotFoundKey | Some (v, _) \<Rightarrow> Ok v)"

text \<open>
  \<open>Put\<close> with a lifetime in nanoseconds (\<open>time.Duration\<close>): zero means none, otherwise a lease is
  granted for the whole seconds, truncated towards zero.
\<close>

definition ttl_seconds :: "int \<Rightarrow> int" where
  "ttl_seconds ns = (if ns < 0 then - ((- ns) div 10 ^ 9) else ns div 10 ^ 9)"

definition store_Put :: "env \<Rightarrow> kv \<Rightarrow> string \<Rightarrow> string \<Rightarrow> int \<Rightarrow> (goerr, kv) res" where
  "store_Put E m key v ttl =
     bindR (if ttl \<noteq> 0 then kv_fault E ''grant'' key (Ok (Some (ttl_seconds ttl))) else Ok None) (\<lambda>lease.
       kv_fault E ''put'' key (Ok (kv_put key (v, lease) m)))"

definition delete_prefix :: "string \<Rightarrow> kv \<Rightarrow> kv" where
  "delete_prefix p m = filter (\<lambda>(k, _). \<not> prefix p k) m"

definition store_Delete :: "env \<Rightarrow> kv \<Rightarrow> string \<Rightarrow> bool \<Rightarrow> (goerr, kv) res" where
  "store_Delete E m key withPrefix = kv_fault E ''delete'' key
     (Ok (if withPrefix then delete_prefix key m else kv_del key m))"

definition store_List :: "env \<Rightarrow> kv \<Rightarrow> string \<Rightarrow> (goerr, string list) res" where
  "store_List E m key = kv_fault E ''list'' key
     (let ks = sort (filter (prefix key) (map fst m)) in
      if ks = [] then Fail ErrNotFoundKey else Ok ks)"

text \<open>\<open>Transaction\<close>: the operations that the block collected are applied together, if it did not fail.\<close>

datatype kv_op = OpPut string string | OpDelete string bool

fun kv_apply :: "kv_op \<Rightarrow> kv \<Rightarrow> kv" where
  "kv_apply (OpPut k v) m = kv_put k (v, None) m"
| "kv_apply (OpDelete k withPrefix) m = (if withPrefix then delete_prefix k m else kv_del k m)"

definition store_Transaction :: "env \<Rightarrow> kv \<Rightarrow> (goerr, kv_op list) res \<Rightarrow> (goerr, kv) res" where
  "store_Transaction E m fc = bindR fc (\<lambda>ops. kv_fault E ''txn'' [] (Ok (fold kv_apply ops m)))"

text \<open>A lease that ran out.\<close>

definition kv_expire :: "string \<Rightarrow> kv \<Rightarrow> kv" where
  "kv_expire k m = (case kv_lookup m k of Some (_, Some _) \<Rightarrow> kv_del k m | _ \<Rightarrow> m)"

section \<open>Lemmas\<close>

lemma store_Get_Ok_iff [res_simps]:
  "store_Get E m key = Ok v \<longleftrightarrow> e_kv_fault E ''get'' key = None \<and> (\<exists>l. kv_lookup m key = Some (v, l))"
  by (auto simp: store_Get_def kv_fault_def split: option.splits)

lemma store_Put_Ok [res_simps]:
  "store_Put E m key v ttl = Ok m' \<longleftrightarrow>
     (ttl \<noteq> 0 \<longrightarrow> e_kv_fault E ''grant'' key = None) \<and> e_kv_fault E ''put'' key = None \<and>
     m' = kv_put key (v, if ttl = 0 then None else Some (ttl_seconds ttl)) m"
  by (auto simp: store_Put_def kv_fault_def split: option.splits)

lemma store_Delete_Ok [res_simps]:
  "store_Delete E m key False = Ok m' \<longleftrightarrow> e_kv_fault E ''delete'' key = None \<and> m' = kv_del key m"
  by (auto simp: store_Delete_def kv_fault_def split: option.splits)

lemma kv_lookup_expire: "kv_lookup (kv_expire k m) k' = Some x \<Longrightarrow> kv_lookup m k' = Some x"
  by (auto simp: kv_expire_def etcd.lookup_del split: option.splits if_splits)

lemma distinct_keys_update:
  "distinct (map fst m) \<Longrightarrow> distinct (map fst (kv_put k v m)) \<and> distinct (map fst (kv_del k m))"
  by (simp add: kv_put_def kv_del_def distinct_update distinct_delete)

lemma lookup_delete_prefix: "kv_lookup (delete_prefix p m) k = (if prefix p k then None else kv_lookup m k)"
  by (induction m) (auto simp: delete_prefix_def kv_lookup_def)

lemma kv_lookup_key: "kv_lookup m k \<noteq> None \<longleftrightarrow> k \<in> set (map fst m)"
  by (simp add: kv_lookup_def map_of_eq_None_iff)

lemma store_List_set:
  assumes "store_List E m key = Ok ks"
  shows "set ks = {k. prefix key k \<and> kv_lookup m k \<noteq> None}"
proof -
  have "ks = sort (filter (prefix key) (map fst m))"
    using assms by (auto simp: store_List_def kv_fault_def Let_def split: option.splits if_splits)
  then have "set ks = {k \<in> set (map fst m). prefix key k}" by (simp del: set_map)
  then show ?thesis unfolding kv_lookup_key by blast
qed

end
