(* ===== verification/Identity_Convert.thy ===== *)
theory Identity_Convert
  imports Schema Store
begin

text \<open>
  \<open>services/identity/handler\<close>: \<open>errors.go\<close>, \<open>common.go\<close> and \<open>util.go\<close>.  The service's errors and
  their status codes, the conversions between rows and messages (which go through JSON, field by
  field, so that a zero value and a nil pointer are one), role tests and password generation.
\<close>

section \<open>errors.go\<close>

definition errNotFoundUser :: goerr where
  "errNotFoundUser = errors_New ''not found user''"

definition errNotFoundTenant :: goerr where
  "errNotFoundTenant = errors_New ''not found tenant''"

definition errNotFoundGroup :: goerr where
  "errNotFoundGroup = errors_New ''not found group''"

definition errNotReusableOldPassword :: goerr where
  "errNotReusableOldPassword = errors_New ''not reusable old password''"

definition errCurrentPasswordMismatch :: goerr where
  "errCurrentPasswordMismatch = errors_New ''current password mismatch''"

definition errUndeletableUser :: goerr where
  "errUndeletableUser = errors_New ''undeletable user''"

definition errAlreadyDeletedGroup :: goerr where
  "errAlreadyDeletedGroup = errors_New ''already deleted group''"

definition errUndeletableGroup :: goerr where
  "errUndeletableGroup = errors_New ''undeletable group''"

definition errAlreadyLogin :: goerr where
  "errAlreadyLogin = errors_New ''already login account''"

definition errLoginRestricted :: goerr where
  "errLoginRestricted = errors_New ''account restrict''"

definition errIncorrectPassword :: goerr where
  "errIncorrectPassword = errors_New ''password mismatch''"

definition errUnknownSession :: goerr where
  "errUnknownSession = errors_New ''not found session''"

definition errExpiredSession :: goerr where
  "errExpiredSession = errors_New ''expired session''"

definition errUnverifiedSession :: goerr where
  "errUnverifiedSession = errors_New ''unverified session''"

definition errInvalidSession :: goerr where
  "errInvalidSession = errors_New ''invalid session''"

definition errNotfoundTenantConfig :: goerr where
  "errNotfoundTenantConfig = errors_New ''not found tenant config''"

definition errInvalidTenantConfig :: goerr where
  "errInvalidTenantConfig = errors_New ''invalid tenant config''"

definition errUnassignableRole :: goerr where
  "errUnassignableRole = errors_New ''unassignable role''"

definition notFoundUser :: "gval \<Rightarrow> goerr" where
  "notFoundUser v = errors_Wrap errNotFoundUser [(''id'', v)]"

definition notFoundTenant :: "u64 \<Rightarrow> goerr" where
  "notFoundTenant i = errors_Wrap errNotFoundTenant [(''id'', VU64 i)]"

definition notFoundGroup :: "u64 \<Rightarrow> goerr" where
  "notFoundGroup i = errors_Wrap errNotFoundGroup [(''id'', VU64 i)]"

definition currentPasswordMismatch :: goerr where
  "currentPasswordMismatch = errors_Wrap errCurrentPasswordMismatch []"

definition notReusableOldPassword :: goerr where
  "notReusableOldPassword = errors_Wrap errNotReusableOldPassword []"

definition alreadyDeletedGroup :: "u64 \<Rightarrow> goerr" where
  "alreadyDeletedGroup i = errors_Wrap errAlreadyDeletedGroup [(''group_id'', VU64 i)]"

definition incorrectPassword :: goerr where
  "incorrectPassword = errors_Wrap errIncorrectPassword []"

definition alreadyLogin :: "u64 \<Rightarrow> goerr" where
  "alreadyLogin i = errors_Wrap errAlreadyLogin [(''user_id'', VU64 i)]"

definition unknownSession :: "u64 \<Rightarrow> goerr" where
  "unknownSession i = errors_Wrap errUnknownSession [(''id'', VU64 i)]"

definition invalidSession :: "string \<Rightarrow> goerr" where
  "invalidSession session = errors_Wrap errInvalidSession [(''session'', VStr session)]"

definition expiredSession :: "string \<Rightarrow> goerr" where
  "expiredSession session = errors_Wrap errExpiredSession [(''session'', VStr session)]"

definition unverifiedSession :: "string \<Rightarrow> goerr \<Rightarrow> goerr" where
  "unverifiedSession session cause =
     errors_Wrap errUnverifiedSession [(''session'', VStr session), (''cause'', VCause (Some cause))]"

definition loginRestricted :: "string \<Rightarrow> u64 \<Rightarrow> int \<Rightarrow> int \<Rightarrow> goerr" where
  "loginRestricted account failedCount lastFailedAt until =
     errors_Wrap errLoginRestricted
       [(''account'', VStr account), (''failed_count'', VU64 failedCount),
        (''last_failed_at'', VInt lastFailedAt), (''until'', VInt until)]"

definition notfoundTenantConfig :: "string \<Rightarrow> goerr" where
  "notfoundTenantConfig key = errors_Wrap errNotfoundTenantConfig [(''key'', VStr key)]"

definition invalidTenantConfig :: "string \<Rightarrow> string \<Rightarrow> goerr" where
  "invalidTenantConfig key v = errors_Wrap errInvalidTenantConfig [(''key'', VStr key), (''value'', VStr v)]"

definition unassignableRole :: "string \<Rightarrow> goerr" where
  "unassignableRole role = errors_Wrap errUnassignableRole [(''role'', VStr role)]"

definition undeletableUser :: "u64 \<Rightarrow> goerr" where
  "undeletableUser i = errors_Wrap errUndeletableUser [(''user_id'', VU64 i)]"

definition undeletableGroup :: "u64 \<Rightarrow> goerr" where
  "undeletableGroup i = errors_Wrap errUndeletableGroup [(''group_id'', VU64 i)]"

lemmas identity_sentinel_defs =
  errNotFoundUser_def errNotFoundTenant_def errNotFoundGroup_def errNotReusableOldPassword_def
  errCurrentPasswordMismatch_def errUndeletableUser_def errAlreadyDeletedGroup_def
  errUndeletableGroup_def errAlreadyLogin_def errLoginRestricted_def errIncorrectPassword_def
  errUnknownSession_def errExpiredSession_def errUnverifiedSession_def errInvalidSession_def
  errNotfoundTenantConfig_def errInvalidTenantConfig_def errUnassignableRole_def

lemmas identity_error_defs =
  notFoundUser_def notFoundTenant_def notFoundGroup_def currentPasswordMismatch_def
  notReusableOldPassword_def alreadyDeletedGroup_def incorrectPassword_def alreadyLogin_def
  unknownSession_def invalidSession_def expiredSession_def unverifiedSession_def loginRestricted_def
  notfoundTenantConfig_def invalidTenantConfig_def unassignableRole_def undeletableUser_def
  undeletableGroup_def

section \<open>common.go: lengths of parameters\<close>

definition nameLength :: nat where
  "nameLength = 255"

definition solutionLength :: nat where
  "solutionLength = 30"

definition remarksLength :: nat where
  "remarksLength = 300"

definition roleLength :: nat where
  "roleLength = 30"

definition departmentLength :: nat where
  "departmentLength = 255"

definition positionLength :: nat where
  "positionLength = 255"

definition contactLength :: nat where
  "contactLength = 20"

definition timezoneLength :: nat where
  "timezoneLength = 35"

definition accountLength :: nat where
  "accountLength = 30"

definition emailLength :: nat where
  "emailLength = 320"

definition passwordLength :: nat where
  "passwordLength = 64"

lemmas length_defs =
  nameLength_def solutionLength_def remarksLength_def roleLength_def departmentLength_def
  positionLength_def contactLength_def timezoneLength_def accountLength_def emailLength_def
  passwordLength_def

text \<open>\<open>if utf8.RuneCountInString(v) > n { return LengthOverflowParameterValue(param, v, n) }\<close>\<close>

definition checkRunes :: "string \<Rightarrow> string \<Rightarrow> nat \<Rightarrow> (goerr, 'a) res \<Rightarrow> (goerr, 'a) res" where
  "checkRunes param v n k =
     guardR (n < RuneCountInString v) (LengthOverflowParameterValue param v (of_nat n)) k"

lemma checkRunes_Ok_iff [res_simps]: "checkRunes p v n k = Ok x \<longleftrightarrow> RuneCountInString v \<le> n \<and> k = Ok x"
  by (auto simp: checkRunes_def guardR_Ok_iff not_less)

section \<open>util.go\<close>

definition createError :: "env \<Rightarrow> ctx \<Rightarrow> string \<Rightarrow> goerr \<Rightarrow> sys \<Rightarrow> (goerr, 'a) res \<times> sys" where
  "createError E ctx eventCode err s =
     (let eq = errors_Equal (Some err) in
      if eq errNotFoundUser then StatusNotFound E ctx eventCode ''not_found_user'' (Some err) s
      else if eq errNotFoundTenant then StatusNotFound E ctx eventCode ''not_found_tenant'' (Some err) s
      else if eq errNotFoundGroup then StatusNotFound E ctx eventCode ''not_found_group'' (Some err) s
      else if eq errNotReusableOldPassword then StatusBadRequest E ctx eventCode ''not_reusable_old_password'' (Some err) s
      else if eq errCurrentPasswordMismatch then StatusBadRequest E ctx eventCode ''mismatch_password'' (Some err) s
      else if eq errUndeletableUser then StatusBadRequest E ctx eventCode ''undeletable_user'' (Some err) s
      else if eq errAlreadyDeletedGroup then StatusPreconditionFailed E ctx eventCode ''already_deleted'' (Some err) s
      else if eq errUndeletableGroup then StatusBadRequest E ctx eventCode ''undeletable_group'' (Some err) s
      else if eq errAlreadyLogin then StatusConflict E ctx eventCode ''already_login'' (Some err) s
      else if eq errLoginRestricted then StatusUnauthenticated E ctx eventCode ''login_restricted'' (Some err) s
      else if eq errIncorrectPassword then StatusUnauthenticated E ctx eventCode ''incorrect_password'' (Some err) s
      else if eq errUnknownSession then StatusNotFound E ctx eventCode ''unknown_session'' (Some err) s
      else if eq errExpiredSession then StatusUnauthenticated E ctx eventCode ''expired_session'' (Some err) s
      else if eq errUnverifiedSession then StatusUnauthenticated E ctx eventCode ''unverified_session'' (Some err) s
      else if eq errInvalidSession then StatusBadRequest E ctx eventCode ''invalid_session'' (Some err) s
      else if eq errNotfoundTenantConfig then StatusNotFound E ctx eventCode ''not_found_tenant_config'' (Some err) s
      else if eq errInvalidTenantConfig then StatusInternalServerError E ctx eventCode ''invalid_tenant_config'' (Some err) s
      else if eq errUnassignableRole then StatusBadRequest E ctx eventCode ''unassignable_role'' (Some err) s
      else CreateError E ctx eventCode err s)"

text \<open>
  \<open>generatePassword\<close>: ten attempts at \<open>password.Generate\<close> with one random length.  The last
  attempt's error is reported; sleeping between attempts is not observable.
\<close>

primrec generateLoop :: "(nat \<Rightarrow> string option) \<Rightarrow> nat \<Rightarrow> nat \<Rightarrow> (goerr, string) res" where
  "generateLoop gen i 0 = Fail (Unknown (Some (PlainErr ''password generate failed'')))"
| "generateLoop gen i (Suc n) =
     (case gen i of Some p \<Rightarrow> Ok p | None \<Rightarrow> generateLoop gen (Suc i) n)"

definition generatePassword :: "env \<Rightarrow> (goerr, string) res" where
  "generatePassword E =
     (let passwdLength = e_Intn E 10 + 6; per = passwdLength div 6
      in generateLoop (e_Generate E passwdLength per per) 0 10)"

definition encodePassword :: "env \<Rightarrow> string \<Rightarrow> string" where
  "encodePassword E password = HexEncode (e_sha256 E password)"

text \<open>
  JSON with \<open>omitempty\<close>: a zero field is omitted, so a pointer stays nil; a nil pointer reads as
  zero on the other side.
\<close>

definition ptr_str :: "string \<Rightarrow> string option" where
  "ptr_str s = (if s = [] then None else Some s)"

definition ptr_int :: "int \<Rightarrow> int option" where
  "ptr_int i = (if i = 0 then None else Some i)"

definition ptr_bool :: "bool \<Rightarrow> bool option" where
  "ptr_bool b = (if b then Some True else None)"

definition val_str :: "string option \<Rightarrow> string" where
  "val_str p = (case p of None \<Rightarrow> [] | Some s \<Rightarrow> s)"

definition val_int :: "int option \<Rightarrow> int" where
  "val_int p = (case p of None \<Rightarrow> 0 | Some i \<Rightarrow> i)"

definition val_bool :: "bool option \<Rightarrow> bool" where
  "val_bool p = (case p of None \<Rightarrow> False | Some b \<Rightarrow> b)"

lemma val_ptr [simp]:
  "val_str (ptr_str s) = s" "val_int (ptr_int i) = i" "val_bool (ptr_bool b) = b"
  by (simp_all add: val_str_def ptr_str_def val_int_def ptr_int_def val_bool_def ptr_bool_def)

definition userRspToModel :: "p_user \<Rightarrow> (goerr, m_user) res" where
  "userRspToModel u =
     (case pu_Tenant u of None \<Rightarrow> Panic
      | Some t \<Rightarrow> Ok \<lparr>mu_ID = pu_Id u, mu_TenantID = pt_Id t, mu_Account = pu_Account u, mu_Name = pu_Name u,
          mu_Department = ptr_str (pu_Department u), mu_Position = ptr_str (pu_Position u),
          mu_Email = ptr_str (pu_Email u), mu_Contact = ptr_str (pu_Contact u),
          mu_LanguageSet = ptr_str (pu_LanguageSet u), mu_Timezone = ptr_str (pu_Timezone u),
          mu_Password = [], mu_OldPassword = None, mu_PasswordUpdatedAt = ptr_int (pu_PasswordUpdatedAt u),
          mu_PasswordUpdateFlag = ptr_bool (pu_PasswordUpdateFlag u),
          mu_LastLoggedInAt = ptr_int (pu_LastLoggedInAt u), mu_LastLoggedInIP = None,
          mu_LastLoginFailedCount = None, mu_LastLoginFailedAt = None,
          mu_CreatedAt = pu_CreatedAt u, mu_UpdatedAt = pu_UpdatedAt u\<rparr>)"

definition userModelToRsp :: "m_user \<Rightarrow> p_user" where
  "userModelToRsp u =
     \<lparr>pu_Id = mu_ID u, pu_Tenant = None, pu_Account = mu_Account u, pu_Roles = [], pu_Groups = [],
      pu_Name = mu_Name u, pu_Department = val_str (mu_Department u), pu_Position = val_str (mu_Position u),
      pu_Email = val_str (mu_Email u), pu_Contact = val_str (mu_Contact u),
      pu_LanguageSet = val_str (mu_LanguageSet u), pu_Timezone = val_str (mu_Timezone u),
      pu_CreatedAt = mu_CreatedAt u, pu_LastLoggedInAt = val_int (mu_LastLoggedInAt u),
      pu_UpdatedAt = mu_UpdatedAt u, pu_PasswordUpdatedAt = val_int (mu_PasswordUpdatedAt u),
      pu_PasswordUpdateFlag = val_bool (mu_PasswordUpdateFlag u), pu_Session = None\<rparr>"

definition simpleUserModelToRsp :: "m_user \<Rightarrow> p_simple_user" where
  "simpleUserModelToRsp u =
     \<lparr>ps_Id = mu_ID u, ps_Tenant = None, ps_Account = mu_Account u, ps_Roles = [], ps_Groups = [],
      ps_Name = mu_Name u, ps_Department = val_str (mu_Department u), ps_Position = val_str (mu_Position u),
      ps_Email = val_str (mu_Email u), ps_Contact = val_str (mu_Contact u)\<rparr>"

definition roleModelToRsp :: "m_role \<Rightarrow> p_role" where
  "roleModelToRsp r = \<lparr>pr_Id = mr_ID r, pr_Solution = mr_Solution r, pr_Role = mr_Role r\<rparr>"

text \<open>The group message has unsigned times, the row signed ones: JSON numbers out of range are errors.\<close>

definition json_range_err :: goerr where
  "json_range_err = PlainErr ''json: cannot unmarshal number''"

definition groupRspToModel :: "p_group \<Rightarrow> (goerr, m_group) res" where
  "groupRspToModel g =
     (case pg_Tenant g of None \<Rightarrow> Panic
      | Some t \<Rightarrow>
          guardR (2 ^ 63 \<le> uint (pg_CreatedAt g) \<or> 2 ^ 63 \<le> uint (pg_UpdatedAt g)) json_range_err
            (Ok \<lparr>mg_ID = pg_Id g, mg_TenantID = pt_Id t, mg_Name = pg_Name g, mg_Remarks = ptr_str (pg_Remarks g),
                 mg_CreatedAt = uint (pg_CreatedAt g), mg_UpdatedAt = uint (pg_UpdatedAt g),
                 mg_DeletedFlag = False\<rparr>))"

definition groupModelToRsp :: "m_group \<Rightarrow> (goerr, p_group) res" where
  "groupModelToRsp g =
     guardR (mg_CreatedAt g < 0 \<or> mg_UpdatedAt g < 0) json_range_err
       (Ok \<lparr>pg_Id = mg_ID g, pg_Tenant = None, pg_Name = mg_Name g, pg_Remarks = val_str (mg_Remarks g),
            pg_CreatedAt = u64_of_int (mg_CreatedAt g), pg_UpdatedAt = u64_of_int (mg_UpdatedAt g)\<rparr>)"

definition solutionModelToRsp :: "m_tenant_solution \<Rightarrow> string" where
  "solutionModelToRsp r = mts_Solution r"

definition tenantModelToRsp :: "m_tenant \<Rightarrow> p_tenant" where
  "tenantModelToRsp t =
     \<lparr>pt_Id = mt_ID t, pt_Name = mt_Name t, pt_UseFlag = Some (mt_UseFlag t), pt_Solutions = [],
      pt_Remarks = val_str (mt_Remarks t), pt_CreatedAt = mt_CreatedAt t, pt_UpdatedAt = mt_UpdatedAt t\<rparr>"

definition tenantRspToModel :: "p_tenant \<Rightarrow> m_tenant" where
  "tenantRspToModel t =
     \<lparr>mt_ID = pt_Id t, mt_Name = pt_Name t, mt_Remarks = ptr_str (pt_Remarks t),
      mt_UseFlag = val_bool (pt_UseFlag t), mt_CreatedAt = pt_CreatedAt t, mt_UpdatedAt = pt_UpdatedAt t\<rparr>"

definition isAdmin :: "globals \<Rightarrow> p_role list \<Rightarrow> bool" where
  "isAdmin gl userRoles \<longleftrightarrow> (\<exists>r \<in> set userRoles. pr_Id r = gl_Admin gl)"

definition isManager :: "globals \<Rightarrow> p_role list \<Rightarrow> bool" where
  "isManager gl userRoles \<longleftrightarrow> (\<exists>r \<in> set userRoles. pr_Id r = gl_Manager gl)"

lemma createError_status:
  assumes "ipc_safe err"
  shows "status_result E ctx ev s (createError E ctx ev err s)"
  unfolding createError_def Let_def
  by (intro status_result_if status_intros CreateError_status [OF assms]) simp_all

lemma generateLoop_Ok_iff:
  "generateLoop gen i n = Ok p \<longleftrightarrow> (\<exists>j. i \<le> j \<and> j < i + n \<and> gen j = Some p \<and> (\<forall>k. i \<le> k \<and> k < j \<longrightarrow> gen k = None))"
proof (induction n arbitrary: i)
  case 0
  then show ?case by simp
next
  case (Suc n)
  show ?case
  proof (cases "gen i")
    case None
    have "(\<exists>j. i \<le> j \<and> j < i + Suc n \<and> gen j = Some p \<and> (\<forall>k. i \<le> k \<and> k < j \<longrightarrow> gen k = None))
      \<longleftrightarrow> (\<exists>j. Suc i \<le> j \<and> j < Suc i + n \<and> gen j = Some p \<and> (\<forall>k. Suc i \<le> k \<and> k < j \<longrightarrow> gen k = None))"
      using None by (metis Suc_leD Suc_leI add_Suc add_Suc_right le_neq_implies_less option.distinct(1))
    with None Suc.IH [of "Suc i"] show ?thesis by simp
  next
    case (Some q)
    then have "j = i" if "i \<le> j" "\<forall>k. i \<le> k \<and> k < j \<longrightarrow> gen k = None" for j
      using that by (metis le_neq_implies_less order_refl option.distinct(1))
    then have "(\<exists>j. i \<le> j \<and> j < i + Suc n \<and> gen j = Some p \<and> (\<forall>k. i \<le> k \<and> k < j \<longrightarrow> gen k = None))
      \<longleftrightarrow> gen i = Some p" by fastforce
    with Some show ?thesis by simp
  qed
qed

end
