(* ===== verification/Identity_Tenant.thy ===== *)
theory Identity_Tenant
  imports Identity_Convert
begin

text \<open>
  \<open>services/identity/handler/tenant.go\<close> and \<open>tenant_filter.go\<close>: listing, reading, adding, updating and
  (de)activating tenants.
\<close>

section \<open>Reading\<close>

definition validateTenantListGet :: "string \<Rightarrow> (goerr, unit) res" where
  "validateTenantListGet name = checkRunes ''name'' name nameLength (Ok ())"

text \<open>\<open>tenantNameFilter\<close> (and its likes) add one condition \<open>name LIKE '%...%'\<close> to the query.\<close>

definition like_contains :: "env \<Rightarrow> string \<Rightarrow> string \<Rightarrow> bool" where
  "like_contains E needle v = e_like E (''%'' @ needle @ ''%'') v"

definition tenantNameFilter_Apply :: "env \<Rightarrow> string \<Rightarrow> m_tenant list \<Rightarrow> m_tenant list" where
  "tenantNameFilter_Apply E name = filter (\<lambda>t. like_contains E name (mt_Name t))"

definition getTenants :: "env \<Rightarrow> db \<Rightarrow> string list \<Rightarrow> (goerr, p_tenant list) res" where
  "getTenants E d filters =
     bindR (orUnusable (db_Find E ''getTenants'' 0 (fold (tenantNameFilter_Apply E) filters (t_tenant d))))
       (\<lambda>tenants. Ok (map tenantModelToRsp tenants))"

text \<open>The solutions of a tenant, appended to its message (three times in the source).\<close>

definition tenant_solutions :: "env \<Rightarrow> db \<Rightarrow> u64 \<Rightarrow> (goerr, string list) res" where
  "tenant_solutions E d tid =
     bindR (orUnusable (db_Find E ''tenant solutions'' tid
        (filter (\<lambda>r. mts_TenantID r = tid) (t_tenant_solution d))))
       (\<lambda>solutions. Ok (map solutionModelToRsp solutions))"

definition tenant_first :: "env \<Rightarrow> db \<Rightarrow> u64 \<Rightarrow> (dberr, m_tenant) res" where
  "tenant_first E d i = db_First E ''cdm_tenant.first'' i (first_by mt_ID (\<lambda>t. mt_ID t = i) (t_tenant d))"

definition getTenant :: "env \<Rightarrow> db \<Rightarrow> u64 \<Rightarrow> (goerr, p_tenant) res" where
  "getTenant E d i =
     bindR (orNotFound (notFoundTenant i) (tenant_first E d i)) (\<lambda>tenant.
     bindR (tenant_solutions E d (mt_ID tenant)) (\<lambda>sols.
     Ok ((tenantModelToRsp tenant)\<lparr>pt_Solutions := sols\<rparr>)))"

section \<open>Adding and updating\<close>

definition solution_param :: "nat \<Rightarrow> string" where
  "solution_param idx = ''tenant.solutions['' @ Itoa (int idx) @ ''].solution''"

definition checkSolutions :: "string list \<Rightarrow> (goerr, unit) res" where
  "checkSolutions sols = checkAll (\<lambda>idx sol.
     guardR (sol = []) (RequiredParameter (solution_param idx))
       (checkRunes (solution_param idx) sol solutionLength (Ok ()))) 0 sols"

definition validateTenantAdd :: "p_tenant option \<Rightarrow> (goerr, unit) res" where
  "validateTenantAdd req =
     (case req of None \<Rightarrow> Fail (RequiredParameter ''tenant'')
      | Some t \<Rightarrow>
          guardR (pt_Id t \<noteq> 0) (InvalidParameterValue ''tenant.id'' (VU64 (pt_Id t)) ''unusable parameter'') (
          guardR (pt_Name t = []) (RequiredParameter ''tenant.name'') (
          checkRunes ''tenant.name'' (pt_Name t) nameLength (
          guardR (pt_UseFlag t = None) (RequiredParameter ''tenant.use_flag'') (
          guardR (pt_Solutions t = []) (RequiredParameter ''tenant.solutions'') (
          bindR (checkSolutions (pt_Solutions t)) (\<lambda>_.
          checkRunes ''tenant.remarks'' (pt_Remarks t) remarksLength (Ok ()))))))))"

definition save_solutions :: "env \<Rightarrow> u64 \<Rightarrow> string list \<Rightarrow> db \<Rightarrow> (goerr, db) res" where
  "save_solutions E tid sols d =
     orUnusable (foldR (\<lambda>sol. tenant_solution_save E \<lparr>mts_TenantID = tid, mts_Solution = sol\<rparr>) sols d)"

definition addTenant :: "env \<Rightarrow> p_tenant option \<Rightarrow> db \<Rightarrow> (goerr, p_tenant \<times> db) res" where
  "addTenant E req d =
     bindR (validateTenantAdd req) (\<lambda>_.
     case req of None \<Rightarrow> Panic
     | Some t \<Rightarrow>
         bindR (orUnusable (tenant_save E (tenantRspToModel t) d)) (\<lambda>(tenant, d1).
         bindR (save_solutions E (mt_ID tenant) (pt_Solutions t) d1) (\<lambda>d2.
         bindR (tenant_solutions E d2 (mt_ID tenant)) (\<lambda>sols.
         Ok ((tenantModelToRsp tenant)\<lparr>pt_Solutions := sols\<rparr>, d2)))))"

definition validateTenantUpdate :: "u64 \<Rightarrow> p_tenant option \<Rightarrow> (goerr, unit) res" where
  "validateTenantUpdate tenantId req =
     (case req of None \<Rightarrow> Fail (RequiredParameter ''tenant'')
      | Some t \<Rightarrow>
          guardR (tenantId \<noteq> pt_Id t) (UnchangeableParameter ''tenant.id'') (
          guardR (pt_Name t = []) (RequiredParameter ''tenant.name'') (
          checkRunes ''tenant.name'' (pt_Name t) nameLength (
          guardR (pt_Solutions t = []) (RequiredParameter ''tenant.solutions'') (
          bindR (checkSolutions (pt_Solutions t)) (\<lambda>_.
          checkRunes ''tenant.remarks'' (pt_Remarks t) remarksLength (Ok ())))))))"

text \<open>The stored remarks become a pointer to the given string, even to an empty one.\<close>

definition updateTenant :: "env \<Rightarrow> u64 \<Rightarrow> p_tenant option \<Rightarrow> db \<Rightarrow> (goerr, p_tenant \<times> db) res" where
  "updateTenant E i req d =
     bindR (validateTenantUpdate i req) (\<lambda>_.
     case req of None \<Rightarrow> Panic
     | Some t \<Rightarrow>
         bindR (orNotFound (notFoundTenant i) (tenant_first E d i)) (\<lambda>tenant.
         let tenant1 = tenant\<lparr>mt_Name := pt_Name t, mt_Remarks := Some (pt_Remarks t)\<rparr> in
         bindR (orUnusable (tenant_save E tenant1 d)) (\<lambda>(tenant2, d1).
         bindR (orUnusable (tenant_solution_delete E (mt_ID tenant2) d1)) (\<lambda>d2.
         bindR (save_solutions E (mt_ID tenant2) (pt_Solutions t) d2) (\<lambda>d3.
         bindR (tenant_solutions E d3 (mt_ID tenant2)) (\<lambda>sols.
         Ok ((tenantModelToRsp tenant2)\<lparr>pt_Solutions := sols\<rparr>, d3)))))))"

text \<open>\<open>activateTenant\<close> and \<open>deactivateTenant\<close> differ in the flag.\<close>

definition set_use_flag :: "bool \<Rightarrow> env \<Rightarrow> u64 \<Rightarrow> db \<Rightarrow> (goerr, p_tenant \<times> db) res" where
  "set_use_flag flag E i d =
     bindR (orNotFound (notFoundTenant i) (tenant_first E d i)) (\<lambda>tenant.
     bindR (orUnusable (tenant_save E (tenant\<lparr>mt_UseFlag := flag\<rparr>) d)) (\<lambda>(tenant1, d1).
     Ok (tenantModelToRsp tenant1, d1)))"

definition activateTenant :: "env \<Rightarrow> u64 \<Rightarrow> db \<Rightarrow> (goerr, p_tenant \<times> db) res" where
  "activateTenant = set_use_flag True"

definition deactivateTenant :: "env \<Rightarrow> u64 \<Rightarrow> db \<Rightarrow> (goerr, p_tenant \<times> db) res" where
  "deactivateTenant = set_use_flag False"

section \<open>Integrity\<close>

lemma save_solutions_wf: "db_wf d \<Longrightarrow> save_solutions E tid sols d = Ok d' \<Longrightarrow> db_wf d'"
  unfolding save_solutions_def orUnusable_Ok_iff
  by (erule foldR_invariant) (auto intro: tenant_solution_save_wf)

lemma addTenant_wf: "db_wf d \<Longrightarrow> addTenant E req d = Ok (x, d') \<Longrightarrow> db_wf d'"
  by (auto simp: addTenant_def res_simps intro: tenant_save_wf save_solutions_wf split: option.splits)

lemma updateTenant_wf: "db_wf d \<Longrightarrow> updateTenant E i req d = Ok (x, d') \<Longrightarrow> db_wf d'"
  by (auto simp: updateTenant_def Let_def bindR_Ok_iff orUnusable_Ok_iff orNotFound_Ok_iff split: option.splits)
     (meson tenant_save_wf save_solutions_wf tenant_solution_delete_wf)

lemma set_use_flag_wf: "db_wf d \<Longrightarrow> set_use_flag b E i d = Ok (x, d') \<Longrightarrow> db_wf d'"
  by (auto simp: set_use_flag_def res_simps intro: tenant_save_wf)

lemma getTenant_Ok:
  "getTenant E d i = Ok t \<Longrightarrow> pt_Id t = i \<and> tenant_exists d i"
  by (auto simp: getTenant_def tenant_first_def res_simps tenantModelToRsp_def tenant_exists_def
      dest!: first_by_SomeD)

end
