(* ===== verification/Identity_Group.thy ===== *)
theory Identity_Group
  imports Identity_Tenant
begin

text \<open>
  \<open>services/identity/handler/group.go\<close>, \<open>group_filter.go\<close>, \<open>role.go\<close> and \<open>role_filter.go\<close>: user groups
  of a tenant, their members, and the roles of the solutions.
\<close>

section \<open>Reading groups\<close>

definition validateGroupListGet :: "string \<Rightarrow> (goerr, unit) res" where
  "validateGroupListGet name = checkRunes ''group.name'' name nameLength (Ok ())"

definition groupNameFilter_Apply :: "env \<Rightarrow> string \<Rightarrow> m_group list \<Rightarrow> m_group list" where
  "groupNameFilter_Apply E name = filter (\<lambda>g. like_contains E name (mg_Name g))"

text \<open>The loops that convert rows to messages; a conversion error is reported as \<open>Unknown\<close>.\<close>

definition orUnknown :: "(goerr, 'a) res \<Rightarrow> (goerr, 'a) res" where
  "orUnknown = mapE (\<lambda>e. Unknown (Some e))"

definition groupsToRsp :: "p_tenant option \<Rightarrow> m_group list \<Rightarrow> (goerr, p_group list) res" where
  "groupsToRsp tenant = mapR (\<lambda>g. bindR (orUnknown (groupModelToRsp g)) (\<lambda>r. Ok (r\<lparr>pg_Tenant := tenant\<rparr>)))"

definition getGroups :: "env \<Rightarrow> db \<Rightarrow> u64 \<Rightarrow> string list \<Rightarrow> (goerr, p_group list) res" where
  "getGroups E d tenantID filters =
     bindR (getTenant E d tenantID) (\<lambda>tenant.
     bindR (orUnusable (db_Find E ''getGroups'' tenantID (fold (groupNameFilter_Apply E) filters
         (filter (\<lambda>g. mg_TenantID g = tenantID \<and> \<not> mg_DeletedFlag g) (t_group d)))))
       (groupsToRsp (Some tenant)))"

definition getGroup :: "env \<Rightarrow> db \<Rightarrow> u64 \<Rightarrow> u64 \<Rightarrow> (goerr, p_group) res" where
  "getGroup E d tenantID groupID =
     guardR (groupID = 0) (RequiredParameter ''group_id'') (
     bindR (orNotFound (notFoundGroup groupID) (db_First E ''getGroup'' groupID
        (first_by mg_ID (\<lambda>g. mg_ID g = groupID \<and> mg_TenantID g = tenantID \<and> \<not> mg_DeletedFlag g) (t_group d)))) (\<lambda>grp.
     bindR (getTenant E d tenantID) (\<lambda>tenant.
     bindR (orUnknown (groupModelToRsp grp)) (\<lambda>r.
     Ok (r\<lparr>pg_Tenant := Some tenant\<rparr>)))))"

section \<open>Adding and updating groups\<close>

definition tenant_id_missing :: "p_tenant option \<Rightarrow> bool" where
  "tenant_id_missing t = (case t of None \<Rightarrow> True | Some x \<Rightarrow> pt_Id x = 0)"

text \<open>\<open>x.Tenant.Id\<close>, used after the nil check.\<close>

definition tenant_id :: "p_tenant option \<Rightarrow> u64" where
  "tenant_id t = (case t of None \<Rightarrow> 0 | Some x \<Rightarrow> pt_Id x)"

definition validateGroupAdd :: "env \<Rightarrow> ctx \<Rightarrow> db \<Rightarrow> u64 \<Rightarrow> p_group option \<Rightarrow> (goerr, p_tenant) res" where
  "validateGroupAdd E ctx d tenantID req =
     (case req of None \<Rightarrow> Fail (RequiredParameter ''group'')
      | Some g \<Rightarrow>
          guardR (pg_Id g \<noteq> 0) (InvalidParameterValue ''group.id'' (VU64 (pg_Id g)) ''unusable parameter'') (
          guardR (tenant_id_missing (pg_Tenant g)) (RequiredParameter ''group.tenant.id'') (
          guardR (tenantID \<noteq> tenant_id (pg_Tenant g)) (UnauthorizedRequest E ctx) (
          guardR (pg_Name g = []) (RequiredParameter ''group.name'') (
          checkRunes ''group.name'' (pg_Name g) nameLength (
          bindR (mustBeAbsent (ConflictParameterValue ''group.name'' (VStr (pg_Name g)))
            (db_First E ''group.name'' tenantID (first_by mg_ID
               (\<lambda>y. mg_Name y = pg_Name g \<and> mg_TenantID y = tenant_id (pg_Tenant g) \<and> \<not> mg_DeletedFlag y) (t_group d)))) (\<lambda>_.
          checkRunes ''group.remarks'' (pg_Remarks g) remarksLength (
          getTenant E d tenantID))))))))"

definition addGroup :: "env \<Rightarrow> ctx \<Rightarrow> u64 \<Rightarrow> p_group option \<Rightarrow> db \<Rightarrow> (goerr, p_group \<times> db) res" where
  "addGroup E ctx tenantID req d =
     bindR (validateGroupAdd E ctx d tenantID req) (\<lambda>tenant.
     case req of None \<Rightarrow> Panic
     | Some g \<Rightarrow>
         bindR (orUnknown (groupRspToModel g)) (\<lambda>grp.
         bindR (orUnusable (group_save E grp d)) (\<lambda>(grp1, d1).
         bindR (orUnknown (groupModelToRsp grp1)) (\<lambda>r.
         Ok (r\<lparr>pg_Tenant := Some tenant\<rparr>, d1)))))"

definition validateUpdateGroup :: "env \<Rightarrow> db \<Rightarrow> u64 \<Rightarrow> u64 \<Rightarrow> p_group option \<Rightarrow> (goerr, unit) res" where
  "validateUpdateGroup E d tenantID groupId req =
     (case req of None \<Rightarrow> Fail (RequiredParameter ''group'')
      | Some g \<Rightarrow>
          guardR (tenant_id_missing (pg_Tenant g)) (RequiredParameter ''group.tenant.id'') (
          guardR (groupId \<noteq> pg_Id g) (UnchangeableParameter ''group.id'') (
          bindR (orNotFound (notFoundGroup (pg_Id g)) (db_First E ''validateUpdateGroup'' (pg_Id g)
            (first_by mg_ID (\<lambda>y. mg_ID y = pg_Id g \<and> mg_TenantID y = tenantID \<and> \<not> mg_DeletedFlag y) (t_group d)))) (\<lambda>t.
          guardR (tenant_id (pg_Tenant g) \<noteq> mg_TenantID t) (UnchangeableParameter ''group.tenant.id'') (
          guardR (pg_Name g = []) (RequiredParameter ''group.name'') (
          checkRunes ''group.name'' (pg_Name g) nameLength (
          bindR (mustBeAbsent (ConflictParameterValue ''group.name'' (VStr (pg_Name g)))
            (db_First E ''group.name'' tenantID (first_by mg_ID
               (\<lambda>y. mg_ID y \<noteq> pg_Id g \<and> mg_TenantID y = tenant_id (pg_Tenant g) \<and> mg_Name y = pg_Name g \<and> \<not> mg_DeletedFlag y)
               (t_group d)))) (\<lambda>_.
          checkRunes ''group.remarks'' (pg_Remarks g) remarksLength (Ok ())))))))))"

definition updateGroup :: "env \<Rightarrow> u64 \<Rightarrow> p_group option \<Rightarrow> db \<Rightarrow> (goerr, p_group \<times> db) res" where
  "updateGroup E tenantID req d =
     bindR (getTenant E d tenantID) (\<lambda>tenant.
     case req of None \<Rightarrow> Panic
     | Some g \<Rightarrow>
         bindR (orUnknown (groupRspToModel g)) (\<lambda>grp.
         bindR (orUnusable (group_save E grp d)) (\<lambda>(grp1, d1).
         bindR (orUnknown (groupModelToRsp grp1)) (\<lambda>r.
         Ok (r\<lparr>pg_Tenant := Some tenant\<rparr>, d1)))))"

section \<open>Deleting groups\<close>

definition group_first :: "env \<Rightarrow> db \<Rightarrow> u64 \<Rightarrow> (dberr, m_group) res" where
  "group_first E d i = db_First E ''cdm_group.first'' i (first_by mg_ID (\<lambda>g. mg_ID g = i) (t_group d))"

definition validDeleteGroup :: "env \<Rightarrow> ctx \<Rightarrow> db \<Rightarrow> u64 \<Rightarrow> u64 \<Rightarrow> (goerr, m_group) res" where
  "validDeleteGroup E ctx d tid gid =
     guardR (gid = 0) (RequiredParameter ''group_id'') (
     bindR (orNotFound (notFoundGroup gid) (group_first E d gid)) (\<lambda>grp.
     guardR (mg_Name grp = ''default'') (undeletableGroup gid) (
     guardR (mg_DeletedFlag grp) (alreadyDeletedGroup gid) (
     guardR (tid \<noteq> mg_TenantID grp) (UnauthorizedRequest E ctx) (
     Ok grp)))))"

definition deleteGroup :: "env \<Rightarrow> ctx \<Rightarrow> u64 \<Rightarrow> u64 \<Rightarrow> db \<Rightarrow> (goerr, db) res" where
  "deleteGroup E ctx tenantID groupID d =
     bindR (validDeleteGroup E ctx d tenantID groupID) (\<lambda>grp.
     bindR (orUnusable (user_group_delete E mug_GroupID groupID d)) (\<lambda>d1.
     bindR (orUnusable (group_save E (grp\<lparr>mg_DeletedFlag := True\<rparr>) d1)) (\<lambda>(_, d2).
     Ok d2)))"

section \<open>Members of a group\<close>

definition validateGroupUserSet ::
  "env \<Rightarrow> ctx \<Rightarrow> db \<Rightarrow> u64 \<Rightarrow> u64 \<Rightarrow> p_user list \<Rightarrow> (goerr, p_tenant) res" where
  "validateGroupUserSet E ctx d tenantID groupId users =
     guardR (groupId = 0) (RequiredParameter ''group_id'') (
     bindR (orNotFound (notFoundGroup groupId) (db_First E ''validateGroupUserSet'' groupId
        (first_by mg_ID (\<lambda>g. mg_ID g = groupId \<and> \<not> mg_DeletedFlag g) (t_group d)))) (\<lambda>grp.
     guardR (tenantID \<noteq> mg_TenantID grp) (UnauthorizedRequest E ctx) (
     bindR (checkAll (\<lambda>idx u.
        guardR (pu_Id u = 0) (RequiredParameter (''user['' @ Itoa (int idx) @ ''].id'')) (
        bindR (orNotFound (InvalidParameterValue (''users['' @ Itoa (int idx) @ ''].id'') (VU64 (pu_Id u)) ''user not found'')
          (db_First E ''group user'' (pu_Id u)
             (first_by mu_ID (\<lambda>y. mu_ID y = pu_Id u \<and> mu_TenantID y = mg_TenantID grp) (t_user d)))) (\<lambda>_.
        Ok ()))) 0 users) (\<lambda>_.
     getTenant E d tenantID))))"

definition user_first :: "env \<Rightarrow> db \<Rightarrow> u64 \<Rightarrow> (dberr, m_user) res" where
  "user_first E d i = db_First E ''cdm_user.first'' i (first_by mu_ID (\<lambda>u. mu_ID u = i) (t_user d))"

fun addMembers :: "env \<Rightarrow> p_tenant \<Rightarrow> u64 \<Rightarrow> p_user list \<Rightarrow> db \<Rightarrow> (goerr, p_user list \<times> db) res" where
  "addMembers E tenant groupId [] d = Ok ([], d)"
| "addMembers E tenant groupId (u # us) d =
     bindR (orUnusable (user_group_save E \<lparr>mug_UserID = pu_Id u, mug_GroupID = groupId\<rparr> d)) (\<lambda>d1.
     bindR (orUnusable (user_first E d1 (pu_Id u))) (\<lambda>user.
     bindR (addMembers E tenant groupId us d1) (\<lambda>(rs, d2).
     Ok ((userModelToRsp user)\<lparr>pu_Tenant := Some tenant\<rparr> # rs, d2))))"

definition setGroupUsers ::
  "env \<Rightarrow> ctx \<Rightarrow> u64 \<Rightarrow> u64 \<Rightarrow> p_user list \<Rightarrow> db \<Rightarrow> (goerr, p_user list \<times> db) res" where
  "setGroupUsers E ctx tenantID groupId users d =
     bindR (validateGroupUserSet E ctx d tenantID groupId users) (\<lambda>tenant.
     bindR (orUnusable (user_group_delete E mug_GroupID groupId d)) (\<lambda>d1.
     addMembers E tenant groupId users d1))"

section \<open>Roles\<close>

definition boundary_enum :: "string list \<Rightarrow> string \<Rightarrow> bool" where
  "boundary_enum vs s \<longleftrightarrow> s \<in> set vs"

definition roleBoundary :: "string list" where
  "roleBoundary = [''manager'', ''operator'', ''viewer'']"

definition validateRoleList :: "string \<Rightarrow> string \<Rightarrow> (goerr, unit) res" where
  "validateRoleList solution role =
     checkRunes ''solution'' solution solutionLength (
     guardR (role \<noteq> [] \<and> \<not> boundary_enum roleBoundary role)
       (UnavailableParameterValue ''role'' (VStr role) [''manager'', ''operator'', ''viewer'']) (Ok ()))"

text \<open>The three filters of the role list, applied in the order the handler gives them.\<close>

datatype roleFilter = TenantSolutionFilter u64 | RoleNameFilter string | SolutionNameFilter string

fun roleFilter_Apply :: "env \<Rightarrow> db \<Rightarrow> roleFilter \<Rightarrow> m_role list \<Rightarrow> (dberr, m_role list) res" where
  "roleFilter_Apply E d (TenantSolutionFilter tid) rs =
     bindR (db_Find E ''tenantSolutionFilter'' tid (filter (\<lambda>t. mts_TenantID t = tid) (t_tenant_solution d))) (\<lambda>ts.
     Ok (filter (\<lambda>r. mr_Solution r \<in> set (map mts_Solution ts)) rs))"
| "roleFilter_Apply E d (RoleNameFilter role) rs = Ok (filter (\<lambda>r. like_contains E role (mr_Role r)) rs)"
| "roleFilter_Apply E d (SolutionNameFilter sol) rs = Ok (filter (\<lambda>r. like_contains E sol (mr_Solution r)) rs)"

definition getRoles :: "env \<Rightarrow> db \<Rightarrow> roleFilter list \<Rightarrow> (goerr, p_role list) res" where
  "getRoles E d filters =
     bindR (orUnusable (foldR (roleFilter_Apply E d) filters (t_role d))) (\<lambda>rs.
     bindR (orUnusable (db_Find E ''getRoles'' 0 rs)) (\<lambda>roles.
     Ok (map roleModelToRsp roles)))"

section \<open>Integrity\<close>

lemma orUnknown_Ok_iff [res_simps]: "orUnknown m = Ok x \<longleftrightarrow> m = Ok x"
  by (simp add: orUnknown_def mapE_Ok_iff)

lemma groupRspToModel_Ok:
  "groupRspToModel g = Ok r \<Longrightarrow> mg_ID r = pg_Id g \<and> mg_TenantID r = tenant_id (pg_Tenant g) \<and>
     mg_Name r = pg_Name g \<and> mg_Remarks r = ptr_str (pg_Remarks g) \<and> \<not> mg_DeletedFlag r"
  by (auto simp: groupRspToModel_def tenant_id_def res_simps split: option.splits)

lemma first_by_key:
  assumes "distinct (map key rows)" "first_by key (\<lambda>y. key y = k \<and> P y) rows = Some r" "x \<in> set rows" "key x = k"
  shows "x = r"
  using assms first_by_SomeD [OF assms(2)] by (intro key_unique [OF assms(1)]) auto

text \<open>A group with a fresh id, and one whose tenant stays: both keep the integrity of memberships.\<close>

lemma addGroup_wf:
  assumes wf: "db_wf d" and add: "addGroup E ctx tid req d = Ok (x, d')"
  shows "db_wf d'"
proof -
  from add obtain t g grp grp1 where g: "validateGroupAdd E ctx d tid (Some g) = Ok t" "req = Some g"
    "groupRspToModel g = Ok grp" "group_save E grp d = Ok (grp1, d')"
    by (auto simp: addGroup_def bindR_Ok_iff orUnusable_Ok_iff orUnknown_Ok_iff split: option.splits)
  have "mg_ID grp = 0" using g(1) groupRspToModel_Ok [OF g(3)]
    by (auto simp: validateGroupAdd_def guardR_Ok_iff)
  show ?thesis using g(4)
  proof (cases rule: group_save_cases)
    case (update old)
    with \<open>mg_ID grp = 0\<close> show ?thesis by simp
  next
    case (create q)
    have "groups_wf d'" using db_wf_groups [OF wf] create by (simp add: groups_wf_def tenant_exists_def)
    moreover have "members_wf d'" by (rule members_wf_mono [OF db_wf_members [OF wf]]) (auto simp: create(1))
    ultimately show ?thesis using wf by (simp add: db_wf_def create(1))
  qed
qed

lemma updateGroup_wf:
  assumes wf: "db_wf d" and val: "validateUpdateGroup E d tid gid req = Ok ()"
    and upd: "updateGroup E tid req d = Ok (x, d')"
  shows "db_wf d'"
proof -
  from upd obtain g grp grp1 where g: "req = Some g" "groupRspToModel g = Ok grp" "group_save E grp d = Ok (grp1, d')"
    by (auto simp: updateGroup_def bindR_Ok_iff orUnusable_Ok_iff orUnknown_Ok_iff split: option.splits)
  from val g(1) obtain t where t: "first_by mg_ID (\<lambda>y. mg_ID y = pg_Id g \<and> mg_TenantID y = tid \<and> \<not> mg_DeletedFlag y) (t_group d) = Some t"
    "tenant_id (pg_Tenant g) = mg_TenantID t"
    by (auto simp: validateUpdateGroup_def res_simps)
  show ?thesis
  proof (rule group_save_wf [OF wf g(3)])
    fix old assume "old \<in> set (t_group d)" "mg_ID old = mg_ID grp"
    then have "old = t" using t(1) groupRspToModel_Ok [OF g(2)] db_wf_groups [OF wf]
      by (intro first_by_key [OF _ t(1)]) (auto simp: groups_wf_def)
    with t(2) groupRspToModel_Ok [OF g(2)] show "mg_TenantID old = mg_TenantID grp" by simp
  qed
qed

lemma deleteGroup_wf:
  assumes wf: "db_wf d" and del: "deleteGroup E ctx tid gid d = Ok d'"
  shows "db_wf d'"
proof -
  from del obtain grp d1 x where g: "validDeleteGroup E ctx d tid gid = Ok grp"
    "user_group_delete E mug_GroupID gid d = Ok d1" "group_save E (grp\<lparr>mg_DeletedFlag := True\<rparr>) d1 = Ok (x, d')"
    by (auto simp: deleteGroup_def bindR_Ok_iff orUnusable_Ok_iff)
  have grp: "first_by mg_ID (\<lambda>g. mg_ID g = gid) (t_group d) = Some grp"
    using g(1) by (auto simp: validDeleteGroup_def group_first_def res_simps)
  have d1: "t_group d1 = t_group d" using g(2) by (auto simp: res_simps)
  have "old = grp" if "old \<in> set (t_group d)" "mg_ID old = mg_ID grp" for old
    using that first_by_SomeD [OF grp] db_wf_groups [OF wf]
    by (intro key_unique [of mg_ID "t_group d"]) (auto simp: groups_wf_def)
  then show ?thesis
    using group_save_wf [OF user_group_delete_wf [OF wf g(2)] g(3)] d1 by auto
qed

lemma addMembers_wf:
  assumes "addMembers E tenant gid us d = Ok (rs, d')" "db_wf d"
    and "\<And>u. u \<in> set us \<Longrightarrow> member_ok d \<lparr>mug_UserID = pu_Id u, mug_GroupID = gid\<rparr>"
  shows "db_wf d'"
  using assms
proof (induction us arbitrary: d rs)
  case Nil
  then show ?case by simp
next
  case (Cons u us)
  from Cons.prems(1) obtain d1 rs1 where d1: "user_group_save E \<lparr>mug_UserID = pu_Id u, mug_GroupID = gid\<rparr> d = Ok d1"
    "addMembers E tenant gid us d1 = Ok (rs1, d')"
    by (auto simp: bindR_Ok_iff orUnusable_Ok_iff)
  have "member_ok d1 r = member_ok d r" for r
    using user_group_save_Ok [OF d1(1)] by auto
  with Cons.prems(2,3) show ?case
    by (intro Cons.IH [OF d1(2)]) (auto intro: user_group_save_wf [OF _ d1(1)])
qed

lemma validateGroupUserSet_Ok:
  assumes "validateGroupUserSet E ctx d tid gid users = Ok t"
  shows "\<exists>g \<in> set (t_group d). mg_ID g = gid \<and> \<not> mg_DeletedFlag g \<and> mg_TenantID g = tid \<and>
    (\<forall>u \<in> set users. \<exists>y \<in> set (t_user d). mu_ID y = pu_Id u \<and> mu_TenantID y = tid)"
proof -
  let ?check = "\<lambda>g idx u. guardR (pu_Id u = 0) (RequiredParameter (''user['' @ Itoa (int idx) @ ''].id'')) (
        bindR (orNotFound (InvalidParameterValue (''users['' @ Itoa (int idx) @ ''].id'') (VU64 (pu_Id u)) ''user not found'')
          (db_First E ''group user'' (pu_Id u)
             (first_by mu_ID (\<lambda>y. mu_ID y = pu_Id u \<and> mu_TenantID y = mg_TenantID g) (t_user d)))) (\<lambda>_. Ok ()))"
  from assms obtain g where g: "first_by mg_ID (\<lambda>g. mg_ID g = gid \<and> \<not> mg_DeletedFlag g) (t_group d) = Some g"
    "tid = mg_TenantID g" "checkAll (?check g) 0 users = Ok ()"
    unfolding validateGroupUserSet_def bindR_Ok_iff guardR_Ok_iff orNotFound_Ok_iff db_First_Ok_iff by auto
  have "\<exists>y \<in> set (t_user d). mu_ID y = pu_Id u \<and> mu_TenantID y = tid" if u: "u \<in> set users" for u
    using checkAll_each [OF g(3) u] g(2) by (auto simp: res_simps dest!: first_by_SomeD)
  with first_by_SomeD [OF g(1)] g(2) show ?thesis by blast
qed

lemma setGroupUsers_wf:
  assumes wf: "db_wf d" and set: "setGroupUsers E ctx tid gid users d = Ok (rs, d')"
  shows "db_wf d'"
proof -
  from set obtain t d1 where t: "validateGroupUserSet E ctx d tid gid users = Ok t"
    "user_group_delete E mug_GroupID gid d = Ok d1" "addMembers E t gid users d1 = Ok (rs, d')"
    by (auto simp: setGroupUsers_def bindR_Ok_iff orUnusable_Ok_iff)
  have same: "t_user d1 = t_user d" "t_group d1 = t_group d" using t(2) by (auto simp: res_simps)
  show ?thesis
  proof (rule addMembers_wf [OF t(3) user_group_delete_wf [OF wf t(2)]])
    fix u assume "u \<in> set users"
    then obtain g y where "g \<in> set (t_group d)" "mg_ID g = gid" "mg_TenantID g = tid"
      "y \<in> set (t_user d)" "mu_ID y = pu_Id u" "mu_TenantID y = tid"
      using validateGroupUserSet_Ok [OF t(1)] by blast
    then show "member_ok d1 \<lparr>mug_UserID = pu_Id u, mug_GroupID = gid\<rparr>"
      unfolding member_ok_def same by (intro bexI [of _ y] bexI [of _ g]) simp_all
  qed
qed

end
