(* ===== verification/Identity_Config.thy ===== *)
theory Identity_Config
  imports Identity_Group
begin

text \<open>
  \<open>services/identity/handler/config.go\<close>: the tenant's settings for passwords, sessions and login
  restriction, their bounds, and how they are written to and read from \<open>cdm_tenant_config\<close>.
\<close>

section \<open>Boundaries\<close>

record numericBoundary =
  nb_min :: u64
  nb_max :: u64

definition minMax :: "numericBoundary \<Rightarrow> u64 \<Rightarrow> bool" where
  "minMax b i \<longleftrightarrow> \<not> (i < nb_min b \<or> i > nb_max b)"

definition languageBoundary :: "string list" where
  "languageBoundary = [''eng'', ''kor'']"
definition userPasswordChangeCycleBoundary :: numericBoundary where
  "userPasswordChangeCycleBoundary = \<lparr>nb_min = 0, nb_max = 180\<rparr>"

definition userSessionTimeoutBoundary :: numericBoundary where
  "userSessionTimeoutBoundary = \<lparr>nb_min = 1, nb_max = 1440\<rparr>"

definition userLoginRestrictionTryCountBoundary :: numericBoundary where
  "userLoginRestrictionTryCountBoundary = \<lparr>nb_min = 5, nb_max = 30\<rparr>"

definition userLoginRestrictionTimeBoundary :: numericBoundary where
  "userLoginRestrictionTimeBoundary = \<lparr>nb_min = 10, nb_max = 7200\<rparr>"

lemmas boundary_defs = minMax_def boundary_enum_def languageBoundary_def userPasswordChangeCycleBoundary_def
  userSessionTimeoutBoundary_def userLoginRestrictionTryCountBoundary_def
  userLoginRestrictionTimeBoundary_def

section \<open>Keys (common/config)\<close>

definition GlobalTimeZone :: string where
  "GlobalTimeZone = ''global_timezone''"

definition GlobalLanguageSet :: string where
  "GlobalLanguageSet = ''global_language_set''"

definition UserLoginRestrictionEnable :: string where
  "UserLoginRestrictionEnable = ''user_login_restriction_enable''"

definition UserLoginRestrictionTryCount :: string where
  "UserLoginRestrictionTryCount = ''user_login_restriction_try_count''"

definition UserLoginRestrictionTime :: string where
  "UserLoginRestrictionTime = ''user_login_restriction_time''"

definition UserReuseOldPassword :: string where
  "UserReuseOldPassword = ''user_reuse_old_password''"

definition UserPasswordChangeCycle :: string where
  "UserPasswordChangeCycle = ''user_password_change_cycle''"

definition UserSessionTimeout :: string where
  "UserSessionTimeout = ''user_session_timeout''"

lemmas config_keys = GlobalTimeZone_def GlobalLanguageSet_def UserLoginRestrictionEnable_def
  UserLoginRestrictionTryCount_def UserLoginRestrictionTime_def UserReuseOldPassword_def
  UserPasswordChangeCycle_def UserSessionTimeout_def

section \<open>Validation\<close>

text \<open>The getters of a wrapper message return zero for a nil one.\<close>

definition get0 :: "'a::zero option \<Rightarrow> 'a" where
  "get0 p = (case p of None \<Rightarrow> 0 | Some v \<Rightarrow> v)"

definition checkRestriction :: "p_config \<Rightarrow> (goerr, unit) res" where
  "checkRestriction c =
     guardR (pc_UserLoginRestrictionTryCount c = None) (RequiredParameter ''user_login_restriction_try_count'') (
     guardR (pc_UserLoginRestrictionTime c = None) (RequiredParameter ''user_login_restriction_time'') (
     guardR (\<not> minMax userLoginRestrictionTryCountBoundary (get0 (pc_UserLoginRestrictionTryCount c)))
       (OutOfRangeParameterValue ''user_login_restriction_try_count''
          (VU64 (get0 (pc_UserLoginRestrictionTryCount c))) 5 30) (
     guardR (\<not> minMax userLoginRestrictionTimeBoundary (u64_of_int (get0 (pc_UserLoginRestrictionTime c))))
       (OutOfRangeParameterValue ''user_login_restriction_time''
          (VInt (get0 (pc_UserLoginRestrictionTime c))) 10 7200) (Ok ()))))"

definition validateConfig :: "env \<Rightarrow> p_config option \<Rightarrow> (goerr, unit) res" where
  "validateConfig E req =
     (case req of None \<Rightarrow> Fail (RequiredParameter ''identity_config'')
      | Some c \<Rightarrow>
          guardR (pc_GlobalTimezone c = None) (RequiredParameter ''global_timezone'') (
          guardR (pc_GlobalLanguageSet c = None) (RequiredParameter ''global_language_set'') (
          guardR (pc_UserReuseOldPassword c = None) (RequiredParameter ''user_reuse_old_password'') (
          guardR (pc_UserPasswordChangeCycle c = None) (RequiredParameter ''user_password_change_cycle'') (
          guardR (pc_UserSessionTimeout c = None) (RequiredParameter ''user_session_timeout'') (
          guardR (pc_UserLoginRestrictionEnable c = None) (RequiredParameter ''user_login_restriction_enable'') (
          guardR (\<not> e_LoadLocation E (val_str (pc_GlobalTimezone c)))
            (UnavailableParameterValue ''global_timezone'' (VStr (val_str (pc_GlobalTimezone c)))
               [''https://en.wikipedia.org/wiki/List_of_tz_database_time_zones'']) (
          guardR (\<not> boundary_enum languageBoundary (val_str (pc_GlobalLanguageSet c)))
            (UnavailableParameterValue ''global_language_set'' (VStr (val_str (pc_GlobalLanguageSet c))) [''kor'', ''eng'']) (
          guardR (\<not> minMax userPasswordChangeCycleBoundary (get0 (pc_UserPasswordChangeCycle c)))
            (OutOfRangeParameterValue ''user_password_change_cycle'' (VU64 (get0 (pc_UserPasswordChangeCycle c))) 0 180) (
          guardR (\<not> minMax userSessionTimeoutBoundary (get0 (pc_UserSessionTimeout c)))
            (OutOfRangeParameterValue ''user_session_timeout'' (VU64 (get0 (pc_UserSessionTimeout c))) 1 1440) (
          if val_bool (pc_UserLoginRestrictionEnable c) then checkRestriction c else Ok ())))))))))))"

section \<open>Reading\<close>

text \<open>One setting: a missing row and an unparsable value are different errors.\<close>

definition read_cfg ::
  "env \<Rightarrow> db \<Rightarrow> u64 \<Rightarrow> string \<Rightarrow> (string \<Rightarrow> (goerr, 'a) res) \<Rightarrow> (goerr, 'a) res" where
  "read_cfg E d tenantID key parse =
     (case TenantConfig E d tenantID key of
        None \<Rightarrow> Fail (notfoundTenantConfig key)
      | Some v \<Rightarrow> mapE (\<lambda>_. invalidTenantConfig key v) (parse v))"

definition getConfig :: "env \<Rightarrow> db \<Rightarrow> u64 \<Rightarrow> (goerr, p_config) res" where
  "getConfig E d tenantID =
     bindR (read_cfg E d tenantID GlobalLanguageSet Ok) (\<lambda>lang.
     bindR (read_cfg E d tenantID GlobalTimeZone Ok) (\<lambda>tz.
     bindR (read_cfg E d tenantID UserPasswordChangeCycle Value_Uint64) (\<lambda>cycle.
     bindR (read_cfg E d tenantID UserReuseOldPassword Value_Bool) (\<lambda>reuse.
     bindR (read_cfg E d tenantID UserSessionTimeout Value_Uint64) (\<lambda>timeout.
     bindR (read_cfg E d tenantID UserLoginRestrictionEnable Value_Bool) (\<lambda>enable.
     let cfg = \<lparr>pc_GlobalTimezone = Some tz, pc_GlobalLanguageSet = Some lang,
                pc_UserLoginRestrictionEnable = Some enable, pc_UserLoginRestrictionTryCount = None,
                pc_UserLoginRestrictionTime = None, pc_UserReuseOldPassword = Some reuse,
                pc_UserPasswordChangeCycle = Some cycle, pc_UserSessionTimeout = Some timeout\<rparr> in
     if enable then
       bindR (read_cfg E d tenantID UserLoginRestrictionTryCount Value_Uint64) (\<lambda>count.
       bindR (read_cfg E d tenantID UserLoginRestrictionTime Value_Int64) (\<lambda>time.
       Ok (cfg\<lparr>pc_UserLoginRestrictionTryCount := Some count, pc_UserLoginRestrictionTime := Some time\<rparr>)))
     else Ok cfg))))))"

section \<open>Writing\<close>

text \<open>The rows that \<open>setConfig\<close> saves, in its order; \<open>strconv.Itoa(int(x))\<close> goes through \<open>int\<close>.\<close>

definition config_rows :: "p_config \<Rightarrow> (string \<times> string) list" where
  "config_rows c =
     [(GlobalLanguageSet, val_str (pc_GlobalLanguageSet c)),
      (GlobalTimeZone, val_str (pc_GlobalTimezone c)),
      (UserPasswordChangeCycle, Itoa (int_of_u64 (get0 (pc_UserPasswordChangeCycle c)))),
      (UserReuseOldPassword, FormatBool (val_bool (pc_UserReuseOldPassword c))),
      (UserSessionTimeout, Itoa (int_of_u64 (get0 (pc_UserSessionTimeout c)))),
      (UserLoginRestrictionEnable, FormatBool (val_bool (pc_UserLoginRestrictionEnable c)))] @
     (if val_bool (pc_UserLoginRestrictionEnable c)
      then [(UserLoginRestrictionTryCount, Itoa (int_of_u64 (get0 (pc_UserLoginRestrictionTryCount c)))),
            (UserLoginRestrictionTime, Itoa (get0 (pc_UserLoginRestrictionTime c)))]
      else [])"

definition setConfig :: "env \<Rightarrow> u64 \<Rightarrow> p_config option \<Rightarrow> db \<Rightarrow> (goerr, db) res" where
  "setConfig E tenantID req d =
     bindR (validateConfig E req) (\<lambda>_.
     case req of None \<Rightarrow> Panic
     | Some c \<Rightarrow>
         orUnusable (foldR (\<lambda>(k, v). tenant_config_save E \<lparr>mtc_TenantID = tenantID, mtc_Key = k, mtc_Value = v\<rparr>)
           (config_rows c) d))"

section \<open>Integrity\<close>

lemma setConfig_wf: "db_wf d \<Longrightarrow> setConfig E tid req d = Ok d' \<Longrightarrow> db_wf d'"
proof -
  assume wf: "db_wf d" and set: "setConfig E tid req d = Ok d'"
  from set obtain c where "foldR (\<lambda>(k, v). tenant_config_save E \<lparr>mtc_TenantID = tid, mtc_Key = k, mtc_Value = v\<rparr>)
      (config_rows c) d = Ok d'"
    by (auto simp: setConfig_def bindR_Ok_iff orUnusable_Ok_iff split: option.splits)
  then show ?thesis using wf by (rule foldR_invariant) (auto intro: tenant_config_save_wf split: prod.splits)
qed

end
