(* ===== verification/Identity_Session.thy ===== *)
theory Identity_Session
  imports Identity_Config
begin

text \<open>
  \<open>services/identity/handler/session.go\<close>: sessions signed with RSA-PSS and kept in the store under the
  user's id, login with its restriction after repeated failures, and the checks of a presented key.
\<close>

section \<open>Payloads and keys\<close>

definition storeKeyPrefix :: string where
  "storeKeyPrefix = ''cdm.cloud.user.sessions''"

definition defaultUserSessionTimeout :: int where
  "defaultUserSessionTimeout = 30"

definition defaultUserPasswordChangeCycle :: int where
  "defaultUserPasswordChangeCycle = 90"

definition storeKey :: "u64 \<Rightarrow> string" where
  "storeKey userID = storeKeyPrefix @ ''.'' @ FormatUint userID"

definition generatePayload :: "env \<Rightarrow> ctx \<Rightarrow> u64 \<Rightarrow> u64 \<Rightarrow> int \<Rightarrow> session_payload" where
  "generatePayload E ctx userID magicNumber timeout =
     \<lparr>sp_ID = userID, sp_CreateDate = e_now E,
      sp_ExpiryDate = wrap64 (e_now E + wrap64 (timeout * 60)), sp_MagicNumber = magicNumber,
      sp_ClientIP = (case GetClientIP ctx of Ok ip \<Rightarrow> ip | _ \<Rightarrow> [])\<rparr>"

definition generateSessionKey :: "env \<Rightarrow> session_payload \<Rightarrow> (goerr, string) res" where
  "generateSessionKey E payload =
     (let b = e_MarshalPayload E payload; hashed = e_sha256 E b in
      case e_SignPSS E hashed of
        None \<Rightarrow> Fail (Unknown (Some (PlainErr ''crypto/rsa: sign'')))
      | Some sig \<Rightarrow> Ok (Base64Encode b @ ''.'' @ Base64Encode sig))"

text \<open>The session lifetime in minutes: the tenant's setting, or the default if absent or unparsable.\<close>

definition session_timeout :: "env \<Rightarrow> db \<Rightarrow> u64 \<Rightarrow> int" where
  "session_timeout E d tenantID =
     (case TenantConfig E d tenantID UserSessionTimeout of
        None \<Rightarrow> defaultUserSessionTimeout
      | Some v \<Rightarrow> (case Value_Int64 v of Ok t \<Rightarrow> t | _ \<Rightarrow> defaultUserSessionTimeout))"

text \<open>\<open>time.Duration(timeout) * time.Minute\<close>, in wrapping nanoseconds.\<close>

definition minutes :: "int \<Rightarrow> int" where
  "minutes t = wrap64 (t * (60 * 10 ^ 9))"

definition orUnusableStore :: "(goerr, 'a) res \<Rightarrow> (goerr, 'a) res" where
  "orUnusableStore = mapE (\<lambda>e. UnusableStore (Some e))"

text \<open>Sign a payload and put it in the store: the end of \<open>newSession\<close> and all of \<open>updateSession\<close>.\<close>

definition issueSession ::
  "env \<Rightarrow> ctx \<Rightarrow> db \<Rightarrow> u64 \<Rightarrow> u64 \<Rightarrow> u64 \<Rightarrow> kv \<Rightarrow> (goerr, string \<times> kv) res" where
  "issueSession E ctx d tenantID userID magicNumber m =
     (let timeout = session_timeout E d tenantID in
      bindR (generateSessionKey E (generatePayload E ctx userID magicNumber timeout)) (\<lambda>sessionKey.
      bindR (orUnusableStore (store_Put E m (storeKey userID) sessionKey (minutes timeout))) (\<lambda>m1.
      Ok (sessionKey, m1))))"

text \<open>
  \<open>newSession\<close> returns the store with the result, since a key that was deleted to force a login
  stays deleted when a later step fails.
\<close>

definition newSession ::
  "env \<Rightarrow> ctx \<Rightarrow> db \<Rightarrow> u64 \<Rightarrow> u64 \<Rightarrow> bool \<Rightarrow> kv \<Rightarrow> (goerr, string) res \<times> kv" where
  "newSession E ctx d tenantID userID force m =
     (let issue = (\<lambda>m1. case issueSession E ctx d tenantID userID (e_Uint64 E) m1 of
                          Ok (k, m2) \<Rightarrow> (Ok k, m2) | Fail e \<Rightarrow> (Fail e, m1) | Panic \<Rightarrow> (Panic, m1)) in
      case store_Get E m (storeKey userID) of
        Ok _ \<Rightarrow>
          (if force then
             (case store_Delete E m (storeKey userID) False of
                Ok m1 \<Rightarrow> issue m1
              | Fail e \<Rightarrow> (Fail (UnusableStore (Some e)), m)
              | Panic \<Rightarrow> (Panic, m))
           else (Fail (alreadyLogin userID), m))
      | Fail e \<Rightarrow> (if e = ErrNotFoundKey then issue m else (Fail (UnusableStore (Some e)), m))
      | Panic \<Rightarrow> (Panic, m))"

definition updateSession ::
  "env \<Rightarrow> ctx \<Rightarrow> db \<Rightarrow> u64 \<Rightarrow> u64 \<Rightarrow> u64 \<Rightarrow> kv \<Rightarrow> (goerr, string \<times> kv) res" where
  "updateSession E ctx d userID tenantID magicNumber m = issueSession E ctx d tenantID userID magicNumber m"

section \<open>Presented keys\<close>

definition validateSession :: "string \<Rightarrow> (goerr, string \<times> string) res" where
  "validateSession session =
     (case SplitChar (CHR ''.'') session of
        [a, b] \<Rightarrow>
          (case (Base64Decode a, Base64Decode b) of
             (Some p, Some sig) \<Rightarrow> Ok (p, sig)
           | _ \<Rightarrow> Fail (invalidSession session))
      | _ \<Rightarrow> Fail (invalidSession session))"

text \<open>
  \<open>json.Unmarshal\<close> into a \<open>*SessionPayload\<close>: an error, or the pointer, which the JSON literal
  \<open>null\<close> leaves nil; using a nil one panics.  Into a struct, \<open>null\<close> leaves the zero value.
\<close>

definition unmarshalPtr :: "env \<Rightarrow> string \<Rightarrow> (goerr, session_payload) res" where
  "unmarshalPtr E p =
     (case e_UnmarshalPayload E p of
        None \<Rightarrow> Fail (Unknown (Some (PlainErr ''json: payload'')))
      | Some None \<Rightarrow> Panic
      | Some (Some x) \<Rightarrow> Ok x)"

definition zero_payload :: session_payload where
  "zero_payload = \<lparr>sp_ID = 0, sp_CreateDate = 0, sp_ExpiryDate = 0, sp_MagicNumber = 0, sp_ClientIP = []\<rparr>"

definition unmarshalStruct :: "env \<Rightarrow> string \<Rightarrow> (goerr, session_payload) res" where
  "unmarshalStruct E p =
     (case e_UnmarshalPayload E p of
        None \<Rightarrow> Fail (Unknown (Some (PlainErr ''json: payload'')))
      | Some None \<Rightarrow> Ok zero_payload
      | Some (Some x) \<Rightarrow> Ok x)"

definition validateDeleteSession :: "env \<Rightarrow> p_user \<Rightarrow> string \<Rightarrow> (goerr, u64) res" where
  "validateDeleteSession E reqUser session =
     bindR (validateSession session) (\<lambda>(p, _).
     bindR (unmarshalPtr E p) (\<lambda>payload.
     guardR (pu_Id reqUser \<noteq> sp_ID payload) (InvalidParameterValue ''session'' (VStr session) ''unknown session'') (
     Ok (sp_ID payload))))"

text \<open>A nil payload panics here too, in the guard or in the query.\<close>

definition validateRevokeSession :: "env \<Rightarrow> globals \<Rightarrow> db \<Rightarrow> p_user \<Rightarrow> u64 \<Rightarrow> string \<Rightarrow> (goerr, u64) res" where
  "validateRevokeSession E gl d reqUser tid session =
     bindR (validateSession session) (\<lambda>(p, _).
     bindR (unmarshalPtr E p) (\<lambda>payload.
     guardR (\<not> isAdmin gl (pu_Roles reqUser) \<and> gl_adminUser gl = sp_ID payload)
       (InvalidParameterValue ''session'' (VStr session) ''invalid session'') (
     bindR (orNotFound (InvalidParameterValue ''session'' (VStr session) ''invalid session'')
        (db_First E ''validateRevokeSession'' (sp_ID payload)
           (first_by mu_ID (\<lambda>u. mu_ID u = sp_ID payload \<and> mu_TenantID u = tid) (t_user d)))) (\<lambda>_.
     Ok (sp_ID payload)))))"

definition deleteSession :: "env \<Rightarrow> u64 \<Rightarrow> kv \<Rightarrow> (goerr, kv) res" where
  "deleteSession E i m =
     (case store_Get E m (storeKey i) of
        Ok _ \<Rightarrow> orUnusableStore (store_Delete E m (storeKey i) False)
      | Fail e \<Rightarrow> Fail (if e = ErrNotFoundKey then unknownSession i else UnusableStore (Some e))
      | Panic \<Rightarrow> Panic)"

definition verifySession :: "env \<Rightarrow> ctx \<Rightarrow> kv \<Rightarrow> string \<Rightarrow> (goerr, session_payload) res" where
  "verifySession E ctx m session =
     bindR (mapE (\<lambda>_. UnauthenticatedRequest ctx) (validateSession session)) (\<lambda>(p, sig).
     guardR (\<not> e_VerifyPSS E (e_sha256 E p) sig)
       (unverifiedSession session (PlainErr ''crypto/rsa: verification error'')) (
     bindR (unmarshalPtr E p) (\<lambda>reqPayload.
     bindR (mapE (\<lambda>e. if e = ErrNotFoundKey then UnauthenticatedRequest ctx else UnusableStore (Some e))
        (store_Get E m (storeKey (sp_ID reqPayload)))) (\<lambda>v.
     bindR (orUnknown (validateSession v)) (\<lambda>(p', _).
     bindR (unmarshalStruct E p') (\<lambda>storedPayload.
     bindR (mapE (\<lambda>_. InvalidRequest ctx) (GetClientIP ctx)) (\<lambda>ip.
     guardR (ip \<noteq> sp_ClientIP storedPayload \<or> sp_MagicNumber reqPayload \<noteq> sp_MagicNumber storedPayload)
       (UnauthenticatedRequest ctx) (
     guardR (sp_ExpiryDate reqPayload < e_now E) (expiredSession session) (
     Ok reqPayload)))))))))"

definition getSession :: "env \<Rightarrow> kv \<Rightarrow> u64 \<Rightarrow> (goerr, string option) res" where
  "getSession E m userID =
     (case store_Get E m (storeKey userID) of
        Ok k \<Rightarrow> Ok (Some k)
      | Fail e \<Rightarrow> if e = ErrNotFoundKey then Ok None else Fail (UnusableStore (Some e))
      | Panic \<Rightarrow> Panic)"

section \<open>Login\<close>

text \<open>A required setting of the login restriction; a missing row is reported as a database error.\<close>

definition restriction_cfg ::
  "env \<Rightarrow> db \<Rightarrow> u64 \<Rightarrow> string \<Rightarrow> (string \<Rightarrow> (goerr, 'a) res) \<Rightarrow> (goerr, 'a) res" where
  "restriction_cfg E d tenantID key parse =
     (case TenantConfig E d tenantID key of
        None \<Rightarrow> Fail (UnusableDatabase None)
      | Some v \<Rightarrow> orUnknown (parse v))"

definition checkLoginRestricted :: "env \<Rightarrow> db \<Rightarrow> m_user \<Rightarrow> (goerr, unit) res" where
  "checkLoginRestricted E d user =
     (case mu_LastLoginFailedCount user of None \<Rightarrow> Ok ()
      | Some failedCount \<Rightarrow>
        if failedCount = 0 then Ok ()
        else
          bindR (restriction_cfg E d (mu_TenantID user) UserLoginRestrictionEnable Value_Bool) (\<lambda>enable.
          if \<not> enable then Ok ()
          else
            bindR (restriction_cfg E d (mu_TenantID user) UserLoginRestrictionTryCount Value_Uint64) (\<lambda>tryCount.
            bindR (restriction_cfg E d (mu_TenantID user) UserLoginRestrictionTime Value_Int64) (\<lambda>restrictionTime.
            if tryCount = 0 then Ok ()
            else if failedCount mod tryCount = 0 then
              (case mu_LastLoginFailedAt user of None \<Rightarrow> Panic
               | Some failedAt \<Rightarrow>
                   guardR (wrap64 (failedAt + restrictionTime) > e_now E)
                     (loginRestricted (mu_Account user) failedCount failedAt (wrap64 (failedAt + restrictionTime)))
                     (Ok ()))
            else Ok ()))))"

definition user_by_account :: "env \<Rightarrow> string \<Rightarrow> db \<Rightarrow> string \<Rightarrow> (dberr, m_user) res" where
  "user_by_account E site d account =
     db_First E site 0 (first_by mu_ID (\<lambda>u. mu_Account u = account) (t_user d))"

text \<open>The failure counter is a \<open>uint\<close>, so adding one wraps.\<close>

definition updateUserLoginFailedInfo :: "env \<Rightarrow> login_request \<Rightarrow> db \<Rightarrow> (goerr, db) res" where
  "updateUserLoginFailedInfo E req d =
     bindR (orNotFound (Unknown (Some (DBErr ErrRecordNotFound)))
        (user_by_account E ''updateUserLoginFailedInfo'' d (lr_Account req))) (\<lambda>user.
     let user1 = user\<lparr>mu_LastLoginFailedCount := Some (get0 (mu_LastLoginFailedCount user) + 1),
                      mu_LastLoginFailedAt := Some (e_now E)\<rparr> in
     bindR (orUnusable (user_save E user1 d)) (\<lambda>(_, d1). Ok d1))"

definition validateUserLogin :: "env \<Rightarrow> db \<Rightarrow> login_request \<Rightarrow> (goerr, m_user) res" where
  "validateUserLogin E d req =
     guardR (lr_Account req = []) (RequiredParameter ''account'') (
     guardR (accountLength < length (lr_Account req))
       (LengthOverflowParameterValue ''account'' (lr_Account req) (of_nat accountLength)) (
     guardR (lr_Password req = []) (RequiredParameter ''password'') (
     guardR (passwordLength < length (lr_Password req))
       (LengthOverflowParameterValue ''password'' ''******'' (of_nat passwordLength)) (
     bindR (orNotFound (notFoundUser (VStr (lr_Account req)))
        (user_by_account E ''validateUserLogin'' d (lr_Account req))) (\<lambda>user.
     bindR (checkLoginRestricted E d user) (\<lambda>_.
     guardR (mu_Password user \<noteq> lr_Password req) incorrectPassword (
     Ok user)))))))"

text \<open>\<open>int64(time.Hour) * 24 * cycle / int64(time.Second)\<close>: the nanoseconds wrap, then divide.\<close>

definition cycle_seconds :: "int \<Rightarrow> int" where
  "cycle_seconds cycle = ttl_seconds (wrap64 (wrap64 (3600 * 10 ^ 9 * 24) * cycle))"

definition password_cycle :: "env \<Rightarrow> db \<Rightarrow> u64 \<Rightarrow> int" where
  "password_cycle E d tenantID =
     (case TenantConfig E d tenantID UserPasswordChangeCycle of
        None \<Rightarrow> defaultUserPasswordChangeCycle
      | Some v \<Rightarrow> (case Value_Int64 v of Ok t \<Rightarrow> t | _ \<Rightarrow> defaultUserPasswordChangeCycle))"

definition password_expired :: "env \<Rightarrow> int \<Rightarrow> int \<Rightarrow> bool" where
  "password_expired E cycle updatedAt \<longleftrightarrow> cycle \<noteq> 0 \<and> cycle_seconds cycle \<le> wrap64 (e_now E - updatedAt)"

text \<open>The row that a successful login saves.\<close>

definition logged_in_user :: "env \<Rightarrow> db \<Rightarrow> string \<Rightarrow> m_user \<Rightarrow> m_user" where
  "logged_in_user E d ip user =
     (let updatedAt = val_int (mu_PasswordUpdatedAt user);
          flag = val_bool (mu_PasswordUpdateFlag user) in
      user\<lparr>mu_LastLoggedInAt := Some (e_now E), mu_LastLoggedInIP := Some ip,
           mu_LastLoginFailedCount := map_option (\<lambda>_. 0) (mu_LastLoginFailedCount user),
           mu_PasswordUpdatedAt := Some updatedAt,
           mu_PasswordUpdateFlag := Some (flag \<or> password_expired E (password_cycle E d (mu_TenantID user)) updatedAt)\<rparr>)"

text \<open>
  Roles and groups of a user's message: an administrator gets every group of the tenant, everyone
  else the groups the user belongs to.
\<close>

definition userRoles :: "env \<Rightarrow> db \<Rightarrow> u64 \<Rightarrow> (goerr, p_role list) res" where
  "userRoles E d uid = bindR (orUnusable (user_Roles E d uid)) (\<lambda>rs. Ok (map roleModelToRsp rs))"

definition userGroups :: "env \<Rightarrow> globals \<Rightarrow> db \<Rightarrow> u64 \<Rightarrow> u64 \<Rightarrow> p_role list \<Rightarrow> (goerr, p_group list) res" where
  "userGroups E gl d tid uid roles =
     (if isAdmin gl roles then getGroups E d tid []
      else bindR (orUnusable (user_Groups E d uid)) (groupsToRsp None))"

definition loginUser :: "env \<Rightarrow> globals \<Rightarrow> ctx \<Rightarrow> login_request \<Rightarrow> db \<Rightarrow> (goerr, p_user \<times> db) res" where
  "loginUser E gl ctx req d =
     bindR (validateUserLogin E d req) (\<lambda>user.
     bindR (mapE (\<lambda>_. InvalidRequest ctx) (GetClientIP ctx)) (\<lambda>ip.
     bindR (orUnusable (user_save E (logged_in_user E d ip user) d)) (\<lambda>(user1, d1).
     bindR (getTenant E d1 (mu_TenantID user1)) (\<lambda>tenant.
     bindR (userRoles E d1 (mu_ID user1)) (\<lambda>roles.
     bindR (userGroups E gl d1 (mu_TenantID user1) (mu_ID user1) roles) (\<lambda>groups.
     Ok ((userModelToRsp user1)\<lparr>pu_Tenant := Some tenant, pu_Roles := roles, pu_Groups := groups\<rparr>, d1)))))))"

section \<open>Integrity\<close>

lemma user_by_account_Ok:
  "user_by_account E site d a = Ok u \<Longrightarrow> u \<in> set (t_user d) \<and> mu_Account u = a"
  by (auto simp: user_by_account_def res_simps dest!: first_by_SomeD)

lemma validateUserLogin_Ok:
  assumes "validateUserLogin E d req = Ok u"
  shows "u \<in> set (t_user d) \<and> mu_Account u = lr_Account req \<and> mu_Password u = lr_Password req \<and>
    lr_Password req \<noteq> [] \<and> checkLoginRestricted E d u = Ok ()"
  using assms by (auto simp: validateUserLogin_def res_simps dest!: user_by_account_Ok)

lemma logged_in_user_fields [simp]:
  "mu_ID (logged_in_user E d ip u) = mu_ID u" "mu_TenantID (logged_in_user E d ip u) = mu_TenantID u"
  "mu_Account (logged_in_user E d ip u) = mu_Account u" "mu_Password (logged_in_user E d ip u) = mu_Password u"
  "mu_LastLoginFailedCount (logged_in_user E d ip u) = map_option (\<lambda>_. 0) (mu_LastLoginFailedCount u)"
  by (simp_all add: logged_in_user_def Let_def)

lemma loginUser_Ok:
  assumes "loginUser E gl ctx req d = Ok (x, d')"
  obtains user ip user1 where "validateUserLogin E d req = Ok user" "GetClientIP ctx = Ok ip"
    "user_save E (logged_in_user E d ip user) d = Ok (user1, d')" "pu_Id x = mu_ID user1"
    "tenant_id (pu_Tenant x) = mu_TenantID user1"
proof -
  from assms obtain user ip user1 tenant where u: "validateUserLogin E d req = Ok user" "GetClientIP ctx = Ok ip"
    "user_save E (logged_in_user E d ip user) d = Ok (user1, d')" "getTenant E d' (mu_TenantID user1) = Ok tenant"
    "pu_Id x = mu_ID user1" "pu_Tenant x = Some tenant"
    by (auto simp: loginUser_def bindR_Ok_iff mapE_Ok_iff orUnusable_Ok_iff userModelToRsp_def)
  with getTenant_Ok [OF u(4)] show ?thesis by (intro that [OF u(1,2,3)]) (auto simp: tenant_id_def)
qed

lemma loginUser_wf: "db_wf d \<Longrightarrow> loginUser E gl ctx req d = Ok (x, d') \<Longrightarrow> db_wf d'"
proof (erule loginUser_Ok)
  fix user ip user1
  assume wf: "db_wf d" and u: "validateUserLogin E d req = Ok user"
    and s: "user_save E (logged_in_user E d ip user) d = Ok (user1, d')"
  show "db_wf d'"
    by (rule user_save_same_wf [OF wf s, of user])
       (use validateUserLogin_Ok [OF u] in \<open>auto simp: login_wf_def split: option.splits\<close>)
qed

lemma updateUserLoginFailedInfo_Ok:
  assumes "updateUserLoginFailedInfo E req d = Ok d'"
  obtains user user1 where "user \<in> set (t_user d)" "mu_Account user = lr_Account req"
    "user_save E (user\<lparr>mu_LastLoginFailedCount := Some (get0 (mu_LastLoginFailedCount user) + 1),
       mu_LastLoginFailedAt := Some (e_now E)\<rparr>) d = Ok (user1, d')"
  using assms unfolding updateUserLoginFailedInfo_def
  by (auto simp: bindR_Ok_iff orNotFound_Ok_iff orUnusable_Ok_iff Let_def dest!: user_by_account_Ok)

lemma updateUserLoginFailedInfo_wf: "db_wf d \<Longrightarrow> updateUserLoginFailedInfo E req d = Ok d' \<Longrightarrow> db_wf d'"
proof (erule updateUserLoginFailedInfo_Ok)
  fix user user1
  assume wf: "db_wf d" and u: "user \<in> set (t_user d)"
    and s: "user_save E (user\<lparr>mu_LastLoginFailedCount := Some (get0 (mu_LastLoginFailedCount user) + 1),
       mu_LastLoginFailedAt := Some (e_now E)\<rparr>) d = Ok (user1, d')"
  show "db_wf d'" by (rule user_save_same_wf [OF wf s u]) (simp_all add: login_wf_def)
qed

end
