(* ===== verification/Identity_User.thy ===== *)
theory Identity_User
  imports Identity_Session
begin

text \<open>
  \<open>services/identity/handler/user.go\<close> and \<open>user_filter.go\<close>: user accounts, who may read and change
  them, their roles and groups, passwords, and the paginated list.
\<close>

section \<open>Reading a user\<close>

definition validateUserGet :: "env \<Rightarrow> globals \<Rightarrow> ctx \<Rightarrow> p_user \<Rightarrow> u64 \<Rightarrow> (goerr, unit) res" where
  "validateUserGet E gl ctx reqUser userId =
     guardR (\<not> isAdmin gl (pu_Roles reqUser) \<and> \<not> isManager gl (pu_Roles reqUser) \<and> pu_Id reqUser \<noteq> userId)
       (UnauthorizedRequest E ctx) (Ok ())"

definition getUser :: "env \<Rightarrow> globals \<Rightarrow> db \<Rightarrow> u64 \<Rightarrow> u64 \<Rightarrow> (goerr, p_user) res" where
  "getUser E gl d tid userID =
     bindR (orNotFound (notFoundUser (VU64 userID)) (user_first E d userID)) (\<lambda>user.
     bindR (getTenant E d (mu_TenantID user)) (\<lambda>tenant.
     bindR (userRoles E d (mu_ID user)) (\<lambda>roles.
     bindR (userGroups E gl d tid (mu_ID user) roles) (\<lambda>groups.
     Ok ((userModelToRsp user)\<lparr>pu_Tenant := Some tenant, pu_Roles := roles, pu_Groups := groups\<rparr>)))))"

text \<open>A gorm condition given as a struct ignores its zero fields.\<close>

definition user_first_struct :: "env \<Rightarrow> string \<Rightarrow> db \<Rightarrow> u64 \<Rightarrow> u64 \<Rightarrow> (dberr, m_user) res" where
  "user_first_struct E site d i tid = db_First E site i
     (first_by mu_ID (\<lambda>u. (i \<noteq> 0 \<longrightarrow> mu_ID u = i) \<and> (tid \<noteq> 0 \<longrightarrow> mu_TenantID u = tid)) (t_user d))"

definition getSimpleUser :: "env \<Rightarrow> globals \<Rightarrow> db \<Rightarrow> u64 \<Rightarrow> u64 \<Rightarrow> (goerr, p_simple_user) res" where
  "getSimpleUser E gl d tid userID =
     bindR (orNotFound (notFoundUser (VU64 userID)) (user_first_struct E ''getSimpleUser'' d userID tid)) (\<lambda>user.
     bindR (getTenant E d (mu_TenantID user)) (\<lambda>tenant.
     bindR (userRoles E d (mu_ID user)) (\<lambda>roles.
     bindR (userGroups E gl d tid (mu_ID user) roles) (\<lambda>groups.
     Ok ((simpleUserModelToRsp user)\<lparr>ps_Tenant := Some tenant, ps_Roles := roles, ps_Groups := groups\<rparr>)))))"

section \<open>Validation\<close>

definition idx_param :: "string \<Rightarrow> nat \<Rightarrow> string" where
  "idx_param field idx = ''user.'' @ field @ ''['' @ Itoa (int idx) @ ''].id''"

text \<open>Groups must exist and belong to the tenant; roles must exist.  \<open>shown\<close> is the reported value.\<close>

definition checkGroups :: "env \<Rightarrow> db \<Rightarrow> u64 \<Rightarrow> (p_group \<Rightarrow> u64) \<Rightarrow> p_group list \<Rightarrow> (goerr, unit) res" where
  "checkGroups E d tid shown groups = checkAll (\<lambda>idx g.
     bindR (orNotFound (InvalidParameterValue (idx_param ''group'' idx) (VU64 (pg_Id g)) ''not found group'')
        (group_first E d (pg_Id g))) (\<lambda>modelGroup.
     guardR (tid \<noteq> mg_TenantID modelGroup)
       (InvalidParameterValue (idx_param ''group'' idx) (VU64 (shown g)) ''unusable group'') (Ok ()))) 0 groups"

definition role_first :: "env \<Rightarrow> db \<Rightarrow> u64 \<Rightarrow> (dberr, m_role) res" where
  "role_first E d i = db_First E ''cdm_role.first'' i (first_by mr_ID (\<lambda>r. mr_ID r = i) (t_role d))"

definition checkRoles :: "env \<Rightarrow> db \<Rightarrow> p_role list \<Rightarrow> (goerr, unit) res" where
  "checkRoles E d roles = checkAll (\<lambda>idx r.
     bindR (orNotFound (InvalidParameterValue (idx_param ''role'' idx) (VU64 (pr_Id r)) ''not found role'')
        (role_first E d (pr_Id r))) (\<lambda>_. Ok ())) 0 roles"

text \<open>\<open>case errors.Equal(err, errNotFoundTenant): return errors.Unknown(err)\<close>\<close>

definition tenantKnown :: "(goerr, 'a) res \<Rightarrow> (goerr, 'a) res" where
  "tenantKnown = mapE (\<lambda>e. if errors_Equal (Some e) errNotFoundTenant then Unknown (Some e) else e)"

definition checkEmail :: "env \<Rightarrow> string \<Rightarrow> (goerr, 'a) res \<Rightarrow> (goerr, 'a) res" where
  "checkEmail E email k =
     guardR (email \<noteq> [] \<and> emailLength < RuneCountInString email)
       (LengthOverflowParameterValue ''user.email'' email (of_nat emailLength)) (
     guardR (email \<noteq> [] \<and> \<not> e_IsExistingEmail E email)
       (FormatMismatchParameterValue ''user.email'' (VStr email) ''email'') k)"

definition validateUserAdd ::
  "env \<Rightarrow> globals \<Rightarrow> ctx \<Rightarrow> db \<Rightarrow> u64 \<Rightarrow> p_user option \<Rightarrow> (goerr, p_tenant) res" where
  "validateUserAdd E gl ctx d tenantID req =
     (case req of None \<Rightarrow> Panic
      | Some u \<Rightarrow>
          guardR (pu_Id u \<noteq> 0) (InvalidParameterValue ''user.id'' (VU64 (pu_Id u)) ''unusable parameter'') (
          guardR (tenant_id_missing (pu_Tenant u)) (RequiredParameter ''user.tenant.id'') (
          guardR (tenantID \<noteq> tenant_id (pu_Tenant u)) (UnauthorizedRequest E ctx) (
          guardR (isAdmin gl (pu_Roles u)) (unassignableRole ''admin'') (
          bindR (tenantKnown (getTenant E d tenantID)) (\<lambda>tenant.
          guardR (pu_Account u = []) (RequiredParameter ''user.account'') (
          checkRunes ''user.account'' (pu_Account u) accountLength (
          bindR (mustBeAbsent (ConflictParameterValue ''user.account'' (VStr (pu_Account u)))
            (user_by_account E ''user.account'' d (pu_Account u))) (\<lambda>_.
          guardR (pu_Name u = []) (RequiredParameter ''user.name'') (
          checkRunes ''user.name'' (pu_Name u) nameLength (
          checkEmail E (pu_Email u) (
          bindR (mustBeAbsent (ConflictParameterValue ''user.email'' (VStr (pu_Email u)))
            (db_First E ''user.email'' 0 (first_by mu_ID (\<lambda>y. mu_Email y = Some (pu_Email u)) (t_user d)))) (\<lambda>_.
          bindR (checkGroups E d (tenant_id (pu_Tenant u)) pg_Id (pu_Groups u)) (\<lambda>_.
          bindR (checkRoles E d (pu_Roles u)) (\<lambda>_.
          checkRunes ''user.department'' (pu_Department u) departmentLength (
          checkRunes ''user.position'' (pu_Position u) positionLength (
          checkRunes ''user.contact'' (pu_Contact u) contactLength (
          guardR (pu_LanguageSet u \<noteq> [] \<and> \<not> boundary_enum languageBoundary (pu_LanguageSet u))
            (UnavailableParameterValue ''user.language_set'' (VStr (pu_LanguageSet u)) [''eng'', ''kor'']) (
          checkRunes ''user.timezone'' (pu_Timezone u) timezoneLength (
          Ok tenant))))))))))))))))))))"

definition may_set_relations :: "globals \<Rightarrow> p_user \<Rightarrow> u64 \<Rightarrow> bool" where
  "may_set_relations gl reqUser uid \<longleftrightarrow>
     (isAdmin gl (pu_Roles reqUser) \<or> isManager gl (pu_Roles reqUser)) \<and> uid \<noteq> gl_adminUser gl"

definition validateUserUpdate ::
  "env \<Rightarrow> globals \<Rightarrow> ctx \<Rightarrow> db \<Rightarrow> u64 \<Rightarrow> p_user \<Rightarrow> u64 \<Rightarrow> p_user option \<Rightarrow> (goerr, unit) res" where
  "validateUserUpdate E gl ctx d tenantID reqUser userId req =
     (case req of None \<Rightarrow> Fail (RequiredParameter ''user'')
      | Some u \<Rightarrow>
          guardR (tenant_id_missing (pu_Tenant u)) (RequiredParameter ''user.tenant.id'') (
          guardR (userId \<noteq> pu_Id u) (UnchangeableParameter ''user.id'') (
          guardR (\<not> isAdmin gl (pu_Roles reqUser) \<and> pu_Id u = gl_adminUser gl) (UnauthorizedRequest E ctx) (
          guardR (pu_Id u \<noteq> gl_adminUser gl \<and> isAdmin gl (pu_Roles u)) (unassignableRole ''admin'') (
          guardR (\<not> isAdmin gl (pu_Roles reqUser) \<and> \<not> isManager gl (pu_Roles reqUser) \<and> pu_Id reqUser \<noteq> pu_Id u)
            (UnauthorizedRequest E ctx) (
          bindR (orNotFound (notFoundUser (VU64 (pu_Id u)))
            (user_first_struct E ''validateUserUpdate'' d (pu_Id u) tenantID)) (\<lambda>t.
          guardR (tenant_id (pu_Tenant u) \<noteq> mu_TenantID t) (UnchangeableParameter ''user.tenant.id'') (
          guardR (pu_Account u \<noteq> mu_Account t) (UnchangeableParameter ''user.account'') (
          guardR (pu_Name u = []) (RequiredParameter ''user.name'') (
          checkRunes ''user.name'' (pu_Name u) nameLength (
          checkEmail E (pu_Email u) (
          bindR (mustBeAbsent (ConflictParameterValue ''user.email'' (VStr (pu_Email u)))
            (db_First E ''user.email'' (pu_Id u)
               (first_by mu_ID (\<lambda>y. mu_ID y \<noteq> pu_Id u \<and> mu_Email y = Some (pu_Email u)) (t_user d)))) (\<lambda>_.
          bindR (if may_set_relations gl reqUser (pu_Id u)
                 then bindR (checkGroups E d (tenant_id (pu_Tenant u)) (\<lambda>_. tenant_id (pu_Tenant u)) (pu_Groups u))
                        (\<lambda>_. checkRoles E d (pu_Roles u))
                 else Ok ()) (\<lambda>_.
          checkRunes ''user.department'' (pu_Department u) departmentLength (
          checkRunes ''user.position'' (pu_Position u) positionLength (
          checkRunes ''user.contact'' (pu_Contact u) contactLength (
          guardR (pu_LanguageSet u \<noteq> [] \<and> \<not> boundary_enum languageBoundary (pu_LanguageSet u))
            (UnavailableParameterValue ''user.department'' (VStr (pu_LanguageSet u)) [''kor'', ''eng'']) (
          checkRunes ''user.timezone'' (pu_Timezone u) timezoneLength (
          Ok ())))))))))))))))))))"

section \<open>Relations\<close>

definition updateUserGroupRelations :: "env \<Rightarrow> u64 \<Rightarrow> p_group list \<Rightarrow> db \<Rightarrow> (dberr, db) res" where
  "updateUserGroupRelations E userID groups d =
     bindR (user_group_delete E mug_UserID userID d)
       (foldR (\<lambda>g. user_group_save E \<lparr>mug_UserID = userID, mug_GroupID = pg_Id g\<rparr>) groups)"

definition updateUserRoleRelations :: "env \<Rightarrow> u64 \<Rightarrow> p_role list \<Rightarrow> db \<Rightarrow> (dberr, db) res" where
  "updateUserRoleRelations E userID roles d =
     bindR (user_role_delete E userID d)
       (foldR (\<lambda>r. user_role_save E \<lparr>mur_UserID = userID, mur_RoleID = pr_Id r\<rparr>) roles)"

section \<open>Adding, updating and deleting\<close>

definition addUser :: "env \<Rightarrow> p_user option \<Rightarrow> string \<Rightarrow> db \<Rightarrow> (goerr, p_user \<times> db) res" where
  "addUser E req password d =
     (case req of None \<Rightarrow> Panic
      | Some u \<Rightarrow>
          bindR (userRspToModel u) (\<lambda>user.
          let user1 = user\<lparr>mu_Password := encodePassword E password, mu_PasswordUpdateFlag := Some True\<rparr> in
          bindR (orUnusable (user_save E user1 d)) (\<lambda>(user2, d1).
          bindR (orUnusable (updateUserRoleRelations E (mu_ID user2) (pu_Roles u) d1)) (\<lambda>d2.
          bindR (orUnusable (updateUserGroupRelations E (mu_ID user2) (pu_Groups u) d2)) (\<lambda>d3.
          bindR (userRoles E d3 (mu_ID user2)) (\<lambda>roles.
          bindR (orUnusable (user_Groups E d3 (mu_ID user2))) (\<lambda>gs.
          bindR (groupsToRsp None gs) (\<lambda>groups.
          Ok ((userModelToRsp user2)\<lparr>pu_Roles := roles, pu_Groups := groups\<rparr>, d3)))))))))"

definition updateUser ::
  "env \<Rightarrow> globals \<Rightarrow> u64 \<Rightarrow> p_user \<Rightarrow> p_user option \<Rightarrow> db \<Rightarrow> (goerr, p_user \<times> db) res" where
  "updateUser E gl tid reqUser req d =
     (case req of None \<Rightarrow> Panic
      | Some u \<Rightarrow>
          bindR (userRspToModel u) (\<lambda>user.
          bindR (orUnusable (user_first E d (pu_Id u))) (\<lambda>t.
          let user1 = user\<lparr>mu_Password := mu_Password t, mu_LastLoggedInAt := mu_LastLoggedInAt t,
                           mu_PasswordUpdatedAt := mu_PasswordUpdatedAt t,
                           mu_PasswordUpdateFlag := mu_PasswordUpdateFlag t, mu_OldPassword := mu_OldPassword t\<rparr> in
          bindR (orUnusable (user_save E user1 d)) (\<lambda>(user2, d1).
          bindR (if may_set_relations gl reqUser (pu_Id u)
                 then bindR (orUnusable (updateUserRoleRelations E (mu_ID user2) (pu_Roles u) d1)) (\<lambda>d2.
                        orUnusable (updateUserGroupRelations E (mu_ID user2) (pu_Groups u) d2))
                 else Ok d1) (\<lambda>d3.
          bindR (tenantKnown (getTenant E d3 (tenant_id (pu_Tenant u)))) (\<lambda>tenant.
          bindR (userRoles E d3 (mu_ID user2)) (\<lambda>roles.
          bindR (userGroups E gl d3 tid (mu_ID user2) roles) (\<lambda>groups.
          Ok ((userModelToRsp user2)\<lparr>pu_Tenant := Some tenant, pu_Roles := roles, pu_Groups := groups\<rparr>, d3)))))))))"

definition validateUserDelete :: "env \<Rightarrow> globals \<Rightarrow> db \<Rightarrow> u64 \<Rightarrow> u64 \<Rightarrow> (goerr, m_user) res" where
  "validateUserDelete E gl d tenantID userID =
     guardR (userID = 0) (RequiredParameter ''user_id'') (
     bindR (orNotFound (notFoundUser (VU64 userID)) (user_first_struct E ''validateUserDelete'' d userID tenantID)) (\<lambda>user.
     bindR (orUnusable (user_Roles E d (mu_ID user))) (\<lambda>roles.
     guardR (\<exists>r \<in> set roles. mr_ID r = gl_Admin gl) (undeletableUser userID) (
     Ok user))))"

definition deleteUser :: "env \<Rightarrow> globals \<Rightarrow> u64 \<Rightarrow> u64 \<Rightarrow> db \<Rightarrow> (goerr, db) res" where
  "deleteUser E gl tenantID userID d =
     bindR (validateUserDelete E gl d tenantID userID) (\<lambda>user.
     bindR (orUnusable (updateUserGroupRelations E userID [] d)) (\<lambda>d1.
     bindR (orUnusable (updateUserRoleRelations E userID [] d1)) (\<lambda>d2.
     orUnusable (user_delete E (mu_ID user) userID d2))))"

section \<open>The user list\<close>

definition validateUserListGet :: "get_users_request \<Rightarrow> (goerr, unit) res" where
  "validateUserListGet req =
     checkRunes ''solution'' (gu_Solution req) solutionLength (
     guardR (gu_Role req \<noteq> [] \<and> \<not> boundary_enum roleBoundary (gu_Role req))
       (UnavailableParameterValue ''role'' (VStr (gu_Role req)) [''manager'', ''operator'', ''viewer'']) (
     checkRunes ''user name'' (gu_Name req) nameLength (
     checkRunes ''user department'' (gu_Department req) departmentLength (
     checkRunes ''user position'' (gu_Position req) positionLength (Ok ())))))"

datatype userFilter =
    UserSolutionFilter string string
  | UserExcludeGroupFilter u64
  | UserGroupFilter u64
  | UserNameFilter string
  | UserDepartmentFilter string
  | UserPositionFilter string
  | PaginationFilter u64 u64
  | LoginFilter

text \<open>
  A query under construction: the conditions met so far, and the offset and limit of a pagination
  filter.  \<open>LIKE\<close> on a NULL column is not true.
\<close>

record user_query =
  uq_rows :: "m_user list"
  uq_page :: "(u64 \<times> u64) option"

definition uq_where :: "(m_user \<Rightarrow> bool) \<Rightarrow> user_query \<Rightarrow> user_query" where
  "uq_where P q = q\<lparr>uq_rows := filter P (uq_rows q)\<rparr>"

definition like_column :: "env \<Rightarrow> string \<Rightarrow> string option \<Rightarrow> bool" where
  "like_column E needle v = (case v of None \<Rightarrow> False | Some s \<Rightarrow> like_contains E needle s)"

definition login_ids :: "string list \<Rightarrow> u64 list" where
  "login_ids keys = map u64_of_int (List.map_filter (\<lambda>k. Atoi (TrimPrefix k (storeKeyPrefix @ ''.''))) keys)"

fun userFilter_Apply :: "env \<Rightarrow> db \<Rightarrow> kv \<Rightarrow> userFilter \<Rightarrow> user_query \<Rightarrow> (goerr, user_query) res" where
  "userFilter_Apply E d m (UserSolutionFilter solution role) q =
     bindR (mapE DBErr (db_Find E ''userSolutionFilter roles'' 0
        (filter (\<lambda>r. mr_Solution r = solution \<and> (role \<noteq> [] \<longrightarrow> mr_Role r = role)) (t_role d)))) (\<lambda>roles.
     if roles = [] then Ok (uq_where (\<lambda>_. False) q)
     else
       bindR (mapE DBErr (db_Find E ''userSolutionFilter users'' 0
          (filter (\<lambda>r. mur_RoleID r \<in> set (map mr_ID roles)) (t_user_role d)))) (\<lambda>userRoles.
       if userRoles = [] then Ok (uq_where (\<lambda>_. False) q)
       else Ok (uq_where (\<lambda>u. mu_ID u \<in> set (map mur_UserID userRoles)) q)))"
| "userFilter_Apply E d m (UserExcludeGroupFilter gid) q =
     bindR (mapE DBErr (db_Find E ''userExcludeGroupFilter'' gid (filter (\<lambda>r. mug_GroupID r = gid) (t_user_group d)))) (\<lambda>ugs.
     if ugs = [] then Ok q else Ok (uq_where (\<lambda>u. mu_ID u \<notin> set (map mug_UserID ugs)) q))"
| "userFilter_Apply E d m (UserGroupFilter gid) q =
     bindR (mapE DBErr (db_Find E ''userGroupFilter'' gid (filter (\<lambda>r. mug_GroupID r = gid) (t_user_group d)))) (\<lambda>ugs.
     if ugs = [] then Ok (uq_where (\<lambda>_. False) q)
     else Ok (uq_where (\<lambda>u. mu_ID u \<in> set (map mug_UserID ugs)) q))"
| "userFilter_Apply E d m (UserNameFilter name) q = Ok (uq_where (\<lambda>u. like_contains E name (mu_Name u)) q)"
| "userFilter_Apply E d m (UserDepartmentFilter dep) q = Ok (uq_where (\<lambda>u. like_column E dep (mu_Department u)) q)"
| "userFilter_Apply E d m (UserPositionFilter pos) q = Ok (uq_where (\<lambda>u. like_column E pos (mu_Position u)) q)"
| "userFilter_Apply E d m (PaginationFilter offset limit) q = Ok (q\<lparr>uq_page := Some (offset, limit)\<rparr>)"
| "userFilter_Apply E d m LoginFilter q =
     (case store_List E m storeKeyPrefix of
        Ok keys \<Rightarrow> Ok (uq_where (\<lambda>u. mu_ID u \<in> set (login_ids keys)) q)
      | Fail e \<Rightarrow> if e = ErrNotFoundKey then Ok (uq_where (\<lambda>_. False) q) else Fail (UnusableStore (Some e))
      | Panic \<Rightarrow> Panic)"

definition uq_run :: "user_query \<Rightarrow> m_user list" where
  "uq_run q = (case uq_page q of None \<Rightarrow> uq_rows q
     | Some (offset, limit) \<Rightarrow> take (unat limit) (drop (unat offset) (uq_rows q)))"

definition tenant_query :: "db \<Rightarrow> u64 \<Rightarrow> user_query" where
  "tenant_query d tenantID =
     \<lparr>uq_rows = filter (\<lambda>u. mu_TenantID u = tenantID) (t_user d), uq_page = None\<rparr>"

definition orUnusableErr :: "(goerr, 'a) res \<Rightarrow> (goerr, 'a) res" where
  "orUnusableErr = mapE (\<lambda>e. UnusableDatabase (Some e))"

definition userToRsp :: "env \<Rightarrow> globals \<Rightarrow> db \<Rightarrow> kv \<Rightarrow> u64 \<Rightarrow> p_tenant \<Rightarrow> m_user \<Rightarrow> (goerr, p_user) res" where
  "userToRsp E gl d m tenantID tenant u =
     bindR (userRoles E d (mu_ID u)) (\<lambda>roles.
     bindR (userGroups E gl d tenantID (mu_ID u) roles) (\<lambda>groups.
     bindR (getSession E m (mu_ID u)) (\<lambda>session.
     Ok ((userModelToRsp u)\<lparr>pu_Tenant := Some tenant, pu_Roles := roles, pu_Groups := groups, pu_Session := session\<rparr>))))"

definition getUsers :: "env \<Rightarrow> globals \<Rightarrow> db \<Rightarrow> kv \<Rightarrow> u64 \<Rightarrow> userFilter list \<Rightarrow> (goerr, p_user list) res" where
  "getUsers E gl d m tenantID filters =
     bindR (getTenant E d tenantID) (\<lambda>tenant.
     bindR (orUnusableErr (foldR (userFilter_Apply E d m) filters (tenant_query d tenantID))) (\<lambda>q.
     bindR (orUnusable (db_Find E ''getUsers'' tenantID (uq_run q))) (\<lambda>users.
     mapR (userToRsp E gl d m tenantID tenant) users)))"

definition is_pagination :: "userFilter \<Rightarrow> bool" where
  "is_pagination f = (case f of PaginationFilter _ _ \<Rightarrow> True | _ \<Rightarrow> False)"

text \<open>The last pagination filter counts; its default is zero.\<close>

fun page_of :: "userFilter list \<Rightarrow> u64 \<times> u64 \<Rightarrow> u64 \<times> u64" where
  "page_of [] p = p"
| "page_of (f # fs) p = page_of fs (case f of PaginationFilter offset limit \<Rightarrow> (offset, limit) | _ \<Rightarrow> p)"

definition pagination :: "u64 \<Rightarrow> u64 \<Rightarrow> u64 \<Rightarrow> p_pagination" where
  "pagination offset limit totalItems =
     (if limit = 0 then \<lparr>pp_Page = 1, pp_TotalPage = 1, pp_TotalItems = totalItems\<rparr>
      else \<lparr>pp_Page = offset div limit + 1, pp_TotalPage = (totalItems + limit - 1) div limit, pp_TotalItems = totalItems\<rparr>)"

definition getUsersPagination :: "env \<Rightarrow> db \<Rightarrow> kv \<Rightarrow> u64 \<Rightarrow> userFilter list \<Rightarrow> (goerr, p_pagination) res" where
  "getUsersPagination E d m tenantID filters =
     bindR (orUnusableErr (foldR (userFilter_Apply E d m) (filter (\<lambda>f. \<not> is_pagination f) filters)
        (tenant_query d tenantID))) (\<lambda>q.
     bindR (orUnusable (db_Find E ''getUsersPagination'' tenantID (uq_rows q))) (\<lambda>rows.
     let (offset, limit) = page_of filters (0, 0) in
     Ok (pagination offset limit (of_nat (length rows)))))"

section \<open>Passwords\<close>

definition validateUserPasswordUpdate ::
  "env \<Rightarrow> db \<Rightarrow> p_user \<Rightarrow> update_password_request \<Rightarrow> (goerr, unit) res" where
  "validateUserPasswordUpdate E d reqUser req =
     guardR (up_UserId req = 0) (RequiredParameter ''user_id'') (
     guardR (pu_Id reqUser \<noteq> up_UserId req) (InvalidParameterValue ''user_id'' (VU64 (up_UserId req)) ''invalid user id'') (
     guardR (up_NewPassword req = []) (RequiredParameter ''new_password'') (
     guardR (up_CurrentPassword req = []) (RequiredParameter ''current_password'') (
     guardR (passwordLength < length (up_NewPassword req))
       (LengthOverflowParameterValue ''new_password'' ''******'' (of_nat passwordLength)) (
     guardR (passwordLength < length (up_CurrentPassword req))
       (LengthOverflowParameterValue ''current_password'' ''******'' (of_nat passwordLength)) (
     bindR (orNotFound (notFoundUser (VU64 (up_UserId req))) (user_first E d (up_UserId req))) (\<lambda>user.
     guardR (mu_Password user \<noteq> up_CurrentPassword req) currentPasswordMismatch (
     case pu_Tenant reqUser of None \<Rightarrow> Panic
     | Some t \<Rightarrow>
         bindR (case TenantConfig E d (pt_Id t) UserReuseOldPassword of
                  None \<Rightarrow> Ok False | Some v \<Rightarrow> orUnknown (Value_Bool v)) (\<lambda>reusable.
         guardR (\<not> reusable \<and> mu_OldPassword user = Some (up_NewPassword req)) notReusableOldPassword (
         Ok ()))))))))))"

text \<open>The row with a new password; the previous one becomes the old password.\<close>

definition new_password :: "env \<Rightarrow> bool \<Rightarrow> string \<Rightarrow> m_user \<Rightarrow> m_user" where
  "new_password E flag password user =
     user\<lparr>mu_OldPassword := Some (mu_Password user), mu_PasswordUpdateFlag := Some flag,
          mu_PasswordUpdatedAt := Some (e_now E), mu_Password := password\<rparr>"

definition updateUserPassword :: "env \<Rightarrow> u64 \<Rightarrow> string \<Rightarrow> db \<Rightarrow> (goerr, db) res" where
  "updateUserPassword E userID newPassword d =
     bindR (orNotFound (notFoundUser (VU64 userID)) (user_first E d userID)) (\<lambda>user.
     bindR (orUnusable (user_save E (new_password E False newPassword user) d)) (\<lambda>(_, d1). Ok d1))"

definition validateUserPasswordReset ::
  "env \<Rightarrow> globals \<Rightarrow> ctx \<Rightarrow> db \<Rightarrow> p_user \<Rightarrow> u64 \<Rightarrow> u64 \<Rightarrow> (goerr, m_user) res" where
  "validateUserPasswordReset E gl ctx d reqUser tenantID userID =
     guardR (userID = 0) (RequiredParameter ''user_id'') (
     bindR (orNotFound (notFoundUser (VU64 userID))
       (user_first_struct E ''validateUserPasswordReset'' d userID tenantID)) (\<lambda>user.
     guardR (isManager gl (pu_Roles reqUser) \<and> mu_ID user = gl_adminUser gl) (UnauthorizedRequest E ctx) (
     Ok user)))"

definition resetUserPassword ::
  "env \<Rightarrow> globals \<Rightarrow> ctx \<Rightarrow> p_user \<Rightarrow> u64 \<Rightarrow> u64 \<Rightarrow> db \<Rightarrow> (goerr, string \<times> db) res" where
  "resetUserPassword E gl ctx reqUser tenantID userID d =
     bindR (validateUserPasswordReset E gl ctx d reqUser tenantID userID) (\<lambda>user.
     bindR (generatePassword E) (\<lambda>password.
     bindR (orUnusable (user_save E (new_password E True (encodePassword E password) user) d)) (\<lambda>(_, d1).
     Ok (password, d1))))"

section \<open>Validators\<close>

lemma tenantKnown_Ok_iff [res_simps]: "tenantKnown m = Ok x \<longleftrightarrow> m = Ok x"
  by (simp add: tenantKnown_def mapE_Ok_iff)

lemma checkEmail_Ok_iff [res_simps]:
  "checkEmail E email k = Ok x \<longleftrightarrow>
     (email \<noteq> [] \<longrightarrow> RuneCountInString email \<le> emailLength \<and> e_IsExistingEmail E email) \<and> k = Ok x"
  by (auto simp: checkEmail_def guardR_Ok_iff not_less)

lemma checkGroups_Ok:
  assumes "checkGroups E d tid shown gs = Ok ()" "g \<in> set gs"
  shows "\<exists>y \<in> set (t_group d). mg_ID y = pg_Id g \<and> mg_TenantID y = tid"
  using checkAll_each [OF assms(1) [unfolded checkGroups_def] assms(2)]
  by (auto simp: res_simps group_first_def dest!: first_by_SomeD)

lemma checkRoles_Ok:
  assumes "checkRoles E d rs = Ok ()" "r \<in> set rs"
  shows "pr_Id r \<in> mr_ID ` set (t_role d)"
  using checkAll_each [OF assms(1) [unfolded checkRoles_def] assms(2)]
  by (auto simp: res_simps role_first_def dest!: first_by_SomeD intro: rev_image_eqI)

lemma validateUserAdd_Ok:
  assumes "validateUserAdd E gl ctx d tid (Some u) = Ok t"
  shows "pu_Id u = 0" "tenant_id (pu_Tenant u) = tid" "tid \<noteq> 0" "\<not> isAdmin gl (pu_Roles u)"
    "checkGroups E d tid pg_Id (pu_Groups u) = Ok ()" "checkRoles E d (pu_Roles u) = Ok ()"
    "pu_Account u \<noteq> []" "RuneCountInString (pu_Account u) \<le> accountLength"
    "pu_Account u \<notin> mu_Account ` set (t_user d)" "pu_Name u \<noteq> []" "RuneCountInString (pu_Name u) \<le> nameLength"
    "pt_Id t = tid"
proof -
  note v = assms [unfolded validateUserAdd_def option.case guardR_Ok_iff bindR_Ok_iff checkRunes_Ok_iff
      checkEmail_Ok_iff tenantKnown_Ok_iff]
  show "pu_Id u = 0" "tenant_id (pu_Tenant u) = tid" "\<not> isAdmin gl (pu_Roles u)"
    "checkRoles E d (pu_Roles u) = Ok ()" "pu_Account u \<noteq> []"
    "RuneCountInString (pu_Account u) \<le> accountLength" "pu_Name u \<noteq> []" "RuneCountInString (pu_Name u) \<le> nameLength"
    using v by auto
  show "tid \<noteq> 0" using v by (auto simp: tenant_id_missing_def tenant_id_def split: option.splits)
  show "checkGroups E d tid pg_Id (pu_Groups u) = Ok ()" using v by auto
  show "pu_Account u \<notin> mu_Account ` set (t_user d)"
    using v by (auto simp: mustBeAbsent_Ok_iff user_by_account_def db_First_absent first_by_None_iff)
  show "pt_Id t = tid" using v by (auto dest: getTenant_Ok)
qed

lemma validateUserUpdate_Ok:
  assumes "validateUserUpdate E gl ctx d tid reqUser uid (Some u) = Ok ()"
  obtains t where "uid = pu_Id u" "t \<in> set (t_user d)" "pu_Id u \<noteq> 0 \<Longrightarrow> mu_ID t = pu_Id u"
    "tid \<noteq> 0 \<Longrightarrow> mu_TenantID t = tid"
    "tenant_id (pu_Tenant u) = mu_TenantID t" "pu_Account u = mu_Account t"
    "pu_Id u \<noteq> gl_adminUser gl \<Longrightarrow> \<not> isAdmin gl (pu_Roles u)"
    "pu_Id u = gl_adminUser gl \<Longrightarrow> isAdmin gl (pu_Roles reqUser)"
    "isAdmin gl (pu_Roles reqUser) \<or> isManager gl (pu_Roles reqUser) \<or> pu_Id reqUser = pu_Id u"
    "may_set_relations gl reqUser (pu_Id u) \<Longrightarrow>
       (\<exists>f. checkGroups E d (mu_TenantID t) f (pu_Groups u) = Ok ()) \<and> checkRoles E d (pu_Roles u) = Ok ()"
proof -
  note v = assms [unfolded validateUserUpdate_def option.case guardR_Ok_iff bindR_Ok_iff checkRunes_Ok_iff
      checkEmail_Ok_iff orNotFound_Ok_iff]
  from v obtain t where t: "user_first_struct E ''validateUserUpdate'' d (pu_Id u) tid = Ok t"
    "tenant_id (pu_Tenant u) = mu_TenantID t" "pu_Account u = mu_Account t"
    "\<exists>x. (if may_set_relations gl reqUser (pu_Id u)
       then bindR (checkGroups E d (tenant_id (pu_Tenant u)) (\<lambda>_. tenant_id (pu_Tenant u)) (pu_Groups u))
              (\<lambda>_. checkRoles E d (pu_Roles u)) else Ok ()) = Ok x"
    by blast
  have "t \<in> set (t_user d) \<and> (pu_Id u \<noteq> 0 \<longrightarrow> mu_ID t = pu_Id u) \<and> (tid \<noteq> 0 \<longrightarrow> mu_TenantID t = tid)"
    using t(1) by (auto simp: user_first_struct_def db_First_Ok_iff dest!: first_by_SomeD)
  with t v show ?thesis by (intro that [of t]) (auto simp: bindR_Ok_iff split: if_splits)
qed

section \<open>Integrity\<close>

lemma updateUserRoleRelations_wf:
  "db_wf d \<Longrightarrow> updateUserRoleRelations E uid roles d = Ok d' \<Longrightarrow> db_wf d'"
  unfolding updateUserRoleRelations_def bindR_Ok_iff
  by (elim exE conjE, erule foldR_invariant) (auto intro: user_role_delete_wf user_role_save_wf)

lemma updateUserRoleRelations_frame:
  assumes "updateUserRoleRelations E uid roles d = Ok d'"
  shows "t_user d' = t_user d \<and> t_group d' = t_group d \<and> t_role d' = t_role d \<and> t_user_group d' = t_user_group d
    \<and> t_tenant d' = t_tenant d"
proof -
  from assms obtain d1 where d1: "user_role_delete E uid d = Ok d1"
    "foldR (\<lambda>r. user_role_save E \<lparr>mur_UserID = uid, mur_RoleID = pr_Id r\<rparr>) roles d1 = Ok d'"
    by (auto simp: updateUserRoleRelations_def bindR_Ok_iff)
  show ?thesis using d1(2)
    by (rule foldR_invariant) (use d1(1) in \<open>auto simp: res_simps dest!: user_role_save_Ok\<close>)
qed

lemma updateUserGroupRelations_wf:
  assumes wf: "db_wf d" and upd: "updateUserGroupRelations E uid groups d = Ok d'"
    and ok: "\<And>g. g \<in> set groups \<Longrightarrow> member_ok d \<lparr>mug_UserID = uid, mug_GroupID = pg_Id g\<rparr>"
  shows "db_wf d'"
proof -
  from upd obtain d1 where d1: "user_group_delete E mug_UserID uid d = Ok d1"
    "foldR (\<lambda>g. user_group_save E \<lparr>mug_UserID = uid, mug_GroupID = pg_Id g\<rparr>) groups d1 = Ok d'"
    by (auto simp: updateUserGroupRelations_def bindR_Ok_iff)
  have "db_wf d' \<and> t_user d' = t_user d \<and> t_group d' = t_group d"
    using d1(2)
  proof (rule foldR_invariant)
    show "db_wf d1 \<and> t_user d1 = t_user d \<and> t_group d1 = t_group d"
      using user_group_delete_wf [OF wf d1(1)] d1(1) by (auto simp: res_simps)
  next
    fix g s t
    assume g: "g \<in> set groups" and s: "db_wf s \<and> t_user s = t_user d \<and> t_group s = t_group d"
      and save: "user_group_save E \<lparr>mug_UserID = uid, mug_GroupID = pg_Id g\<rparr> s = Ok t"
    have "member_ok s \<lparr>mug_UserID = uid, mug_GroupID = pg_Id g\<rparr>"
      using ok [OF g] s by (simp add: member_ok_def)
    with s save have "db_wf t" by (auto intro: user_group_save_wf)
    with s user_group_save_Ok [OF save] show "db_wf t \<and> t_user t = t_user d \<and> t_group t = t_group d" by auto
  qed
  then show ?thesis by simp
qed

lemma userRspToModel_Ok:
  "userRspToModel u = Ok r \<Longrightarrow> mu_ID r = pu_Id u \<and> mu_TenantID r = tenant_id (pu_Tenant u) \<and>
     mu_Account r = pu_Account u \<and> mu_LastLoginFailedCount r = None"
  by (auto simp: userRspToModel_def tenant_id_def split: option.splits)

text \<open>Saving a user and replacing its relations: the common part of adding and updating.\<close>

lemma save_relations_wf:
  assumes wf: "db_wf d" "db_wf d1" and save: "user_save E user d = Ok (user2, d1)"
    and rel: "updateUserRoleRelations E (mu_ID user2) roles d1 = Ok d2"
      "updateUserGroupRelations E (mu_ID user2) groups d2 = Ok d3"
    and groups: "\<And>g. g \<in> set groups \<Longrightarrow> \<exists>y \<in> set (t_group d). mg_ID y = pg_Id g \<and> mg_TenantID y = mu_TenantID user"
  shows "db_wf d3"
proof (rule updateUserGroupRelations_wf [OF updateUserRoleRelations_wf [OF wf(2) rel(1)] rel(2)])
  fix g assume "g \<in> set groups"
  then obtain y where y: "y \<in> set (t_group d)" "mg_ID y = pg_Id g" "mg_TenantID y = mu_TenantID user"
    using groups by blast
  obtain row where "row \<in> set (t_user d1)" "mu_ID row = mu_ID user2" "mu_TenantID row = mu_TenantID user"
    using user_save_row [OF save] by metis
  with y updateUserRoleRelations_frame [OF rel(1)] user_save_frame(1) [OF save]
  show "member_ok d2 \<lparr>mug_UserID = mu_ID user2, mug_GroupID = pg_Id g\<rparr>"
    unfolding member_ok_def by (intro bexI [of _ row] bexI [of _ y]) simp_all
qed

lemma addUser_Ok:
  assumes "addUser E (Some u) pw d = Ok (x, d')"
  obtains user user2 d1 d2 where "userRspToModel u = Ok user"
    "user_save E (user\<lparr>mu_Password := encodePassword E pw, mu_PasswordUpdateFlag := Some True\<rparr>) d = Ok (user2, d1)"
    "updateUserRoleRelations E (mu_ID user2) (pu_Roles u) d1 = Ok d2"
    "updateUserGroupRelations E (mu_ID user2) (pu_Groups u) d2 = Ok d'"
    "pu_Id x = mu_ID user2"
  using assms
  by (auto simp: addUser_def bindR_Ok_iff orUnusable_Ok_iff Let_def userModelToRsp_def)

lemma addUser_wf:
  assumes wf: "db_wf d" and val: "validateUserAdd E gl ctx d tid (Some u) = Ok t"
    and add: "addUser E (Some u) pw d = Ok (x, d')"
  shows "db_wf d'"
  using add
proof (rule addUser_Ok)
  fix user user2 :: m_user and d1 d2
  let ?user = "user\<lparr>mu_Password := encodePassword E pw, mu_PasswordUpdateFlag := Some True\<rparr>"
  assume u: "userRspToModel u = Ok user" and s: "user_save E ?user d = Ok (user2, d1)"
    and r: "updateUserRoleRelations E (mu_ID user2) (pu_Roles u) d1 = Ok d2"
    and g: "updateUserGroupRelations E (mu_ID user2) (pu_Groups u) d2 = Ok d'"
  have f: "mu_ID user = 0" "mu_TenantID user = tid" "mu_LastLoginFailedCount user = None"
    using userRspToModel_Ok [OF u] validateUserAdd_Ok(1,2) [OF val] by simp_all
  have "db_wf d1" by (rule user_save_wf [OF wf s]) (simp_all add: login_wf_def f)
  then show "db_wf d'"
    by (rule save_relations_wf [OF wf _ s r g])
       (use checkGroups_Ok [OF validateUserAdd_Ok(5) [OF val]] f in simp)
qed

definition updated_user :: "m_user \<Rightarrow> m_user \<Rightarrow> m_user" where
  "updated_user user t = user\<lparr>mu_Password := mu_Password t, mu_LastLoggedInAt := mu_LastLoggedInAt t,
     mu_PasswordUpdatedAt := mu_PasswordUpdatedAt t, mu_PasswordUpdateFlag := mu_PasswordUpdateFlag t,
     mu_OldPassword := mu_OldPassword t\<rparr>"

lemma updated_user_fields [simp]:
  "mu_ID (updated_user user t) = mu_ID user" "mu_TenantID (updated_user user t) = mu_TenantID user"
  "mu_Account (updated_user user t) = mu_Account user" "mu_Password (updated_user user t) = mu_Password t"
  "mu_OldPassword (updated_user user t) = mu_OldPassword t"
  "mu_LastLoginFailedCount (updated_user user t) = mu_LastLoginFailedCount user"
  by (simp_all add: updated_user_def)

lemma user_first_Ok: "user_first E d i = Ok u \<Longrightarrow> u \<in> set (t_user d) \<and> mu_ID u = i"
  by (auto simp: user_first_def res_simps dest!: first_by_SomeD)

lemma updateUser_Ok:
  assumes "updateUser E gl tid reqUser (Some u) d = Ok (x, d')"
  obtains user t user2 d1 d2 where "userRspToModel u = Ok user" "user_first E d (pu_Id u) = Ok t"
    "user_save E (updated_user user t) d = Ok (user2, d1)" "pu_Id x = mu_ID user2"
    "if may_set_relations gl reqUser (pu_Id u)
     then updateUserRoleRelations E (mu_ID user2) (pu_Roles u) d1 = Ok d2 \<and>
       updateUserGroupRelations E (mu_ID user2) (pu_Groups u) d2 = Ok d'
     else d' = d1"
proof (cases "may_set_relations gl reqUser (pu_Id u)")
  case True
  with assms obtain user t user2 d1 d2 where "userRspToModel u = Ok user" "user_first E d (pu_Id u) = Ok t"
    "user_save E (updated_user user t) d = Ok (user2, d1)" "pu_Id x = mu_ID user2"
    "updateUserRoleRelations E (mu_ID user2) (pu_Roles u) d1 = Ok d2"
    "updateUserGroupRelations E (mu_ID user2) (pu_Groups u) d2 = Ok d'"
    by (auto simp: updateUser_def bindR_Ok_iff orUnusable_Ok_iff Let_def userModelToRsp_def
        updated_user_def [symmetric])
  with True show ?thesis by (intro that [of user t user2 d1 d2]) simp_all
next
  case False
  with assms obtain user t user2 where "userRspToModel u = Ok user" "user_first E d (pu_Id u) = Ok t"
    "user_save E (updated_user user t) d = Ok (user2, d')" "pu_Id x = mu_ID user2"
    by (auto simp: updateUser_def bindR_Ok_iff orUnusable_Ok_iff Let_def userModelToRsp_def
        updated_user_def [symmetric])
  with False show ?thesis by (intro that [of user t user2 d' d']) simp_all
qed

lemma updateUser_wf:
  assumes wf: "db_wf d" and val: "validateUserUpdate E gl ctx d tid reqUser uid (Some u) = Ok ()"
    and upd: "updateUser E gl tid reqUser (Some u) d = Ok (x, d')"
  shows "db_wf d'"
  using upd
proof (rule updateUser_Ok)
  fix user t user2 d1 d2
  assume u: "userRspToModel u = Ok user" and t: "user_first E d (pu_Id u) = Ok t"
    and s: "user_save E (updated_user user t) d = Ok (user2, d1)"
    and r: "if may_set_relations gl reqUser (pu_Id u)
     then updateUserRoleRelations E (mu_ID user2) (pu_Roles u) d1 = Ok d2 \<and>
       updateUserGroupRelations E (mu_ID user2) (pu_Groups u) d2 = Ok d' else d' = d1"
  obtain t' where v: "t' \<in> set (t_user d)" "pu_Id u \<noteq> 0 \<Longrightarrow> mu_ID t' = pu_Id u" "tenant_id (pu_Tenant u) = mu_TenantID t'"
    "may_set_relations gl reqUser (pu_Id u) \<Longrightarrow> \<exists>f. checkGroups E d (mu_TenantID t') f (pu_Groups u) = Ok ()"
    using validateUserUpdate_Ok [OF val] by metis
  have f: "mu_ID user = pu_Id u" "mu_TenantID user = mu_TenantID t'" "mu_LastLoginFailedCount user = None"
    using userRspToModel_Ok [OF u] v(3) by simp_all
  have wf1: "db_wf d1"
  proof (rule user_save_wf [OF wf s])
    fix old assume "mu_ID (updated_user user t) \<noteq> 0" "old \<in> set (t_user d)" "mu_ID old = mu_ID (updated_user user t)"
    with v(1,2) f wf have "old = t'"
      by (intro key_unique [of mu_ID "t_user d"]) (auto simp: db_wf_def users_wf_def)
    with f show "mu_TenantID old = mu_TenantID (updated_user user t)" by simp
  qed (simp add: login_wf_def f)
  show "db_wf d'"
  proof (cases "may_set_relations gl reqUser (pu_Id u)")
    case True
    then obtain g where g: "checkGroups E d (mu_TenantID t') g (pu_Groups u) = Ok ()" using v(4) by blast
    show ?thesis using r True checkGroups_Ok [OF g] f
      by (intro save_relations_wf [OF wf wf1 s, of "pu_Roles u" d2 "pu_Groups u"]) auto
  next
    case False
    with r wf1 show ?thesis by simp
  qed
qed

lemma validateUserDelete_Ok:
  assumes "validateUserDelete E gl d tid uid = Ok user"
  shows "uid \<noteq> 0" "user \<in> set (t_user d)" "mu_ID user = uid" "tid \<noteq> 0 \<longrightarrow> mu_TenantID user = tid"
    "\<And>x. x \<in> set (t_role d) \<Longrightarrow> \<lparr>mur_UserID = uid, mur_RoleID = mr_ID x\<rparr> \<in> set (t_user_role d) \<Longrightarrow> mr_ID x \<noteq> gl_Admin gl"
proof -
  from assms obtain roles where v: "uid \<noteq> 0" "user_first_struct E ''validateUserDelete'' d uid tid = Ok user"
    "user_Roles E d (mu_ID user) = Ok roles" "\<forall>r \<in> set roles. mr_ID r \<noteq> gl_Admin gl"
    by (auto simp: validateUserDelete_def res_simps)
  show "uid \<noteq> 0" by (rule v(1))
  from v(1,2) show u: "user \<in> set (t_user d)" "mu_ID user = uid" "tid \<noteq> 0 \<longrightarrow> mu_TenantID user = tid"
    by (auto simp: user_first_struct_def res_simps dest!: first_by_SomeD)
  fix x assume x: "x \<in> set (t_role d)" "\<lparr>mur_UserID = uid, mur_RoleID = mr_ID x\<rparr> \<in> set (t_user_role d)"
  have "roles = filter (\<lambda>y. mr_ID y \<in> set (map mur_RoleID (filter (\<lambda>r. mur_UserID r = mu_ID user) (t_user_role d)))) (t_role d)"
    using v(3) unfolding user_Roles_def bindR_Ok_iff db_Find_Ok_iff Let_def by auto
  with x u(2) have "x \<in> set roles" by force
  with v(4) show "mr_ID x \<noteq> gl_Admin gl" by blast
qed

lemma deleteUser_Ok:
  assumes "deleteUser E gl tid uid d = Ok d'"
  obtains user where "validateUserDelete E gl d tid uid = Ok user"
    "d' = d\<lparr>t_user_group := filter (\<lambda>r. mug_UserID r \<noteq> uid) (t_user_group d),
           t_user_role := filter (\<lambda>r. mur_UserID r \<noteq> uid) (t_user_role d),
           t_user := filter (\<lambda>u. mu_ID u \<noteq> uid) (t_user d)\<rparr>"
    "\<forall>r \<in> set (t_user_receive_event d). mue_UserID r \<noteq> uid"
proof -
  from assms obtain user d1 d2 where u: "validateUserDelete E gl d tid uid = Ok user"
    "updateUserGroupRelations E uid [] d = Ok d1" "updateUserRoleRelations E uid [] d1 = Ok d2"
    "user_delete E (mu_ID user) uid d2 = Ok d'"
    by (auto simp: deleteUser_def bindR_Ok_iff orUnusable_Ok_iff)
  then have "user_delete E uid uid d2 = Ok d'" using validateUserDelete_Ok(3) by simp
  note del = user_delete_Ok [OF this]
  have d1: "d1 = d\<lparr>t_user_group := filter (\<lambda>r. mug_UserID r \<noteq> uid) (t_user_group d)\<rparr>"
    using u(2) by (simp add: updateUserGroupRelations_def bindR_Ok_iff user_group_delete_Ok)
  have d2: "d2 = d1\<lparr>t_user_role := filter (\<lambda>r. mur_UserID r \<noteq> uid) (t_user_role d1)\<rparr>"
    using u(3) by (simp add: updateUserRoleRelations_def bindR_Ok_iff user_role_delete_Ok)
  show ?thesis using del by (intro that [OF u(1)]) (simp_all add: d1 d2)
qed

lemma deleteUser_wf: "db_wf d \<Longrightarrow> deleteUser E gl tid uid d = Ok d' \<Longrightarrow> db_wf d'"
proof -
  assume wf: "db_wf d" and del: "deleteUser E gl tid uid d = Ok d'"
  from del obtain user d1 d2 where u: "validateUserDelete E gl d tid uid = Ok user"
    "updateUserGroupRelations E uid [] d = Ok d1" "updateUserRoleRelations E uid [] d1 = Ok d2"
    "user_delete E (mu_ID user) uid d2 = Ok d'"
    by (auto simp: deleteUser_def bindR_Ok_iff orUnusable_Ok_iff)
  have "db_wf d2" using updateUserRoleRelations_wf [OF updateUserGroupRelations_wf [OF wf u(2)] u(3)] by simp
  then show ?thesis using u(4) validateUserDelete_Ok(3) [OF u(1)] user_delete_wf by simp
qed

lemma new_password_fields [simp]:
  "mu_ID (new_password E b p u) = mu_ID u" "mu_TenantID (new_password E b p u) = mu_TenantID u"
  "mu_LastLoginFailedCount (new_password E b p u) = mu_LastLoginFailedCount u"
  "mu_LastLoginFailedAt (new_password E b p u) = mu_LastLoginFailedAt u"
  "mu_Password (new_password E b p u) = p" "mu_OldPassword (new_password E b p u) = Some (mu_Password u)"
  by (simp_all add: new_password_def)

lemma login_wf_new_password: "login_wf u \<Longrightarrow> login_wf (new_password E b p u)"
  by (simp add: login_wf_def split: option.splits)

lemma save_new_password_wf:
  assumes "db_wf d" "user \<in> set (t_user d)" "user_save E (new_password E b pw user) d = Ok (u', d')"
  shows "db_wf d'"
  by (rule user_save_same_wf [OF assms(1,3,2)])
     (use assms(1,2) in \<open>auto intro: login_wf_new_password simp: db_wf_def logins_wf_def\<close>)

lemma updateUserPassword_Ok:
  assumes "updateUserPassword E uid pw d = Ok d'"
  obtains user user1 where "user \<in> set (t_user d)" "mu_ID user = uid"
    "user_save E (new_password E False pw user) d = Ok (user1, d')"
  using assms by (auto simp: updateUserPassword_def bindR_Ok_iff orNotFound_Ok_iff orUnusable_Ok_iff
      dest!: user_first_Ok)

lemma updateUserPassword_wf: "db_wf d \<Longrightarrow> updateUserPassword E uid pw d = Ok d' \<Longrightarrow> db_wf d'"
  by (erule updateUserPassword_Ok) (rule save_new_password_wf)

lemma resetUserPassword_Ok:
  assumes "resetUserPassword E gl ctx reqUser tid uid d = Ok (pw, d')"
  obtains user user1 where "user \<in> set (t_user d)" "mu_ID user = uid" "uid \<noteq> 0" "tid \<noteq> 0 \<longrightarrow> mu_TenantID user = tid"
    "\<not> (isManager gl (pu_Roles reqUser) \<and> uid = gl_adminUser gl)" "generatePassword E = Ok pw"
    "user_save E (new_password E True (encodePassword E pw) user) d = Ok (user1, d')"
  using assms
  by (auto simp: resetUserPassword_def validateUserPasswordReset_def user_first_struct_def res_simps
      dest!: first_by_SomeD)

lemma resetUserPassword_wf: "db_wf d \<Longrightarrow> resetUserPassword E gl ctx reqUser tid uid d = Ok (pw, d') \<Longrightarrow> db_wf d'"
  by (erule resetUserPassword_Ok) (rule save_new_password_wf)

end
