(* ===== verification/Identity_Handler.thy ===== *)
theory Identity_Handler
  imports Identity_User
begin

text \<open>
  \<open>services/identity/handler/handler.go\<close>: every RPC of the identity service as a state transformer,
  the transaction around it, authorization, and the step relation of the running service.
\<close>

section \<open>Requests and responses\<close>

datatype request =
    GetUser u64
  | GetSimpleUser u64
  | AddUser "p_user option"
  | UpdateUser u64 "p_user option"
  | DeleteUser u64
  | GetUsers get_users_request
  | UpdateUserPassword update_password_request
  | ResetUserPassword u64
  | GetGroups string
  | GetGroup u64
  | AddGroup "p_group option"
  | UpdateGroup u64 "p_group option"
  | DeleteGroup u64
  | SetGroupUsers u64 "p_user list"
  | GetRoles string string
  | Login login_request
  | Logout
  | VerifySession
  | RevokeSession string
  | GetConfig
  | SetConfig "p_config option"
  | CheckAuthorization string
  | GetTenants string
  | GetTenant u64
  | AddTenant "p_tenant option"
  | UpdateTenant u64 "p_tenant option"
  | ActivateTenant u64
  | DeactivateTenant u64

datatype response =
    UserResponse p_user
  | SimpleUserResponse p_simple_user
  | AddUserResponse p_user string
  | MessageResponse
  | UsersResponse "p_user list" "p_pagination option"
  | UserPasswordResponse string
  | GroupsResponse "p_group list"
  | GroupResponse p_group
  | RolesResponse "p_role list"
  | ConfigResponse p_config
  | TenantsResponse "p_tenant list"
  | TenantResponse p_tenant

section \<open>The shape of a handler\<close>

definition evcode :: "string \<Rightarrow> string \<Rightarrow> string" where
  "evcode rpc part = ''cdm-cloud.identity.'' @ rpc @ ''.'' @ part"

text \<open>\<open>if err != nil { return createError(ctx, code, err) }\<close>, for a computation that only reads.\<close>

definition onError ::
  "env \<Rightarrow> ctx \<Rightarrow> string \<Rightarrow> (sys \<Rightarrow> (goerr, 'a) res) \<Rightarrow> ('a \<Rightarrow> sys \<Rightarrow> (goerr, 'b) res \<times> sys)
    \<Rightarrow> sys \<Rightarrow> (goerr, 'b) res \<times> sys" where
  "onError E ctx code m k s =
     (case m s of Ok x \<Rightarrow> k x s | Fail e \<Rightarrow> createError E ctx code e s | Panic \<Rightarrow> (Panic, s))"

text \<open>The same for a computation that writes the database.\<close>

definition onErrorDB ::
  "env \<Rightarrow> ctx \<Rightarrow> string \<Rightarrow> (db \<Rightarrow> (goerr, 'a \<times> db) res) \<Rightarrow> ('a \<Rightarrow> sys \<Rightarrow> (goerr, 'b) res \<times> sys)
    \<Rightarrow> sys \<Rightarrow> (goerr, 'b) res \<times> sys" where
  "onErrorDB E ctx code m k s =
     (case m (s_db s) of
        Ok (x, d) \<Rightarrow> k x (s\<lparr>s_db := d\<rparr>) | Fail e \<Rightarrow> createError E ctx code e s | Panic \<Rightarrow> (Panic, s))"

text \<open>A writer without a result, and one that writes the store.\<close>

definition unitDB :: "(goerr, db) res \<Rightarrow> (goerr, unit \<times> db) res" where
  "unitDB m = bindR m (\<lambda>d. Ok ((), d))"

definition onErrorKV ::
  "env \<Rightarrow> ctx \<Rightarrow> string \<Rightarrow> (sys \<Rightarrow> (goerr, 'a) res \<times> kv) \<Rightarrow> ('a \<Rightarrow> sys \<Rightarrow> (goerr, 'b) res \<times> sys)
    \<Rightarrow> sys \<Rightarrow> (goerr, 'b) res \<times> sys" where
  "onErrorKV E ctx code m k s =
     (case m s of
        (Ok x, kv) \<Rightarrow> k x (s\<lparr>s_kv := kv\<rparr>)
      | (Fail e, kv) \<Rightarrow> createError E ctx code e (s\<lparr>s_kv := kv\<rparr>)
      | (Panic, kv) \<Rightarrow> (Panic, s\<lparr>s_kv := kv\<rparr>))"

definition putKV :: "kv \<Rightarrow> (goerr, 'a \<times> kv) res \<Rightarrow> (goerr, 'a) res \<times> kv" where
  "putKV m r = (case r of Ok (x, m') \<Rightarrow> (Ok x, m') | Fail e \<Rightarrow> (Fail e, m) | Panic \<Rightarrow> (Panic, m))"

definition getRequestMetadata :: "env \<Rightarrow> ctx \<Rightarrow> (goerr, u64 \<times> p_user) res" where
  "getRequestMetadata E ctx =
     bindR (mapE (\<lambda>_. InvalidRequest ctx) (GetTenantID ctx)) (\<lambda>i.
     bindR (mapE (\<lambda>_. InvalidRequest ctx) (GetAuthenticatedUser E ctx)) (\<lambda>user.
     Ok (i, user)))"

definition withMetadata ::
  "env \<Rightarrow> ctx \<Rightarrow> string \<Rightarrow> (u64 \<Rightarrow> p_user \<Rightarrow> sys \<Rightarrow> (goerr, 'b) res \<times> sys) \<Rightarrow> sys \<Rightarrow> (goerr, 'b) res \<times> sys" where
  "withMetadata E ctx rpc k =
     onError E ctx (evcode rpc ''failure-get_request_metadata'') (\<lambda>_. getRequestMetadata E ctx) (\<lambda>(i, u). k i u)"

definition ok :: "env \<Rightarrow> ctx \<Rightarrow> string \<Rightarrow> response \<Rightarrow> sys \<Rightarrow> (goerr, response) res \<times> sys" where
  "ok E ctx rpc rsp = StatusOK E ctx (evcode rpc ''success'') rsp"

section \<open>Users\<close>

definition h_GetUser :: "env \<Rightarrow> globals \<Rightarrow> ctx \<Rightarrow> u64 \<Rightarrow> sys \<Rightarrow> (goerr, response) res \<times> sys" where
  "h_GetUser E gl ctx uid =
     withMetadata E ctx ''get_user'' (\<lambda>tid reqUser.
     onError E ctx (evcode ''get_user'' ''failure-validate'') (\<lambda>_. validateUserGet E gl ctx reqUser uid) (\<lambda>_.
     onError E ctx (evcode ''get_user'' ''failure-get'') (\<lambda>s. getUser E gl (s_db s) tid uid) (\<lambda>user.
     if tid \<noteq> tenant_id (pu_Tenant user)
     then createError E ctx (evcode ''get_user'' ''failure-get'') (notFoundUser (VU64 uid))
     else ok E ctx ''get_user'' (UserResponse user))))"

definition h_GetSimpleUser :: "env \<Rightarrow> globals \<Rightarrow> ctx \<Rightarrow> u64 \<Rightarrow> sys \<Rightarrow> (goerr, response) res \<times> sys" where
  "h_GetSimpleUser E gl ctx uid =
     withMetadata E ctx ''get_simple_user'' (\<lambda>tid _.
     onError E ctx (evcode ''get_simple_user'' ''failure-get'') (\<lambda>s. getSimpleUser E gl (s_db s) tid uid) (\<lambda>user.
     ok E ctx ''get_simple_user'' (SimpleUserResponse user)))"

definition h_AddUser :: "env \<Rightarrow> globals \<Rightarrow> ctx \<Rightarrow> p_user option \<Rightarrow> sys \<Rightarrow> (goerr, response) res \<times> sys" where
  "h_AddUser E gl ctx req =
     withMetadata E ctx ''add_user'' (\<lambda>tid _.
     onError E ctx (evcode ''add_user'' ''failure-validate'') (\<lambda>s. validateUserAdd E gl ctx (s_db s) tid req) (\<lambda>tenant.
     onError E ctx (evcode ''add_user'' ''failure-generate_password'') (\<lambda>_. generatePassword E) (\<lambda>password.
     onErrorDB E ctx (evcode ''add_user'' ''failure-add'') (addUser E req password) (\<lambda>user.
     ok E ctx ''add_user'' (AddUserResponse (user\<lparr>pu_Tenant := Some tenant\<rparr>) password)))))"

definition h_UpdateUser :: "env \<Rightarrow> globals \<Rightarrow> ctx \<Rightarrow> u64 \<Rightarrow> p_user option \<Rightarrow> sys \<Rightarrow> (goerr, response) res \<times> sys" where
  "h_UpdateUser E gl ctx uid req =
     withMetadata E ctx ''update_user'' (\<lambda>tid reqUser.
     onError E ctx (evcode ''update_user'' ''failure-validate'')
       (\<lambda>s. validateUserUpdate E gl ctx (s_db s) tid reqUser uid req) (\<lambda>_.
     onErrorDB E ctx (evcode ''update_user'' ''failure-update'') (updateUser E gl tid reqUser req) (\<lambda>user.
     ok E ctx ''update_user'' (UserResponse user))))"

definition h_DeleteUser :: "env \<Rightarrow> globals \<Rightarrow> ctx \<Rightarrow> u64 \<Rightarrow> sys \<Rightarrow> (goerr, response) res \<times> sys" where
  "h_DeleteUser E gl ctx uid =
     withMetadata E ctx ''delete_user'' (\<lambda>tid _.
     onErrorDB E ctx (evcode ''delete_user'' ''failure-delete'') (\<lambda>d. unitDB (deleteUser E gl tid uid d)) (\<lambda>_.
     ok E ctx ''delete_user'' MessageResponse))"

definition makeUserFilter :: "get_users_request \<Rightarrow> userFilter list" where
  "makeUserFilter req =
     (if gu_Solution req \<noteq> [] then [UserSolutionFilter (gu_Solution req) (gu_Role req)] else []) @
     (if gu_GroupId req \<noteq> 0 then [UserGroupFilter (gu_GroupId req)] else []) @
     (if gu_ExcludeGroupId req \<noteq> 0 then [UserExcludeGroupFilter (gu_ExcludeGroupId req)] else []) @
     (if gu_Name req \<noteq> [] then [UserNameFilter (gu_Name req)] else []) @
     (if gu_Department req \<noteq> [] then [UserDepartmentFilter (gu_Department req)] else []) @
     (if gu_Position req \<noteq> [] then [UserPositionFilter (gu_Position req)] else []) @
     (if gu_Offset req \<noteq> None \<and> gu_Limit req \<noteq> None \<and> get0 (gu_Limit req) \<noteq> 0
      then [PaginationFilter (get0 (gu_Offset req)) (get0 (gu_Limit req))] else []) @
     (if gu_LoginOnly req then [LoginFilter] else [])"

definition h_GetUsers :: "env \<Rightarrow> globals \<Rightarrow> ctx \<Rightarrow> get_users_request \<Rightarrow> sys \<Rightarrow> (goerr, response) res \<times> sys" where
  "h_GetUsers E gl ctx req =
     withMetadata E ctx ''get_users'' (\<lambda>tid _.
     onError E ctx (evcode ''get_users'' ''failure-validate'') (\<lambda>_. validateUserListGet req) (\<lambda>_.
     onError E ctx (evcode ''get_users'' ''failure-get'')
       (\<lambda>s. getUsers E gl (s_db s) (s_kv s) tid (makeUserFilter req)) (\<lambda>users.
     if users = [] then createError E ctx (evcode ''get_users'' ''success-get'') ErrNoContent
     else
       onError E ctx (evcode ''get_users'' ''failure-get_user_count'')
         (\<lambda>s. getUsersPagination E (s_db s) (s_kv s) tid (makeUserFilter req)) (\<lambda>page.
       ok E ctx ''get_users'' (UsersResponse users (Some page))))))"

definition h_UpdateUserPassword ::
  "env \<Rightarrow> ctx \<Rightarrow> update_password_request \<Rightarrow> sys \<Rightarrow> (goerr, response) res \<times> sys" where
  "h_UpdateUserPassword E ctx req =
     withMetadata E ctx ''update_user_password'' (\<lambda>_ reqUser.
     onError E ctx (evcode ''update_user_password'' ''failure-validate'')
       (\<lambda>s. validateUserPasswordUpdate E (s_db s) reqUser req) (\<lambda>_.
     onErrorDB E ctx (evcode ''update_user_password'' ''failure-update'')
       (\<lambda>d. unitDB (updateUserPassword E (up_UserId req) (up_NewPassword req) d)) (\<lambda>_.
     ok E ctx ''update_user_password'' MessageResponse)))"

definition h_ResetUserPassword :: "env \<Rightarrow> globals \<Rightarrow> ctx \<Rightarrow> u64 \<Rightarrow> sys \<Rightarrow> (goerr, response) res \<times> sys" where
  "h_ResetUserPassword E gl ctx uid =
     withMetadata E ctx ''reset_user_password'' (\<lambda>tid reqUser.
     onErrorDB E ctx (evcode ''reset_user_password'' ''failure-reset'')
       (resetUserPassword E gl ctx reqUser tid uid) (\<lambda>password.
     ok E ctx ''reset_user_password'' (UserPasswordResponse password)))"

section \<open>Groups and roles\<close>

definition name_filter :: "string \<Rightarrow> string list" where
  "name_filter name = (if name \<noteq> [] then [name] else [])"

definition h_GetGroups :: "env \<Rightarrow> ctx \<Rightarrow> string \<Rightarrow> sys \<Rightarrow> (goerr, response) res \<times> sys" where
  "h_GetGroups E ctx name =
     withMetadata E ctx ''get_groups'' (\<lambda>tid _.
     onError E ctx (evcode ''get_groups'' ''failure-validate'') (\<lambda>_. validateGroupListGet name) (\<lambda>_.
     onError E ctx (evcode ''get_groups'' ''failure-get'') (\<lambda>s. getGroups E (s_db s) tid (name_filter name)) (\<lambda>groups.
     if groups = [] then createError E ctx (evcode ''get_groups'' ''success-get'') ErrNoContent
     else ok E ctx ''get_groups'' (GroupsResponse groups))))"

definition h_GetGroup :: "env \<Rightarrow> ctx \<Rightarrow> u64 \<Rightarrow> sys \<Rightarrow> (goerr, response) res \<times> sys" where
  "h_GetGroup E ctx gid =
     withMetadata E ctx ''get_group'' (\<lambda>tid _.
     onError E ctx (evcode ''get_group'' ''failure-get'') (\<lambda>s. getGroup E (s_db s) tid gid) (\<lambda>g.
     ok E ctx ''get_group'' (GroupResponse g)))"

definition h_AddGroup :: "env \<Rightarrow> ctx \<Rightarrow> p_group option \<Rightarrow> sys \<Rightarrow> (goerr, response) res \<times> sys" where
  "h_AddGroup E ctx req =
     withMetadata E ctx ''add_group'' (\<lambda>tid _.
     onErrorDB E ctx (evcode ''add_group'' ''failure-add'') (addGroup E ctx tid req) (\<lambda>g.
     ok E ctx ''add_group'' (GroupResponse g)))"

definition h_UpdateGroup :: "env \<Rightarrow> ctx \<Rightarrow> u64 \<Rightarrow> p_group option \<Rightarrow> sys \<Rightarrow> (goerr, response) res \<times> sys" where
  "h_UpdateGroup E ctx gid req =
     withMetadata E ctx ''update_group'' (\<lambda>tid _.
     onError E ctx (evcode ''update_group'' ''failure-validate'') (\<lambda>s. validateUpdateGroup E (s_db s) tid gid req) (\<lambda>_.
     onErrorDB E ctx (evcode ''update_group'' ''failure-update'') (updateGroup E tid req) (\<lambda>g.
     ok E ctx ''update_group'' (GroupResponse g))))"

definition h_DeleteGroup :: "env \<Rightarrow> ctx \<Rightarrow> u64 \<Rightarrow> sys \<Rightarrow> (goerr, response) res \<times> sys" where
  "h_DeleteGroup E ctx gid =
     withMetadata E ctx ''delete_group'' (\<lambda>tid _.
     onErrorDB E ctx (evcode ''delete_group'' ''failure-delete'') (\<lambda>d. unitDB (deleteGroup E ctx tid gid d)) (\<lambda>_.
     ok E ctx ''delete_group'' MessageResponse))"

definition h_SetGroupUsers :: "env \<Rightarrow> ctx \<Rightarrow> u64 \<Rightarrow> p_user list \<Rightarrow> sys \<Rightarrow> (goerr, response) res \<times> sys" where
  "h_SetGroupUsers E ctx gid users =
     withMetadata E ctx ''set_group_users'' (\<lambda>tid _.
     onErrorDB E ctx (evcode ''set_group_users'' ''failure-set'') (setGroupUsers E ctx tid gid users) (\<lambda>us.
     ok E ctx ''set_group_users'' (UsersResponse us None)))"

definition h_GetRoles :: "env \<Rightarrow> ctx \<Rightarrow> string \<Rightarrow> string \<Rightarrow> sys \<Rightarrow> (goerr, response) res \<times> sys" where
  "h_GetRoles E ctx solution role =
     withMetadata E ctx ''get_roles'' (\<lambda>tid _.
     onError E ctx (evcode ''get_roles'' ''failure-validate'') (\<lambda>_. validateRoleList solution role) (\<lambda>_.
     onError E ctx (evcode ''get_roles'' ''failure-get'') (\<lambda>s. getRoles E (s_db s)
        ([TenantSolutionFilter tid] @ (if solution \<noteq> [] then [SolutionNameFilter solution] else []) @
         (if role \<noteq> [] then [RoleNameFilter role] else []))) (\<lambda>roles.
     if roles = [] then createError E ctx (evcode ''get_roles'' ''success-get'') ErrNoContent
     else ok E ctx ''get_roles'' (RolesResponse roles))))"

section \<open>Sessions\<close>

text \<open>The transaction of \<open>Login\<close>: an unknown account is reported like any unauthenticated request.\<close>

definition hideUnknownUser :: "ctx \<Rightarrow> (goerr, 'a) res \<Rightarrow> (goerr, 'a) res" where
  "hideUnknownUser ctx = mapE (\<lambda>e. if errors_Equal (Some e) errNotFoundUser then UnauthenticatedRequest ctx else e)"

definition h_Login :: "env \<Rightarrow> globals \<Rightarrow> ctx \<Rightarrow> login_request \<Rightarrow> sys \<Rightarrow> (goerr, response) res \<times> sys" where
  "h_Login E gl ctx req =
     onErrorDB E ctx (evcode ''login'' ''failure-login'') (\<lambda>d. hideUnknownUser ctx (loginUser E gl ctx req d)) (\<lambda>user.
     onErrorKV E ctx (evcode ''login'' ''failure-new_session'')
       (\<lambda>s. newSession E ctx (s_db s) (tenant_id (pu_Tenant user)) (pu_Id user) (lr_Force req) (s_kv s)) (\<lambda>key.
     ok E ctx ''login'' (UserResponse (user\<lparr>pu_Session := Some key\<rparr>))))"

text \<open>
  The deferred transaction after a wrong password.  Its closure reports a failure as an event and
  returns nil, so that it always commits.
\<close>

definition h_LoginFailed :: "env \<Rightarrow> ctx \<Rightarrow> login_request \<Rightarrow> sys \<Rightarrow> (goerr, unit) res \<times> sys" where
  "h_LoginFailed E ctx req s =
     (case updateUserLoginFailedInfo E req (s_db s) of
        Ok d \<Rightarrow> (Ok (), s\<lparr>s_db := d\<rparr>)
      | Fail e \<Rightarrow>
          (Ok (), if errors_Equal (Some e) ErrUnusableDatabase
                  then reportEvent E ctx (evcode ''login'' ''warning-update_user_login_failed_info'') ''unusable_database'' (Some e) s
                  else if errors_Equal (Some e) ErrUnknown
                  then reportEvent E ctx (evcode ''login'' ''warning-update_user_login_failed_info'') ''unknown'' (Some e) s
                  else s)
      | Panic \<Rightarrow> (Panic, s))"

definition h_Logout :: "env \<Rightarrow> ctx \<Rightarrow> sys \<Rightarrow> (goerr, response) res \<times> sys" where
  "h_Logout E ctx =
     onError E ctx (evcode ''logout'' ''failure-get_authenticated_session'')
       (\<lambda>_. mapE (\<lambda>_. InvalidRequest ctx) (GetAuthenticatedSession ctx)) (\<lambda>session.
     onError E ctx (evcode ''logout'' ''failure-get_authenticated_user'')
       (\<lambda>_. mapE (\<lambda>_. InvalidRequest ctx) (GetAuthenticatedUser E ctx)) (\<lambda>reqUser.
     onError E ctx (evcode ''logout'' ''failure-validate_delete_session'')
       (\<lambda>_. validateDeleteSession E reqUser session) (\<lambda>i.
     onErrorKV E ctx (evcode ''logout'' ''failure-delete_session'')
       (\<lambda>s. putKV (s_kv s) (bindR (deleteSession E i (s_kv s)) (\<lambda>m. Ok ((), m)))) (\<lambda>_.
     ok E ctx ''logout'' MessageResponse))))"

definition h_VerifySession :: "env \<Rightarrow> globals \<Rightarrow> ctx \<Rightarrow> sys \<Rightarrow> (goerr, response) res \<times> sys" where
  "h_VerifySession E gl ctx =
     onError E ctx (evcode ''verify_session'' ''failure-get_authenticated_session'')
       (\<lambda>_. mapE (\<lambda>_. UnauthenticatedRequest ctx) (GetAuthenticatedSession ctx)) (\<lambda>session.
     onError E ctx (evcode ''verify_session'' ''failure-get_tenant_id'') (\<lambda>_. GetTenantID ctx) (\<lambda>tid.
     onError E ctx (evcode ''verify_session'' ''failure-verify'') (\<lambda>s. verifySession E ctx (s_kv s) session) (\<lambda>payload.
     onError E ctx (evcode ''verify_session'' ''failure-get_user'') (\<lambda>s. getUser E gl (s_db s) tid (sp_ID payload)) (\<lambda>user.
     onErrorKV E ctx (evcode ''verify_session'' ''failure-update_session'')
       (\<lambda>s. putKV (s_kv s) (updateSession E ctx (s_db s) (pu_Id user) (tenant_id (pu_Tenant user)) (sp_MagicNumber payload) (s_kv s))) (\<lambda>key.
     ok E ctx ''verify_session'' (UserResponse (user\<lparr>pu_Session := Some key\<rparr>)))))))"

definition h_RevokeSession :: "env \<Rightarrow> globals \<Rightarrow> ctx \<Rightarrow> string \<Rightarrow> sys \<Rightarrow> (goerr, response) res \<times> sys" where
  "h_RevokeSession E gl ctx sessionKey =
     withMetadata E ctx ''revoke_session'' (\<lambda>tid reqUser.
     onError E ctx (evcode ''logout'' ''failure-validate_revoke_session'')
       (\<lambda>s. validateRevokeSession E gl (s_db s) reqUser tid sessionKey) (\<lambda>i.
     onErrorKV E ctx (evcode ''revoke_session'' ''failure-delete_session'')
       (\<lambda>s. putKV (s_kv s) (bindR (deleteSession E i (s_kv s)) (\<lambda>m. Ok ((), m)))) (\<lambda>_.
     ok E ctx ''revoke_session'' MessageResponse)))"

section \<open>Settings and tenants\<close>

definition h_GetConfig :: "env \<Rightarrow> ctx \<Rightarrow> sys \<Rightarrow> (goerr, response) res \<times> sys" where
  "h_GetConfig E ctx =
     withMetadata E ctx ''get_config'' (\<lambda>tid _.
     onError E ctx (evcode ''get_config'' ''failure-get'') (\<lambda>s. getConfig E (s_db s) tid) (\<lambda>cfg.
     ok E ctx ''get_config'' (ConfigResponse cfg)))"

definition h_SetConfig :: "env \<Rightarrow> ctx \<Rightarrow> p_config option \<Rightarrow> sys \<Rightarrow> (goerr, response) res \<times> sys" where
  "h_SetConfig E ctx req =
     withMetadata E ctx ''set_config'' (\<lambda>tid _.
     onErrorDB E ctx (evcode ''set_config'' ''failure-set'') (\<lambda>d. unitDB (setConfig E tid req d)) (\<lambda>_.
     onError E ctx (evcode ''set_config'' ''failure-get'') (\<lambda>s. getConfig E (s_db s) tid) (\<lambda>cfg.
     ok E ctx ''set_config'' (ConfigResponse cfg))))"

definition h_GetTenants :: "env \<Rightarrow> ctx \<Rightarrow> string \<Rightarrow> sys \<Rightarrow> (goerr, response) res \<times> sys" where
  "h_GetTenants E ctx name =
     onError E ctx (evcode ''get_tenants'' ''failure-validate'') (\<lambda>_. validateTenantListGet name) (\<lambda>_.
     onError E ctx (evcode ''get_tenants'' ''failure-get'') (\<lambda>s. getTenants E (s_db s) (name_filter name)) (\<lambda>tenants.
     if tenants = [] then createError E ctx (evcode ''get_tenants'' ''success-get'') ErrNoContent
     else ok E ctx ''get_tenants'' (TenantsResponse tenants)))"

definition h_GetTenant :: "env \<Rightarrow> ctx \<Rightarrow> u64 \<Rightarrow> sys \<Rightarrow> (goerr, response) res \<times> sys" where
  "h_GetTenant E ctx tid =
     onError E ctx (evcode ''get_tenant'' ''failure-get'') (\<lambda>s. getTenant E (s_db s) tid) (\<lambda>t.
     ok E ctx ''get_tenant'' (TenantResponse t))"

definition h_AddTenant :: "env \<Rightarrow> ctx \<Rightarrow> p_tenant option \<Rightarrow> sys \<Rightarrow> (goerr, response) res \<times> sys" where
  "h_AddTenant E ctx req =
     onErrorDB E ctx (evcode ''add_tenant'' ''failure-add'') (addTenant E req) (\<lambda>t.
     ok E ctx ''add_tenant'' (TenantResponse t))"

definition h_UpdateTenant :: "env \<Rightarrow> ctx \<Rightarrow> u64 \<Rightarrow> p_tenant option \<Rightarrow> sys \<Rightarrow> (goerr, response) res \<times> sys" where
  "h_UpdateTenant E ctx tid req =
     onErrorDB E ctx (evcode ''update_tenant'' ''failure-update'') (updateTenant E tid req) (\<lambda>t.
     ok E ctx ''update_tenant'' (TenantResponse t))"

definition h_ActivateTenant :: "env \<Rightarrow> ctx \<Rightarrow> u64 \<Rightarrow> sys \<Rightarrow> (goerr, response) res \<times> sys" where
  "h_ActivateTenant E ctx tid =
     onErrorDB E ctx (evcode ''activate_tenant'' ''failure-activate'') (activateTenant E tid) (\<lambda>t.
     ok E ctx ''activate_tenant'' (TenantResponse t))"

definition h_DeactivateTenant :: "env \<Rightarrow> ctx \<Rightarrow> u64 \<Rightarrow> sys \<Rightarrow> (goerr, response) res \<times> sys" where
  "h_DeactivateTenant E ctx tid =
     onErrorDB E ctx (evcode ''deactivate_tenant'' ''failure-deactivate'') (deactivateTenant E tid) (\<lambda>t.
     ok E ctx ''deactivate_tenant'' (TenantResponse t))"

section \<open>Authorization\<close>

text \<open>
  The matcher of \<open>casbinModelConf\<close>, over the policies and casbin's role manager.  Without a policy
  the matcher is evaluated once with empty policy fields.
\<close>

definition casbin_matcher :: "env \<Rightarrow> string \<times> string \<times> string \<Rightarrow> string \<times> string \<times> string \<Rightarrow> bool" where
  "casbin_matcher E r p =
     (case (r, p) of ((rsub, robj, ract), (psub, pobj, pact)) \<Rightarrow>
        e_HasLink E rsub psub robj \<and> robj = pobj \<and> ract = pact \<or> rsub = ''admin'')"

definition Enforce :: "env \<Rightarrow> globals \<Rightarrow> string \<Rightarrow> string \<Rightarrow> string \<Rightarrow> bool \<times> goerr option" where
  "Enforce E gl sub obj act =
     (case e_EnforceErr E sub obj act of
        Some e \<Rightarrow> (False, Some e)
      | None \<Rightarrow>
          ((if gl_policy gl = [] then casbin_matcher E (sub, obj, act) ([], [], [])
            else \<exists>p \<in> set (gl_policy gl). casbin_matcher E (sub, obj, act) p), None))"

fun enforceRoles ::
  "env \<Rightarrow> globals \<Rightarrow> ctx \<Rightarrow> string \<Rightarrow> p_role list \<Rightarrow> sys \<Rightarrow> (goerr, response) res \<times> sys" where
  "enforceRoles E gl ctx endpoint [] s =
     createError E ctx (evcode ''check_authorization'' ''failure'') (UnauthorizedRequest E ctx) s"
| "enforceRoles E gl ctx endpoint (r # rs) s =
     (case Enforce E gl (pr_Role r) (pr_Solution r) endpoint of
        (True, _) \<Rightarrow> ok E ctx ''check_authorization'' MessageResponse s
      | (False, Some e) \<Rightarrow> createError E ctx (evcode ''check_authorization'' ''failure-enforce'') e s
      | (False, None) \<Rightarrow> enforceRoles E gl ctx endpoint rs s)"

definition user_role_entry :: p_role where
  "user_role_entry = \<lparr>pr_Id = 0, pr_Solution = ''CDM-Cloud'', pr_Role = ''user''\<rparr>"

definition checkTenant :: "u64 \<Rightarrow> unit body" where
  "checkTenant tid E s = (orNotFound (notFoundTenant tid) (bindR (tenant_first E (s_db s) tid) (\<lambda>_. Ok ())), s)"

definition h_CheckAuthorization ::
  "trial \<Rightarrow> env \<Rightarrow> globals \<Rightarrow> ctx \<Rightarrow> string \<Rightarrow> sys \<Rightarrow> ((goerr, response) res \<times> sys) option" where
  "h_CheckAuthorization tr E gl ctx endpoint s =
     (case getRequestMetadata E ctx of
        Panic \<Rightarrow> Some (Panic, s)
      | Fail e \<Rightarrow> Some (createError E ctx (evcode ''check_authorization'' ''failure-get_request_metadata'') e s)
      | Ok (tid, user) \<Rightarrow>
          (case Transaction tr (checkTenant tid) s of
             None \<Rightarrow> None
           | Some (Panic, s1) \<Rightarrow> Some (Panic, s1)
           | Some (Fail e, s1) \<Rightarrow> Some (createError E ctx (evcode ''check_authorization'' ''failure-transaction'') e s1)
           | Some (Ok _, s1) \<Rightarrow>
               if isAdmin gl (pu_Roles user) then
                 Some (enforceRoles E gl ctx endpoint (pu_Roles user @ [user_role_entry]) s1)
               else
                 (case pu_Tenant user of None \<Rightarrow> Some (Panic, s1)
                  | Some t \<Rightarrow>
                      if tid \<noteq> pt_Id t then
                        Some (createError E ctx (evcode ''check_authorization'' ''failure-mismatch_user'')
                                (UnauthorizedRequest E ctx) s1)
                      else Some (enforceRoles E gl ctx endpoint (pu_Roles user @ [user_role_entry]) s1))))"

section \<open>The service\<close>

text \<open>The RPCs that are one transaction, with its body; \<open>Login\<close> and \<open>CheckAuthorization\<close> are not.\<close>

fun handle :: "globals \<Rightarrow> ctx \<Rightarrow> request \<Rightarrow> response body option" where
  "handle gl ctx (GetUser uid) = Some (\<lambda>E. h_GetUser E gl ctx uid)"
| "handle gl ctx (GetSimpleUser uid) = Some (\<lambda>E. h_GetSimpleUser E gl ctx uid)"
| "handle gl ctx (AddUser req) = Some (\<lambda>E. h_AddUser E gl ctx req)"
| "handle gl ctx (UpdateUser uid req) = Some (\<lambda>E. h_UpdateUser E gl ctx uid req)"
| "handle gl ctx (DeleteUser uid) = Some (\<lambda>E. h_DeleteUser E gl ctx uid)"
| "handle gl ctx (GetUsers req) = Some (\<lambda>E. h_GetUsers E gl ctx req)"
| "handle gl ctx (UpdateUserPassword req) = Some (\<lambda>E. h_UpdateUserPassword E ctx req)"
| "handle gl ctx (ResetUserPassword uid) = Some (\<lambda>E. h_ResetUserPassword E gl ctx uid)"
| "handle gl ctx (GetGroups name) = Some (\<lambda>E. h_GetGroups E ctx name)"
| "handle gl ctx (GetGroup gid) = Some (\<lambda>E. h_GetGroup E ctx gid)"
| "handle gl ctx (AddGroup req) = Some (\<lambda>E. h_AddGroup E ctx req)"
| "handle gl ctx (UpdateGroup gid req) = Some (\<lambda>E. h_UpdateGroup E ctx gid req)"
| "handle gl ctx (DeleteGroup gid) = Some (\<lambda>E. h_DeleteGroup E ctx gid)"
| "handle gl ctx (SetGroupUsers gid users) = Some (\<lambda>E. h_SetGroupUsers E ctx gid users)"
| "handle gl ctx (GetRoles solution role) = Some (\<lambda>E. h_GetRoles E ctx solution role)"
| "handle gl ctx Logout = Some (\<lambda>E. h_Logout E ctx)"
| "handle gl ctx VerifySession = Some (\<lambda>E. h_VerifySession E gl ctx)"
| "handle gl ctx (RevokeSession key) = Some (\<lambda>E. h_RevokeSession E gl ctx key)"
| "handle gl ctx GetConfig = Some (\<lambda>E. h_GetConfig E ctx)"
| "handle gl ctx (SetConfig req) = Some (\<lambda>E. h_SetConfig E ctx req)"
| "handle gl ctx (GetTenants name) = Some (\<lambda>E. h_GetTenants E ctx name)"
| "handle gl ctx (GetTenant tid) = Some (\<lambda>E. h_GetTenant E ctx tid)"
| "handle gl ctx (AddTenant req) = Some (\<lambda>E. h_AddTenant E ctx req)"
| "handle gl ctx (UpdateTenant tid req) = Some (\<lambda>E. h_UpdateTenant E ctx tid req)"
| "handle gl ctx (ActivateTenant tid) = Some (\<lambda>E. h_ActivateTenant E ctx tid)"
| "handle gl ctx (DeactivateTenant tid) = Some (\<lambda>E. h_DeactivateTenant E ctx tid)"
| "handle gl ctx (Login req) = None"
| "handle gl ctx (CheckAuthorization endpoint) = None"

text \<open>
  One call: the metadata, the outcomes of its transaction, those of the deferred transaction of a
  failed login, and what the code outside a transaction observes.
\<close>

record call =
  c_ctx :: ctx
  c_trial :: trial
  c_failed :: trial
  c_env :: env

text \<open>
  The error that \<open>Login\<close> keeps in its variable is the contents of the status it returns: no status
  is retried, so the transaction returns the last one.
\<close>

definition login_cause :: "(goerr, 'a) res \<Rightarrow> goerr option" where
  "login_cause r = (case r of Fail (MicroErr _ _ c) \<Rightarrow> c | _ \<Rightarrow> None)"

definition serve_Login ::
  "globals \<Rightarrow> call \<Rightarrow> login_request \<Rightarrow> sys \<Rightarrow> ((goerr, response) res \<times> sys) option" where
  "serve_Login gl c req s =
     (case Transaction (c_trial c) (\<lambda>E. h_Login E gl (c_ctx c) req) s of
        None \<Rightarrow> None
      | Some (r, s1) \<Rightarrow>
          if errors_Equal (login_cause r) errIncorrectPassword then
            (case Transaction (c_failed c) (\<lambda>E. h_LoginFailed E (c_ctx c) req) s1 of
               None \<Rightarrow> None
             | Some (Panic, s2) \<Rightarrow> Some (Panic, s2)
             | Some (_, s2) \<Rightarrow> Some (r, s2))
          else Some (r, s1))"

definition serve :: "globals \<Rightarrow> call \<Rightarrow> request \<Rightarrow> sys \<Rightarrow> ((goerr, response) res \<times> sys) option" where
  "serve gl c req s =
     (case handle gl (c_ctx c) req of
        Some body \<Rightarrow> Transaction (c_trial c) body s
      | None \<Rightarrow>
          (case req of
             Login r \<Rightarrow> serve_Login gl c r s
           | CheckAuthorization endpoint \<Rightarrow> h_CheckAuthorization (c_trial c) (c_env c) gl (c_ctx c) endpoint s
           | _ \<Rightarrow> None))"

text \<open>A running service: calls one after another, and leases of the store running out between them.\<close>

inductive step :: "globals \<Rightarrow> sys \<Rightarrow> sys \<Rightarrow> bool" for gl where
  step_call: "serve gl c req s = Some (r, s') \<Longrightarrow> step gl s s'"
| step_expire: "step gl s (s\<lparr>s_kv := kv_expire k (s_kv s)\<rparr>)"

inductive reachable :: "globals \<Rightarrow> sys \<Rightarrow> sys \<Rightarrow> bool" for gl s0 where
  reachable_init: "reachable gl s0 s0"
| reachable_step: "reachable gl s0 s \<Longrightarrow> step gl s s' \<Longrightarrow> reachable gl s0 s'"

text \<open>\<open>NewIdentityHandler\<close> reads the two roles and the admin account when the service starts.\<close>

definition NewIdentityHandler :: "(string \<times> string \<times> string) list \<Rightarrow> env \<Rightarrow> db \<Rightarrow> (goerr, globals) res" where
  "NewIdentityHandler policy E d =
     orNotFound (Unknown (Some (DBErr ErrRecordNotFound)))
       (bindR (db_First E ''NewIdentityHandler user'' 0
          (first_by mu_ID (\<lambda>u. mu_Account u = ''admin'') (t_user d))) (\<lambda>adminUser.
        bindR (db_First E ''NewIdentityHandler admin'' 0
          (first_by mr_ID (\<lambda>r. mr_Solution r = ''CDM-Cloud'' \<and> mr_Role r = ''admin'') (t_role d))) (\<lambda>admin.
        bindR (db_First E ''NewIdentityHandler manager'' 0
          (first_by mr_ID (\<lambda>r. mr_Solution r = ''CDM-Cloud'' \<and> mr_Role r = ''manager'') (t_role d))) (\<lambda>manager.
        Ok \<lparr>gl_Admin = mr_ID admin, gl_Manager = mr_ID manager, gl_adminUser = mu_ID adminUser, gl_policy = policy\<rparr>))))"

end
