(* ===== verification/Sample.thy ===== *)
theory Sample
  imports Identity_Handler "HOL-Library.Code_Target_Numeral"
begin

text \<open>
  A small installation that the witnesses evaluate: one tenant, the admin account and a manager, two
  groups, the settings of the tenant; no fault occurs.  The code that is not part of the repository is
  instantiated by concrete functions, among them a textual codec for session payloads.
\<close>

definition is_Ok :: "('e, 'a) res \<Rightarrow> bool" where
  "is_Ok r = (case r of Ok _ \<Rightarrow> True | _ \<Rightarrow> False)"

lemma is_OkE: "is_Ok r \<Longrightarrow> (\<And>x. r = Ok x \<Longrightarrow> P) \<Longrightarrow> P"
  by (cases r) (simp_all add: is_Ok_def)

section \<open>A codec for session payloads\<close>

definition sample_marshal :: "session_payload \<Rightarrow> string" where
  "sample_marshal p = FormatUint (sp_ID p) @ CHR ''.'' # FormatInt (sp_CreateDate p) @ CHR ''.'' #
     FormatInt (sp_ExpiryDate p) @ CHR ''.'' # FormatUint (sp_MagicNumber p) @ CHR ''.'' # Base64Encode (sp_ClientIP p)"

definition sample_unmarshal :: "string \<Rightarrow> session_payload option option" where
  "sample_unmarshal s =
     (case SplitChar (CHR ''.'') s of
        [i, c, e, n, ip] \<Rightarrow>
          (case (ParseUint i, ParseInt c, ParseInt e, ParseUint n, Base64Decode ip) of
             (Some i', Some c', Some e', Some n', Some ip') \<Rightarrow>
               Some (Some \<lparr>sp_ID = i', sp_CreateDate = c', sp_ExpiryDate = e', sp_MagicNumber = n', sp_ClientIP = ip'\<rparr>)
           | _ \<Rightarrow> None)
      | _ \<Rightarrow> None)"

lemma FormatNat_no_dot: "CHR ''.'' \<notin> set (FormatNat n)"
  using FormatNat_digits [of "CHR ''.''" n] by auto

lemma Format_no_dot [simp]: "CHR ''.'' \<notin> set (FormatUint u)" "CHR ''.'' \<notin> set (FormatInt i)"
  by (simp_all add: FormatUint_def FormatInt_def FormatNat_no_dot)

lemma sample_unmarshal_marshal:
  "in_i64 (sp_CreateDate p) \<Longrightarrow> in_i64 (sp_ExpiryDate p) \<Longrightarrow> sample_unmarshal (sample_marshal p) = Some (Some p)"
  by (simp add: sample_unmarshal_def sample_marshal_def SplitChar_append SplitChar_no_sep Base64Encode_no_dot
      ParseUint_FormatUint ParseInt_FormatInt Base64Decode_Encode)

interpretation payload_codec: codec sample_marshal "\<lambda>s. Option.bind (sample_unmarshal s) id"
    "\<lambda>p. in_i64 (sp_CreateDate p) \<and> in_i64 (sp_ExpiryDate p)"
  by unfold_locales (simp add: sample_unmarshal_marshal)

section \<open>The environment\<close>

definition sample_user :: "u64 \<Rightarrow> string \<Rightarrow> m_user" where
  "sample_user i account =
     \<lparr>mu_ID = i, mu_TenantID = 1, mu_Account = account, mu_Name = account, mu_Department = None, mu_Position = None,
      mu_Email = None, mu_Contact = None, mu_LanguageSet = None, mu_Timezone = None, mu_Password = ''secret'',
      mu_OldPassword = None, mu_PasswordUpdatedAt = Some 1000, mu_PasswordUpdateFlag = Some False,
      mu_LastLoggedInAt = None, mu_LastLoggedInIP = None, mu_LastLoginFailedCount = None, mu_LastLoginFailedAt = None,
      mu_CreatedAt = 1000, mu_UpdatedAt = 1000\<rparr>"

definition admin_role :: p_role where
  "admin_role = \<lparr>pr_Id = 1, pr_Solution = ''CDM-Cloud'', pr_Role = ''admin''\<rparr>"

definition manager_role :: p_role where
  "manager_role = \<lparr>pr_Id = 2, pr_Solution = ''CDM-Cloud'', pr_Role = ''manager''\<rparr>"

definition sample_tenant :: p_tenant where
  "sample_tenant = \<lparr>pt_Id = 1, pt_Name = ''default'', pt_UseFlag = Some True, pt_Solutions = [''CDM-Cloud''],
     pt_Remarks = [], pt_CreatedAt = 1000, pt_UpdatedAt = 1000\<rparr>"

definition root_user :: p_user where
  "root_user = (userModelToRsp (sample_user 1 ''admin''))\<lparr>pu_Tenant := Some sample_tenant, pu_Roles := [admin_role]\<rparr>"

definition alice_user :: p_user where
  "alice_user = (userModelToRsp (sample_user 2 ''alice''))\<lparr>pu_Tenant := Some sample_tenant, pu_Roles := [manager_role]\<rparr>"

definition sample_env :: env where
  "sample_env =
     \<lparr>e_now = 2000, e_fault = (\<lambda>_ _. None), e_gap = 0, e_kv_fault = (\<lambda>_ _. None), e_publish = (\<lambda>_. True),
      e_like = (\<lambda>_ _. True), e_IsExistingEmail = (\<lambda>_. True), e_LoadLocation = (\<lambda>_. True), e_Intn = (\<lambda>_. 0),
      e_Generate = (\<lambda>_ _ _ _. Some ''pw''), e_sha256 = id, e_SignPSS = Some, e_VerifyPSS = (=),
      e_Uint64 = 7, e_MarshalPayload = sample_marshal, e_UnmarshalPayload = sample_unmarshal,
      e_UnmarshalUser = (\<lambda>v. if v = ''root'' then Some root_user else if v = ''alice'' then Some alice_user else None),
      e_HasLink = (\<lambda>a b _. a = b), e_EnforceErr = (\<lambda>_ _ _. None)\<rparr>"

definition sample_ctx :: "string \<Rightarrow> ctx" where
  "sample_ctx who = [HeaderTenantID \<mapsto> ''1'', HeaderClientIP \<mapsto> ''10.0.0.1'', HeaderAuthenticatedUser \<mapsto> who]"

section \<open>The state\<close>

definition sample_config :: "string \<times> string \<Rightarrow> m_tenant_config" where
  "sample_config kv = \<lparr>mtc_TenantID = 1, mtc_Key = fst kv, mtc_Value = snd kv\<rparr>"

definition sample_db :: db where
  "sample_db =
     \<lparr>t_tenant = [\<lparr>mt_ID = 1, mt_Name = ''default'', mt_Remarks = None, mt_UseFlag = True, mt_CreatedAt = 1000, mt_UpdatedAt = 1000\<rparr>],
      t_tenant_solution = [\<lparr>mts_TenantID = 1, mts_Solution = ''CDM-Cloud''\<rparr>],
      t_role = [\<lparr>mr_ID = 1, mr_Solution = ''CDM-Cloud'', mr_Role = ''admin''\<rparr>,
                \<lparr>mr_ID = 2, mr_Solution = ''CDM-Cloud'', mr_Role = ''manager''\<rparr>],
      t_group = [\<lparr>mg_ID = 1, mg_TenantID = 1, mg_Name = ''default'', mg_Remarks = None, mg_CreatedAt = 1000,
                  mg_UpdatedAt = 1000, mg_DeletedFlag = False\<rparr>,
                 \<lparr>mg_ID = 2, mg_TenantID = 1, mg_Name = ''dev'', mg_Remarks = None, mg_CreatedAt = 1000,
                  mg_UpdatedAt = 1000, mg_DeletedFlag = False\<rparr>],
      t_user = [sample_user 1 ''admin'', sample_user 2 ''alice''],
      t_user_role = [\<lparr>mur_UserID = 1, mur_RoleID = 1\<rparr>, \<lparr>mur_UserID = 2, mur_RoleID = 2\<rparr>],
      t_user_group = [\<lparr>mug_UserID = 2, mug_GroupID = 2\<rparr>],
      t_user_receive_event = [], t_global_config = [],
      t_tenant_config = map sample_config
        [(UserLoginRestrictionEnable, ''true''), (UserLoginRestrictionTryCount, ''5''), (UserLoginRestrictionTime, ''60'')],
      t_service_config = [], seq_tenant = 10, seq_group = 10, seq_user = 10,
      t_tenant_receive_event = [], t_event_code = [], t_event_error = [], t_event = [], seq_event = 10\<rparr>"

definition sample_sys :: sys where
  "sample_sys = \<lparr>s_db = sample_db, s_kv = [], s_out = [], s_pub = []\<rparr>"

definition sample_globals :: globals where
  "sample_globals = \<lparr>gl_Admin = 1, gl_Manager = 2, gl_adminUser = 1, gl_policy = [(''user'', ''CDM-Cloud'', ''Identity.GetUser'')]\<rparr>"

definition sample_trial :: trial where
  "sample_trial = \<lparr>tr_begin = None, tr_savepoint = None,
     tr_attempts = [\<lparr>at_env = sample_env, at_release = Released, at_restart = None\<rparr>]\<rparr>"

definition sample_call :: "string \<Rightarrow> call" where
  "sample_call who = \<lparr>c_ctx = sample_ctx who, c_trial = sample_trial, c_failed = sample_trial, c_env = sample_env\<rparr>"

lemmas sample_defs = sample_db_def sample_sys_def sample_globals_def sample_trial_def sample_call_def sample_env_def
  sample_user_def sample_config_def

lemma sample_db_wf: "db_wf sample_db"
  by (simp add: db_wf_def wf_defs same_email_def login_wf_def cfg_key_def sample_defs config_keys)

section \<open>A session\<close>

definition sample_login :: "(goerr, string) res \<times> kv" where
  "sample_login = newSession sample_env (sample_ctx ''root'') sample_db 1 2 False []"

definition sample_key :: string where
  "sample_key = (case fst sample_login of Ok k \<Rightarrow> k | _ \<Rightarrow> [])"

definition sample_kv :: kv where
  "sample_kv = snd sample_login"

lemma sample_newSession: "newSession sample_env (sample_ctx ''root'') sample_db 1 2 False [] = (Ok sample_key, sample_kv)"
  by code_simp

lemma sample_ctx_ip: "GetClientIP (sample_ctx who) = Ok ''10.0.0.1''"
  by (simp add: GetClientIP_def sample_ctx_def HeaderClientIP_def HeaderAuthenticatedUser_def)

lemma sample_verify:
  "verifySession sample_env (sample_ctx ''root'') sample_kv sample_key =
     Ok (generatePayload sample_env (sample_ctx ''root'') 2 7 30)"
  by code_simp

lemma in_i64_now: "in_i64 (e_now sample_env)"
  by (simp add: sample_env_def in_i64_def)

lemma sample_env_simps [simp]:
  "e_now sample_env = 2000" "e_fault sample_env site i = None" "e_kv_fault sample_env op k = None"
  "e_Uint64 sample_env = 7"
  by (simp_all add: sample_env_def)

end
