(* ===== verification/Notification_Config.thy ===== *)
theory Notification_Config
  imports Identity_Convert
begin

text \<open>
  \<open>services/notification/config\<close>: the notification settings of a tenant, their validation, and which
  events a tenant and a user receive.  Names carry the prefix \<open>n_\<close> where the identity service has the same.
\<close>

section \<open>Messages and parameters\<close>

record smtp_notifier =
  sm_ServerAddress :: string
  sm_ServerPort :: u32
  sm_Encryption :: string
  sm_AuthMechanism :: string
  sm_AuthUsername :: string
  sm_AuthPassword :: string
  sm_Sender :: string

record sms_notifier =
  ss_Provider :: string
  ss_Version :: string

record n_config =
  nc_EventNotificationEnable :: "bool option"
  nc_EventEmailNotificationEnable :: "bool option"
  nc_EventDesktopNotificationEnable :: "bool option"
  nc_EventPopupNotificationEnable :: "bool option"
  nc_EventSmsNotificationEnable :: "bool option"
  nc_EventCustomNotificationEnable :: "bool option"
  nc_EventStorePeriod :: "u32 option"
  nc_EventSmtpNotifier :: "smtp_notifier option"
  nc_EventSmsNotifier :: "sms_notifier option"

record event_receive =
  er_Code :: string
  er_Enable :: "bool option"

record receives_request =
  rr_Solution :: string
  rr_Class1 :: string
  rr_Class2 :: string
  rr_Class3 :: string
  rr_Level :: string

text \<open>
  An event with its code and its tenant (\<open>event.Record\<close>), and the code outside the repository that the
  notification service uses: JSON, time, network and SMTP.
\<close>

record event_record =
  rec_Event :: n_event
  rec_EventCode :: m_event_code
  rec_Tenant :: m_tenant

record nprm =
  n_MarshalSMTP :: "smtp_notifier \<Rightarrow> (goerr, string) res"
  n_UnmarshalSMTP :: "string \<Rightarrow> smtp_notifier option"
  n_MarshalSMS :: "sms_notifier \<Rightarrow> (goerr, string) res"
  n_UnmarshalSMS :: "string \<Rightarrow> sms_notifier option"
  n_ValidObject :: "string \<Rightarrow> bool"
  n_UnmarshalEvent :: "string \<Rightarrow> n_event option"
  n_UnmarshalRecord :: "string \<Rightarrow> event_record option"
  n_UnmarshalDelivery :: "string \<Rightarrow> (n_event option \<times> m_user option) option"
  n_ParseTime :: "string \<Rightarrow> int option"
  n_FormatTime :: "string \<Rightarrow> int \<Rightarrow> string"
  n_SplitHost :: "string \<Rightarrow> string option"
  n_smtp :: "string \<Rightarrow> goerr option"
  n_date :: "int \<Rightarrow> int"

section \<open>Keys (common/config) and errors.go\<close>

definition EventNotificationEnable :: string where
  "EventNotificationEnable = ''event_notification_enable''"

definition EventEmailNotificationEnable :: string where
  "EventEmailNotificationEnable = ''event_email_notification_enable''"

definition EventDesktopNotificationEnable :: string where
  "EventDesktopNotificationEnable = ''event_desktop_notification_enable''"

definition EventPopupNotificationEnable :: string where
  "EventPopupNotificationEnable = ''event_popup_notification_enable''"

definition EventSmsNotificationEnable :: string where
  "EventSmsNotificationEnable = ''event_sms_notification_enable''"

definition EventCustomNotificationEnable :: string where
  "EventCustomNotificationEnable = ''event_custom_notification_enable''"

definition EventStorePeriod :: string where
  "EventStorePeriod = ''event_store_period''"

definition EventEmailNotifier :: string where
  "EventEmailNotifier = ''event_smtp_notifier''"

definition EventSMSNotifier :: string where
  "EventSMSNotifier = ''event_sms_notifier''"

lemmas n_keys = EventNotificationEnable_def EventEmailNotificationEnable_def EventDesktopNotificationEnable_def
  EventPopupNotificationEnable_def EventSmsNotificationEnable_def EventCustomNotificationEnable_def
  EventStorePeriod_def EventEmailNotifier_def EventSMSNotifier_def

definition n_ErrNotFoundUser :: goerr where
  "n_ErrNotFoundUser = errors_New ''not found user''"

definition n_ErrNotFoundTenant :: goerr where
  "n_ErrNotFoundTenant = errors_New ''not found tenant''"

definition n_NotFoundUser :: "u64 \<Rightarrow> goerr" where
  "n_NotFoundUser i = errors_Wrap n_ErrNotFoundUser [(''id'', VU64 i)]"

definition n_NotFoundTenant :: "u64 \<Rightarrow> goerr" where
  "n_NotFoundTenant i = errors_Wrap n_ErrNotFoundTenant [(''id'', VU64 i)]"

section \<open>Queries\<close>

text \<open>
  \<open>db.Find\<close> into one struct scans every row into it: the last one stays, none is \<open>ErrRecordNotFound\<close>.
  A zero field of a struct condition is no condition.
\<close>

definition db_FindOne :: "env \<Rightarrow> string \<Rightarrow> u64 \<Rightarrow> 'r list \<Rightarrow> (dberr, 'r) res" where
  "db_FindOne E site k rows = exec E site k (if rows = [] then Fail ErrRecordNotFound else Ok (last rows))"

definition if_given :: "'a::zero \<Rightarrow> 'a \<Rightarrow> bool" where
  "if_given v x \<longleftrightarrow> v = 0 \<or> x = v"

definition if_given_str :: "string \<Rightarrow> string \<Rightarrow> bool" where
  "if_given_str v x \<longleftrightarrow> v = [] \<or> x = v"

definition ValidateUser :: "env \<Rightarrow> db \<Rightarrow> u64 \<Rightarrow> (goerr, unit) res" where
  "ValidateUser E d userID =
     bindR (orNotFound (n_NotFoundUser userID)
       (db_FindOne E ''ValidateUser'' userID (filter (\<lambda>u. if_given userID (mu_ID u)) (t_user d)))) (\<lambda>_. Ok ())"

definition ValidateTenant :: "env \<Rightarrow> db \<Rightarrow> u64 \<Rightarrow> (goerr, unit) res" where
  "ValidateTenant E d tenantID =
     bindR (orNotFound (n_NotFoundTenant tenantID)
       (db_FindOne E ''ValidateTenant'' tenantID (filter (\<lambda>t. if_given tenantID (mt_ID t)) (t_tenant d)))) (\<lambda>_. Ok ())"

section \<open>Validation (util.go)\<close>

definition validateEventStorePeriod :: "u32 \<Rightarrow> (goerr, unit) res" where
  "validateEventStorePeriod period =
     guardR (period > 120) (OutOfRangeParameterValue ''event_store_period'' (VU64 (ucast period)) 0 120) (Ok ())"

text \<open>The strings that must be given and may have 1024 bytes.\<close>

definition required_1024 :: "string \<Rightarrow> string \<Rightarrow> string \<Rightarrow> (goerr, unit) res" where
  "required_1024 missing param v =
     guardR (v = []) (RequiredParameter missing) (
     guardR (length v > 1024) (LengthOverflowParameterValue param v 1024) (Ok ()))"

definition validateServerAddress :: "string \<Rightarrow> (goerr, unit) res" where
  "validateServerAddress = required_1024 ''event_smtp_notifier.server_address'' ''event_smtp_notifier.server_address''"

definition validateServerPort :: "u32 \<Rightarrow> (goerr, unit) res" where
  "validateServerPort port =
     guardR (port = 0 \<or> port > 65535) (OutOfRangeParameterValue ''event_smtp_notifier.server_port'' (VU64 (ucast port)) 1 65535) (Ok ())"

definition one_of :: "string \<Rightarrow> string list \<Rightarrow> string \<Rightarrow> (goerr, unit) res" where
  "one_of param vs v =
     guardR (v = []) (RequiredParameter param) (
     guardR (v \<notin> set vs) (UnavailableParameterValue param (VStr v) vs) (Ok ()))"

definition validateEncryption :: "string \<Rightarrow> (goerr, unit) res" where
  "validateEncryption = one_of ''event_smtp_notifier.encryption'' [''none'', ''ssl/tls'', ''starttls'']"

definition validateAuthMechanism :: "string \<Rightarrow> (goerr, unit) res" where
  "validateAuthMechanism = one_of ''event_smtp_notifier.auth_mechanism'' [''PLAIN'', ''LOGIN'', ''CRAM-MD5'']"

definition validateAuthUsername :: "string \<Rightarrow> (goerr, unit) res" where
  "validateAuthUsername = required_1024 ''event_smtp_notifier.auth_username'' ''event_smtp_notifier.auth_username''"

definition validateAuthPassword :: "string \<Rightarrow> (goerr, unit) res" where
  "validateAuthPassword = required_1024 ''auth_username'' ''event_smtp_notifier.auth_password''"

definition validateSender :: "string \<Rightarrow> (goerr, unit) res" where
  "validateSender sender =
     guardR (length sender > 1024) (LengthOverflowParameterValue ''event_smtp_notifier.sender'' sender 1024) (Ok ())"

definition validateProvider :: "string \<Rightarrow> (goerr, unit) res" where
  "validateProvider = required_1024 ''event_sms_notifier.provider'' ''event_sms_notifier.provider''"

definition validateVersion :: "string \<Rightarrow> (goerr, unit) res" where
  "validateVersion = required_1024 ''event_sms_notifier.version'' ''event_sms_notifier.version''"

definition validateSmtp :: "smtp_notifier \<Rightarrow> (goerr, unit) res" where
  "validateSmtp m =
     bindR (validateServerAddress (sm_ServerAddress m)) (\<lambda>_.
     bindR (validateServerPort (sm_ServerPort m)) (\<lambda>_.
     bindR (validateEncryption (sm_Encryption m)) (\<lambda>_.
     bindR (validateAuthMechanism (sm_AuthMechanism m)) (\<lambda>_.
     bindR (validateAuthUsername (sm_AuthUsername m)) (\<lambda>_.
     bindR (validateAuthPassword (sm_AuthPassword m)) (\<lambda>_.
     validateSender (sm_Sender m)))))))"

definition validateSms :: "sms_notifier \<Rightarrow> (goerr, unit) res" where
  "validateSms m = bindR (validateProvider (ss_Provider m)) (\<lambda>_. validateVersion (ss_Version m))"

text \<open>The getters of a nil \<open>Config\<close> return nil, so that a missing config lacks its first setting.\<close>

definition ValidateConfig :: "n_config option \<Rightarrow> (goerr, unit) res" where
  "ValidateConfig conf =
     (case conf of None \<Rightarrow> Fail (RequiredParameter ''event_notification_enable'')
      | Some c \<Rightarrow>
          guardR (nc_EventNotificationEnable c = None) (RequiredParameter ''event_notification_enable'') (
          guardR (nc_EventEmailNotificationEnable c = None) (RequiredParameter ''event_email_notification_enable'') (
          guardR (nc_EventDesktopNotificationEnable c = None) (RequiredParameter ''event_desktop_notification_enable'') (
          guardR (nc_EventPopupNotificationEnable c = None) (RequiredParameter ''event_popup_notification_enable'') (
          guardR (nc_EventSmsNotificationEnable c = None) (RequiredParameter ''event_sms_notification_enable'') (
          guardR (nc_EventCustomNotificationEnable c = None) (RequiredParameter ''event_custom_notification_enable'') (
          (case nc_EventStorePeriod c of None \<Rightarrow> Fail (RequiredParameter ''event_store_period'')
           | Some period \<Rightarrow>
          (case nc_EventSmtpNotifier c of None \<Rightarrow> Fail (RequiredParameter ''event_notification_enable'')
           | Some smtp \<Rightarrow>
          (case nc_EventSmsNotifier c of None \<Rightarrow> Fail (RequiredParameter ''event_notification_enable'')
           | Some sms \<Rightarrow>
               bindR (validateEventStorePeriod period) (\<lambda>_.
               bindR (if val_bool (nc_EventEmailNotificationEnable c) then validateSmtp smtp else Ok ()) (\<lambda>_.
               if val_bool (nc_EventSmsNotificationEnable c) then validateSms sms else Ok ()))))))))))))"

section \<open>Reading (util.go and config.go)\<close>

definition defaultConfig :: "string \<Rightarrow> string" where
  "defaultConfig key =
     (if key \<in> {EventNotificationEnable, EventEmailNotificationEnable, EventDesktopNotificationEnable,
               EventPopupNotificationEnable, EventSmsNotificationEnable, EventCustomNotificationEnable} then ''false''
      else if key = EventStorePeriod then ''12''
      else if key \<in> {EventEmailNotifier, EventSMSNotifier} then ''{}'' else [])"

definition getConfigOne :: "env \<Rightarrow> db \<Rightarrow> u64 \<Rightarrow> string \<Rightarrow> (goerr, string) res" where
  "getConfigOne E d tenantID key =
     (case db_FindOne E (''getConfigOne '' @ key) tenantID
             (filter (\<lambda>c. if_given tenantID (mtc_TenantID c) \<and> if_given_str key (mtc_Key c)) (t_tenant_config d)) of
        Ok c \<Rightarrow> Ok (mtc_Value c)
      | Fail ErrRecordNotFound \<Rightarrow> Ok (defaultConfig key)
      | Fail e \<Rightarrow> Fail (UnusableDatabase (Some (DBErr e)))
      | Panic \<Rightarrow> Panic)"

definition orUnknown_value :: "string \<Rightarrow> 'a option \<Rightarrow> (goerr, 'a) res" where
  "orUnknown_value what m = (case m of Some v \<Rightarrow> Ok v | None \<Rightarrow> Fail (Unknown (Some (PlainErr what))))"

definition getConfigBool :: "env \<Rightarrow> db \<Rightarrow> u64 \<Rightarrow> string \<Rightarrow> (goerr, bool) res" where
  "getConfigBool E d tenantID key =
     bindR (getConfigOne E d tenantID key) (\<lambda>s. orUnknown_value ''strconv.ParseBool'' (ParseBool s))"

definition getConfigUint32 :: "env \<Rightarrow> db \<Rightarrow> u64 \<Rightarrow> string \<Rightarrow> (goerr, u32) res" where
  "getConfigUint32 E d tenantID key =
     bindR (getConfigOne E d tenantID key) (\<lambda>s.
     bindR (orUnknown_value ''strconv.ParseUint'' (ParseUint s)) (\<lambda>v. Ok (ucast v)))"

definition getConfigEventSMTPNotifier :: "nprm \<Rightarrow> env \<Rightarrow> db \<Rightarrow> u64 \<Rightarrow> string \<Rightarrow> (goerr, smtp_notifier) res" where
  "getConfigEventSMTPNotifier N E d tenantID key =
     bindR (getConfigOne E d tenantID key) (\<lambda>s. orUnknown_value ''json.Unmarshal'' (n_UnmarshalSMTP N s))"

definition getConfigEventSMSNotifier :: "nprm \<Rightarrow> env \<Rightarrow> db \<Rightarrow> u64 \<Rightarrow> string \<Rightarrow> (goerr, sms_notifier) res" where
  "getConfigEventSMSNotifier N E d tenantID key =
     bindR (getConfigOne E d tenantID key) (\<lambda>s. orUnknown_value ''json.Unmarshal'' (n_UnmarshalSMS N s))"

definition GetConfigEmailNotifier :: "nprm \<Rightarrow> env \<Rightarrow> db \<Rightarrow> u64 \<Rightarrow> (goerr, smtp_notifier) res" where
  "GetConfigEmailNotifier N E d tenantID = getConfigEventSMTPNotifier N E d tenantID EventEmailNotifier"

definition n_GetConfig :: "nprm \<Rightarrow> env \<Rightarrow> db \<Rightarrow> u64 \<Rightarrow> (goerr, n_config) res" where
  "n_GetConfig N E d tenantID =
     bindR (getConfigBool E d tenantID EventNotificationEnable) (\<lambda>enable.
     bindR (getConfigBool E d tenantID EventEmailNotificationEnable) (\<lambda>email.
     bindR (getConfigBool E d tenantID EventDesktopNotificationEnable) (\<lambda>desktop.
     bindR (getConfigBool E d tenantID EventPopupNotificationEnable) (\<lambda>popup.
     bindR (getConfigBool E d tenantID EventSmsNotificationEnable) (\<lambda>sms.
     bindR (getConfigBool E d tenantID EventCustomNotificationEnable) (\<lambda>custom.
     bindR (getConfigUint32 E d tenantID EventStorePeriod) (\<lambda>period.
     bindR (getConfigEventSMTPNotifier N E d tenantID EventEmailNotifier) (\<lambda>smtp_n.
     bindR (getConfigEventSMSNotifier N E d tenantID EventSMSNotifier) (\<lambda>sms_n.
     Ok \<lparr>nc_EventNotificationEnable = Some enable, nc_EventEmailNotificationEnable = Some email,
         nc_EventDesktopNotificationEnable = Some desktop, nc_EventPopupNotificationEnable = Some popup,
         nc_EventSmsNotificationEnable = Some sms, nc_EventCustomNotificationEnable = Some custom,
         nc_EventStorePeriod = Some period, nc_EventSmtpNotifier = Some smtp_n, nc_EventSmsNotifier = Some sms_n\<rparr>)))))))))"

section \<open>Writing\<close>

definition setConfigOne :: "env \<Rightarrow> u64 \<Rightarrow> string \<Rightarrow> string \<Rightarrow> db \<Rightarrow> (goerr, db) res" where
  "setConfigOne E tenantID key v d =
     orUnusable (tenant_config_save E \<lparr>mtc_TenantID = tenantID, mtc_Key = key, mtc_Value = v\<rparr> d)"

text \<open>A missing value is an error; otherwise its text is saved.\<close>

definition setConfigValue ::
  "('a \<Rightarrow> (goerr, string) res) \<Rightarrow> env \<Rightarrow> u64 \<Rightarrow> string \<Rightarrow> 'a option \<Rightarrow> db \<Rightarrow> (goerr, db) res" where
  "setConfigValue print E tenantID key v d =
     (case v of None \<Rightarrow> Fail (RequiredParameter key)
      | Some x \<Rightarrow> bindR (mapE (\<lambda>e. Unknown (Some e)) (print x)) (\<lambda>t. setConfigOne E tenantID key t d))"

definition setConfigBool :: "env \<Rightarrow> u64 \<Rightarrow> string \<Rightarrow> bool option \<Rightarrow> db \<Rightarrow> (goerr, db) res" where
  "setConfigBool = setConfigValue (\<lambda>b. Ok (FormatBool b))"

definition setConfigUint32 :: "env \<Rightarrow> u64 \<Rightarrow> string \<Rightarrow> u32 option \<Rightarrow> db \<Rightarrow> (goerr, db) res" where
  "setConfigUint32 = setConfigValue (\<lambda>v. Ok (FormatUint (ucast v)))"

definition setConfigEventSMTPNotifier :: "nprm \<Rightarrow> env \<Rightarrow> u64 \<Rightarrow> string \<Rightarrow> smtp_notifier option \<Rightarrow> db \<Rightarrow> (goerr, db) res" where
  "setConfigEventSMTPNotifier N = setConfigValue (n_MarshalSMTP N)"

definition setConfigEventSMSNotifier :: "nprm \<Rightarrow> env \<Rightarrow> u64 \<Rightarrow> string \<Rightarrow> sms_notifier option \<Rightarrow> db \<Rightarrow> (goerr, db) res" where
  "setConfigEventSMSNotifier N = setConfigValue (n_MarshalSMS N)"

definition n_SetConfig :: "nprm \<Rightarrow> env \<Rightarrow> u64 \<Rightarrow> n_config \<Rightarrow> db \<Rightarrow> (goerr, db) res" where
  "n_SetConfig N E tenantID c d =
     bindR (setConfigBool E tenantID EventNotificationEnable (nc_EventNotificationEnable c) d) (\<lambda>d.
     bindR (setConfigBool E tenantID EventEmailNotificationEnable (nc_EventEmailNotificationEnable c) d) (\<lambda>d.
     bindR (setConfigBool E tenantID EventDesktopNotificationEnable (nc_EventDesktopNotificationEnable c) d) (\<lambda>d.
     bindR (setConfigBool E tenantID EventPopupNotificationEnable (nc_EventPopupNotificationEnable c) d) (\<lambda>d.
     bindR (setConfigBool E tenantID EventSmsNotificationEnable (nc_EventSmsNotificationEnable c) d) (\<lambda>d.
     bindR (setConfigBool E tenantID EventCustomNotificationEnable (nc_EventCustomNotificationEnable c) d) (\<lambda>d.
     bindR (setConfigUint32 E tenantID EventStorePeriod (nc_EventStorePeriod c) d) (\<lambda>d.
     bindR (setConfigEventSMTPNotifier N E tenantID EventEmailNotifier (nc_EventSmtpNotifier c) d) (\<lambda>d.
     setConfigEventSMSNotifier N E tenantID EventSMSNotifier (nc_EventSmsNotifier c) d))))))))"

section \<open>Receives\<close>

definition code_match :: "receives_request \<Rightarrow> m_event_code \<Rightarrow> bool" where
  "code_match req c \<longleftrightarrow>
     if_given_str (rr_Solution req) (mec_Solution c) \<and> if_given_str (rr_Class1 req) (mec_Class1 c) \<and>
     if_given_str (rr_Class2 req) (mec_Class2 c) \<and> if_given_str (rr_Class3 req) (mec_Class3 c) \<and>
     if_given_str (rr_Level req) (mec_Level c)"

text \<open>Given any filter, some event code must satisfy it.\<close>

definition check_filter :: "env \<Rightarrow> db \<Rightarrow> receives_request \<Rightarrow> (goerr, unit) res" where
  "check_filter E d req =
     (if rr_Solution req \<noteq> [] \<or> rr_Class1 req \<noteq> [] \<or> rr_Class2 req \<noteq> [] \<or> rr_Class3 req \<noteq> [] \<or> rr_Level req \<noteq> []
      then bindR (orNotFound (InvalidParameterValue ''request''
                (VStrs [rr_Solution req, rr_Class1 req, rr_Class2 req, rr_Class3 req, rr_Level req]) ''record not found'')
              (db_FindOne E ''cdm_event_code.find'' 0 (filter (code_match req) (t_event_code d)))) (\<lambda>_. Ok ())
      else Ok ())"

definition GetTenantEventReceives :: "env \<Rightarrow> db \<Rightarrow> u64 \<Rightarrow> receives_request \<Rightarrow> (goerr, event_receive list) res" where
  "GetTenantEventReceives E d tenantID req =
     bindR (check_filter E d req) (\<lambda>_.
     bindR (orUnusable (db_Find E ''GetTenantEventReceives'' tenantID
       (filter (\<lambda>(r, c). mec_Code c = mte_Code r \<and> if_given tenantID (mte_TenantID r) \<and> code_match req c)
          (List.product (t_tenant_receive_event d) (t_event_code d))))) (\<lambda>receives.
     Ok (map (\<lambda>(r, _). \<lparr>er_Code = mte_Code r, er_Enable = Some (mte_ReceiveFlag r)\<rparr>) receives)))"

definition tenant_receive_save :: "env \<Rightarrow> m_tenant_receive_event \<Rightarrow> db \<Rightarrow> (dberr, db) res" where
  "tenant_receive_save E r d = exec E (''cdm_tenant_receive_event.save '' @ mte_Code r) (mte_TenantID r)
     (let same = (\<lambda>y. mte_Code y = mte_Code r \<and> mte_TenantID y = mte_TenantID r) in
      if mte_Code r \<noteq> [] \<and> (\<exists>y \<in> set (t_tenant_receive_event d). same y)
      then Ok (d\<lparr>t_tenant_receive_event := map (\<lambda>y. if same y then r else y) (t_tenant_receive_event d)\<rparr>)
      else guardR (\<not> (\<exists>t \<in> set (t_tenant d). mt_ID t = mte_TenantID r)) fk_violation
        (guardR (\<exists>y \<in> set (t_tenant_receive_event d). same y) unique_violation
          (Ok (d\<lparr>t_tenant_receive_event := t_tenant_receive_event d @ [r]\<rparr>))))"

definition SetTenantEventReceives :: "env \<Rightarrow> u64 \<Rightarrow> event_receive list \<Rightarrow> db \<Rightarrow> (goerr, db) res" where
  "SetTenantEventReceives E tenantID items d =
     orUnusable (foldR (\<lambda>item. tenant_receive_save E
       \<lparr>mte_Code = er_Code item, mte_TenantID = tenantID, mte_ReceiveFlag = val_bool (er_Enable item)\<rparr>) items d)"

text \<open>The receives of a user: a \<open>NULL\<close> flag is not returned.\<close>

definition GetUserEventReceives :: "env \<Rightarrow> db \<Rightarrow> u64 \<Rightarrow> receives_request \<Rightarrow> (goerr, event_receive list) res" where
  "GetUserEventReceives E d userID req =
     bindR (check_filter E d req) (\<lambda>_.
     bindR (orUnusable (db_Find E ''GetUserEventReceives'' userID
       (filter (\<lambda>(r, c). mec_Code c = mue_Code r \<and> if_given userID (mue_UserID r) \<and> code_match req c)
          (List.product (t_user_receive_event d) (t_event_code d))))) (\<lambda>receives.
     Ok (concat (map (\<lambda>(r, _). case mue_ReceiveFlag r of None \<Rightarrow> []
                       | Some b \<Rightarrow> [\<lparr>er_Code = mue_Code r, er_Enable = Some b\<rparr>]) receives))))"

definition user_receive_save :: "env \<Rightarrow> m_user_receive_event \<Rightarrow> db \<Rightarrow> (dberr, db) res" where
  "user_receive_save E r d = exec E (''cdm_user_receive_event.save '' @ mue_Code r) (mue_UserID r)
     (let same = (\<lambda>y. mue_Code y = mue_Code r \<and> mue_UserID y = mue_UserID r) in
      if mue_Code r \<noteq> [] \<and> (\<exists>y \<in> set (t_user_receive_event d). same y)
      then Ok (d\<lparr>t_user_receive_event := map (\<lambda>y. if same y then r else y) (t_user_receive_event d)\<rparr>)
      else guardR (\<not> (\<exists>u \<in> set (t_user d). mu_ID u = mue_UserID r)) fk_violation
        (guardR (\<exists>y \<in> set (t_user_receive_event d). same y) unique_violation
          (Ok (d\<lparr>t_user_receive_event := t_user_receive_event d @ [r]\<rparr>))))"

text \<open>
  \<open>db.Delete(&UserReceiveEvent{...})\<close>: gorm takes the first field of a composite primary key, the code, for
  the key.  When it is set, all primary fields are the condition; when it is blank, there is no condition.
\<close>

definition user_receive_delete :: "env \<Rightarrow> string \<Rightarrow> u64 \<Rightarrow> db \<Rightarrow> (dberr, db) res" where
  "user_receive_delete E code userID d = exec E (''cdm_user_receive_event.delete '' @ code) userID
     (Ok (d\<lparr>t_user_receive_event :=
        (if code = [] then [] else filter (\<lambda>y. \<not> (mue_Code y = code \<and> mue_UserID y = userID)) (t_user_receive_event d))\<rparr>))"

definition SetUserEventReceives :: "env \<Rightarrow> u64 \<Rightarrow> event_receive list \<Rightarrow> db \<Rightarrow> (goerr, db) res" where
  "SetUserEventReceives E userID items d =
     orUnusable (foldR (\<lambda>item.
       case er_Enable item of
         None \<Rightarrow> user_receive_delete E (er_Code item) userID
       | Some b \<Rightarrow> user_receive_save E \<lparr>mue_Code = er_Code item, mue_UserID = userID, mue_ReceiveFlag = Some b\<rparr>) items d)"

definition ResetUserEventReceives :: "env \<Rightarrow> u64 \<Rightarrow> db \<Rightarrow> (goerr, db) res" where
  "ResetUserEventReceives E userID d = orUnusable (user_receive_delete E [] userID d)"

end
