(* ===== verification/Notification_Notifier.thy ===== *)
theory Notification_Notifier
  imports Notification_Config
begin

text \<open>
  \<open>services/notification/notifier\<close>: which users an event is delivered to, the delivery by mail, and what
  becomes of the errors.
\<close>

section \<open>constant/queue.go and errors\<close>

definition QueueNotifyEmail :: string where
  "QueueNotifyEmail = ''cdm.notification.notify.email''"

definition TopicNotificationEventCreated :: "u64 \<Rightarrow> string" where
  "TopicNotificationEventCreated tid = ''cdm.notification.event.created.'' @ FormatUint tid"

definition ErrUnsupportedEncryption :: goerr where
  "ErrUnsupportedEncryption = errors_New ''unsupported encryption''"

definition ErrUnsupportedAuth :: goerr where
  "ErrUnsupportedAuth = errors_New ''unsupported auth''"

definition UnsupportedEncryption :: "string \<Rightarrow> goerr" where
  "UnsupportedEncryption enc = errors_Wrap ErrUnsupportedEncryption [(''enc'', VStr enc)]"

definition UnsupportedAuth :: "string \<Rightarrow> goerr" where
  "UnsupportedAuth auth = errors_Wrap ErrUnsupportedAuth [(''auth'', VStr auth)]"

section \<open>email/email.go\<close>

datatype encryption_dao = SSLTLSEncryption | StartTLSEncryption
datatype auth_dao = PlainAuth | LoginAuth | CramMD5Auth

definition ToLower :: "string \<Rightarrow> string" where
  "ToLower = map (\<lambda>c. if 65 \<le> byte c \<and> byte c \<le> 90 then char_of (byte c + 32) else c)"

definition NewEmail :: "string \<Rightarrow> string \<Rightarrow> (goerr, encryption_dao \<times> auth_dao) res" where
  "NewEmail enc auth =
     bindR (if ToLower enc = ''ssl/tls'' then Ok SSLTLSEncryption
            else if ToLower enc = ''starttls'' then Ok StartTLSEncryption
            else Fail (UnsupportedEncryption enc)) (\<lambda>e.
     bindR (if ToLower auth = ''plain'' then Ok PlainAuth
            else if ToLower auth = ''login'' then Ok LoginAuth
            else if ToLower auth = ''cram-md5'' then Ok CramMD5Auth
            else Fail (UnsupportedAuth auth)) (\<lambda>a. Ok (e, a)))"

text \<open>\<open>LoginAuth\<close>: the answers to the server's prompts (\<open>auth_login.go\<close>).\<close>

definition LoginAuth_Start :: "string \<times> string \<Rightarrow> string \<times> string" where
  "LoginAuth_Start a = (''LOGIN'', fst a)"

definition LoginAuth_Next :: "string \<times> string \<Rightarrow> string \<Rightarrow> bool \<Rightarrow> (goerr, string option) res" where
  "LoginAuth_Next a fromServer again =
     (if again then
        (if fromServer = ''Username:'' then Ok (Some (fst a))
         else if fromServer = ''Password:'' then Ok (Some (snd a))
         else Fail (PlainErr ''unknown from server''))
      else Ok None)"

text \<open>
  The conversation with the mail server: the operations in order, each of which may fail.  The commands sent
  carry the encryption, the credentials, the sender and the message.
\<close>

datatype smtp_cmd =
    SDial encryption_dao string
  | SAuth auth_dao string string string
  | SMail string
  | SRcpt string
  | SData
  | SWrite string
  | SDataClose
  | SQuit

definition smtp_name :: "smtp_cmd \<Rightarrow> string" where
  "smtp_name c = (case c of SDial _ _ \<Rightarrow> ''connect'' | SAuth _ _ _ _ \<Rightarrow> ''auth'' | SMail _ \<Rightarrow> ''mail'' | SRcpt _ \<Rightarrow> ''rcpt''
     | SData \<Rightarrow> ''data'' | SWrite _ \<Rightarrow> ''write'' | SDataClose \<Rightarrow> ''close'' | SQuit \<Rightarrow> ''quit'')"

text \<open>What has been sent, and the first error.\<close>

fun smtp_run :: "nprm \<Rightarrow> smtp_cmd list \<Rightarrow> smtp_cmd list \<times> (goerr, unit) res" where
  "smtp_run N [] = ([], Ok ())"
| "smtp_run N (c # cs) =
     (case n_smtp N (smtp_name c) of
        Some e \<Rightarrow> ([c], Fail e)
      | None \<Rightarrow> (case smtp_run N cs of (sent, r) \<Rightarrow> (c # sent, r)))"

definition mail_message :: "string \<Rightarrow> string \<Rightarrow> string \<Rightarrow> string \<Rightarrow> string" where
  "mail_message from to subject body =
     (let nl = [char_of (13::nat), char_of (10::nat)] in
      ''From: '' @ from @ nl @ ''To: '' @ to @ nl @ ''Subject: '' @ subject @ nl @ nl @ body @ nl)"

text \<open>\<open>Connect\<close>, \<open>Auth\<close>, \<open>Send\<close> and \<open>Close\<close>.\<close>

definition email_session ::
  "encryption_dao \<times> auth_dao \<Rightarrow> string \<Rightarrow> string \<Rightarrow> string \<Rightarrow> string \<Rightarrow> string \<Rightarrow> string \<Rightarrow> string \<Rightarrow> smtp_cmd list" where
  "email_session dao address host username password to subject body =
     [SDial (fst dao) address, SAuth (snd dao) username password host, SMail username,
      SRcpt to, SData, SWrite (mail_message username to subject body), SDataClose, SQuit]"

section \<open>email_notifier.go\<close>

definition defaultTimeZone :: string where
  "defaultTimeZone = ''UTC''"

definition defaultLanguageSet :: string where
  "defaultLanguageSet = ''eng''"

definition getOrDefaultTimeZone :: "env \<Rightarrow> db \<Rightarrow> string \<Rightarrow> string option \<Rightarrow> string" where
  "getOrDefaultTimeZone E d key v =
     (case v of Some tz \<Rightarrow> tz | None \<Rightarrow> (case GlobalConfig E d key of None \<Rightarrow> defaultTimeZone | Some c \<Rightarrow> c))"

definition getOrDefaultLanguageSet :: "env \<Rightarrow> db \<Rightarrow> string \<Rightarrow> string option \<Rightarrow> string" where
  "getOrDefaultLanguageSet E d key v =
     (case v of Some lang \<Rightarrow> lang | None \<Rightarrow> (case GlobalConfig E d key of None \<Rightarrow> defaultLanguageSet | Some c \<Rightarrow> c))"

definition generateSubject :: "nprm \<Rightarrow> n_event \<Rightarrow> string \<Rightarrow> string" where
  "generateSubject N ev tz = ''raise event '' @ nv_Code ev @ '' at '' @ n_FormatTime N tz (nv_CreatedAt ev) @ ''.''"

definition generateBody :: "nprm \<Rightarrow> n_event \<Rightarrow> string \<Rightarrow> string" where
  "generateBody N ev tz = ''raise event '' @ nv_Code ev @ '' at '' @ n_FormatTime N tz (nv_CreatedAt ev) @ ''.''"

text \<open>
  The body of the transaction of \<open>notify\<close>, with the commands that reached the mail server.  A user without
  a mail address gets nothing.
\<close>

definition email_notify ::
  "nprm \<Rightarrow> env \<Rightarrow> db \<Rightarrow> n_event option \<Rightarrow> m_user \<Rightarrow> smtp_cmd list \<times> (goerr, unit) res" where
  "email_notify N E d dlvEvent dlvUser =
     (case orNotFound (n_NotFoundUser (mu_ID dlvUser))
             (db_FindOne E ''notify'' (mu_ID dlvUser) (filter (\<lambda>u. if_given (mu_ID dlvUser) (mu_ID u)) (t_user d))) of
        Panic \<Rightarrow> ([], Panic)
      | Fail e \<Rightarrow> ([], Fail e)
      | Ok user \<Rightarrow>
          (case mu_Email user of
             None \<Rightarrow> ([], Ok ())
           | Some address \<Rightarrow>
               (let tz = getOrDefaultTimeZone E d ''global_timezone'' (mu_Timezone user) in
                if \<not> e_LoadLocation E tz then ([], Fail (Unknown (Some (PlainErr ''unknown time zone''))))
                else case dlvEvent of None \<Rightarrow> ([], Panic) | Some ev \<Rightarrow>
                  (case bindR (GetConfigEmailNotifier N E d (nv_TenantID ev)) (\<lambda>info.
                          bindR (NewEmail (sm_Encryption info) (sm_AuthMechanism info)) (\<lambda>dao.
                          let smtpAddress = sm_ServerAddress info @ '':'' @ FormatUint (ucast (sm_ServerPort info)) in
                          bindR (case n_SplitHost N smtpAddress of
                                   None \<Rightarrow> Fail (Unknown (Some (PlainErr ''net.SplitHostPort''))) | Some h \<Rightarrow> Ok h) (\<lambda>host.
                          Ok (email_session dao smtpAddress host (sm_Sender info) (sm_AuthPassword info)
                                address (generateSubject N ev tz) (generateBody N ev tz))))) of
                     Panic \<Rightarrow> ([], Panic)
                   | Fail e \<Rightarrow> ([], Fail e)
                   | Ok cmds \<Rightarrow>
                       (case smtp_run N cmds of (sent, r) \<Rightarrow> (sent, mapE (\<lambda>e. Unknown (Some e)) r))))))"

section \<open>notifier.go\<close>

text \<open>The queues that a tenant's settings enable: only mail is implemented.\<close>

definition notify_kinds :: "n_config \<Rightarrow> string list" where
  "notify_kinds c =
     (if \<not> val_bool (nc_EventNotificationEnable c) then []
      else if val_bool (nc_EventEmailNotificationEnable c) then [QueueNotifyEmail] else [])"

text \<open>
  The query for the users: the joins relate a user to all of its own receive rows and to the rows of its
  tenant; only the latter are restricted to the code of the event.  A user appears once per pair of rows.
\<close>

definition receiving :: "m_user_receive_event \<Rightarrow> m_tenant_receive_event \<Rightarrow> bool" where
  "receiving ur tr \<longleftrightarrow> (case mue_ReceiveFlag ur of Some b \<Rightarrow> b | None \<Rightarrow> mte_ReceiveFlag tr)"

definition notified_users :: "db \<Rightarrow> n_event \<Rightarrow> m_user list" where
  "notified_users d ev =
     concat (map (\<lambda>u. concat (map (\<lambda>ur. map (\<lambda>_. u)
         (filter (\<lambda>tr. mte_TenantID tr = mu_TenantID u \<and> if_given (nv_TenantID ev) (mu_TenantID u) \<and>
                     if_given_str (nv_Code ev) (mte_Code tr) \<and> receiving ur tr) (t_tenant_receive_event d)))
       (filter (\<lambda>ur. mue_UserID ur = mu_ID u) (t_user_receive_event d)))) (t_user d))"

text \<open>Publishing stops at the first failure of the broker.\<close>

fun publish_all :: "env \<Rightarrow> publication list \<Rightarrow> sys \<Rightarrow> (goerr, unit) res \<times> sys" where
  "publish_all E [] s = (Ok (), s)"
| "publish_all E (p # ps) s =
     (if e_publish E (case p of EventCreated t _ _ _ \<Rightarrow> t | Delivery q _ _ \<Rightarrow> q)
      then publish_all E ps (s\<lparr>s_pub := s_pub s @ [p]\<rparr>)
      else (Fail (UnusableBroker (Some (PlainErr ''could not publish message''))), s))"

definition classify :: "nprm \<Rightarrow> n_event \<Rightarrow> unit body" where
  "classify N ev E s =
     (case n_GetConfig N E (s_db s) (nv_TenantID ev) of
        Panic \<Rightarrow> (Panic, s)
      | Fail e \<Rightarrow> (Fail e, s)
      | Ok c \<Rightarrow>
          (let kinds = notify_kinds c in
           if kinds = [] then (Ok (), s)
           else
             (case orUnusable (db_Find E ''ClassifyEvent'' (nv_TenantID ev) (notified_users (s_db s) ev)) of
                Panic \<Rightarrow> (Panic, s)
              | Fail e \<Rightarrow> (Fail e, s)
              | Ok users \<Rightarrow> publish_all E (concat (map (\<lambda>u. map (\<lambda>k. Delivery k ev u) kinds) users)) s)))"

definition ClassifyEvent :: "nprm \<Rightarrow> trial \<Rightarrow> n_event \<Rightarrow> sys \<Rightarrow> ((goerr, unit) res \<times> sys) option" where
  "ClassifyEvent N tr ev s = Transaction tr (classify N ev) s"

text \<open>\<open>reportEvent\<close>: the report is dropped when it cannot be published.\<close>

definition n_reportEvent :: "env \<Rightarrow> u64 \<Rightarrow> string \<Rightarrow> string \<Rightarrow> goerr option \<Rightarrow> sys \<Rightarrow> sys" where
  "n_reportEvent E tid eventCode errorCode contents s =
     (case ReportEvent E tid eventCode errorCode contents (s_out s) of Ok out \<Rightarrow> s\<lparr>s_out := out\<rparr> | _ \<Rightarrow> s)"

text \<open>The error that \<open>notifyEvent\<close> returns, and the code under which it is reported.\<close>

definition notify_error :: "goerr \<Rightarrow> string \<times> goerr" where
  "notify_error err =
     (let eq = errors_Equal (Some err) in
      if eq ErrUnusableDatabase then (''unusable_database'', err)
      else if eq ErrUnsupportedEncryption then (''unsupported_encryption'', err)
      else if eq ErrUnsupportedAuth then (''unsupported_auth'', err)
      else if eq n_ErrNotFoundUser then (''not_found_user'', err)
      else if eq ErrUnknown then (''unknown'', err)
      else (''unknown'', Unknown (Some err)))"

text \<open>
  One message of the queue.  The body of the transaction is retried as a whole, so that the commands to the
  mail server are those of every attempt.  A message without a user, or one without an event that comes as
  far as the event, dereferences nil.
\<close>

definition notify_body :: "nprm \<Rightarrow> n_event option \<Rightarrow> m_user \<Rightarrow> unit body" where
  "notify_body N ev u E s = (snd (email_notify N E (s_db s) ev u), s)"

definition notifyEvent ::
  "nprm \<Rightarrow> trial \<Rightarrow> env \<Rightarrow> u64 \<Rightarrow> string \<Rightarrow> string \<Rightarrow> sys \<Rightarrow> ((goerr, unit) res \<times> sys) option" where
  "notifyEvent N tr E defaultTenantID topic msg s =
     (case n_UnmarshalDelivery N msg of
        None \<Rightarrow>
          (let err = Unknown (Some (PlainErr ''json.Unmarshal'')) in
           Some (Fail err, n_reportEvent E defaultTenantID ''cdm-cloud.notification.notify_event.failure-unmarshal'' ''unknown'' (Some err) s))
      | Some (ev, u) \<Rightarrow>
          if topic \<noteq> QueueNotifyEmail then Some (Ok (), s)
          else
            (case u of
               None \<Rightarrow> Some (Panic, s)
             | Some u' \<Rightarrow>
                 (case Transaction tr (notify_body N ev u') s of
                    None \<Rightarrow> None
                  | Some (Panic, s1) \<Rightarrow> Some (Panic, s1)
                  | Some (Ok _, s1) \<Rightarrow> Some (Ok (), s1)
                  | Some (Fail err, s1) \<Rightarrow>
                      (case ev of None \<Rightarrow> Some (Panic, s1)
                       | Some ev' \<Rightarrow>
                           (case notify_error err of (code, err') \<Rightarrow>
                              Some (Fail err', n_reportEvent E (nv_TenantID ev') ''cdm-cloud.notification.notify_event.failure-notify'' code (Some err') s1))))))"

end
