(* ===== verification/Notification_Event.thy ===== *)
theory Notification_Event
  imports Notification_Notifier
begin

text \<open>
  \<open>services/notification/event\<close>: events are taken from the report queue, validated, stored, published and
  classified; they are queried by tenant, and the expired ones are cleaned at midnight.
\<close>

section \<open>errors.go and query.go\<close>

definition ErrNotFoundEvent :: goerr where
  "ErrNotFoundEvent = errors_New ''not found event''"

definition NotFoundEvent :: "u64 \<Rightarrow> goerr" where
  "NotFoundEvent i = errors_Wrap ErrNotFoundEvent [(''id'', VU64 i)]"

record events_query =
  eq_limit :: u64
  eq_offset :: u64
  eq_TenantID :: u64
  eq_Level :: string
  eq_Class1 :: string
  eq_Class2 :: string
  eq_Class3 :: string
  eq_solution :: string
  eq_from :: int
  eq_to :: int

definition NewEventsQuery :: "u64 \<Rightarrow> events_query" where
  "NewEventsQuery tenantID =
     \<lparr>eq_limit = 0, eq_offset = 0, eq_TenantID = tenantID, eq_Level = [], eq_Class1 = [], eq_Class2 = [], eq_Class3 = [],
      eq_solution = [], eq_from = 0, eq_to = 0\<rparr>"

definition q_Limit :: "u64 \<Rightarrow> events_query \<Rightarrow> events_query" where
  "q_Limit limit q = q\<lparr>eq_limit := (if limit < 10 then 10 else if limit > 100 then 100 else limit)\<rparr>"

definition q_Offset :: "u64 \<Rightarrow> events_query \<Rightarrow> events_query" where "q_Offset v q = q\<lparr>eq_offset := v\<rparr>"

definition q_From :: "int \<Rightarrow> events_query \<Rightarrow> events_query" where "q_From v q = q\<lparr>eq_from := v\<rparr>"

definition q_To :: "int \<Rightarrow> events_query \<Rightarrow> events_query" where "q_To v q = q\<lparr>eq_to := v\<rparr>"

definition q_Solutions :: "string \<Rightarrow> events_query \<Rightarrow> events_query" where "q_Solutions v q = q\<lparr>eq_solution := v\<rparr>"

definition q_Level :: "string \<Rightarrow> events_query \<Rightarrow> events_query" where "q_Level v q = q\<lparr>eq_Level := v\<rparr>"

definition q_Class1 :: "string \<Rightarrow> events_query \<Rightarrow> events_query" where "q_Class1 v q = q\<lparr>eq_Class1 := v\<rparr>"

definition q_Class2 :: "string \<Rightarrow> events_query \<Rightarrow> events_query" where "q_Class2 v q = q\<lparr>eq_Class2 := v\<rparr>"

definition q_Class3 :: "string \<Rightarrow> events_query \<Rightarrow> events_query" where "q_Class3 v q = q\<lparr>eq_Class3 := v\<rparr>"

lemmas query_defs = q_Limit_def q_Offset_def q_From_def q_To_def q_Solutions_def q_Level_def q_Class1_def
  q_Class2_def q_Class3_def NewEventsQuery_def

section \<open>Joins\<close>

text \<open>
  \<open>cdm_event JOIN cdm_tenant LEFT JOIN cdm_event_code\<close>: an event without a known code has an empty code
  part; codes and tenants are unique by key.
\<close>

definition no_code :: m_event_code where
  "no_code = \<lparr>mec_Code = [], mec_Solution = [], mec_Level = [], mec_Class1 = [], mec_Class2 = [], mec_Class3 = []\<rparr>"

definition codes_of :: "db \<Rightarrow> n_event \<Rightarrow> m_event_code list" where
  "codes_of d ev = (case filter (\<lambda>c. mec_Code c = nv_Code ev) (t_event_code d) of [] \<Rightarrow> [no_code] | cs \<Rightarrow> cs)"

definition event_records :: "db \<Rightarrow> event_record list" where
  "event_records d =
     concat (map (\<lambda>ev. concat (map (\<lambda>t. map (\<lambda>c. \<lparr>rec_Event = ev, rec_EventCode = c, rec_Tenant = t\<rparr>) (codes_of d ev))
       (filter (\<lambda>t. mt_ID t = nv_TenantID ev) (t_tenant d)))) (t_event d))"

section \<open>Creating an event (event.go)\<close>

definition validateContents :: "nprm \<Rightarrow> string \<Rightarrow> (goerr, unit) res" where
  "validateContents N contents =
     (if contents = [] then Ok ()
      else if n_ValidObject N contents then Ok ()
      else Fail (Unknown (Some (PlainErr ''json.Unmarshal''))))"

text \<open>A code that is not known is only logged; \<open>absent_ok\<close> is that branch.\<close>

definition absent_ok :: "(dberr, 'a) res \<Rightarrow> (goerr, unit) res" where
  "absent_ok m =
     (case m of Ok _ \<Rightarrow> Ok () | Fail ErrRecordNotFound \<Rightarrow> Ok ()
      | Fail e \<Rightarrow> Fail (UnusableDatabase (Some (DBErr e))) | Panic \<Rightarrow> Panic)"

definition event_Tenant :: "env \<Rightarrow> db \<Rightarrow> n_event \<Rightarrow> (dberr, m_tenant) res" where
  "event_Tenant E d ev = db_FindOne E ''event.Tenant'' (nv_TenantID ev) (filter (\<lambda>t. mt_ID t = nv_TenantID ev) (t_tenant d))"

definition event_EventCode :: "env \<Rightarrow> db \<Rightarrow> n_event \<Rightarrow> (dberr, m_event_code) res" where
  "event_EventCode E d ev = db_FindOne E ''event.EventCode'' 0 (filter (\<lambda>c. mec_Code c = nv_Code ev) (t_event_code d))"

definition event_EventError :: "env \<Rightarrow> db \<Rightarrow> n_event \<Rightarrow> (dberr, m_event_error) res" where
  "event_EventError E d ev = db_FindOne E ''event.EventError'' 0 (filter (\<lambda>c. Some (mee_Code c) = nv_ErrorCode ev) (t_event_error d))"

definition validateEvent :: "nprm \<Rightarrow> env \<Rightarrow> db \<Rightarrow> n_event \<Rightarrow> (goerr, unit) res" where
  "validateEvent N E d ev =
     bindR (validateContents N (nv_Contents ev)) (\<lambda>_.
     bindR (orNotFound (InvalidParameterValue ''tenant'' (VU64 (nv_TenantID ev)) ''record not found'') (event_Tenant E d ev)) (\<lambda>_.
     bindR (absent_ok (event_EventCode E d ev)) (\<lambda>_.
     if val_str (nv_ErrorCode ev) = [] then Ok () else absent_ok (event_EventError E d ev))))"

text \<open>The id of the message is ignored; a missing creation time is the current one.\<close>

definition event_create :: "env \<Rightarrow> n_event \<Rightarrow> db \<Rightarrow> (dberr, n_event \<times> db) res" where
  "event_create E ev d = exec E ''cdm_event.insert'' (nv_TenantID ev)
     (bindR (nextval E (seq_event d)) (\<lambda>(i, q).
        let ev' = ev\<lparr>nv_ID := i, nv_CreatedAt := (if nv_CreatedAt ev = 0 then e_now E else nv_CreatedAt ev)\<rparr> in
        guardR (\<not> (\<exists>t \<in> set (t_tenant d). mt_ID t = nv_TenantID ev)) fk_violation
          (guardR (\<exists>y \<in> set (t_event d). nv_ID y = i) unique_violation
            (Ok (ev', d\<lparr>t_event := t_event d @ [ev'], seq_event := q\<rparr>)))))"

definition createEvent :: "nprm \<Rightarrow> env \<Rightarrow> n_event \<Rightarrow> db \<Rightarrow> (goerr, n_event \<times> db) res" where
  "createEvent N E ev d = bindR (validateEvent N E d ev) (\<lambda>_. orUnusable (event_create E ev d))"

definition n_GetEvent :: "env \<Rightarrow> db \<Rightarrow> u64 \<Rightarrow> u64 \<Rightarrow> (goerr, event_record) res" where
  "n_GetEvent E d eventID tenantID =
     orNotFound (NotFoundEvent eventID) (db_FindOne E ''GetEvent'' eventID
       (filter (\<lambda>r. if_given eventID (nv_ID (rec_Event r)) \<and> if_given tenantID (nv_TenantID (rec_Event r))) (event_records d)))"

section \<open>Querying\<close>

definition query_match :: "events_query \<Rightarrow> event_record \<Rightarrow> bool" where
  "query_match q r \<longleftrightarrow>
     if_given (eq_TenantID q) (nv_TenantID (rec_Event r)) \<and>
     if_given_str (eq_solution q) (mec_Solution (rec_EventCode r)) \<and>
     if_given_str (eq_Level q) (mec_Level (rec_EventCode r)) \<and>
     if_given_str (eq_Class1 q) (mec_Class1 (rec_EventCode r)) \<and>
     if_given_str (eq_Class2 q) (mec_Class2 (rec_EventCode r)) \<and>
     if_given_str (eq_Class3 q) (mec_Class3 (rec_EventCode r)) \<and>
     (eq_from q \<noteq> 0 \<longrightarrow> eq_from q \<le> nv_CreatedAt (rec_Event r)) \<and>
     (eq_to q \<noteq> 0 \<longrightarrow> nv_CreatedAt (rec_Event r) \<le> eq_to q)"

text \<open>\<open>ORDER BY created_at DESC, id DESC\<close>.\<close>

definition newest_first :: "event_record \<Rightarrow> event_record \<Rightarrow> bool" where
  "newest_first x y \<longleftrightarrow>
     nv_CreatedAt (rec_Event y) < nv_CreatedAt (rec_Event x) \<or>
     (nv_CreatedAt (rec_Event y) = nv_CreatedAt (rec_Event x) \<and> nv_ID (rec_Event y) \<le> nv_ID (rec_Event x))"

fun insert_sorted :: "event_record \<Rightarrow> event_record list \<Rightarrow> event_record list" where
  "insert_sorted x [] = [x]"
| "insert_sorted x (y # ys) = (if newest_first x y then x # y # ys else y # insert_sorted x ys)"

definition order_records :: "event_record list \<Rightarrow> event_record list" where
  "order_records rs = foldr insert_sorted rs []"

definition get_events :: "events_query \<Rightarrow> env \<Rightarrow> sys \<Rightarrow> (goerr, event_record list \<times> u64) res \<times> sys" where
  "get_events q E s =
     (let rows = filter (query_match q) (event_records (s_db s)) in
      (bindR (orUnusable (db_Find E ''GetEvents count'' (eq_TenantID q) rows)) (\<lambda>rs.
       bindR (orUnusable (db_Find E ''GetEvents'' (eq_TenantID q)
         (let sorted = order_records rows;
              skipped = drop (unat (eq_offset q)) sorted
          in if eq_limit q > 0 then take (unat (eq_limit q)) skipped else skipped))) (\<lambda>page.
       Ok (page, of_nat (length rs)))), s))"

definition orUnknownUnless :: "goerr list \<Rightarrow> (goerr, 'a) res \<Rightarrow> (goerr, 'a) res" where
  "orUnknownUnless sentinels =
     mapE (\<lambda>err. if \<exists>x \<in> set sentinels. errors_Equal (Some err) x then err else Unknown (Some err))"

definition n_GetEvents :: "trial \<Rightarrow> events_query \<Rightarrow> sys \<Rightarrow> ((goerr, event_record list \<times> u64) res \<times> sys) option" where
  "n_GetEvents tr q s =
     map_option (\<lambda>(r, s'). (orUnknownUnless [ErrUnusableDatabase] r, s')) (Transaction tr (get_events q) s)"

text \<open>The classifications: consecutive equal ones are listed once.\<close>

record classification =
  cl_Solution :: string
  cl_Class1 :: string
  cl_Class2 :: string
  cl_Class3 :: string

definition classification_of :: "m_event_code \<Rightarrow> classification" where
  "classification_of c = \<lparr>cl_Solution = mec_Solution c, cl_Class1 = mec_Class1 c, cl_Class2 = mec_Class2 c, cl_Class3 = mec_Class3 c\<rparr>"

fun skip_equal :: "classification \<Rightarrow> classification list \<Rightarrow> classification list" where
  "skip_equal prev [] = []"
| "skip_equal prev (c # cs) = (if prev = c then skip_equal prev cs else c # skip_equal c cs)"

definition no_class :: classification where
  "no_class = \<lparr>cl_Solution = [], cl_Class1 = [], cl_Class2 = [], cl_Class3 = []\<rparr>"

definition get_classifications :: "env \<Rightarrow> sys \<Rightarrow> (goerr, classification list) res \<times> sys" where
  "get_classifications E s =
     (bindR (orUnusable (db_Find E ''GetEventClassifications'' 0 (t_event_code (s_db s)))) (\<lambda>codes.
      Ok (skip_equal no_class (map classification_of codes))), s)"

definition GetEventClassifications :: "trial \<Rightarrow> sys \<Rightarrow> ((goerr, classification list) res \<times> sys) option" where
  "GetEventClassifications tr s = Transaction tr get_classifications s"

section \<open>Subscribing to the report queue\<close>

definition store_event :: "nprm \<Rightarrow> n_event \<Rightarrow> event_record body" where
  "store_event N ev E s =
     (case createEvent N E ev (s_db s) of
        Panic \<Rightarrow> (Panic, s)
      | Fail e \<Rightarrow> (Fail e, s)
      | Ok (ev', d) \<Rightarrow> (n_GetEvent E d (nv_ID ev') (nv_TenantID ev'), s\<lparr>s_db := d\<rparr>))"

definition publish_created :: "env \<Rightarrow> event_record \<Rightarrow> sys \<Rightarrow> sys" where
  "publish_created E r s =
     snd (publish_all E [EventCreated (TopicNotificationEventCreated (nv_TenantID (rec_Event r)))
                           (rec_Event r) (rec_EventCode r) (rec_Tenant r)] s)"

definition classify_error :: "goerr \<Rightarrow> string \<times> goerr" where
  "classify_error err =
     (let eq = errors_Equal (Some err) in
      if eq ErrUnusableDatabase then (''unusable_database'', err)
      else if eq ErrUnusableBroker then (''unusable_broker'', err)
      else if eq ErrUnknown then (''unknown'', err)
      else (''unknown'', Unknown (Some err)))"

definition classify_created :: "nprm \<Rightarrow> trial \<Rightarrow> env \<Rightarrow> event_record \<Rightarrow> sys \<Rightarrow> (bool \<times> sys) option" where
  "classify_created N tr E r s =
     (case ClassifyEvent N tr (rec_Event r) s of
        None \<Rightarrow> None
      | Some (Panic, s1) \<Rightarrow> Some (False, s1)
      | Some (Ok _, s1) \<Rightarrow> Some (True, s1)
      | Some (Fail err, s1) \<Rightarrow>
          (case classify_error err of (code, err') \<Rightarrow>
             Some (True, n_reportEvent E (nv_TenantID (rec_Event r))
               ''cdm-cloud.notification.subscribe_event.failure-classify_event'' code (Some err') s1)))"

text \<open>
  One message of the report queue up to the answer to the broker: the event is stored, or the message fails.
  The two goroutines that follow, \<open>publish_created\<close> and \<open>classify_created\<close>, run in either order.
\<close>

definition subscribeEvent ::
  "nprm \<Rightarrow> trial \<Rightarrow> string \<Rightarrow> sys \<Rightarrow> ((goerr, event_record option) res \<times> sys) option" where
  "subscribeEvent N tr msg s =
     (case n_UnmarshalEvent N msg of
        None \<Rightarrow> Some (Fail (PlainErr ''json.Unmarshal''), s)
      | Some ev \<Rightarrow>
          if nv_TenantID ev = 0 \<or> nv_Code ev = [] then Some (Ok None, s)
          else map_option (\<lambda>(r, s'). (bindR (orUnknownUnless
                  [ErrNotFoundEvent, ErrUnusableDatabase, ErrUnknown, ErrInvalidParameterValue] r) (\<lambda>rec. Ok (Some rec)), s'))
                (Transaction tr (store_event N ev) s))"

section \<open>cleaner.go\<close>

definition monthInSeconds :: int where
  "monthInSeconds = 30 * 24 * 3600"

definition defaultEventStorePeriod :: int where
  "defaultEventStorePeriod = 12"

definition midnight :: "int \<Rightarrow> int" where
  "midnight now = now - now mod (24 * 3600)"

definition store_period :: "env \<Rightarrow> db \<Rightarrow> u64 \<Rightarrow> int" where
  "store_period E d tid =
     (case TenantConfig E d tid EventStorePeriod of None \<Rightarrow> defaultEventStorePeriod
      | Some v \<Rightarrow> (case ParseInt v of None \<Rightarrow> defaultEventStorePeriod | Some p \<Rightarrow> p))"

definition event_deadline :: "int \<Rightarrow> int \<Rightarrow> int" where
  "event_deadline now period = wrap64 (midnight now - wrap64 (period * monthInSeconds))"

definition cleanExpiredTenantEvent :: "env \<Rightarrow> u64 \<Rightarrow> db \<Rightarrow> (goerr, db) res" where
  "cleanExpiredTenantEvent E tid d =
     (let period = store_period E d tid in
      if period = 0 then Ok d
      else orUnusable (exec E ''cdm_event.delete'' tid
        (Ok (d\<lparr>t_event := filter (\<lambda>ev. \<not> (nv_CreatedAt ev < event_deadline (e_now E) period \<and> if_given tid (nv_TenantID ev)))
                  (t_event d)\<rparr>))))"

text \<open>A tenant whose events cannot be deleted is reported and does not stop the others.\<close>

fun clean_tenants :: "env \<Rightarrow> u64 list \<Rightarrow> sys \<Rightarrow> sys" where
  "clean_tenants E [] s = s"
| "clean_tenants E (tid # tids) s =
     clean_tenants E tids
       (case cleanExpiredTenantEvent E tid (s_db s) of
          Ok d \<Rightarrow> s\<lparr>s_db := d\<rparr>
        | Fail err \<Rightarrow> n_reportEvent E tid ''cdm-cloud.notification.main.failure-clean_expired_event'' ''unusable_database'' (Some err) s
        | Panic \<Rightarrow> s)"

definition clean_body :: "unit body" where
  "clean_body E s =
     (case db_Find E ''cleanExpiredEvent'' 0 (map mt_ID (t_tenant (s_db s))) of
        Ok tids \<Rightarrow> (Ok (), clean_tenants E tids s)
      | Fail e \<Rightarrow> (Fail (DBErr e), s)
      | Panic \<Rightarrow> (Panic, s))"

definition cleanExpiredEvent :: "trial \<Rightarrow> env \<Rightarrow> u64 \<Rightarrow> sys \<Rightarrow> sys option" where
  "cleanExpiredEvent tr E tenantID s =
     (case Transaction tr clean_body s of
        None \<Rightarrow> None
      | Some (Fail err, s1) \<Rightarrow>
          Some (n_reportEvent E tenantID ''cdm-cloud.notification.main.failure-clean_expired_event'' ''unusable_database''
                 (Some (UnusableDatabase (Some err))) s1)
      | Some (_, s1) \<Rightarrow> Some s1)"

end
