(* ===== verification/Notification_Handler.thy ===== *)
theory Notification_Handler
  imports Notification_Event
begin

text \<open>
  \<open>services/notification/handler\<close>: the RPCs of the notification service, with their validation, transaction,
  status and events, the stream of new events, and the steps of the running service.
\<close>

section \<open>Requests and responses\<close>

record get_events_request =
  ge_Limit :: u64
  ge_Offset :: u64
  ge_Solution :: string
  ge_Class1 :: string
  ge_Class2 :: string
  ge_Class3 :: string
  ge_Level :: string
  ge_StartDate :: int
  ge_EndDate :: int

record stream_request =
  sr_Interval :: "u64 option"
  sr_Filter :: receives_request

record p_event =
  pe_Id :: u64
  pe_TenantId :: u64
  pe_TenantName :: string
  pe_Code :: string
  pe_EventError :: string
  pe_Contents :: string
  pe_CreatedAt :: int

datatype n_request =
    N_GetConfig
  | N_SetConfig "n_config option"
  | N_GetEvent u64
  | N_GetEvents get_events_request
  | N_GetEventClassifications
  | N_GetTenantEventReceives receives_request
  | N_SetTenantEventReceives "event_receive list"
  | N_GetUserEventReceives receives_request
  | N_SetUserEventReceives "event_receive list"
  | N_ResetUserEventReceives

datatype n_response =
    N_ConfigResponse n_config
  | N_EventResponse p_event
  | N_EventsResponse "p_event list" p_pagination
  | N_ClassificationsResponse "classification list"
  | N_ReceivesResponse "event_receive list"
  | N_MessageResponse

section \<open>errors.go and utils.go\<close>

definition ErrNoSolutionRole :: goerr where
  "ErrNoSolutionRole = errors_New ''no role of solution''"

definition NoSolutionRole :: "string \<Rightarrow> u64 \<Rightarrow> goerr" where
  "NoSolutionRole solution userID = errors_Wrap ErrNoSolutionRole [(''solution'', VStr solution), (''user_id'', VU64 userID)]"

definition n_createError :: "env \<Rightarrow> ctx \<Rightarrow> string \<Rightarrow> goerr \<Rightarrow> sys \<Rightarrow> (goerr, 'a) res \<times> sys" where
  "n_createError E ctx eventCode err s =
     (let eq = errors_Equal (Some err) in
      if eq ErrNoSolutionRole then StatusUnauthorized E ctx eventCode ''unknown_user'' (Some err) s
      else if eq n_ErrNotFoundTenant then StatusInternalServerError E ctx eventCode ''not_found_tenant'' (Some err) s
      else if eq n_ErrNotFoundUser then StatusInternalServerError E ctx eventCode ''not_found_user'' (Some err) s
      else if eq ErrNotFoundEvent then StatusNotFound E ctx eventCode ''not_found_event'' (Some err) s
      else CreateError E ctx eventCode err s)"

definition eventRecordToResponse :: "event_record \<Rightarrow> p_event" where
  "eventRecordToResponse r =
     \<lparr>pe_Id = nv_ID (rec_Event r), pe_TenantId = mt_ID (rec_Tenant r), pe_TenantName = mt_Name (rec_Tenant r),
      pe_Code = nv_Code (rec_Event r), pe_EventError = val_str (nv_ErrorCode (rec_Event r)),
      pe_Contents = nv_Contents (rec_Event r), pe_CreatedAt = nv_CreatedAt (rec_Event r)\<rparr>"

definition eventRecordsToResponse :: "event_record list \<Rightarrow> p_event list" where
  "eventRecordsToResponse = map eventRecordToResponse"

definition n_checkAuthorization :: "p_user \<Rightarrow> (goerr, unit) res" where
  "n_checkAuthorization user =
     (if \<exists>r \<in> set (pu_Roles user). pr_Role r = ''manager'' \<or> pr_Role r = ''admin'' \<or> pr_Solution r = ''CDM-Cloud''
      then Ok () else Fail (NoSolutionRole ''CDM-Cloud'' (pu_Id user)))"

text \<open>Dates have the form \<open>YYYYMMDDHHmm\<close> in the time zone Asia/Seoul.\<close>

definition getValidDate :: "nprm \<Rightarrow> int \<Rightarrow> int \<Rightarrow> (goerr, int \<times> int) res" where
  "getValidDate N startDate endDate =
     bindR (if startDate \<noteq> 0 then
              (case n_ParseTime N (FormatInt startDate) of
                 None \<Rightarrow> Fail (InvalidParameterValue ''start_date'' (VInt startDate) ''Wrong format. must be YYYYMMDDHHmm format'')
               | Some t \<Rightarrow> Ok t)
            else Ok 0) (\<lambda>from.
     bindR (if endDate \<noteq> 0 then
              (case n_ParseTime N (FormatInt endDate) of
                 None \<Rightarrow> Fail (InvalidParameterValue ''end_date'' (VInt endDate) ''wrong format. must be YYYYMMDDHHmm format'')
               | Some t \<Rightarrow>
                   (if startDate > endDate
                    then Fail (InvalidParameterValue ''start_date'' (VInt startDate) ''Start date is later than end date.'')
                    else Ok t))
            else Ok 0) (\<lambda>to. Ok (from, to)))"

definition n_pagination :: "u64 \<Rightarrow> u64 \<Rightarrow> u64 \<Rightarrow> p_pagination" where
  "n_pagination itemNum limit offset =
     (if limit = 0 then \<lparr>pp_Page = 1, pp_TotalPage = 1, pp_TotalItems = itemNum\<rparr>
      else \<lparr>pp_Page = offset div limit + 1, pp_TotalPage = (itemNum + limit - 1) div limit, pp_TotalItems = itemNum\<rparr>)"

definition n_getRequestMetadata :: "env \<Rightarrow> ctx \<Rightarrow> (goerr, u64 \<times> p_user) res" where
  "n_getRequestMetadata E ctx =
     bindR (mapE (\<lambda>_. InvalidRequest ctx) (GetTenantID ctx)) (\<lambda>i.
     bindR (mapE (\<lambda>_. InvalidRequest ctx) (GetAuthenticatedUser E ctx)) (\<lambda>user. Ok (i, user)))"

definition levels :: "string list" where
  "levels = [''trace'', ''info'', ''warn'', ''error'', ''fatal'']"

definition validateLevel :: "string \<Rightarrow> (goerr, unit) res" where
  "validateLevel level = (if level \<in> set levels then Ok () else Fail (UnavailableParameterValue ''level'' (VStr level) levels))"

definition validateInterval :: "u64 \<Rightarrow> (goerr, unit) res" where
  "validateInterval interval =
     guardR (interval < 2 \<or> interval > 30) (OutOfRangeParameterValue ''interval'' (VU64 interval) 2 30) (Ok ())"

definition validateEventCode :: "string \<Rightarrow> (goerr, unit) res" where
  "validateEventCode code = guardR (code = []) (RequiredParameter ''code'') (Ok ())"

text \<open>The three requests with a filter are validated alike; the limits of the first are only logged.\<close>

definition max_100 :: "string \<Rightarrow> string \<Rightarrow> (goerr, unit) res" where
  "max_100 param v = guardR (length v > 100) (LengthOverflowParameterValue param v 100) (Ok ())"

definition validateGetEventReceivesRequest :: "receives_request \<Rightarrow> (goerr, unit) res" where
  "validateGetEventReceivesRequest req =
     bindR (max_100 ''solution'' (rr_Solution req)) (\<lambda>_.
     bindR (max_100 ''class_1'' (rr_Class1 req)) (\<lambda>_.
     bindR (max_100 ''class_2'' (rr_Class2 req)) (\<lambda>_.
     bindR (max_100 ''class_3'' (rr_Class3 req)) (\<lambda>_.
     if rr_Level req \<noteq> [] then validateLevel (rr_Level req) else Ok ()))))"

definition events_filter :: "get_events_request \<Rightarrow> receives_request" where
  "events_filter req =
     \<lparr>rr_Solution = ge_Solution req, rr_Class1 = ge_Class1 req, rr_Class2 = ge_Class2 req, rr_Class3 = ge_Class3 req,
      rr_Level = ge_Level req\<rparr>"

definition validateGetEventsParams :: "get_events_request \<Rightarrow> (goerr, unit) res" where
  "validateGetEventsParams req = validateGetEventReceivesRequest (events_filter req)"

definition validateGetEventsStreamParams :: "stream_request \<Rightarrow> (goerr, unit) res" where
  "validateGetEventsStreamParams req = validateGetEventReceivesRequest (sr_Filter req)"

text \<open>An empty list arrives as nil.\<close>

definition validateEventReceives :: "event_receive list \<Rightarrow> (goerr, unit) res" where
  "validateEventReceives items =
     guardR (items = []) (RequiredParameter ''event_notifications'')
       (checkAll (\<lambda>_ r. validateEventCode (er_Code r)) 0 items)"

section \<open>handler.go\<close>

definition n_evcode :: "string \<Rightarrow> string \<Rightarrow> string" where
  "n_evcode rpc part = ''cdm-cloud.notification.'' @ rpc @ ''.'' @ part"

type_synonym n_result = "((goerr, n_response) res \<times> sys) option"

text \<open>\<open>if err != nil { return createError(...) }\<close> after a check, and after a transaction.\<close>

definition n_onError :: "env \<Rightarrow> ctx \<Rightarrow> string \<Rightarrow> (goerr, 'a) res \<Rightarrow> ('a \<Rightarrow> sys \<Rightarrow> n_result) \<Rightarrow> sys \<Rightarrow> n_result" where
  "n_onError E ctx code m k s =
     (case m of Ok x \<Rightarrow> k x s | Fail e \<Rightarrow> Some (n_createError E ctx code e s) | Panic \<Rightarrow> Some (Panic, s))"

definition n_inTx ::
  "env \<Rightarrow> ctx \<Rightarrow> string \<Rightarrow> (sys \<Rightarrow> ((goerr, 'a) res \<times> sys) option) \<Rightarrow> ('a \<Rightarrow> sys \<Rightarrow> n_result) \<Rightarrow> sys \<Rightarrow> n_result" where
  "n_inTx E ctx code run k s =
     (case run s of None \<Rightarrow> None | Some (r, s1) \<Rightarrow> n_onError E ctx code r k s1)"

definition n_ok :: "env \<Rightarrow> ctx \<Rightarrow> string \<Rightarrow> n_response \<Rightarrow> sys \<Rightarrow> n_result" where
  "n_ok E ctx rpc rsp s = Some (StatusOK E ctx (n_evcode rpc ''success'') rsp s)"

definition withHeader :: "env \<Rightarrow> ctx \<Rightarrow> string \<Rightarrow> (u64 \<Rightarrow> p_user \<Rightarrow> sys \<Rightarrow> n_result) \<Rightarrow> sys \<Rightarrow> n_result" where
  "withHeader E ctx rpc k =
     n_onError E ctx (n_evcode rpc ''failure-get_request_metadata'') (n_getRequestMetadata E ctx) (\<lambda>(tid, u). k tid u)"

text \<open>A body that reads, and one that writes the database.\<close>

definition reading :: "(env \<Rightarrow> db \<Rightarrow> (goerr, 'a) res) \<Rightarrow> 'a body" where
  "reading f E s = (f E (s_db s), s)"

definition writing :: "(env \<Rightarrow> db \<Rightarrow> (goerr, 'a \<times> db) res) \<Rightarrow> 'a body" where
  "writing f E s =
     (case f E (s_db s) of Ok (x, d) \<Rightarrow> (Ok x, s\<lparr>s_db := d\<rparr>) | Fail e \<Rightarrow> (Fail e, s) | Panic \<Rightarrow> (Panic, s))"

definition nh_GetConfig :: "nprm \<Rightarrow> trial \<Rightarrow> env \<Rightarrow> ctx \<Rightarrow> sys \<Rightarrow> n_result" where
  "nh_GetConfig N tr E ctx =
     withHeader E ctx ''get_config'' (\<lambda>tid _.
     n_inTx E ctx (n_evcode ''get_config'' ''failure-get'')
       (Transaction tr (reading (\<lambda>E d. n_GetConfig N E d tid))) (\<lambda>cfg.
     n_ok E ctx ''get_config'' (N_ConfigResponse cfg)))"

text \<open>The config of the request is checked before, so that it is there.\<close>

definition set_config_body :: "nprm \<Rightarrow> u64 \<Rightarrow> n_config option \<Rightarrow> n_config body" where
  "set_config_body N tid req = writing (\<lambda>E d.
     bindR (ValidateTenant E d tid) (\<lambda>_.
     bindR (case req of None \<Rightarrow> Fail (RequiredParameter EventNotificationEnable) | Some c \<Rightarrow> n_SetConfig N E tid c d) (\<lambda>d1.
     bindR (n_GetConfig N E d1 tid) (\<lambda>cfg. Ok (cfg, d1)))))"

definition nh_SetConfig :: "nprm \<Rightarrow> trial \<Rightarrow> env \<Rightarrow> ctx \<Rightarrow> n_config option \<Rightarrow> sys \<Rightarrow> n_result" where
  "nh_SetConfig N tr E ctx req =
     withHeader E ctx ''set_config'' (\<lambda>tid _.
     n_onError E ctx (n_evcode ''set_config'' ''failure-validate'') (ValidateConfig req) (\<lambda>_.
     n_inTx E ctx (n_evcode ''set_config'' ''failure-set'') (Transaction tr (set_config_body N tid req)) (\<lambda>cfg.
     n_ok E ctx ''set_config'' (N_ConfigResponse cfg))))"

definition nh_GetEvent :: "trial \<Rightarrow> env \<Rightarrow> ctx \<Rightarrow> u64 \<Rightarrow> sys \<Rightarrow> n_result" where
  "nh_GetEvent tr E ctx eventID =
     withHeader E ctx ''get_event'' (\<lambda>tid user.
     n_onError E ctx (n_evcode ''get_event'' ''failure-check_authorization'') (n_checkAuthorization user) (\<lambda>_.
     n_inTx E ctx (n_evcode ''get_event'' ''failure-get'')
       (Transaction tr (reading (\<lambda>E d. n_GetEvent E d eventID tid))) (\<lambda>r.
     n_ok E ctx ''get_event'' (N_EventResponse (eventRecordToResponse r)))))"

definition events_query_of :: "u64 \<Rightarrow> get_events_request \<Rightarrow> int \<times> int \<Rightarrow> events_query" where
  "events_query_of tid req dates =
     q_Class3 (ge_Class3 req) (q_Class2 (ge_Class2 req) (q_Class1 (ge_Class1 req) (q_Level (ge_Level req)
       (q_To (snd dates) (q_From (fst dates) (q_Solutions (ge_Solution req) (q_Offset (ge_Offset req)
         (q_Limit (ge_Limit req) (NewEventsQuery tid)))))))))"

definition nh_GetEvents :: "nprm \<Rightarrow> trial \<Rightarrow> env \<Rightarrow> ctx \<Rightarrow> get_events_request \<Rightarrow> sys \<Rightarrow> n_result" where
  "nh_GetEvents N tr E ctx req =
     withHeader E ctx ''get_events'' (\<lambda>tid user.
     n_onError E ctx (n_evcode ''get_event'' ''failure-check_authorization'') (n_checkAuthorization user) (\<lambda>_.
     n_onError E ctx (n_evcode ''get_events'' ''failure-validate'') (validateGetEventsParams req) (\<lambda>_.
     n_onError E ctx (n_evcode ''get_events'' ''failure-validate'') (getValidDate N (ge_StartDate req) (ge_EndDate req)) (\<lambda>dates.
     n_inTx E ctx (n_evcode ''get_events'' ''failure-get'') (n_GetEvents tr (events_query_of tid req dates)) (\<lambda>(records, count) s.
     if count = 0 then Some (n_createError E ctx (n_evcode ''get_events'' ''success-get'') ErrNoContent s)
     else n_ok E ctx ''get_events''
       (N_EventsResponse (eventRecordsToResponse records) (n_pagination count (ge_Limit req) (ge_Offset req))) s)))))"

definition nh_GetEventClassifications :: "trial \<Rightarrow> env \<Rightarrow> ctx \<Rightarrow> sys \<Rightarrow> n_result" where
  "nh_GetEventClassifications tr E ctx =
     n_inTx E ctx (n_evcode ''get_event_classifications'' ''failure-get'') (GetEventClassifications tr) (\<lambda>cs.
     n_ok E ctx ''get_event_classifications'' (N_ClassificationsResponse cs))"

definition nh_GetTenantEventReceives :: "trial \<Rightarrow> env \<Rightarrow> ctx \<Rightarrow> receives_request \<Rightarrow> sys \<Rightarrow> n_result" where
  "nh_GetTenantEventReceives tr E ctx req =
     n_onError E ctx (n_evcode ''get_tenant_event_receives'' ''failure-validate'') (validateGetEventReceivesRequest req) (\<lambda>_.
     withHeader E ctx ''get_tenant_event_receives'' (\<lambda>tid _.
     n_inTx E ctx (n_evcode ''get_tenant_event_receives'' ''failure-get'')
       (Transaction tr (reading (\<lambda>E d. GetTenantEventReceives E d tid req))) (\<lambda>rs.
     n_ok E ctx ''get_tenant_event_receives'' (N_ReceivesResponse rs))))"

definition set_tenant_receives_body :: "u64 \<Rightarrow> event_receive list \<Rightarrow> unit body" where
  "set_tenant_receives_body tid items = writing (\<lambda>E d.
     bindR (ValidateTenant E d tid) (\<lambda>_. bindR (SetTenantEventReceives E tid items d) (\<lambda>d1. Ok ((), d1))))"

definition nh_SetTenantEventReceives :: "trial \<Rightarrow> env \<Rightarrow> ctx \<Rightarrow> event_receive list \<Rightarrow> sys \<Rightarrow> n_result" where
  "nh_SetTenantEventReceives tr E ctx items =
     withHeader E ctx ''set_tenant_event_receives'' (\<lambda>tid _.
     n_onError E ctx (n_evcode ''set_tenant_event_receives'' ''failure-validate'') (validateEventReceives items) (\<lambda>_.
     n_inTx E ctx (n_evcode ''set_tenant_event_receives'' ''failure-set'') (Transaction tr (set_tenant_receives_body tid items)) (\<lambda>_.
     n_ok E ctx ''set_tenant_event_receives'' N_MessageResponse)))"

definition nh_GetUserEventReceives :: "trial \<Rightarrow> env \<Rightarrow> ctx \<Rightarrow> receives_request \<Rightarrow> sys \<Rightarrow> n_result" where
  "nh_GetUserEventReceives tr E ctx req =
     n_onError E ctx (n_evcode ''get_user_event_receives'' ''failure-validate'') (validateGetEventReceivesRequest req) (\<lambda>_.
     withHeader E ctx ''get_user_event_receives'' (\<lambda>_ user.
     n_inTx E ctx (n_evcode ''get_user_event_receives'' ''failure-get'')
       (Transaction tr (reading (\<lambda>E d. GetUserEventReceives E d (pu_Id user) req))) (\<lambda>rs s.
     if rs = [] then Some (n_createError E ctx (n_evcode ''get_user_event_receives'' ''success-get'') ErrNoContent s)
     else n_ok E ctx ''get_user_event_receives'' (N_ReceivesResponse rs) s)))"

definition set_user_receives_body :: "u64 \<Rightarrow> event_receive list \<Rightarrow> unit body" where
  "set_user_receives_body uid items = writing (\<lambda>E d.
     bindR (ValidateUser E d uid) (\<lambda>_. bindR (SetUserEventReceives E uid items d) (\<lambda>d1. Ok ((), d1))))"

definition nh_SetUserEventReceives :: "trial \<Rightarrow> env \<Rightarrow> ctx \<Rightarrow> event_receive list \<Rightarrow> sys \<Rightarrow> n_result" where
  "nh_SetUserEventReceives tr E ctx items =
     withHeader E ctx ''set_user_event_receives'' (\<lambda>_ user.
     n_onError E ctx (n_evcode ''set_user_event_receives'' ''failure-validate'') (validateEventReceives items) (\<lambda>_.
     n_inTx E ctx (n_evcode ''set_user_event_receives'' ''failure-set'') (Transaction tr (set_user_receives_body (pu_Id user) items)) (\<lambda>_.
     n_ok E ctx ''set_user_event_receives'' N_MessageResponse)))"

definition reset_receives_body :: "u64 \<Rightarrow> unit body" where
  "reset_receives_body uid = writing (\<lambda>E d.
     bindR (ValidateUser E d uid) (\<lambda>_. bindR (ResetUserEventReceives E uid d) (\<lambda>d1. Ok ((), d1))))"

definition nh_ResetUserEventReceives :: "trial \<Rightarrow> env \<Rightarrow> ctx \<Rightarrow> sys \<Rightarrow> n_result" where
  "nh_ResetUserEventReceives tr E ctx =
     withHeader E ctx ''reset_user_event_receives'' (\<lambda>_ user.
     n_inTx E ctx (n_evcode ''reset_user_event_receives'' ''failure-reset'') (Transaction tr (reset_receives_body (pu_Id user))) (\<lambda>_.
     n_ok E ctx ''reset_user_event_receives'' N_MessageResponse))"

section \<open>The stream of new events (handler.go and lookup.go)\<close>

text \<open>
  \<open>newEventLookup\<close> subscribes to the topic of the tenant.  The loop takes an arriving event into its buffer
  when the filter matches, and sends the buffer at every tick; \<open>Tick\<close> carries the answer of \<open>Send\<close>: sent,
  the peer is gone, or another error.
\<close>

datatype send_result = Sent | Unavailable | SendError goerr

datatype stream_input = Arrive event_record | Tick send_result

record stream_state =
  st_buffer :: "event_record list"
  st_sent :: "event_record list list"
  st_end :: "(goerr, unit) res option"

definition stream_match :: "receives_request \<Rightarrow> event_record \<Rightarrow> bool" where
  "stream_match req r \<longleftrightarrow> code_match req (rec_EventCode r)"

definition stream_step :: "receives_request \<Rightarrow> stream_input \<Rightarrow> stream_state \<Rightarrow> stream_state" where
  "stream_step req i st =
     (case st_end st of Some _ \<Rightarrow> st
      | None \<Rightarrow>
          (case i of
             Arrive r \<Rightarrow> (if stream_match req r then st\<lparr>st_buffer := st_buffer st @ [r]\<rparr> else st)
           | Tick answer \<Rightarrow>
               if st_buffer st = [] then st
               else
                 (case answer of
                    Sent \<Rightarrow> st\<lparr>st_buffer := [], st_sent := st_sent st @ [st_buffer st]\<rparr>
                  | Unavailable \<Rightarrow> st\<lparr>st_buffer := [], st_end := Some (Ok ())\<rparr>
                  | SendError e \<Rightarrow> st\<lparr>st_buffer := [], st_end := Some (Fail (Unknown (Some e)))\<rparr>)))"

definition stream_run :: "receives_request \<Rightarrow> stream_input list \<Rightarrow> stream_state" where
  "stream_run req is = fold (stream_step req) is \<lparr>st_buffer = [], st_sent = [], st_end = None\<rparr>"

text \<open>
  The checks before the loop, with the interval of the ticker (5 seconds by default) and the topic; and the
  status when the loop ends.
\<close>

definition stream_open :: "env \<Rightarrow> ctx \<Rightarrow> stream_request \<Rightarrow> sys \<Rightarrow> (goerr, u64 \<times> string) res \<times> sys" where
  "stream_open E ctx req s =
     (let code = n_evcode ''get_events_stream'' in
      case n_getRequestMetadata E ctx of
        Panic \<Rightarrow> (Panic, s)
      | Fail e \<Rightarrow> n_createError E ctx (code ''failure-get_request_metadata'') e s
      | Ok (tid, _) \<Rightarrow>
          (case validateGetEventsStreamParams req of
             Panic \<Rightarrow> (Panic, s)
           | Fail e \<Rightarrow> n_createError E ctx (code ''failure-validate'') e s
           | Ok _ \<Rightarrow>
               (case (case sr_Interval req of None \<Rightarrow> Ok () | Some i \<Rightarrow> validateInterval i) of
                  Panic \<Rightarrow> (Panic, s)
                | Fail e \<Rightarrow> n_createError E ctx (code ''failure-validate_interval'') e s
                | Ok _ \<Rightarrow>
                    (let interval = (case sr_Interval req of None \<Rightarrow> 5 | Some i \<Rightarrow> i);
                         topic = TopicNotificationEventCreated tid in
                     if e_publish E topic then (Ok (interval, topic), s)
                     else n_createError E ctx (code ''failure-subscribe_template_queue'')
                            (UnusableBroker (Some (PlainErr ''could not subscribe''))) s))))"

definition nh_GetEventsStream ::
  "env \<Rightarrow> ctx \<Rightarrow> stream_request \<Rightarrow> stream_input list \<Rightarrow> sys \<Rightarrow> p_event list list \<times> ((goerr, unit) res \<times> sys) option" where
  "nh_GetEventsStream E ctx req is s =
     (case stream_open E ctx req s of
        (Panic, s1) \<Rightarrow> ([], Some (Panic, s1))
      | (Fail e, s1) \<Rightarrow> ([], Some (Fail e, s1))
      | (Ok _, s1) \<Rightarrow>
          (let st = stream_run (sr_Filter req) is in
           (map eventRecordsToResponse (st_sent st),
            (case st_end st of
               None \<Rightarrow> None
             | Some (Ok ()) \<Rightarrow> Some (Ok (), s1)
             | Some (Fail e) \<Rightarrow> Some (n_createError E ctx (n_evcode ''get_events_stream'' ''failure-send_response'') e s1)
             | Some Panic \<Rightarrow> Some (Panic, s1)))))"

text \<open>\<open>eventLookup.subscribeEvent\<close>: a message of the topic becomes an arrival.\<close>

definition lookup_subscribeEvent :: "nprm \<Rightarrow> string \<Rightarrow> (goerr, stream_input) res" where
  "lookup_subscribeEvent N msg =
     (case n_UnmarshalRecord N msg of
        None \<Rightarrow> Fail (Unknown (Some (PlainErr ''json.Unmarshal''))) | Some r \<Rightarrow> Ok (Arrive r))"

section \<open>The service\<close>

fun n_serve :: "nprm \<Rightarrow> trial \<Rightarrow> env \<Rightarrow> ctx \<Rightarrow> n_request \<Rightarrow> sys \<Rightarrow> n_result" where
  "n_serve N tr E ctx N_GetConfig = nh_GetConfig N tr E ctx"
| "n_serve N tr E ctx (N_SetConfig req) = nh_SetConfig N tr E ctx req"
| "n_serve N tr E ctx (N_GetEvent i) = nh_GetEvent tr E ctx i"
| "n_serve N tr E ctx (N_GetEvents req) = nh_GetEvents N tr E ctx req"
| "n_serve N tr E ctx N_GetEventClassifications = nh_GetEventClassifications tr E ctx"
| "n_serve N tr E ctx (N_GetTenantEventReceives req) = nh_GetTenantEventReceives tr E ctx req"
| "n_serve N tr E ctx (N_SetTenantEventReceives items) = nh_SetTenantEventReceives tr E ctx items"
| "n_serve N tr E ctx (N_GetUserEventReceives req) = nh_GetUserEventReceives tr E ctx req"
| "n_serve N tr E ctx (N_SetUserEventReceives items) = nh_SetUserEventReceives tr E ctx items"
| "n_serve N tr E ctx N_ResetUserEventReceives = nh_ResetUserEventReceives tr E ctx"

text \<open>
  The running service: calls, messages of the two queues, the goroutines of stored events, and the cleaner.
\<close>

inductive n_step :: "nprm \<Rightarrow> sys \<Rightarrow> sys \<Rightarrow> bool" for N where
  n_step_call: "n_serve N tr E ctx req s = Some (r, s') \<Longrightarrow> n_step N s s'"
| n_step_report: "subscribeEvent N tr msg s = Some (r, s') \<Longrightarrow> n_step N s s'"
| n_step_publish: "n_step N s (publish_created E r s)"
| n_step_classify: "classify_created N tr E r s = Some (b, s') \<Longrightarrow> n_step N s s'"
| n_step_notify: "notifyEvent N tr E tid topic msg s = Some (r, s') \<Longrightarrow> n_step N s s'"
| n_step_clean: "cleanExpiredEvent tr E tid s = Some s' \<Longrightarrow> n_step N s s'"

inductive n_reachable :: "nprm \<Rightarrow> sys \<Rightarrow> sys \<Rightarrow> bool" for N s0 where
  n_reachable_init: "n_reachable N s0 s0"
| n_reachable_step: "n_reachable N s0 s \<Longrightarrow> n_step N s s' \<Longrightarrow> n_reachable N s0 s'"

end
