(* ===== verification/Identity_Invariants.thy ===== *)
theory Identity_Invariants
  imports Identity_Handler
begin

text \<open>
  What the running service does to the database.  \<open>db_step\<close> is the abstract service: one validated
  operation on the database.  Every RPC refines it (\<open>step_refines\<close>), whatever the transaction retries,
  rolls back or reports, so that a property kept by the operations holds in every reachable state;
  the locale \<open>db_invariant\<close> is that argument, interpreted for each invariant of the service.
\<close>

section \<open>The abstract service\<close>

inductive db_step :: "globals \<Rightarrow> db \<Rightarrow> db \<Rightarrow> bool" for gl where
  add_user: "validateUserAdd E gl ctx d tid (Some u) = Ok t \<Longrightarrow> addUser E (Some u) pw d = Ok (x, d') \<Longrightarrow> db_step gl d d'"
| update_user: "validateUserUpdate E gl ctx d tid reqUser uid (Some u) = Ok () \<Longrightarrow>
    updateUser E gl tid reqUser (Some u) d = Ok (x, d') \<Longrightarrow> db_step gl d d'"
| delete_user: "deleteUser E gl tid uid d = Ok d' \<Longrightarrow> db_step gl d d'"
| update_password: "validateUserPasswordUpdate E d reqUser req = Ok () \<Longrightarrow>
    updateUserPassword E (up_UserId req) (up_NewPassword req) d = Ok d' \<Longrightarrow> db_step gl d d'"
| reset_password: "resetUserPassword E gl ctx reqUser tid uid d = Ok (pw, d') \<Longrightarrow> db_step gl d d'"
| add_group: "addGroup E ctx tid greq d = Ok (g, d') \<Longrightarrow> db_step gl d d'"
| update_group: "validateUpdateGroup E d tid gid greq = Ok () \<Longrightarrow> updateGroup E tid greq d = Ok (g, d') \<Longrightarrow> db_step gl d d'"
| delete_group: "deleteGroup E ctx tid gid d = Ok d' \<Longrightarrow> db_step gl d d'"
| set_members: "setGroupUsers E ctx tid gid users d = Ok (us, d') \<Longrightarrow> db_step gl d d'"
| login: "loginUser E gl ctx lreq d = Ok (x, d') \<Longrightarrow> db_step gl d d'"
| login_failed: "updateUserLoginFailedInfo E lreq d = Ok d' \<Longrightarrow> db_step gl d d'"
| set_config: "setConfig E tid cfg d = Ok d' \<Longrightarrow> db_step gl d d'"
| add_tenant: "addTenant E treq d = Ok (t, d') \<Longrightarrow> db_step gl d d'"
| update_tenant: "updateTenant E tid treq d = Ok (t, d') \<Longrightarrow> db_step gl d d'"
| use_flag: "set_use_flag b E tid d = Ok (t, d') \<Longrightarrow> db_step gl d d'"

section \<open>Handlers and the database\<close>

lemma CreateError_frame: "s_db (snd (CreateError E ctx ev err s)) = s_db s \<and> s_kv (snd (CreateError E ctx ev err s)) = s_kv s"
  unfolding CreateError_def Let_def by (simp add: status_defs split: res.split)

lemma createError_frame [simp, frame_simps]:
  "s_db (snd (createError E ctx ev err s)) = s_db s" "s_kv (snd (createError E ctx ev err s)) = s_kv s"
  unfolding createError_def Let_def by (simp_all add: status_defs CreateError_frame)

lemma ok_frame [simp, frame_simps]:
  "s_db (snd (ok E ctx rpc rsp s)) = s_db s" "s_kv (snd (ok E ctx rpc rsp s)) = s_kv s"
  by (simp_all add: ok_def StatusOK_def)

text \<open>The database afterwards is the one before, or one abstract step away.\<close>

definition stays :: "globals \<Rightarrow> db \<Rightarrow> db \<Rightarrow> bool" where
  "stays gl d d' \<longleftrightarrow> d' = d \<or> db_step gl d d'"

lemma stays_refl [simp]: "stays gl d d"
  by (simp add: stays_def)

lemma stays_step: "db_step gl d d' \<Longrightarrow> stays gl d d'"
  by (simp add: stays_def)

lemma onError_db:
  "stays gl d (s_db s) \<Longrightarrow> (\<And>x. m s = Ok x \<Longrightarrow> stays gl d (s_db (snd (k x s))))
    \<Longrightarrow> stays gl d (s_db (snd (onError E ctx c m k s)))"
  by (simp add: onError_def split: res.split)

lemma withMetadata_db:
  "stays gl d (s_db s) \<Longrightarrow> (\<And>tid u. stays gl d (s_db (snd (k tid u s))))
    \<Longrightarrow> stays gl d (s_db (snd (withMetadata E ctx rpc k s)))"
  unfolding withMetadata_def by (rule onError_db) auto

lemma onErrorDB_db:
  "stays gl d (s_db s) \<Longrightarrow> (\<And>x d'. m (s_db s) = Ok (x, d') \<Longrightarrow> stays gl d (s_db (snd (k x (s\<lparr>s_db := d'\<rparr>)))))
    \<Longrightarrow> stays gl d (s_db (snd (onErrorDB E ctx c m k s)))"
  by (auto simp: onErrorDB_def split: res.split)

lemma onErrorKV_db:
  "stays gl d (s_db s) \<Longrightarrow> (\<And>x kv. stays gl d (s_db (snd (k x (s\<lparr>s_kv := kv\<rparr>)))))
    \<Longrightarrow> stays gl d (s_db (snd (onErrorKV E ctx c m k s)))"
  by (auto simp: onErrorKV_def split: res.split prod.split)

lemmas body_db = onError_db withMetadata_db onErrorDB_db onErrorKV_db

lemma unitDB_Ok_iff [res_simps]: "unitDB m = Ok (x, d) \<longleftrightarrow> m = Ok d"
  by (cases m) (auto simp: unitDB_def)

lemma hideUnknownUser_Ok_iff [res_simps]: "hideUnknownUser ctx m = Ok x \<longleftrightarrow> m = Ok x"
  by (simp add: hideUnknownUser_def mapE_Ok_iff)

lemma AddUser_stays: "stays gl (s_db s) (s_db (snd (h_AddUser E gl ctx req s)))"
proof (cases req)
  case None
  then show ?thesis unfolding h_AddUser_def by (intro body_db) (simp_all add: validateUserAdd_def)
next
  case (Some u)
  then show ?thesis unfolding h_AddUser_def
    by (intro body_db) (auto intro: stays_step db_step.add_user)
qed

lemma UpdateUser_stays: "stays gl (s_db s) (s_db (snd (h_UpdateUser E gl ctx uid req s)))"
proof (cases req)
  case None
  then show ?thesis unfolding h_UpdateUser_def by (intro body_db) (simp_all add: validateUserUpdate_def)
next
  case (Some u)
  then show ?thesis unfolding h_UpdateUser_def
    by (intro body_db) (auto intro: stays_step db_step.update_user)
qed

lemma write_stays:
  "stays gl (s_db s) (s_db (snd (h_DeleteUser E gl ctx uid s)))"
  "stays gl (s_db s) (s_db (snd (h_UpdateUserPassword E ctx preq s)))"
  "stays gl (s_db s) (s_db (snd (h_ResetUserPassword E gl ctx uid s)))"
  "stays gl (s_db s) (s_db (snd (h_AddGroup E ctx greq s)))"
  "stays gl (s_db s) (s_db (snd (h_UpdateGroup E ctx gid greq s)))"
  "stays gl (s_db s) (s_db (snd (h_DeleteGroup E ctx gid s)))"
  "stays gl (s_db s) (s_db (snd (h_SetGroupUsers E ctx gid users s)))"
  "stays gl (s_db s) (s_db (snd (h_SetConfig E ctx cfg s)))"
  "stays gl (s_db s) (s_db (snd (h_AddTenant E ctx treq s)))"
  "stays gl (s_db s) (s_db (snd (h_UpdateTenant E ctx tid treq s)))"
  "stays gl (s_db s) (s_db (snd (h_ActivateTenant E ctx tid s)))"
  "stays gl (s_db s) (s_db (snd (h_DeactivateTenant E ctx tid s)))"
  "stays gl (s_db s) (s_db (snd (h_Login E gl ctx lreq s)))"
  unfolding h_DeleteUser_def h_UpdateUserPassword_def h_ResetUserPassword_def h_AddGroup_def
    h_UpdateGroup_def h_DeleteGroup_def h_SetGroupUsers_def h_SetConfig_def h_AddTenant_def
    h_UpdateTenant_def h_ActivateTenant_def h_DeactivateTenant_def h_Login_def
    activateTenant_def deactivateTenant_def
  by (intro body_db; auto simp: unitDB_Ok_iff hideUnknownUser_Ok_iff intro: stays_step db_step.intros)+

lemma read_stays:
  "stays gl (s_db s) (s_db (snd (h_GetUser E gl ctx uid s)))"
  "stays gl (s_db s) (s_db (snd (h_GetSimpleUser E gl ctx uid s)))"
  "stays gl (s_db s) (s_db (snd (h_GetUsers E gl ctx lst s)))"
  "stays gl (s_db s) (s_db (snd (h_GetGroups E ctx name s)))"
  "stays gl (s_db s) (s_db (snd (h_GetGroup E ctx gid s)))"
  "stays gl (s_db s) (s_db (snd (h_GetRoles E ctx sol role s)))"
  "stays gl (s_db s) (s_db (snd (h_Logout E ctx s)))"
  "stays gl (s_db s) (s_db (snd (h_VerifySession E gl ctx s)))"
  "stays gl (s_db s) (s_db (snd (h_RevokeSession E gl ctx key s)))"
  "stays gl (s_db s) (s_db (snd (h_GetConfig E ctx s)))"
  "stays gl (s_db s) (s_db (snd (h_GetTenants E ctx name s)))"
  "stays gl (s_db s) (s_db (snd (h_GetTenant E ctx tid s)))"
  unfolding h_GetUser_def h_GetSimpleUser_def h_GetUsers_def h_GetGroups_def h_GetGroup_def h_GetRoles_def
    h_Logout_def h_VerifySession_def h_RevokeSession_def h_GetConfig_def h_GetTenants_def h_GetTenant_def
  by (intro body_db; simp; (intro conjI impI body_db; simp)?)+

lemma handle_stays: "handle gl ctx req = Some body \<Longrightarrow> stays gl (s_db s) (s_db (snd (body E s)))"
  by (cases req) (auto simp: AddUser_stays UpdateUser_stays write_stays read_stays)

lemma LoginFailed_stays: "stays gl (s_db s) (s_db (snd (h_LoginFailed E ctx req s)))"
  by (auto simp: h_LoginFailed_def split: res.split intro: stays_step db_step.login_failed)

section \<open>Transactions and the database\<close>

lemma rollback_frame [simp, frame_simps]:
  "s_db (rollback s s') = s_db s" "s_kv (rollback s s') = s_kv s'" "s_out (rollback s s') = s_out s'"
  by (simp_all add: rollback_def)

text \<open>A transaction ends with the database of its start, or with what one run of the body made of it.\<close>

lemma executeInTx_rel:
  assumes "\<And>d. P d d" and "\<And>E s. P (s_db s) (s_db (snd (body E s)))"
  shows "executeInTx as body s = Some (r, s') \<Longrightarrow> P (s_db s) (s_db s')"
proof (induction as arbitrary: s)
  case Nil
  then show ?case by simp
next
  case (Cons a as)
  obtain r1 s1 where b: "body (at_env a) s = (r1, s1)" by (cases "body (at_env a) s")
  have s1: "P (s_db s) (s_db s1)" using assms(2) [of s "at_env a"] b by simp
  have IH: "executeInTx as body (rollback s s1) = Some (r, s') \<Longrightarrow> P (s_db s) (s_db s')"
    using Cons.IH [of "rollback s s1"] by simp
  from Cons.prems b s1 IH assms(1) show ?case
    by (auto simp: Let_def split: res.splits release.splits option.splits if_splits)
qed

lemma Transaction_rel:
  assumes "\<And>d. P d d" and "\<And>E s. P (s_db s) (s_db (snd (body E s)))" and "Transaction tr body s = Some (r, s')"
  shows "P (s_db s) (s_db s')"
  using assms(3) executeInTx_rel [of P body, OF assms(1,2)] assms(1)
  by (auto simp: Transaction_def split: option.splits)

lemma Transaction_reads:
  "(\<And>E s. s_db (snd (body E s)) = s_db s) \<Longrightarrow> Transaction tr body s = Some (r, s') \<Longrightarrow> s_db s' = s_db s"
  using Transaction_rel [of "\<lambda>d d'. d' = d" body] by blast

lemma Transaction_db:
  "(\<And>E s. stays gl (s_db s) (s_db (snd (body E s)))) \<Longrightarrow> Transaction tr body s = Some (r, s') \<Longrightarrow> stays gl (s_db s) (s_db s')"
  using Transaction_rel [of "stays gl" body] by simp

lemma enforceRoles_db [simp]: "s_db (snd (enforceRoles E gl ctx ep rs s)) = s_db s"
  by (induction rs) (auto split: prod.split bool.split option.split)

lemma checkTenant_db [simp]: "s_db (snd (checkTenant tid E s)) = s_db s"
  by (simp add: checkTenant_def)

lemma createError_eq_db: "createError E ctx ev e s = (r, s') \<Longrightarrow> s_db s' = s_db s"
  by (metis createError_frame(1) snd_conv)

lemma enforceRoles_eq_db: "enforceRoles E gl ctx ep rs s = (r, s') \<Longrightarrow> s_db s' = s_db s"
  by (metis enforceRoles_db snd_conv)

lemma CheckAuthorization_reads:
  assumes "h_CheckAuthorization tr E gl ctx ep s = Some (r, s')"
  shows "s_db s' = s_db s"
proof (cases "getRequestMetadata E ctx")
  case (Ok x)
  obtain tid user where x: "x = (tid, user)" by (cases x)
  obtain r1 s1 where T: "Transaction tr (checkTenant tid) s = Some (r1, s1)"
    using assms Ok x by (auto simp: h_CheckAuthorization_def split: option.splits)
  have "s_db s1 = s_db s" by (rule Transaction_reads [OF checkTenant_db T])
  moreover have "s_db s' = s_db s1"
    using assms unfolding h_CheckAuthorization_def Ok x res.case prod.case T option.case
    by (cases r1) (auto split: if_splits option.splits dest: createError_eq_db enforceRoles_eq_db)
  ultimately show ?thesis by simp
next
  case (Fail e)
  with assms show ?thesis by (auto simp: h_CheckAuthorization_def dest: createError_eq_db)
next
  case Panic
  with assms show ?thesis by (simp add: h_CheckAuthorization_def)
qed

section \<open>Refinement\<close>

lemma serve_db:
  assumes "serve gl c req s = Some (r, s')"
  shows "(db_step gl)\<^sup>*\<^sup>* (s_db s) (s_db s')"
proof -
  have star: "stays gl d d' \<Longrightarrow> (db_step gl)\<^sup>*\<^sup>* d d'" for d d' by (auto simp: stays_def)
  show ?thesis
  proof (cases "handle gl (c_ctx c) req")
    case (Some body)
    with assms have "Transaction (c_trial c) body s = Some (r, s')" by (simp add: serve_def)
    then show ?thesis by (intro star Transaction_db [OF handle_stays [OF Some]])
  next
    case None
    then consider lr where "req = Login lr" | ep where "req = CheckAuthorization ep" by (cases req) auto
    then show ?thesis
    proof cases
      case (1 lr)
      with assms None obtain r1 s1 where T: "Transaction (c_trial c) (\<lambda>E. h_Login E gl (c_ctx c) lr) s = Some (r1, s1)"
        and rest: "s' = s1 \<or> (\<exists>r2. Transaction (c_failed c) (\<lambda>E. h_LoginFailed E (c_ctx c) lr) s1 = Some (r2, s'))"
        by (auto simp: serve_def serve_Login_def split: option.splits res.splits if_splits)
      have "(db_step gl)\<^sup>*\<^sup>* (s_db s) (s_db s1)" by (rule star, rule Transaction_db [OF _ T]) (rule write_stays)
      moreover have "(db_step gl)\<^sup>*\<^sup>* (s_db s1) (s_db s')"
        using rest by (auto intro: star Transaction_db [OF LoginFailed_stays])
      ultimately show ?thesis by simp
    next
      case (2 ep)
      with assms None have "h_CheckAuthorization (c_trial c) (c_env c) gl (c_ctx c) ep s = Some (r, s')"
        by (simp add: serve_def)
      then show ?thesis by (simp add: CheckAuthorization_reads)
    qed
  qed
qed

inductive_cases stepE: "step gl s s'"

lemma step_db: "step gl s s' \<Longrightarrow> (db_step gl)\<^sup>*\<^sup>* (s_db s) (s_db s')"
  by (erule stepE) (auto dest: serve_db)

section \<open>Invariants of the service\<close>

locale db_invariant =
  fixes gl :: globals and I :: "db \<Rightarrow> bool"
  assumes I_step: "I d \<Longrightarrow> db_step gl d d' \<Longrightarrow> I d'"
begin

lemma I_steps: "(db_step gl)\<^sup>*\<^sup>* d d' \<Longrightarrow> I d \<Longrightarrow> I d'"
  by (induction rule: rtranclp_induct) (auto intro: I_step)

lemma serve_I: "serve gl c req s = Some (r, s') \<Longrightarrow> I (s_db s) \<Longrightarrow> I (s_db s')"
  by (blast intro: I_steps serve_db)

lemma reachable_I: "reachable gl s0 s \<Longrightarrow> I (s_db s0) \<Longrightarrow> I (s_db s)"
  by (induction rule: reachable.induct) (auto intro: I_steps step_db)

end

text \<open>Integrity of the database.\<close>

lemma db_step_wf: "db_step gl d d' \<Longrightarrow> db_wf d \<Longrightarrow> db_wf d'"
  by (induction rule: db_step.induct)
     (auto intro: addUser_wf updateUser_wf deleteUser_wf updateUserPassword_wf resetUserPassword_wf addGroup_wf
       updateGroup_wf deleteGroup_wf setGroupUsers_wf loginUser_wf updateUserLoginFailedInfo_wf setConfig_wf
       addTenant_wf updateTenant_wf set_use_flag_wf)

interpretation integrity: db_invariant gl db_wf for gl
  by unfold_locales (rule db_step_wf)

section \<open>The admin role\<close>

text \<open>\<open>admin_holders\<close>: the users with the admin role.  Only three operations touch the role table.\<close>

definition admin_holders :: "globals \<Rightarrow> db \<Rightarrow> u64 list" where
  "admin_holders gl d = map mur_UserID (filter (\<lambda>r. mur_RoleID r = gl_Admin gl) (t_user_role d))"

definition admin_pair :: "globals \<Rightarrow> m_user_role" where
  "admin_pair gl = \<lparr>mur_UserID = gl_adminUser gl, mur_RoleID = gl_Admin gl\<rparr>"

definition admin_safe :: "globals \<Rightarrow> db \<Rightarrow> bool" where
  "admin_safe gl d \<longleftrightarrow> db_wf d \<and> admin_pair gl \<in> set (t_user_role d)"

lemma user_role_foldR_set:
  assumes "foldR (\<lambda>r. user_role_save E \<lparr>mur_UserID = uid, mur_RoleID = pr_Id r\<rparr>) roles d = Ok d'"
  shows "set (t_user_role d') = set (t_user_role d) \<union> (\<lambda>r. \<lparr>mur_UserID = uid, mur_RoleID = pr_Id r\<rparr>) ` set roles"
  using assms
proof (induction roles arbitrary: d)
  case Nil
  then show ?case by simp
next
  case (Cons r roles)
  then obtain d1 where "user_role_save E \<lparr>mur_UserID = uid, mur_RoleID = pr_Id r\<rparr> d = Ok d1"
    "foldR (\<lambda>r. user_role_save E \<lparr>mur_UserID = uid, mur_RoleID = pr_Id r\<rparr>) roles d1 = Ok d'"
    by (auto simp: bindR_Ok_iff)
  with Cons.IH [of d1] user_role_save_Ok show ?case by fastforce
qed

lemma updateUserRoleRelations_set:
  assumes "updateUserRoleRelations E uid roles d = Ok d'"
  shows "set (t_user_role d') = {r \<in> set (t_user_role d). mur_UserID r \<noteq> uid} \<union>
    (\<lambda>r. \<lparr>mur_UserID = uid, mur_RoleID = pr_Id r\<rparr>) ` set roles"
proof -
  from assms obtain d1 where d1: "user_role_delete E uid d = Ok d1"
    and r: "foldR (\<lambda>r. user_role_save E \<lparr>mur_UserID = uid, mur_RoleID = pr_Id r\<rparr>) roles d1 = Ok d'"
    by (auto simp: updateUserRoleRelations_def bindR_Ok_iff)
  have "set (t_user_role d1) = {r \<in> set (t_user_role d). mur_UserID r \<noteq> uid}"
    using d1 by (simp add: user_role_delete_Ok)
  then show ?thesis unfolding user_role_foldR_set [OF r] by simp
qed

lemma updateUserGroupRelations_roles:
  "updateUserGroupRelations E uid gs d = Ok d' \<Longrightarrow> t_user_role d' = t_user_role d"
  unfolding updateUserGroupRelations_def bindR_Ok_iff
  by (elim exE conjE, erule foldR_invariant) (auto simp: user_group_delete_Ok dest: user_group_save_Ok)

lemma save_solutions_roles: "save_solutions E tid sols d = Ok d' \<Longrightarrow> t_user_role d' = t_user_role d"
  unfolding save_solutions_def orUnusable_Ok_iff
  by (erule foldR_invariant) (auto dest!: tenant_solution_save_Ok)

lemma tenant_save_roles: "tenant_save E t d = Ok (t', d') \<Longrightarrow> t_user_role d' = t_user_role d"
  by (drule tenant_save_Ok) auto

lemma group_save_roles: "group_save E g d = Ok (g', d') \<Longrightarrow> t_user_role d' = t_user_role d"
  by (erule group_save_cases) auto

lemma user_save_roles: "user_save E u d = Ok (u', d') \<Longrightarrow> t_user_role d' = t_user_role d"
  by (rule user_save_frame(4))

lemma tenant_solution_delete_roles: "tenant_solution_delete E i d = Ok d' \<Longrightarrow> t_user_role d' = t_user_role d"
  by (simp add: tenant_solution_delete_Ok)

lemma user_group_delete_roles: "user_group_delete E c i d = Ok d' \<Longrightarrow> t_user_role d' = t_user_role d"
  by (simp add: user_group_delete_Ok)

lemma addMembers_roles: "addMembers E t gid us d = Ok (rs, d') \<Longrightarrow> t_user_role d' = t_user_role d"
  by (induction us arbitrary: d rs) (auto simp: bindR_Ok_iff orUnusable_Ok_iff dest!: user_group_save_Ok)

lemmas roles_frame = updateUserGroupRelations_roles save_solutions_roles tenant_save_roles group_save_roles
  user_save_roles tenant_solution_delete_roles user_group_delete_roles addMembers_roles

lemma addTenant_roles: "addTenant E req d = Ok (x, d') \<Longrightarrow> t_user_role d' = t_user_role d"
  by (auto simp: addTenant_def bindR_Ok_iff orUnusable_Ok_iff split: option.splits dest!: roles_frame)

lemma updateTenant_roles: "updateTenant E i req d = Ok (x, d') \<Longrightarrow> t_user_role d' = t_user_role d"
  by (auto simp: updateTenant_def bindR_Ok_iff orUnusable_Ok_iff Let_def split: option.splits dest!: roles_frame)

lemma set_use_flag_roles: "set_use_flag b E i d = Ok (x, d') \<Longrightarrow> t_user_role d' = t_user_role d"
  by (auto simp: set_use_flag_def bindR_Ok_iff orUnusable_Ok_iff dest!: roles_frame)

lemma group_ops_roles:
  "addGroup E ctx tid greq d = Ok (g, d') \<Longrightarrow> t_user_role d' = t_user_role d"
  "updateGroup E tid greq d = Ok (g, d') \<Longrightarrow> t_user_role d' = t_user_role d"
  "deleteGroup E ctx tid gid d = Ok d' \<Longrightarrow> t_user_role d' = t_user_role d"
  "setGroupUsers E ctx tid gid users d = Ok (us, d') \<Longrightarrow> t_user_role d' = t_user_role d"
  by (auto simp: addGroup_def updateGroup_def deleteGroup_def setGroupUsers_def bindR_Ok_iff orUnusable_Ok_iff
      split: option.splits dest!: roles_frame)

lemma account_ops_roles:
  "updateUserPassword E uid pw d = Ok d' \<Longrightarrow> t_user_role d' = t_user_role d"
  "resetUserPassword E gl ctx reqUser tid uid d = Ok (pw, d') \<Longrightarrow> t_user_role d' = t_user_role d"
  "loginUser E gl ctx lreq d = Ok (x, d') \<Longrightarrow> t_user_role d' = t_user_role d"
  "updateUserLoginFailedInfo E lreq d = Ok d' \<Longrightarrow> t_user_role d' = t_user_role d"
  by (auto elim!: updateUserPassword_Ok resetUserPassword_Ok loginUser_Ok updateUserLoginFailedInfo_Ok
      dest: user_save_roles)

lemma setConfig_roles: "setConfig E tid req d = Ok d' \<Longrightarrow> t_user_role d' = t_user_role d"
proof -
  assume "setConfig E tid req d = Ok d'"
  then obtain c where "foldR (\<lambda>(k, v). tenant_config_save E \<lparr>mtc_TenantID = tid, mtc_Key = k, mtc_Value = v\<rparr>)
      (config_rows c) d = Ok d'"
    by (auto simp: setConfig_def bindR_Ok_iff orUnusable_Ok_iff split: option.splits)
  then show ?thesis by (rule foldR_invariant) (auto split: prod.splits dest: tenant_config_save_Ok)
qed

lemma not_isAdmin: "\<not> isAdmin gl roles \<Longrightarrow> r \<in> set roles \<Longrightarrow> pr_Id r \<noteq> gl_Admin gl"
  by (auto simp: isAdmin_def)

text \<open>The roles of another user are replaced, and the admin role is not among the new ones.\<close>

definition roles_replaced :: "globals \<Rightarrow> u64 \<Rightarrow> db \<Rightarrow> db \<Rightarrow> bool" where
  "roles_replaced gl uid d d' \<longleftrightarrow> uid \<noteq> gl_adminUser gl \<and>
     (\<exists>new. set (t_user_role d') = {r \<in> set (t_user_role d). mur_UserID r \<noteq> uid} \<union> new \<and>
        (\<forall>r \<in> new. mur_UserID r = uid \<and> mur_RoleID r \<noteq> gl_Admin gl))"

lemma roles_replacedI:
  assumes "updateUserRoleRelations E uid roles d1 = Ok d2" "t_user_role d1 = t_user_role d" "t_user_role d' = t_user_role d2"
    "\<not> isAdmin gl roles" "uid \<noteq> gl_adminUser gl"
  shows "roles_replaced gl uid d d'"
proof -
  let ?new = "(\<lambda>r. \<lparr>mur_UserID = uid, mur_RoleID = pr_Id r\<rparr>) ` set roles"
  have "set (t_user_role d') = {r \<in> set (t_user_role d). mur_UserID r \<noteq> uid} \<union> ?new"
    using updateUserRoleRelations_set [OF assms(1)] assms(2,3) by simp
  moreover have "\<forall>r \<in> ?new. mur_UserID r = uid \<and> mur_RoleID r \<noteq> gl_Admin gl"
    using not_isAdmin [OF assms(4)] by auto
  ultimately show ?thesis unfolding roles_replaced_def using assms(5) by blast
qed

lemma db_step_user_role:
  assumes "db_step gl d d'" "admin_safe gl d"
  shows "t_user_role d' = t_user_role d \<or> (\<exists>uid. roles_replaced gl uid d d')"
  using assms
proof (induction rule: db_step.induct)
  case (add_user E ctx d tid u t pw x d')
  from add_user(2) show ?case
  proof (rule addUser_Ok)
    fix user user2 :: m_user and d1 d2
    assume u: "userRspToModel u = Ok user"
      and s: "user_save E (user\<lparr>mu_Password := encodePassword E pw, mu_PasswordUpdateFlag := Some True\<rparr>) d = Ok (user2, d1)"
      and r: "updateUserRoleRelations E (mu_ID user2) (pu_Roles u) d1 = Ok d2"
      and g: "updateUserGroupRelations E (mu_ID user2) (pu_Groups u) d2 = Ok d'"
    have "mu_ID user = 0" using userRspToModel_Ok [OF u] validateUserAdd_Ok(1) [OF add_user(1)] by simp
    with s have "mu_ID user2 \<notin> mu_ID ` set (t_user d)" by (auto elim: user_save_cases)
    moreover have "gl_adminUser gl \<in> mu_ID ` set (t_user d)"
      using add_user(3) by (auto simp: admin_safe_def db_wf_def user_roles_wf_def admin_pair_def)
    ultimately have "mu_ID user2 \<noteq> gl_adminUser gl" by metis
    from roles_replacedI [OF r user_save_roles [OF s] updateUserGroupRelations_roles [OF g]
        validateUserAdd_Ok(4) [OF add_user(1)] this]
    show ?thesis by (rule exI [THEN disjI2])
  qed
next
  case (update_user E ctx d tid reqUser uid u x d')
  from update_user(2) show ?case
  proof (rule updateUser_Ok)
    fix user t user2 :: m_user and d1 d2
    assume u: "userRspToModel u = Ok user" and s: "user_save E (updated_user user t) d = Ok (user2, d1)"
      and r: "if may_set_relations gl reqUser (pu_Id u)
        then updateUserRoleRelations E (mu_ID user2) (pu_Roles u) d1 = Ok d2 \<and>
          updateUserGroupRelations E (mu_ID user2) (pu_Groups u) d2 = Ok d' else d' = d1"
    show ?thesis
    proof (cases "may_set_relations gl reqUser (pu_Id u)")
      case True
      then have ne: "pu_Id u \<noteq> gl_adminUser gl" by (simp add: may_set_relations_def)
      then have na: "\<not> isAdmin gl (pu_Roles u)" using validateUserUpdate_Ok [OF update_user(1)] by metis
      have "gl_adminUser gl \<in> mu_ID ` set (t_user d)"
        using update_user(3) by (auto simp: admin_safe_def db_wf_def user_roles_wf_def admin_pair_def)
      then have a: "mu_ID user2 \<noteq> gl_adminUser gl"
        using s ne userRspToModel_Ok [OF u] by (auto elim!: user_save_cases)
      from r True have ro: "updateUserRoleRelations E (mu_ID user2) (pu_Roles u) d1 = Ok d2"
        and g: "updateUserGroupRelations E (mu_ID user2) (pu_Groups u) d2 = Ok d'" by simp_all
      from roles_replacedI [OF ro user_save_roles [OF s] updateUserGroupRelations_roles [OF g] na a]
      show ?thesis by (rule exI [THEN disjI2])
    next
      case False
      with r user_save_roles [OF s] show ?thesis by simp
    qed
  qed
next
  case (delete_user E tid uid d d')
  from delete_user(1) show ?case
  proof (rule deleteUser_Ok)
    fix user
    assume v: "validateUserDelete E gl d tid uid = Ok user" and d': "d' = d\<lparr>t_user_group := filter (\<lambda>r. mug_UserID r \<noteq> uid) (t_user_group d),
           t_user_role := filter (\<lambda>r. mur_UserID r \<noteq> uid) (t_user_role d),
           t_user := filter (\<lambda>u. mu_ID u \<noteq> uid) (t_user d)\<rparr>"
    have p: "admin_pair gl \<in> set (t_user_role d)" and "gl_Admin gl \<in> mr_ID ` set (t_role d)"
      using delete_user(2) by (auto simp: admin_safe_def db_wf_def user_roles_wf_def admin_pair_def)
    then obtain x where x: "x \<in> set (t_role d)" "mr_ID x = gl_Admin gl" by auto
    have "uid \<noteq> gl_adminUser gl"
    proof
      assume "uid = gl_adminUser gl"
      with p x(2) have "\<lparr>mur_UserID = uid, mur_RoleID = mr_ID x\<rparr> \<in> set (t_user_role d)"
        by (simp add: admin_pair_def)
      from validateUserDelete_Ok(5) [OF v x(1) this] x(2) show False by simp
    qed
    then have "roles_replaced gl uid d d'" by (auto simp: roles_replaced_def d' intro!: exI [of _ "{}"])
    then show ?thesis by blast
  qed
qed (auto dest: group_ops_roles account_ops_roles setConfig_roles addTenant_roles updateTenant_roles set_use_flag_roles)

lemma admin_safe_step: "admin_safe gl d \<Longrightarrow> db_step gl d d' \<Longrightarrow> admin_safe gl d'"
  using db_step_user_role [of gl d d'] db_step_wf [of gl d d']
  by (auto simp: admin_safe_def roles_replaced_def admin_pair_def)

lemma admin_holders_step:
  "admin_safe gl d \<Longrightarrow> db_step gl d d' \<Longrightarrow> set (admin_holders gl d') \<subseteq> set (admin_holders gl d)"
  using db_step_user_role [of gl d d'] by (auto simp: admin_holders_def roles_replaced_def)

interpretation admin: db_invariant gl "admin_safe gl" for gl
  by unfold_locales (rule admin_safe_step)

interpretation holders: db_invariant gl "\<lambda>d. admin_safe gl d \<and> set (admin_holders gl d) \<subseteq> H" for gl H
  by unfold_locales (use admin_safe_step admin_holders_step in blast)

end
