(* ===== verification/Notification_Invariants.thy ===== *)
theory Notification_Invariants
  imports Notification_Handler Identity_Invariants
begin

text \<open>
  What every step of the notification service keeps.  \<open>n_db_step\<close> is the abstract service: the operations on
  the database behind the RPCs, the queues and the cleaner.  The locale \<open>n_invariant\<close> carries an invariant of
  the operations to every reachable state, and is interpreted three times.
\<close>

section \<open>The abstract service\<close>

inductive n_db_step :: "nprm \<Rightarrow> db \<Rightarrow> db \<Rightarrow> bool" for N where
  n_set_config: "n_SetConfig N E tid c d = Ok d' \<Longrightarrow> n_db_step N d d'"
| n_set_tenant_receives: "SetTenantEventReceives E tid items d = Ok d' \<Longrightarrow> n_db_step N d d'"
| n_set_user_receives: "SetUserEventReceives E uid items d = Ok d' \<Longrightarrow> n_db_step N d d'"
| n_reset_user_receives: "ResetUserEventReceives E uid d = Ok d' \<Longrightarrow> n_db_step N d d'"
| n_create_event: "createEvent N E ev d = Ok (ev', d') \<Longrightarrow> n_db_step N d d'"
| n_clean_events: "cleanExpiredTenantEvent E tid d = Ok d' \<Longrightarrow> n_db_step N d d'"

abbreviation n_stays :: "nprm \<Rightarrow> db \<Rightarrow> db \<Rightarrow> bool" where
  "n_stays N \<equiv> (n_db_step N)\<^sup>*\<^sup>*"

section \<open>Frames\<close>

lemma n_reportEvent_frame [simp, frame_simps]: "s_db (n_reportEvent E tid ec er c s) = s_db s"
  by (simp add: n_reportEvent_def split: res.split)

lemma n_createError_frame [simp, frame_simps]: "s_db (snd (n_createError E ctx code err s)) = s_db s"
  by (simp add: n_createError_def Let_def status_defs CreateError_frame)

lemma n_createError_eq_frame: "n_createError E ctx code err s = (r, s') \<Longrightarrow> s_db s' = s_db s"
  by (metis n_createError_frame snd_conv)

lemma n_ok_frame: "n_ok E ctx rpc rsp s = Some (r, s') \<Longrightarrow> s_db s' = s_db s"
  by (auto simp: n_ok_def StatusOK_def)

lemma publish_all_frame [simp, frame_simps]: "s_db (snd (publish_all E ps s)) = s_db s"
  by (induction ps arbitrary: s) simp_all

lemma reading_frame [simp, frame_simps]: "s_db (snd (reading f E s)) = s_db s"
  by (simp add: reading_def)

lemma get_frames [simp, frame_simps]:
  "s_db (snd (get_events q E s)) = s_db s" "s_db (snd (get_classifications E s)) = s_db s"
  "s_db (snd (notify_body N ev u E s)) = s_db s" "s_db (snd (classify N ev' E s)) = s_db s"
  by (simp_all add: get_events_def get_classifications_def notify_body_def classify_def Let_def split: res.split)

section \<open>Transactions\<close>

lemma Transaction_stays:
  "(\<And>E s. n_stays N (s_db s) (s_db (snd (body E s)))) \<Longrightarrow> Transaction tr body s = Some (r, s') \<Longrightarrow> n_stays N (s_db s) (s_db s')"
  using Transaction_rel [of "n_stays N" body] by blast

lemma writing_stays:
  "(\<And>E d x d'. f E d = Ok (x, d') \<Longrightarrow> n_stays N d d') \<Longrightarrow> n_stays N (s_db s) (s_db (snd (writing f E s)))"
  by (auto simp: writing_def split: res.split prod.split)

section \<open>Handlers\<close>

lemma n_onError_stays:
  assumes "n_onError E ctx code m k s = Some (r, s')"
    and "\<And>x. k x s = Some (r, s') \<Longrightarrow> n_stays N (s_db s) (s_db s')"
  shows "n_stays N (s_db s) (s_db s')"
proof (cases m)
  case (Fail e)
  with assms(1) have "s_db s' = s_db s" by (auto simp: n_onError_def dest: n_createError_eq_frame)
  then show ?thesis by simp
qed (use assms in \<open>auto simp: n_onError_def\<close>)

lemma n_inTx_stays:
  assumes "n_inTx E ctx code run k s = Some (r, s')"
    and "\<And>x s1. run s = Some (x, s1) \<Longrightarrow> n_stays N (s_db s) (s_db s1)"
    and "\<And>x s1. k x s1 = Some (r, s') \<Longrightarrow> s_db s' = s_db s1"
  shows "n_stays N (s_db s) (s_db s')"
proof -
  from assms(1) obtain x s1 where x: "run s = Some (x, s1)" "n_onError E ctx code x k s1 = Some (r, s')"
    by (auto simp: n_inTx_def split: option.splits)
  have "s_db s' = s_db s1"
  proof (cases x)
    case (Fail e)
    with x(2) show ?thesis by (auto simp: n_onError_def dest: n_createError_eq_frame)
  qed (use x(2) assms(3) in \<open>auto simp: n_onError_def\<close>)
  with assms(2) [OF x(1)] show ?thesis by simp
qed

lemma withHeader_stays:
  assumes "withHeader E ctx rpc k s = Some (r, s')"
    and "\<And>tid u. k tid u s = Some (r, s') \<Longrightarrow> n_stays N (s_db s) (s_db s')"
  shows "n_stays N (s_db s) (s_db s')"
  using assms(1) unfolding withHeader_def by (rule n_onError_stays) (use assms(2) in \<open>auto split: prod.splits\<close>)

lemma reading_stays:
  "Transaction tr (reading f) s = Some (r, s') \<Longrightarrow> n_stays N (s_db s) (s_db s')"
  using Transaction_reads [OF reading_frame] by fastforce

lemma n_serve_reads_stays:
  "nh_GetConfig N tr E ctx s = Some (r, s') \<Longrightarrow> n_stays N (s_db s) (s_db s')"
  "nh_GetEvent tr E ctx i s = Some (r, s') \<Longrightarrow> n_stays N (s_db s) (s_db s')"
  "nh_GetTenantEventReceives tr E ctx rq s = Some (r, s') \<Longrightarrow> n_stays N (s_db s) (s_db s')"
  "nh_GetUserEventReceives tr E ctx rq s = Some (r, s') \<Longrightarrow> n_stays N (s_db s) (s_db s')"
  unfolding nh_GetConfig_def nh_GetEvent_def nh_GetTenantEventReceives_def nh_GetUserEventReceives_def
  by (erule n_onError_stays withHeader_stays n_inTx_stays reading_stays n_ok_frame
      | force dest: n_ok_frame n_createError_eq_frame split: if_splits)+

lemma n_serve_queries_stays:
  "nh_GetEvents N tr E ctx rq s = Some (r, s') \<Longrightarrow> n_stays N (s_db s) (s_db s')"
  "nh_GetEventClassifications tr E ctx s = Some (r, s') \<Longrightarrow> n_stays N (s_db s) (s_db s')"
proof -
  have q: "n_GetEvents tr q s = Some (x, s1) \<Longrightarrow> n_stays N (s_db s) (s_db s1)" for q s x s1
    using Transaction_reads [of "get_events q" tr s _ s1] by (auto simp: n_GetEvents_def)
  show "nh_GetEvents N tr E ctx rq s = Some (r, s') \<Longrightarrow> n_stays N (s_db s) (s_db s')"
    unfolding nh_GetEvents_def
    by (erule n_onError_stays withHeader_stays n_inTx_stays q
        | force dest: n_ok_frame n_createError_eq_frame split: if_splits)+
  have c: "GetEventClassifications tr s = Some (x, s1) \<Longrightarrow> n_stays N (s_db s) (s_db s1)" for s x s1
    using Transaction_reads [of get_classifications tr s _ s1] by (auto simp: GetEventClassifications_def)
  show "nh_GetEventClassifications tr E ctx s = Some (r, s') \<Longrightarrow> n_stays N (s_db s) (s_db s')"
    unfolding nh_GetEventClassifications_def by (erule n_inTx_stays c n_ok_frame)+
qed

lemma bodies_stay:
  "n_stays N (s_db s) (s_db (snd (set_config_body N tid req E s)))"
  "n_stays N (s_db s) (s_db (snd (set_tenant_receives_body tid items E s)))"
  "n_stays N (s_db s) (s_db (snd (set_user_receives_body uid items E s)))"
  "n_stays N (s_db s) (s_db (snd (reset_receives_body uid E s)))"
  unfolding set_config_body_def set_tenant_receives_body_def set_user_receives_body_def reset_receives_body_def
  by (rule writing_stays;
      auto simp: bindR_Ok_iff split: option.splits
        intro: n_set_config n_set_tenant_receives n_set_user_receives n_reset_user_receives)+

lemma n_serve_writes_stays:
  "nh_SetConfig N tr E ctx req s = Some (r, s') \<Longrightarrow> n_stays N (s_db s) (s_db s')"
  "nh_SetTenantEventReceives tr E ctx items s = Some (r, s') \<Longrightarrow> n_stays N (s_db s) (s_db s')"
  "nh_SetUserEventReceives tr E ctx items s = Some (r, s') \<Longrightarrow> n_stays N (s_db s) (s_db s')"
  "nh_ResetUserEventReceives tr E ctx s = Some (r, s') \<Longrightarrow> n_stays N (s_db s) (s_db s')"
  unfolding nh_SetConfig_def nh_SetTenantEventReceives_def nh_SetUserEventReceives_def nh_ResetUserEventReceives_def
  by (erule n_onError_stays withHeader_stays n_inTx_stays n_ok_frame Transaction_stays [OF bodies_stay(1)]
      Transaction_stays [OF bodies_stay(2)] Transaction_stays [OF bodies_stay(3)] Transaction_stays [OF bodies_stay(4)])+

lemma n_serve_stays: "n_serve N tr E ctx req s = Some (r, s') \<Longrightarrow> n_stays N (s_db s) (s_db s')"
  by (cases req) (simp_all add: n_serve_reads_stays n_serve_queries_stays n_serve_writes_stays)

section \<open>Queues and the cleaner\<close>

lemma store_event_stays: "n_stays N (s_db s) (s_db (snd (store_event N ev E s)))"
  by (auto simp: store_event_def intro: n_create_event split: res.split prod.split)

lemma subscribeEvent_stays: "subscribeEvent N tr msg s = Some (r, s') \<Longrightarrow> n_stays N (s_db s) (s_db s')"
  by (auto simp: subscribeEvent_def dest: Transaction_stays [OF store_event_stays] split: option.splits if_splits)

lemma classify_created_frame: "classify_created N tr E r s = Some (b, s') \<Longrightarrow> s_db s' = s_db s"
proof -
  assume c: "classify_created N tr E r s = Some (b, s')"
  then obtain x s1 where x: "ClassifyEvent N tr (rec_Event r) s = Some (x, s1)"
    by (auto simp: classify_created_def split: option.splits)
  then have "s_db s1 = s_db s"
    unfolding ClassifyEvent_def by (rule Transaction_reads [rotated]) simp
  moreover have "s_db s' = s_db s1"
    using c x by (cases x) (auto simp: classify_created_def split: prod.splits)
  ultimately show ?thesis by simp
qed

lemma notifyEvent_frame: "notifyEvent N tr E tid topic msg s = Some (r, s') \<Longrightarrow> s_db s' = s_db s"
proof -
  assume n: "notifyEvent N tr E tid topic msg s = Some (r, s')"
  have t: "s_db s1 = s_db s" if "Transaction tr (notify_body N ev u) s = Some (x, s1)" for ev u x s1
    using that by (rule Transaction_reads [rotated]) simp
  from n show ?thesis
    by (auto simp: notifyEvent_def Let_def dest: t split: option.splits prod.splits res.splits if_splits)
qed

lemma clean_tenants_stays: "n_stays N (s_db s) (s_db (clean_tenants E tids s))"
proof (induction tids arbitrary: s)
  case Nil
  then show ?case by simp
next
  case (Cons tid tids)
  let ?s = "case cleanExpiredTenantEvent E tid (s_db s) of Ok d \<Rightarrow> s\<lparr>s_db := d\<rparr>
    | Fail err \<Rightarrow> n_reportEvent E tid ''cdm-cloud.notification.main.failure-clean_expired_event'' ''unusable_database'' (Some err) s
    | Panic \<Rightarrow> s"
  have "n_stays N (s_db s) (s_db ?s)" by (auto intro: n_clean_events split: res.split)
  moreover have "n_stays N (s_db ?s) (s_db (clean_tenants E tids ?s))" by (rule Cons.IH)
  ultimately show ?case unfolding clean_tenants.simps by (rule rtranclp_trans)
qed

lemma clean_body_stays: "n_stays N (s_db s) (s_db (snd (clean_body E s)))"
  by (simp add: clean_body_def clean_tenants_stays split: res.split)

lemma cleanExpiredEvent_stays: "cleanExpiredEvent tr E tid s = Some s' \<Longrightarrow> n_stays N (s_db s) (s_db s')"
  by (auto simp: cleanExpiredEvent_def dest: Transaction_stays [OF clean_body_stays] split: option.splits res.splits prod.splits)

lemma n_step_stays: "n_step N s s' \<Longrightarrow> n_stays N (s_db s) (s_db s')"
  by (induction rule: n_step.induct)
    (auto dest: n_serve_stays subscribeEvent_stays classify_created_frame notifyEvent_frame cleanExpiredEvent_stays
      simp: publish_created_def simp del: publish_all.simps)

section \<open>Invariants\<close>

locale n_invariant =
  fixes N :: nprm and I :: "db \<Rightarrow> bool"
  assumes I_step: "I d \<Longrightarrow> n_db_step N d d' \<Longrightarrow> I d'"
begin

lemma I_steps: "n_stays N d d' \<Longrightarrow> I d \<Longrightarrow> I d'"
  by (induction rule: rtranclp_induct) (auto intro: I_step)

lemma reachable_I: "n_reachable N s0 s \<Longrightarrow> I (s_db s0) \<Longrightarrow> I (s_db s)"
  by (induction rule: n_reachable.induct) (auto intro: I_steps n_step_stays)

end

section \<open>What the operations write\<close>

definition accounts :: "db \<Rightarrow> m_user list \<times> m_tenant list \<times> m_user_role list \<times> m_user_group list \<times> m_group list \<times>
    m_role list \<times> m_tenant_solution list" where
  "accounts d = (t_user d, t_tenant d, t_user_role d, t_user_group d, t_group d, t_role d, t_tenant_solution d)"

definition events_of :: "db \<Rightarrow> n_event list \<times> u64" where
  "events_of d = (t_event d, seq_event d)"

lemma tenant_receive_save_Ok:
  "tenant_receive_save E r d = Ok d' \<Longrightarrow> \<exists>rows. d' = d\<lparr>t_tenant_receive_event := rows\<rparr>"
  by (auto simp: tenant_receive_save_def Let_def exec_Ok_iff guardR_Ok_iff split: if_splits)

lemma user_receive_save_Ok:
  "user_receive_save E r d = Ok d' \<Longrightarrow> \<exists>rows. d' = d\<lparr>t_user_receive_event := rows\<rparr>"
  by (auto simp: user_receive_save_def Let_def exec_Ok_iff guardR_Ok_iff split: if_splits)

lemma user_receive_delete_Ok:
  "user_receive_delete E c uid d = Ok d' \<Longrightarrow> \<exists>rows. d' = d\<lparr>t_user_receive_event := rows\<rparr>"
  by (auto simp: user_receive_delete_def exec_Ok_iff)

lemma tenant_config_save_rows: "tenant_config_save E c d = Ok d' \<Longrightarrow> \<exists>rows. d' = d\<lparr>t_tenant_config := rows\<rparr>"
  by (auto dest: tenant_config_save_Ok)

lemma setConfigValue_save:
  "setConfigValue p E tid k v d = Ok d' \<Longrightarrow> \<exists>x t. v = Some x \<and> p x = Ok t \<and>
    tenant_config_save E \<lparr>mtc_TenantID = tid, mtc_Key = k, mtc_Value = t\<rparr> d = Ok d'"
  by (auto simp: setConfigValue_def setConfigOne_def res_simps split: option.splits)

lemmas setters = setConfigBool_def setConfigUint32_def setConfigEventSMTPNotifier_def setConfigEventSMSNotifier_def

text \<open>Every relation that the saves of single settings keep is kept by \<open>SetConfig\<close>.\<close>

lemma n_SetConfig_rel:
  assumes "n_SetConfig N E tid c d = Ok d'" and "I d"
    and "\<And>r d d'. I d \<Longrightarrow> tenant_config_save E r d = Ok d' \<Longrightarrow> I d'"
  shows "I d'"
  using assms(1,2) unfolding n_SetConfig_def setters bindR_Ok_iff
  by (elim exE conjE) (meson setConfigValue_save assms(3))

lemma createEvent_Ok:
  assumes "createEvent N E ev d = Ok (ev', d')"
  shows "\<exists>t \<in> set (t_tenant d). mt_ID t = nv_TenantID ev \<and>
    ev' = ev\<lparr>nv_ID := seq_event d + e_gap E, nv_CreatedAt := (if nv_CreatedAt ev = 0 then e_now E else nv_CreatedAt ev)\<rparr> \<and>
    d' = d\<lparr>t_event := t_event d @ [ev'], seq_event := seq_event d + e_gap E + 1\<rparr> \<and>
    unat (seq_event d) + unat (e_gap E) < 2 ^ 63 - 1 \<and> validateEvent N E d ev = Ok ()"
  using assms
  by (auto simp: createEvent_def event_create_def nextval_def Let_def res_simps split: if_splits prod.splits)

lemma cleanExpiredTenantEvent_Ok:
  assumes "cleanExpiredTenantEvent E tid d = Ok d'"
  shows "d' = d\<lparr>t_event := filter (\<lambda>ev. store_period E d tid = 0 \<or>
    \<not> (nv_CreatedAt ev < event_deadline (e_now E) (store_period E d tid) \<and> if_given tid (nv_TenantID ev))) (t_event d)\<rparr>"
  using assms by (auto simp: cleanExpiredTenantEvent_def Let_def res_simps split: if_splits)

lemma receives_rows:
  "SetTenantEventReceives E tid items d = Ok d' \<Longrightarrow> \<exists>rows. d' = d\<lparr>t_tenant_receive_event := rows\<rparr>"
  "SetUserEventReceives E uid items d = Ok d' \<Longrightarrow> \<exists>rows. d' = d\<lparr>t_user_receive_event := rows\<rparr>"
proof -
  assume "SetTenantEventReceives E tid items d = Ok d'"
  then have f: "foldR (\<lambda>item. tenant_receive_save E
       \<lparr>mte_Code = er_Code item, mte_TenantID = tid, mte_ReceiveFlag = val_bool (er_Enable item)\<rparr>) items d = Ok d'"
    by (simp add: SetTenantEventReceives_def res_simps)
  show "\<exists>rows. d' = d\<lparr>t_tenant_receive_event := rows\<rparr>"
    by (rule foldR_invariant [OF f]) (auto dest!: tenant_receive_save_Ok intro: exI [of _ "t_tenant_receive_event d"])
next
  assume "SetUserEventReceives E uid items d = Ok d'"
  then have f: "foldR (\<lambda>item. case er_Enable item of None \<Rightarrow> user_receive_delete E (er_Code item) uid
       | Some b \<Rightarrow> user_receive_save E \<lparr>mue_Code = er_Code item, mue_UserID = uid, mue_ReceiveFlag = Some b\<rparr>) items d = Ok d'"
    by (simp add: SetUserEventReceives_def res_simps)
  show "\<exists>rows. d' = d\<lparr>t_user_receive_event := rows\<rparr>"
    by (rule foldR_invariant [OF f])
      (auto dest!: user_receive_save_Ok user_receive_delete_Ok split: option.splits intro: exI [of _ "t_user_receive_event d"])
qed

lemma SetConfig_rows: "n_SetConfig N E tid c d = Ok d' \<Longrightarrow> \<exists>rows. d' = d\<lparr>t_tenant_config := rows\<rparr>"
  by (erule n_SetConfig_rel) (auto dest!: tenant_config_save_rows intro: exI [of _ "t_tenant_config d"])

lemma n_db_step_accounts: "n_db_step N d d' \<Longrightarrow> accounts d' = accounts d"
  by (induction rule: n_db_step.induct)
    (auto simp: accounts_def ResetUserEventReceives_def res_simps
      dest: SetConfig_rows receives_rows user_receive_delete_Ok createEvent_Ok cleanExpiredTenantEvent_Ok)

lemma db_wf_frame [simp]:
  "db_wf (d\<lparr>t_tenant_receive_event := a\<rparr>) \<longleftrightarrow> db_wf d" "db_wf (d\<lparr>t_user_receive_event := b\<rparr>) \<longleftrightarrow> db_wf d"
  "db_wf (d\<lparr>t_event := c\<rparr>) \<longleftrightarrow> db_wf d" "db_wf (d\<lparr>t_event := c, seq_event := q\<rparr>) \<longleftrightarrow> db_wf d"
  by (simp_all add: db_wf_def wf_defs)

lemma n_db_step_wf: "n_db_step N d d' \<Longrightarrow> db_wf d \<Longrightarrow> db_wf d'"
proof (induction rule: n_db_step.induct)
  case (n_set_config E tid c)
  then show ?case by (metis n_SetConfig_rel tenant_config_save_wf)
qed (auto simp: ResetUserEventReceives_def res_simps
      dest: receives_rows user_receive_delete_Ok createEvent_Ok cleanExpiredTenantEvent_Ok)

text \<open>Stored events have unique ids below the sequence, and tenants that exist.\<close>

definition events_wf :: "db \<Rightarrow> bool" where
  "events_wf d \<longleftrightarrow> distinct (map nv_ID (t_event d)) \<and> (\<forall>ev \<in> set (t_event d). nv_ID ev < seq_event d) \<and>
     (\<forall>ev \<in> set (t_event d). nv_TenantID ev \<in> mt_ID ` set (t_tenant d))"

lemma seq_grows:
  assumes "unat q + unat g < 2 ^ 63 - 1"
  shows "q \<le> q + g \<and> q + g < q + g + (1 :: u64)"
proof -
  have "unat (q + g) = unat q + unat g" using assms by (simp add: unat_word_ariths)
  moreover from this have "unat (q + g + 1) = unat q + unat g + 1" using assms by (simp add: unat_word_ariths)
  ultimately show ?thesis by (simp add: word_le_nat_alt word_less_nat_alt)
qed

lemma createEvent_events_wf:
  assumes "events_wf d" and "createEvent N E ev d = Ok (ev', d')"
  shows "events_wf d'"
proof -
  from createEvent_Ok [OF assms(2)] obtain t where t: "t \<in> set (t_tenant d)" "mt_ID t = nv_TenantID ev"
    and ev': "nv_ID ev' = seq_event d + e_gap E" "nv_TenantID ev' = nv_TenantID ev"
    and d': "d' = d\<lparr>t_event := t_event d @ [ev'], seq_event := seq_event d + e_gap E + 1\<rparr>"
    and q: "unat (seq_event d) + unat (e_gap E) < 2 ^ 63 - 1"
    by auto
  note g = seq_grows [OF q]
  have below: "nv_ID x < seq_event d + e_gap E" if "x \<in> set (t_event d)" for x
    using assms(1) that g by (auto simp: events_wf_def intro: order.strict_trans2)
  then have "nv_ID ev' \<notin> nv_ID ` set (t_event d)" unfolding ev'(1) by fastforce
  moreover have "nv_ID x < seq_event d + e_gap E + 1" if "x \<in> set (t_event d @ [ev'])" for x
    using that below ev'(1) g by (auto intro: order.strict_trans)
  ultimately show ?thesis
    using assms(1) t ev' unfolding d' events_wf_def by (auto intro: image_eqI [where x = t])
qed

lemma events_wf_frame [simp]:
  "events_wf (d\<lparr>t_tenant_receive_event := a\<rparr>) \<longleftrightarrow> events_wf d" "events_wf (d\<lparr>t_user_receive_event := b\<rparr>) \<longleftrightarrow> events_wf d"
  "events_wf (d\<lparr>t_tenant_config := c\<rparr>) \<longleftrightarrow> events_wf d"
  by (simp_all add: events_wf_def)

lemma events_wf_filter: "events_wf d \<Longrightarrow> events_wf (d\<lparr>t_event := filter P (t_event d)\<rparr>)"
  by (auto simp: events_wf_def distinct_map_filter)

lemma n_db_step_events: "n_db_step N d d' \<Longrightarrow> events_wf d \<Longrightarrow> events_wf d'"
proof (induction rule: n_db_step.induct)
  case (n_create_event E ev ev')
  then show ?case by (metis createEvent_events_wf)
next
  case (n_clean_events E tid d d')
  show ?case unfolding cleanExpiredTenantEvent_Ok [OF n_clean_events(1)]
    by (rule events_wf_filter [OF n_clean_events(2)])
qed (auto simp: ResetUserEventReceives_def res_simps dest: SetConfig_rows receives_rows user_receive_delete_Ok)

interpretation n_integrity: n_invariant N db_wf for N
  by unfold_locales (rule n_db_step_wf [rotated])

interpretation n_events: n_invariant N events_wf for N
  by unfold_locales (rule n_db_step_events [rotated])

interpretation n_accounts: n_invariant N "\<lambda>d. accounts d = a" for N a
  by unfold_locales (simp add: n_db_step_accounts)

section \<open>Calls that succeed\<close>

lemma n_createError_not_Ok [simp]: "n_createError E ctx code e s \<noteq> (Ok x, s')"
  by (simp add: n_createError_def CreateError_def Let_def status_defs split: res.split)

lemma n_onError_Ok:
  "n_onError E ctx code m k s = Some (Ok x, s') \<Longrightarrow> \<exists>y. m = Ok y \<and> k y s = Some (Ok x, s')"
  by (cases m) (simp_all add: n_onError_def)

lemma n_inTx_Ok:
  "n_inTx E ctx code run k s = Some (Ok x, s') \<Longrightarrow> \<exists>y s1. run s = Some (Ok y, s1) \<and> k y s1 = Some (Ok x, s')"
  by (auto simp: n_inTx_def split: option.splits dest: n_onError_Ok)

lemma withHeader_Ok:
  "withHeader E ctx rpc k s = Some (Ok x, s') \<Longrightarrow>
    \<exists>tid user. n_getRequestMetadata E ctx = Ok (tid, user) \<and> k tid user s = Some (Ok x, s')"
  unfolding withHeader_def by (auto dest!: n_onError_Ok)

lemma n_ok_Ok: "n_ok E ctx rpc rsp s = Some (Ok x, s') \<Longrightarrow> x = rsp \<and> s_db s' = s_db s"
  by (auto simp: n_ok_def StatusOK_def)

end
