(* ===== verification/Spec_Status.thy ===== *)
theory Spec_Status
  imports Sample Notification_Invariants
begin

text \<open>
  How calls of the identity service end: every failure is an HTTP status of the table or the refusal of the
  database to begin or commit, a failed call leaves the database as it was, and a call returns as soon as one
  attempt of its transaction is settled.
\<close>

section \<open>Statuses\<close>

definition is_status :: "(goerr, 'a) res \<Rightarrow> bool" where
  "is_status r \<longleftrightarrow> (case r of Fail (MicroErr c _ _) \<Rightarrow> 204 \<le> c \<and> c \<le> 500 | Fail _ \<Rightarrow> False | _ \<Rightarrow> True)"

lemma is_status_simps [simp]:
  "is_status (Ok x)" "is_status Panic" "is_status (Fail (MicroErr c d e)) \<longleftrightarrow> 204 \<le> c \<and> c \<le> 500"
  by (simp_all add: is_status_def)

lemma is_status_FailE:
  assumes "is_status (Fail e)"
  obtains c d u where "e = MicroErr c d u" "204 \<le> c" "c \<le> 500"
  using assms by (cases e) (simp_all add: is_status_def)

lemma is_status_createError: "is_status (fst (createError E ctx code e s))"
  unfolding createError_def CreateError_def Let_def by (simp add: status_defs split: res.split)

lemma onError_status:
  "(\<And>x s. is_status (fst (k x s))) \<Longrightarrow> is_status (fst (onError E ctx c m k s))"
  by (simp add: onError_def is_status_createError split: res.split)

lemma withMetadata_status:
  "(\<And>tid u s. is_status (fst (k tid u s))) \<Longrightarrow> is_status (fst (withMetadata E ctx rpc k s))"
  unfolding withMetadata_def by (rule onError_status) auto

lemma onErrorDB_status:
  "(\<And>x s. is_status (fst (k x s))) \<Longrightarrow> is_status (fst (onErrorDB E ctx c m k s))"
  by (auto simp: onErrorDB_def is_status_createError split: res.split)

lemma onErrorKV_status:
  "(\<And>x s. is_status (fst (k x s))) \<Longrightarrow> is_status (fst (onErrorKV E ctx c m k s))"
  by (auto simp: onErrorKV_def is_status_createError split: res.split prod.split)

lemma ok_status: "is_status (fst (ok E ctx rpc rsp s))"
  by (simp add: ok_def StatusOK_def)

lemmas body_status = onError_status withMetadata_status onErrorDB_status onErrorKV_status ok_status is_status_createError

lemma enforceRoles_status: "is_status (fst (enforceRoles E gl ctx ep rs s))"
  by (induction rs) (auto simp: is_status_createError ok_status split: prod.split bool.split option.split)

lemma handle_status:
  "handle gl ctx req = Some body \<Longrightarrow> is_status (fst (body E s))"
  by (cases req)
    (auto simp: h_GetUser_def h_GetSimpleUser_def h_AddUser_def h_UpdateUser_def h_DeleteUser_def h_GetUsers_def
      h_UpdateUserPassword_def h_ResetUserPassword_def h_GetGroups_def h_GetGroup_def h_AddGroup_def h_UpdateGroup_def
      h_DeleteGroup_def h_SetGroupUsers_def h_GetRoles_def h_Logout_def h_VerifySession_def h_RevokeSession_def
      h_GetConfig_def h_SetConfig_def h_GetTenants_def h_GetTenant_def h_AddTenant_def h_UpdateTenant_def
      h_ActivateTenant_def h_DeactivateTenant_def intro!: body_status split: prod.split)

lemma h_Login_status: "is_status (fst (h_Login E gl ctx req s))"
  unfolding h_Login_def by (intro body_status)

lemma h_LoginFailed_status: "is_status (fst (h_LoginFailed E ctx req s))"
  by (simp add: h_LoginFailed_def split: res.split)

section \<open>Transactions\<close>

text \<open>A status is neither a conflict nor a wrapped one: it ends the loop.\<close>

lemma status_not_retryable:
  assumes "is_status (Fail e)"
  shows "\<not> retryable (if errors_Equal (Some e) ErrUnusableDatabase then UnwrapUnusableDatabase e else e)"
proof -
  from assms obtain c d u where "e = MicroErr c d u" by (rule is_status_FailE)
  then show ?thesis by (simp add: retryable_def sentinel_defs)
qed

definition refused :: "(goerr, 'a) res \<Rightarrow> bool" where
  "refused r \<longleftrightarrow> (\<exists>c. r = Fail (UnusableDatabase (Some (DBErr (DBError c)))))"

text \<open>An attempt after which the loop does not go on: no conflict, or the savepoint cannot be restored.\<close>

definition settled :: "attempt \<Rightarrow> bool" where
  "settled a \<longleftrightarrow> at_restart a \<noteq> None \<or>
     (\<forall>c. at_release a \<noteq> ReleaseRetryable c) \<and> (\<forall>site i c. e_fault (at_env a) site i = Some c \<longrightarrow> c \<noteq> ''40001'' \<and> c \<noteq> ''CR000'')"

definition applied_anyway :: "attempt \<Rightarrow> bool" where
  "applied_anyway a \<longleftrightarrow> (\<exists>c. at_release a = ReleaseFailed c True)"

definition settles :: "trial \<Rightarrow> bool" where
  "settles tr \<longleftrightarrow> tr_begin tr \<noteq> None \<or> tr_savepoint tr \<noteq> None \<or> (\<exists>a \<in> set (tr_attempts tr). settled a)"

lemma executeInTx_ends:
  assumes "\<And>a s e s'. settled a \<Longrightarrow> at_restart a = None \<Longrightarrow> body (at_env a) s = (Fail e, s') \<Longrightarrow>
    \<not> retryable (if errors_Equal (Some e) ErrUnusableDatabase then UnwrapUnusableDatabase e else e)"
  shows "\<exists>a \<in> set as. settled a \<Longrightarrow> executeInTx as body s \<noteq> None"
proof (induction as arbitrary: s)
  case (Cons a as)
  show ?case
  proof (cases "settled a")
    case True
    obtain r s1 where b: "body (at_env a) s = (r, s1)" by (cases "body (at_env a) s")
    show ?thesis
    proof (cases "at_restart a")
      case None
      show ?thesis
      proof (cases r)
        case (Fail e)
        from assms [OF True None b [unfolded Fail]] show ?thesis by (auto simp: b Fail Let_def)
      qed (use True None b in \<open>auto simp: settled_def split: release.split\<close>)
    next
      case (Some c)
      with b show ?thesis by (auto simp: Let_def split: res.splits release.splits)
    qed
  next
    case False
    with Cons.prems Cons.IH show ?thesis
      by (auto simp: Let_def split: res.split release.split option.split prod.split)
  qed
qed simp

lemma executeInTx_status:
  assumes "\<And>E s. is_status (fst (body E s))"
  shows "executeInTx as body s = Some (r, s') \<Longrightarrow>
    (is_status r \<or> refused r) \<and> ((\<exists>e. r = Fail e) \<and> (\<forall>a \<in> set as. \<not> applied_anyway a) \<longrightarrow> s_db s' = s_db s)"
proof (induction as arbitrary: s)
  case (Cons a as)
  obtain r1 s1 where b: "body (at_env a) s = (r1, s1)" by (cases "body (at_env a) s")
  have st: "is_status r1" using assms [of "at_env a" s] b by simp
  from Cons.prems b st Cons.IH [of "rollback s s1"] show ?case
    by (auto simp: Let_def status_not_retryable refused_def applied_anyway_def
        split: res.splits release.splits option.splits if_splits)
qed simp

lemma Transaction_status:
  assumes "\<And>E s. is_status (fst (body E s))" and "Transaction tr body s = Some (r, s')"
  shows "(is_status r \<or> refused r) \<and>
    ((\<exists>e. r = Fail e) \<and> (\<forall>a \<in> set (tr_attempts tr). \<not> applied_anyway a) \<longrightarrow> s_db s' = s_db s)"
  using assms(2) executeInTx_status [OF assms(1)]
  by (auto simp: Transaction_def refused_def split: option.splits)

lemma Transaction_ends:
  assumes "\<And>E s. is_status (fst (body E s))" and "settles tr"
  shows "Transaction tr body s \<noteq> None"
proof -
  have "executeInTx (tr_attempts tr) body s \<noteq> None" if "\<exists>a \<in> set (tr_attempts tr). settled a"
  proof (rule executeInTx_ends [OF _ that])
    fix a :: attempt and s e s'
    assume "body (at_env a) s = (Fail e, s')"
    then have "is_status (Fail e :: (goerr, 'a) res)" using assms(1) [of "at_env a" s] by simp
    then show "\<not> retryable (if errors_Equal (Some e) ErrUnusableDatabase then UnwrapUnusableDatabase e else e)"
      by (rule status_not_retryable)
  qed
  with assms(2) show ?thesis by (auto simp: Transaction_def settles_def split: option.splits)
qed

section \<open>Calls\<close>

lemma CheckAuthorization_status:
  assumes "h_CheckAuthorization tr E gl ctx ep s = Some (r, s')"
  shows "is_status r \<and> s_db s' = s_db s"
proof (cases "getRequestMetadata E ctx")
  case (Ok x)
  obtain tid user where x: "x = (tid, user)" by (cases x)
  obtain r1 s1 where T: "Transaction tr (checkTenant tid) s = Some (r1, s1)"
    using assms Ok x by (auto simp: h_CheckAuthorization_def split: option.splits)
  have "s_db s1 = s_db s" by (rule Transaction_reads [OF checkTenant_db T])
  then show ?thesis
    using assms enforceRoles_status [of E gl ctx ep] unfolding h_CheckAuthorization_def Ok x res.case prod.case T option.case
    by (cases r1)
      (auto split: if_splits option.splits dest: createError_eq_db enforceRoles_eq_db arg_cong [of _ _ "\<lambda>p. is_status (fst p)"]
        simp: is_status_createError)
next
  case (Fail e)
  with assms have "createError E ctx (evcode ''check_authorization'' ''failure-get_request_metadata'') e s = (r, s')"
    by (simp add: h_CheckAuthorization_def)
  then show ?thesis using is_status_createError [of E ctx _ e s] createError_eq_db by (metis fst_conv)
next
  case Panic
  with assms show ?thesis by (simp add: h_CheckAuthorization_def)
qed

lemma handle_cases: "handle gl ctx req = None \<longleftrightarrow> (\<exists>lr. req = Login lr) \<or> (\<exists>ep. req = CheckAuthorization ep)"
  by (cases req) simp_all

lemma serve_Login_status:
  assumes "serve_Login gl c req s = Some (r, s')"
  shows "is_status r \<or> refused r"
proof -
  from assms obtain r0 s1 where T: "Transaction (c_trial c) (\<lambda>E. h_Login E gl (c_ctx c) req) s = Some (r0, s1)"
    and r: "r = r0 \<or> r = Panic"
    by (auto simp: serve_Login_def split: option.splits res.splits if_splits)
  from Transaction_status [OF h_Login_status T] r show ?thesis by auto
qed

text \<open>
  Claim C11.  Every call that fails is answered with a status between 204 and 500, or with the refusal of the
  database to begin, to commit or to restore the savepoint, never with an internal error; and it leaves the
  database as it was, unless the commit was applied although it was reported as failed (a failed login, which
  counts the failure, apart).
\<close>

theorem failures_are_statuses:
  assumes "serve gl c req s = Some (r, s')"
  shows "(is_status r \<or> refused r) \<and>
    ((\<exists>e. r = Fail e) \<and> (\<forall>lr. req \<noteq> Login lr) \<and> (\<forall>a \<in> set (tr_attempts (c_trial c)). \<not> applied_anyway a)
      \<longrightarrow> s_db s' = s_db s)"
proof (cases "handle gl (c_ctx c) req")
  case (Some body)
  with assms have "Transaction (c_trial c) body s = Some (r, s')" by (simp add: serve_def)
  from Transaction_status [OF handle_status [OF Some] this] show ?thesis by blast
next
  case None
  then consider lr where "req = Login lr" | ep where "req = CheckAuthorization ep" unfolding handle_cases by blast
  then show ?thesis
  proof cases
    case (1 lr)
    with assms None show ?thesis by (auto simp: serve_def dest: serve_Login_status)
  next
    case (2 ep)
    with assms None show ?thesis by (auto simp: serve_def dest: CheckAuthorization_status)
  qed
qed

text \<open>
  A statement that conflicts with another transaction is not retried: the bodies turn every error
  into a status, which the loop of the transaction does not recognise as a conflict, so that the first
  failure is the answer of the call whatever attempts could follow.
\<close>

theorem conflicts_not_retried:
  assumes "handle gl ctx req = Some body" and "tr_begin tr = None" and "tr_savepoint tr = None"
    and "tr_attempts tr = a # as" and "body (at_env a) s = (Fail e, s1)"
  shows "Transaction tr body s = Some (Fail e, s1\<lparr>s_db := s_db s\<rparr>)"
proof -
  have "is_status (Fail e :: (goerr, response) res)" using handle_status [OF assms(1), of "at_env a" s] assms(5) by simp
  from status_not_retryable [OF this] show ?thesis
    by (auto simp: Transaction_def assms(2-5) Let_def rollback_def)
qed

lemma checkTenant_settled:
  assumes "settled a" and "at_restart a = None" and "checkTenant tid (at_env a) s = (Fail e, s')"
  shows "\<not> retryable (if errors_Equal (Some e) ErrUnusableDatabase then UnwrapUnusableDatabase e else e)"
proof -
  from assms(3) have "e = notFoundTenant tid \<or> (\<exists>site i c. e_fault (at_env a) site i = Some c \<and> e = UnusableDatabase (Some (DBErr (DBError c))))"
    by (auto simp: checkTenant_def orNotFound_def tenant_first_def db_First_def exec_def
        split: res.splits option.splits dberr.splits)
  then show ?thesis
    using assms(1,2) by (auto simp: settled_def retryable_def notFoundTenant_def errors_Wrap_def errNotFoundTenant_def errors_New_def sentinel_defs)
qed

text \<open>
  Claim C9.  Every call returns: as soon as one attempt of its transaction is settled (its commit is not
  answered with a conflict, or the savepoint cannot be restored) the loop ends, with the answer of the
  deferred transaction of a failed login included.
\<close>

theorem serve_terminates:
  assumes "settles (c_trial c)" and "settles (c_failed c)"
  shows "\<exists>r s'. serve gl c req s = Some (r, s')"
proof (cases "handle gl (c_ctx c) req")
  case (Some body)
  from Transaction_ends [OF handle_status [OF Some] assms(1)] Some show ?thesis by (auto simp: serve_def)
next
  case None
  then consider lr where "req = Login lr" | ep where "req = CheckAuthorization ep" unfolding handle_cases by blast
  then show ?thesis
  proof cases
    case (1 lr)
    have "Transaction (c_trial c) (\<lambda>E. h_Login E gl (c_ctx c) lr) s \<noteq> None"
      by (rule Transaction_ends [OF h_Login_status assms(1)])
    then obtain r1 s1 where T: "Transaction (c_trial c) (\<lambda>E. h_Login E gl (c_ctx c) lr) s = Some (r1, s1)" by auto
    have "Transaction (c_failed c) (\<lambda>E. h_LoginFailed E (c_ctx c) lr) s1 \<noteq> None"
      by (rule Transaction_ends [OF h_LoginFailed_status assms(2)])
    then obtain r2 s2 where "Transaction (c_failed c) (\<lambda>E. h_LoginFailed E (c_ctx c) lr) s1 = Some (r2, s2)" by auto
    with T have "serve_Login gl c lr s \<noteq> None" by (simp add: serve_Login_def split: res.split)
    with 1 None show ?thesis by (auto simp: serve_def)
  next
    case (2 ep)
    have "executeInTx (tr_attempts (c_trial c)) (checkTenant tid) s \<noteq> None" if "\<exists>a \<in> set (tr_attempts (c_trial c)). settled a" for tid
      by (rule executeInTx_ends [OF checkTenant_settled that])
    with assms(1) have ends: "Transaction (c_trial c) (checkTenant tid) s \<noteq> None" for tid
      by (auto simp: Transaction_def settles_def split: option.splits)
    have "h_CheckAuthorization (c_trial c) (c_env c) gl (c_ctx c) ep s \<noteq> None"
    proof (cases "getRequestMetadata (c_env c) (c_ctx c)")
      case (Ok x)
      obtain r1 s1 where "Transaction (c_trial c) (checkTenant (fst x)) s = Some (r1, s1)" using ends [of "fst x"] by auto
      with Ok show ?thesis by (cases x) (simp add: h_CheckAuthorization_def split: res.split option.split)
    qed (simp_all add: h_CheckAuthorization_def)
    with 2 None show ?thesis by (auto simp: serve_def)
  qed
qed

section \<open>Witnesses\<close>

text \<open>The first attempt is to be retried, the second one commits.\<close>

definition retry_trial :: trial where
  "retry_trial = \<lparr>tr_begin = None, tr_savepoint = None,
     tr_attempts = [\<lparr>at_env = sample_env, at_release = ReleaseRetryable ''40001'', at_restart = None\<rparr>,
                    \<lparr>at_env = sample_env, at_release = Released, at_restart = None\<rparr>]\<rparr>"

definition retry_call :: "string \<Rightarrow> call" where
  "retry_call who = \<lparr>c_ctx = sample_ctx who, c_trial = retry_trial, c_failed = sample_trial, c_env = sample_env\<rparr>"

theorem serve_terminates_witness:
  "\<exists>r s'. serve sample_globals (retry_call ''root'') (DeactivateTenant 1) sample_sys = Some (r, s')"
  by (rule serve_terminates)
    (simp_all add: settles_def settled_def retry_call_def retry_trial_def sample_trial_def)

theorem failures_are_statuses_witness:
  "\<exists>e s'. serve sample_globals (retry_call ''root'') (GetTenant 7) sample_sys = Some (Fail e, s') \<and> is_status (Fail e :: (goerr, response) res) \<and>
    s_db s' = sample_db"
proof -
  have "case serve sample_globals (retry_call ''root'') (GetTenant 7) sample_sys of Some (Fail (MicroErr _ _ _), _) \<Rightarrow> True | _ \<Rightarrow> False"
    by code_simp
  then obtain e s' where e: "serve sample_globals (retry_call ''root'') (GetTenant 7) sample_sys = Some (Fail e, s')" "\<nexists>c. e = UnusableDatabase c"
    by (auto simp: UnusableDatabase_def errors_Wrap_def split: option.splits res.splits goerr.splits prod.splits)
  from failures_are_statuses [OF e(1)] e(2)
  have "is_status (Fail e :: (goerr, response) res)" "s_db s' = s_db sample_sys"
    by (auto simp: refused_def applied_anyway_def retry_call_def retry_trial_def)
  with e(1) show ?thesis by (auto simp: sample_sys_def)
qed

text \<open>The first statement conflicts; a second attempt would succeed.\<close>

definition conflict_env :: env where
  "conflict_env = sample_env\<lparr>e_fault := (\<lambda>_ _. Some ''40001'')\<rparr>"

definition conflict_trial :: trial where
  "conflict_trial = \<lparr>tr_begin = None, tr_savepoint = None,
     tr_attempts = [\<lparr>at_env = conflict_env, at_release = Released, at_restart = None\<rparr>,
                    \<lparr>at_env = sample_env, at_release = Released, at_restart = None\<rparr>]\<rparr>"

theorem conflicts_not_retried_witness:
  "\<exists>e s'. Transaction conflict_trial (\<lambda>E. h_GetTenant E (sample_ctx ''root'') 1) sample_sys = Some (Fail e, s') \<and>
     is_Ok (fst (h_GetTenant sample_env (sample_ctx ''root'') 1 sample_sys))"
proof -
  have "case h_GetTenant conflict_env (sample_ctx ''root'') 1 sample_sys of (Fail _, _) \<Rightarrow> True | _ \<Rightarrow> False" by code_simp
  then obtain e s1 where "h_GetTenant conflict_env (sample_ctx ''root'') 1 sample_sys = (Fail e, s1)"
    by (auto split: prod.splits res.splits)
  moreover have "is_Ok (fst (h_GetTenant sample_env (sample_ctx ''root'') 1 sample_sys))" by code_simp
  ultimately show ?thesis
    using conflicts_not_retried [of sample_globals "sample_ctx ''root''" "GetTenant 1" "\<lambda>E. h_GetTenant E (sample_ctx ''root'') 1" conflict_trial]
    by (auto simp: conflict_trial_def)
qed

end
