(* ===== verification/Sample_Notification.thy ===== *)
theory Sample_Notification
  imports Notification_Invariants Sample
begin

text \<open>
  The sample installation seen by the notification service: its settings, two stored events, the codec and mail
  parameters, and who receives what.
\<close>

section \<open>A sample installation\<close>

definition sample_smtp :: "string \<Rightarrow> smtp_notifier" where
  "sample_smtp enc = \<lparr>sm_ServerAddress = ''mail'', sm_ServerPort = 25, sm_Encryption = enc, sm_AuthMechanism = ''PLAIN'',
     sm_AuthUsername = ''cloud'', sm_AuthPassword = ''pw'', sm_Sender = ''cdm''\<rparr>"

definition sample_ncfg :: n_config where
  "sample_ncfg = \<lparr>nc_EventNotificationEnable = Some True, nc_EventEmailNotificationEnable = Some True,
     nc_EventDesktopNotificationEnable = Some False, nc_EventPopupNotificationEnable = Some False,
     nc_EventSmsNotificationEnable = Some False, nc_EventCustomNotificationEnable = Some False,
     nc_EventStorePeriod = Some 6, nc_EventSmtpNotifier = Some (sample_smtp ''starttls''),
     nc_EventSmsNotifier = Some \<lparr>ss_Provider = [], ss_Version = []\<rparr>\<rparr>"

definition sample_event :: "u64 \<Rightarrow> int \<Rightarrow> n_event" where
  "sample_event i t = \<lparr>nv_ID = i, nv_TenantID = 1, nv_Code = ''vm.down'', nv_ErrorCode = None, nv_Contents = [], nv_CreatedAt = t\<rparr>"

definition sample_record :: "u64 \<Rightarrow> event_record" where
  "sample_record i = \<lparr>rec_Event = sample_event i 5,
     rec_EventCode = \<lparr>mec_Code = ''vm.down'', mec_Solution = ''CDM'', mec_Level = ''error'', mec_Class1 = [], mec_Class2 = [], mec_Class3 = []\<rparr>,
     rec_Tenant = \<lparr>mt_ID = 1, mt_Name = ''default'', mt_Remarks = None, mt_UseFlag = True, mt_CreatedAt = 1000, mt_UpdatedAt = 1000\<rparr>\<rparr>"

definition sample_nprm :: nprm where
  "sample_nprm =
     \<lparr>n_MarshalSMTP = (\<lambda>m. Ok (sm_Encryption m)), n_UnmarshalSMTP = (\<lambda>s. Some (sample_smtp s)),
      n_MarshalSMS = (\<lambda>_. Ok ''{}''), n_UnmarshalSMS = (\<lambda>_. Some \<lparr>ss_Provider = [], ss_Version = []\<rparr>),
      n_ValidObject = (\<lambda>_. True), n_UnmarshalEvent = (\<lambda>_. Some (sample_event 0 5)), n_UnmarshalRecord = (\<lambda>_. None),
      n_UnmarshalDelivery = (\<lambda>_. None), n_ParseTime = (\<lambda>_. None), n_FormatTime = (\<lambda>_ _. ''now''),
      n_SplitHost = (\<lambda>_. Some ''mail''), n_smtp = (\<lambda>c. if c = ''rcpt'' then Some (PlainErr ''no such user'') else None),
      n_date = id\<rparr>"

definition sample_ndb :: db where
  "sample_ndb = sample_db\<lparr>
     t_user := [(sample_user 1 ''admin'')\<lparr>mu_Email := Some ''root@x''\<rparr>, sample_user 2 ''alice''],
     t_tenant_config := map sample_config
       [(EventNotificationEnable, ''true''), (EventEmailNotificationEnable, ''true''), (EventEmailNotifier, ''starttls'')],
     t_tenant_receive_event := [\<lparr>mte_Code = ''vm.down'', mte_TenantID = 1, mte_ReceiveFlag = True\<rparr>],
     t_user_receive_event := [\<lparr>mue_Code = ''vm.down'', mue_UserID = 1, mue_ReceiveFlag = Some False\<rparr>,
        \<lparr>mue_Code = ''vm.up'', mue_UserID = 1, mue_ReceiveFlag = Some True\<rparr>],
     t_event := [sample_event 3 100, sample_event 4 90000000]\<rparr>"

definition sample_nsys :: sys where
  "sample_nsys = \<lparr>s_db = sample_ndb, s_kv = [], s_out = [], s_pub = []\<rparr>"

end
