(* ===== verification/Gateway.thy ===== *)
theory Gateway
  imports Identity_Handler
begin

text \<open>
  \<open>services/api-gateway/handler\<close>: the HTTP handler that go-micro's RPC handler is wrapped into.  A handler
  is a function from a request to the operations on its \<open>http.ResponseWriter\<close>; a wrapper turns one
  handler into another.  \<open>NewAuthHandler\<close> calls the identity service of \<open>Identity_Handler\<close>.
\<close>

section \<open>net/http\<close>

text \<open>
  Header names are in canonical form, as the constants of \<open>common/metadata\<close> are; \<open>RawQuery\<close> is kept
  parsed.
\<close>

record http_req =
  hr_Method :: string
  hr_Path :: string
  hr_RemoteAddr :: string
  hr_Header :: "string \<rightharpoonup> string list"
  hr_Query :: "string \<rightharpoonup> string list"

definition Header_Get :: "http_req \<Rightarrow> string \<Rightarrow> string" where
  "Header_Get r k = (case hr_Header r k of Some (v # _) \<Rightarrow> v | _ \<Rightarrow> [])"

definition Header_Set :: "string \<Rightarrow> string \<Rightarrow> http_req \<Rightarrow> http_req" where
  "Header_Set k v r = r\<lparr>hr_Header := (hr_Header r)(k \<mapsto> [v])\<rparr>"

text \<open>What a handler does to its response writer, and how it ends.\<close>

datatype wop = SetHeader string string | WriteHeader int | WriteBody string | Hijack

datatype fate = Finished | Panicked | Blocked

text \<open>The identity service beside the gateway, and the routes that the gateway remembers.\<close>

record gateway =
  gt_sys :: sys
  gt_services :: "string \<rightharpoonup> string"

type_synonym handler = "http_req \<Rightarrow> gateway \<Rightarrow> wop list \<times> fate \<times> gateway"
type_synonym wrapper = "handler \<Rightarrow> handler"

text \<open>
  The first \<open>WriteHeader\<close> or \<open>Write\<close> sends the status and the headers set until then; a status without a
  body drops what is written.
\<close>

record http_rsp =
  rs_Header :: "string \<rightharpoonup> string"
  rs_sent :: "(int \<times> (string \<rightharpoonup> string)) option"
  rs_Body :: string

definition send :: "int \<Rightarrow> http_rsp \<Rightarrow> http_rsp" where
  "send c w = (case rs_sent w of Some _ \<Rightarrow> w | None \<Rightarrow> w\<lparr>rs_sent := Some (c, rs_Header w)\<rparr>)"

definition bodyAllowed :: "http_rsp \<Rightarrow> bool" where
  "bodyAllowed w \<longleftrightarrow> (case rs_sent w of None \<Rightarrow> True | Some (c, _) \<Rightarrow> \<not> (100 \<le> c \<and> c \<le> 199) \<and> c \<noteq> 204 \<and> c \<noteq> 304)"

fun wstep :: "http_rsp \<Rightarrow> wop \<Rightarrow> http_rsp" where
  "wstep w (SetHeader k v) = w\<lparr>rs_Header := (rs_Header w)(k \<mapsto> v)\<rparr>"
| "wstep w (WriteHeader c) = send c w"
| "wstep w (WriteBody b) = (if bodyAllowed w then (send 200 w)\<lparr>rs_Body := rs_Body w @ b\<rparr> else w)"
| "wstep w Hijack = w"

definition http_run :: "wop list \<Rightarrow> http_rsp" where
  "http_run ops = foldl wstep \<lparr>rs_Header = Map.empty, rs_sent = None, rs_Body = []\<rparr> ops"

definition http_status :: "wop list \<Rightarrow> int" where
  "http_status ops = (case rs_sent (http_run ops) of Some (c, _) \<Rightarrow> c | None \<Rightarrow> 200)"

section \<open>The environment\<close>

text \<open>
  An attempt of go-micro's client to call a service (\<open>client/grpc\<close>): it is delivered, it is not sent, its reply is lost, or
  the deadline passes, before the service has run or after.
\<close>

datatype delivery = Delivered | NotSent goerr | ReplyLost goerr | Expired bool

definition request_timeout :: goerr where
  "request_timeout = MicroErr 408 ''context deadline exceeded'' None"

text \<open>What comes of it: errors of the service arrive as the transport renders them (\<open>arrive\<close>).\<close>

definition transmit ::
  "delivery \<Rightarrow> (goerr \<Rightarrow> goerr) \<Rightarrow> ('s \<Rightarrow> ((goerr, 'r) res \<times> 's) option) \<Rightarrow> 's \<Rightarrow> ((goerr, 'r) res \<times> 's) option" where
  "transmit d arrive run s =
     (case d of
        NotSent e \<Rightarrow> Some (Fail e, s)
      | Expired False \<Rightarrow> Some (Fail request_timeout, s)
      | Expired True \<Rightarrow> (case run s of None \<Rightarrow> Some (Fail request_timeout, s) | Some (_, s') \<Rightarrow> Some (Fail request_timeout, s'))
      | ReplyLost e \<Rightarrow> (case run s of None \<Rightarrow> None | Some (_, s') \<Rightarrow> Some (Fail e, s'))
      | Delivered \<Rightarrow> (case run s of None \<Rightarrow> None | Some (r, s') \<Rightarrow> Some (mapE arrive r, s')))"

text \<open>\<open>RetryOnError\<close>, and the loop of \<open>Call\<close> with one retry, which the deadline ends at once.\<close>

definition retryOnError :: "goerr \<Rightarrow> bool" where
  "retryOnError e \<longleftrightarrow> micro_code e = 408 \<or> micro_code e = 500"

definition client_Call ::
  "(nat \<Rightarrow> delivery) \<Rightarrow> (goerr \<Rightarrow> goerr) \<Rightarrow> (nat \<Rightarrow> 's \<Rightarrow> ((goerr, 'r) res \<times> 's) option) \<Rightarrow> 's \<Rightarrow> ((goerr, 'r) res \<times> 's) option" where
  "client_Call net arrive run s =
     (case transmit (net 0) arrive (run 0) s of
        None \<Rightarrow> None
      | Some (Fail e, s1) \<Rightarrow>
          if (case net 0 of Expired _ \<Rightarrow> False | _ \<Rightarrow> retryOnError e) then transmit (net 1) arrive (run 1) s1 else Some (Fail e, s1)
      | Some (r, s1) \<Rightarrow> Some (r, s1))"

text \<open>The server of a service recovers from a panic of its handler, which becomes an internal error.\<close>

definition recovered :: "(goerr, 'a) res \<Rightarrow> (goerr, 'a) res" where
  "recovered r = (case r of Panic \<Rightarrow> Fail (MicroErr 500 ''panic recovered'' None) | _ \<Rightarrow> r)"

definition recovering :: "('s \<Rightarrow> ((goerr, 'r) res \<times> 's) option) \<Rightarrow> 's \<Rightarrow> ((goerr, 'r) res \<times> 's) option" where
  "recovering run s = (case run s of None \<Rightarrow> None | Some (r, s') \<Rightarrow> Some (recovered r, s'))"

text \<open>
  go-micro's \<open>errors.Error\<close>, and the code outside the repository: the text of an error and its parser,
  JSON, the router, the transport between the gateway and the identity service, and the calls of that
  service (their metadata is filled in by the gateway).
\<close>

record micro_error =
  mic_Id :: string
  mic_Code :: int
  mic_Detail :: string
  mic_Status :: string

record genv =
  g_verify :: "nat \<Rightarrow> call"
  g_check :: "nat \<Rightarrow> call"
  g_env :: env
  g_net :: "string \<Rightarrow> nat \<Rightarrow> delivery"
  g_arrive :: "goerr \<Rightarrow> goerr"
  g_route :: "http_req \<Rightarrow> (goerr, string) res"
  g_MarshalUser :: "p_user \<Rightarrow> (goerr, string) res"
  g_Error :: "goerr \<Rightarrow> string"
  g_Parse :: "string \<Rightarrow> micro_error"
  g_ErrorJSON :: "micro_error \<Rightarrow> string"
  g_StatusText :: "int \<Rightarrow> string"
  g_FromRequest :: "http_req \<Rightarrow> ctx"
  g_UnmarshalError :: "string \<Rightarrow> micro_error option"
  g_UnmarshalMessage :: "string \<Rightarrow> (string \<times> string) option"
  g_MarshalMessage :: "string \<times> string \<Rightarrow> string option"
  g_RequestID :: string

section \<open>wrapper.go\<close>

definition loginPath :: string where
  "loginPath = ''/identity/auth''"

definition sessionCheckPath :: string where
  "sessionCheckPath = ''/identity/sessions/check''"

fun contains_str :: "string \<Rightarrow> string \<Rightarrow> bool" where
  "contains_str p [] \<longleftrightarrow> p = []"
| "contains_str p (c # s) \<longleftrightarrow> take (length p) (c # s) = p \<or> contains_str p s"

definition writeError :: "genv \<Rightarrow> http_req \<Rightarrow> goerr \<Rightarrow> wop list" where
  "writeError G r err =
     (let ce0 = g_Parse G (g_Error G err);
          ce = (if mic_Code ce0 = 0
                then ce0\<lparr>mic_Code := 500, mic_Status := g_StatusText G 500,
                         mic_Detail := ''error during request: '' @ mic_Detail ce0\<rparr>
                else ce0) in
      [WriteHeader (mic_Code ce), SetHeader ''Content-Type'' ''application/json''] @
      (if contains_str ''application/grpc'' (Header_Get r ''Content-Type'')
       then [SetHeader ''Trailer'' ''grpc-status'', SetHeader ''Trailer'' ''grpc-message'',
             SetHeader ''grpc-status'' ''13'', SetHeader ''grpc-message'' (mic_Detail ce)]
       else []) @
      [WriteBody (g_ErrorJSON G ce)])"

section \<open>wrapper_auth.go\<close>

definition registry_ErrNotFound :: goerr where
  "registry_ErrNotFound = PlainErr ''service not found''"

definition StatusErr :: "int \<Rightarrow> env \<Rightarrow> ctx \<Rightarrow> string \<Rightarrow> string \<Rightarrow> goerr option \<Rightarrow> sys \<Rightarrow> goerr \<times> sys" where
  "StatusErr code E ctx ev er c s =
     (MicroErr code (createEventMessage ev er) c, reportEvent E ctx ev er c s)"

definition route :: "genv \<Rightarrow> ctx \<Rightarrow> http_req \<Rightarrow> sys \<Rightarrow> (goerr, string) res \<times> sys" where
  "route G ctx r s =
     (case g_route G r of
        Ok name \<Rightarrow> (Ok name, s)
      | Panic \<Rightarrow> (Panic, s)
      | Fail e \<Rightarrow>
          (let (err, s') = (if e = registry_ErrNotFound
             then StatusErr 404 (g_env G) ctx ''cdm-cloud.api_gateway.route_auth.failure-route'' ''not_found_service'' (Some e) s
             else StatusErr 500 (g_env G) ctx ''cdm-cloud.api_gateway.route_auth.failure-route'' ''unknown'' (Some e) s)
           in (Fail err, s')))"

text \<open>A call of the identity service; \<open>c i\<close> are the outcomes of the attempt \<open>i\<close>.\<close>

definition identityClient ::
  "genv \<Rightarrow> globals \<Rightarrow> (nat \<Rightarrow> call) \<Rightarrow> ctx \<Rightarrow> string \<Rightarrow> request \<Rightarrow> sys \<Rightarrow> ((goerr, response) res \<times> sys) option" where
  "identityClient G gl c ctx rpc req s =
     client_Call (g_net G rpc) (g_arrive G) (\<lambda>i. recovering (serve gl ((c i)\<lparr>c_ctx := ctx\<rparr>) req)) s"

definition remoteIP :: "http_req \<Rightarrow> string" where
  "remoteIP r = hd (SplitChar (CHR '':'') (hr_RemoteAddr r))"

text \<open>Login and the check of a session are not authenticated, except when they delete.\<close>

definition exempt :: "http_req \<Rightarrow> bool" where
  "exempt r \<longleftrightarrow> (hr_Path r = sessionCheckPath \<and> hr_Method r \<noteq> ''DELETE'') \<or>
     (hr_Path r = loginPath \<and> hr_Method r \<noteq> ''DELETE'')"

definition request_tenant :: "http_req \<Rightarrow> string" where
  "request_tenant r = (if Header_Get r HeaderTenantID = [] then ''0'' else Header_Get r HeaderTenantID)"

definition verify_ctx :: "http_req \<Rightarrow> ctx" where
  "verify_ctx r = Map.empty(HeaderClientIP \<mapsto> remoteIP r,
     HeaderAuthenticatedSession \<mapsto> Header_Get r HeaderAuthenticatedSession, HeaderTenantID \<mapsto> request_tenant r)"

definition check_ctx :: "http_req \<Rightarrow> string \<Rightarrow> ctx" where
  "check_ctx r b = Map.empty(HeaderAuthenticatedUser \<mapsto> b, HeaderTenantID \<mapsto> request_tenant r)"

definition route_key :: "http_req \<Rightarrow> string" where
  "route_key r = hr_Method r @ '':'' @ hr_Path r"

text \<open>The ids of requests (\<open>metadata.go\<close>); \<open>g_RequestID\<close> is a generated one.\<close>

definition HeaderRequestID :: string where
  "HeaderRequestID = ''X-Request-Id''"

definition GetRequestID :: "ctx \<Rightarrow> (goerr, string) res" where
  "GetRequestID ctx = (case ctx HeaderRequestID of None \<Rightarrow> Fail metadata_ErrNotFound | Some v \<Rightarrow> Ok v)"

text \<open>\<open>uuid\<close>: the text of a new random UUID.\<close>

definition GenRequestID :: "string \<Rightarrow> (goerr, string) res" where
  "GenRequestID uuid = (let s = filter (\<lambda>c. c \<noteq> CHR ''-'') uuid in if length s < 12 then Panic else Ok (take 12 s))"

text \<open>
  The endpoint of the request: the router's, or the remembered one when the router does not find the
  service.
\<close>

definition endpoint_of :: "genv \<Rightarrow> ctx \<Rightarrow> http_req \<Rightarrow> gateway \<Rightarrow> (goerr, string) res \<times> gateway" where
  "endpoint_of G ctx r g =
     (case route G ctx r (gt_sys g) of
        (Ok name, s) \<Rightarrow> (Ok name, g\<lparr>gt_sys := s, gt_services := (gt_services g)(route_key r \<mapsto> name)\<rparr>)
      | (Fail err, s) \<Rightarrow>
          (case gt_services g (route_key r) of
             Some cached \<Rightarrow>
               (if errors_Equal (Some err) registry_ErrNotFound \<and> cached \<noteq> [] then (Ok cached, g\<lparr>gt_sys := s\<rparr>)
                else (Fail err, g\<lparr>gt_sys := s\<rparr>))
           | None \<Rightarrow> (Fail err, g\<lparr>gt_sys := s\<rparr>))
      | (Panic, s) \<Rightarrow> (Panic, g\<lparr>gt_sys := s\<rparr>))"

text \<open>From the verified user on: the endpoint, the authorization, and the forwarded request.\<close>

definition authorize :: "genv \<Rightarrow> globals \<Rightarrow> handler \<Rightarrow> p_user \<Rightarrow> handler" where
  "authorize G gl next user r g =
     (case g_MarshalUser G user of
        Panic \<Rightarrow> ([], Panicked, g)
      | Fail e \<Rightarrow>
          (let (err, s) = StatusErr 500 (g_env G) (verify_ctx r)
             ''cdm-cloud.api_gateway.new_auth_handler.failure-marshal'' ''unknown'' (Some e) (gt_sys g)
           in (writeError G r err, Finished, g\<lparr>gt_sys := s\<rparr>))
      | Ok b \<Rightarrow>
          (case endpoint_of G (check_ctx r b) r g of
             (Panic, g1) \<Rightarrow> ([], Panicked, g1)
           | (Fail err, g1) \<Rightarrow> (writeError G r err, Finished, g1)
           | (Ok endpoint, g1) \<Rightarrow>
               (case identityClient G gl (g_check G) (check_ctx r b) ''CheckAuthorization''
                       (CheckAuthorization endpoint) (gt_sys g1) of
                  None \<Rightarrow> ([], Blocked, g1)
                | Some (Panic, s) \<Rightarrow> ([], Panicked, g1\<lparr>gt_sys := s\<rparr>)
                | Some (Fail err, s) \<Rightarrow> (writeError G r err, Finished, g1\<lparr>gt_sys := s\<rparr>)
                | Some (Ok _, s) \<Rightarrow>
                    next (Header_Set HeaderRequestID (g_RequestID G) (Header_Set HeaderAuthenticatedUser b r))
                      (g1\<lparr>gt_sys := s\<rparr>))))"

definition authHandler :: "genv \<Rightarrow> globals \<Rightarrow> wrapper" where
  "authHandler G gl next r g =
     (if exempt r then next (Header_Set HeaderClientIP (remoteIP r) r) g
      else
        (case identityClient G gl (g_verify G) (verify_ctx r) ''VerifySession'' VerifySession (gt_sys g) of
           None \<Rightarrow> ([], Blocked, g)
         | Some (Panic, s) \<Rightarrow> ([], Panicked, g\<lparr>gt_sys := s\<rparr>)
         | Some (Fail err, s) \<Rightarrow> (writeError G r err, Finished, g\<lparr>gt_sys := s\<rparr>)
         | Some (Ok (UserResponse user), s) \<Rightarrow>
             (case pu_Session user of
                None \<Rightarrow> ([], Panicked, g\<lparr>gt_sys := s\<rparr>)
              | Some key \<Rightarrow>
                  (case authorize G gl next user r (g\<lparr>gt_sys := s\<rparr>) of
                     (ops, f, g') \<Rightarrow> (SetHeader HeaderAuthenticatedSession key # ops, f, g')))
         | Some (Ok _, s) \<Rightarrow> ([], Panicked, g\<lparr>gt_sys := s\<rparr>)))"

section \<open>wrapper_error_filter.go\<close>

text \<open>The regular expressions are sequences of literal characters, \<open>.\<close> and \<open>.*\<close>, between \<open>^\<close> and \<open>$\<close>.\<close>

datatype atom = Lit char | AnyChar | AnyRun

fun MatchString :: "atom list \<Rightarrow> string \<Rightarrow> bool" where
  "MatchString [] s \<longleftrightarrow> s = []"
| "MatchString (Lit c # p) (x # s) \<longleftrightarrow> x = c \<and> MatchString p s"
| "MatchString (AnyChar # p) (x # s) \<longleftrightarrow> byte x \<noteq> 10 \<and> MatchString p s"
| "MatchString (AnyRun # p) [] \<longleftrightarrow> MatchString p []"
| "MatchString (AnyRun # p) (x # s) \<longleftrightarrow> MatchString p (x # s) \<or> (byte x \<noteq> 10 \<and> MatchString (AnyRun # p) s)"
| "MatchString _ [] \<longleftrightarrow> False"

definition lits :: "string \<Rightarrow> atom list" where
  "lits = map Lit"

definition json_call_error :: "atom list" where
  "json_call_error = lits ''grpc: error while marshaling: json: error calling MarshalJSON for type *json'' @
     [AnyChar] @ lits ''RawMessage: ''"

definition invalidParameterErrorRegExps :: "atom list list" where
  "invalidParameterErrorRegExps =
     [lits ''grpc: failed to unmarshal the received message json: cannot unmarshal '' @ [AnyRun] @
        lits '' into Go value of type '' @ [AnyRun],
      lits ''error during request: invalid character '' @ [AnyRun] @ lits '' after top-level value'',
      lits ''error during request: unexpected end of JSON input'',
      lits ''error during request: invalid character '' @ [AnyRun] @ lits '' in string escape code'',
      json_call_error @ lits ''invalid character '' @ [AnyRun],
      lits ''grpc: failed to unmarshal the received message unknown field '' @ [AnyRun],
      lits ''grpc: failed to unmarshal the received message unexpected end of JSON input'',
      lits ''grpc: failed to unmarshal the received message invalid character '' @ [AnyRun],
      json_call_error @ lits ''unexpected end of JSON input'']"

text \<open>\<open>errFilterResponseWriter\<close>: status and body are kept back, headers go through.\<close>

record err_filter_writer =
  fw_body :: string
  fw_status :: int
  fw_hijacked :: bool
  fw_through :: "wop list"

fun filter_step :: "err_filter_writer \<Rightarrow> wop \<Rightarrow> err_filter_writer" where
  "filter_step w (WriteHeader c) = w\<lparr>fw_status := c\<rparr>"
| "filter_step w (WriteBody b) = w\<lparr>fw_body := fw_body w @ b\<rparr>"
| "filter_step w Hijack = w\<lparr>fw_hijacked := True, fw_through := fw_through w @ [Hijack]\<rparr>"
| "filter_step w (SetHeader k v) = w\<lparr>fw_through := fw_through w @ [SetHeader k v]\<rparr>"

definition filter_run :: "wop list \<Rightarrow> err_filter_writer" where
  "filter_run = foldl filter_step \<lparr>fw_body = [], fw_status = 200, fw_hijacked = False, fw_through = []\<rparr>"

definition flush :: "err_filter_writer \<Rightarrow> wop list" where
  "flush w = (if fw_hijacked w then [] else [WriteHeader (fw_status w), WriteBody (fw_body w)])"

definition errorFilterHandler :: "genv \<Rightarrow> wrapper" where
  "errorFilterHandler G next r g =
     (case next r g of (ops, f, g1) \<Rightarrow>
        let w = filter_run ops in
        if f \<noteq> Finished then (fw_through w, f, g1)
        else if fw_status w \<noteq> 500 then (fw_through w @ flush w, Finished, g1)
        else
          (let err = mic_Detail (g_Parse G (fw_body w)) in
           if err = error_msg registry_ErrNotFound then
             (let (e, s) = StatusErr 404 (g_env G) (g_FromRequest G r)
                ''cdm-cloud.api_gateway.error_filter.failure-parse'' ''not_found_service'' (Some (PlainErr err)) (gt_sys g1)
              in (fw_through w @ writeError G r e, Finished, g1\<lparr>gt_sys := s\<rparr>))
           else if \<exists>p \<in> set invalidParameterErrorRegExps. MatchString p err then
             (let (e, s) = StatusErr 400 (g_env G) (g_FromRequest G r)
                ''cdm-cloud.api_gateway.error_filter.failure-match_string'' ''invalid_parameter'' (Some (PlainErr err)) (gt_sys g1)
              in (fw_through w @ writeError G r e, Finished, g1\<lparr>gt_sys := s\<rparr>))
           else (fw_through w @ flush w, Finished, g1)))"

section \<open>wrapper_error_conversion.go\<close>

text \<open>A message \<open>(code, contents)\<close>; a detail that is not one becomes the code.\<close>

definition parseError :: "genv \<Rightarrow> string \<Rightarrow> string \<times> string" where
  "parseError G detail = (case g_UnmarshalMessage G detail of Some msg \<Rightarrow> msg | None \<Rightarrow> (detail, []))"

definition conversion_Write :: "genv \<Rightarrow> string \<Rightarrow> wop list" where
  "conversion_Write G buf =
     (case g_UnmarshalError G buf of
        Some e \<Rightarrow>
          (if mic_Detail e \<noteq> [] then
             (case g_MarshalMessage G (parseError G (mic_Detail e)) of None \<Rightarrow> [] | Some b \<Rightarrow> [WriteBody b])
           else [WriteBody buf])
      | None \<Rightarrow> [WriteBody buf])"

fun conversion_op :: "genv \<Rightarrow> wop \<Rightarrow> wop list" where
  "conversion_op G (WriteBody buf) = conversion_Write G buf"
| "conversion_op G op = [op]"

definition errorConversionHandler :: "genv \<Rightarrow> wrapper" where
  "errorConversionHandler G next r g =
     (case next r g of (ops, f, g1) \<Rightarrow> (concat (map (conversion_op G) ops), f, g1))"

section \<open>wrapper_websocket.go and wrapper_cors.go\<close>

text \<open>The session key and the tenant may come as query parameters; \<open>v[0]\<close> panics on an empty list.\<close>

definition query_header :: "string \<Rightarrow> http_req \<Rightarrow> http_req option" where
  "query_header k r =
     (case hr_Query r k of None \<Rightarrow> Some r | Some [] \<Rightarrow> None | Some (v # _) \<Rightarrow> Some (Header_Set k v r))"

definition websocketHandler :: wrapper where
  "websocketHandler next r g =
     (case query_header HeaderAuthenticatedSession r of
        None \<Rightarrow> ([], Panicked, g)
      | Some r1 \<Rightarrow>
          (case query_header HeaderTenantID r1 of
             None \<Rightarrow> ([], Panicked, g)
           | Some r2 \<Rightarrow>
               next (r2\<lparr>hr_Query := (hr_Query r2)(HeaderAuthenticatedSession := None, HeaderTenantID := None)\<rparr>) g))"

definition ToUpper :: "string \<Rightarrow> string" where
  "ToUpper = map (\<lambda>c. if 97 \<le> byte c \<and> byte c \<le> 122 then char_of (byte c - 32) else c)"

definition cors_headers :: "wop list" where
  "cors_headers =
     [SetHeader ''Access-Control-Allow-Origin'' ''*'',
      SetHeader ''Access-Control-Allow-Methods'' ''GET,POST,PUT,PATCH,DELETE,OPTIONS'',
      SetHeader ''Access-Control-Allow-Headers'' ''*'',
      SetHeader ''Access-Control-Expose-Headers'' HeaderAuthenticatedSession]"

definition corsHandler :: wrapper where
  "corsHandler next r g =
     (if ToUpper (hr_Method r) = ''OPTIONS'' then (cors_headers, Finished, g)
      else case next r g of (ops, f, g1) \<Rightarrow> (cors_headers @ ops, f, g1))"

section \<open>The endpoints of the services\<close>

text \<open>
  The tables of the generated code: name, path templates, methods, body, and whether the RPC is a stream.
  The handler of every entry is \<open>rpc\<close>.
\<close>

record endpoint =
  ep_Name :: string
  ep_Path :: "string list"
  ep_Method :: "string list"
  ep_Body :: string
  ep_Stream :: bool

definition api_endpoint :: "string \<Rightarrow> string list \<Rightarrow> string list \<Rightarrow> string \<Rightarrow> endpoint" where
  "api_endpoint n p m b = \<lparr>ep_Name = n, ep_Path = p, ep_Method = m, ep_Body = b, ep_Stream = False\<rparr>"

definition NewIdentityEndpoints :: "endpoint list" where
  "NewIdentityEndpoints =
     [api_endpoint ''Identity.GetUser'' [''/identity/users/{user_id}''] [''GET''] '''',
      api_endpoint ''Identity.AddUser'' [''/identity/users''] [''POST''] ''*'',
      api_endpoint ''Identity.UpdateUser'' [''/identity/users/{user_id}''] [''PATCH''] ''*'',
      api_endpoint ''Identity.DeleteUser'' [''/identity/users/{user_id}''] [''DELETE''] '''',
      api_endpoint ''Identity.GetUsers'' [''/identity/users''] [''GET''] '''',
      api_endpoint ''Identity.UpdateUserPassword'' [''/identity/users/{user_id}/password''] [''POST''] ''*'',
      api_endpoint ''Identity.ResetUserPassword'' [''/identity/users/{user_id}/password-reset''] [''POST''] '''',
      api_endpoint ''Identity.GetGroups'' [''/identity/groups''] [''GET''] '''',
      api_endpoint ''Identity.GetGroup'' [''/identity/groups/{group_id}''] [''GET''] '''',
      api_endpoint ''Identity.AddGroup'' [''/identity/groups''] [''POST''] ''*'',
      api_endpoint ''Identity.UpdateGroup'' [''/identity/groups/{group_id}''] [''PATCH''] ''*'',
      api_endpoint ''Identity.DeleteGroup'' [''/identity/groups/{group_id}''] [''DELETE''] '''',
      api_endpoint ''Identity.SetGroupUsers'' [''/identity/groups/{group_id}/users''] [''PUT''] '''',
      api_endpoint ''Identity.GetRoles'' [''/identity/roles''] [''GET''] '''',
      api_endpoint ''Identity.Login'' [''/identity/auth''] [''POST''] ''*'',
      api_endpoint ''Identity.Logout'' [''/identity/auth''] [''DELETE''] '''',
      api_endpoint ''Identity.VerifySession'' [''/identity/sessions/check''] [''GET''] '''',
      api_endpoint ''Identity.RevokeSession'' [''/identity/sessions/{session_key}''] [''DELETE''] '''',
      api_endpoint ''Identity.SetConfig'' [''/identity/config''] [''PUT''] ''*'',
      api_endpoint ''Identity.GetConfig'' [''/identity/config''] [''GET''] '''',
      api_endpoint ''Identity.GetTenants'' [''/tenants''] [''GET''] '''',
      api_endpoint ''Identity.AddTenant'' [''/tenants''] [''POST''] '''',
      api_endpoint ''Identity.GetTenant'' [''/tenants/{tenant_id}''] [''GET''] '''',
      api_endpoint ''Identity.UpdateTenant'' [''/tenants/{tenant_id}''] [''PATCH''] '''',
      api_endpoint ''Identity.ActivateTenant'' [''/tenants/{tenant_id}/activate''] [''POST''] '''',
      api_endpoint ''Identity.DeactivateTenant'' [''/tenants/{tenant_id}/deactivate''] [''POST''] '''']"

definition NewNotificationEndpoints :: "endpoint list" where
  "NewNotificationEndpoints =
     [api_endpoint ''Notification.GetEvent'' [''/notification/events/{event_id}''] [''GET''] '''',
      api_endpoint ''Notification.GetEvents'' [''/notification/events''] [''GET''] '''',
      (api_endpoint ''Notification.GetEventsStream'' [''/notification/monitor''] [''GET''] '''')\<lparr>ep_Stream := True\<rparr>,
      api_endpoint ''Notification.GetEventClassifications'' [''/notification/event-classifications''] [''GET''] '''',
      api_endpoint ''Notification.GetTenantEventReceives'' [''/notification/config/receivers/tenant''] [''GET''] '''',
      api_endpoint ''Notification.SetTenantEventReceives'' [''/notification/config/receivers/tenant''] [''PATCH''] ''*'',
      api_endpoint ''Notification.GetUserEventReceives'' [''/notification/config/receivers/user''] [''GET''] '''',
      api_endpoint ''Notification.SetUserEventReceives'' [''/notification/config/receivers/user''] [''PATCH''] ''*'',
      api_endpoint ''Notification.ResetUserEventReceives'' [''/notification/config/receivers/user-reset''] [''POST''] '''',
      api_endpoint ''Notification.GetConfig'' [''/notification/config''] [''GET''] '''',
      api_endpoint ''Notification.SetConfig'' [''/notification/config''] [''PUT''] ''*'']"

text \<open>The name under which the client of the identity service sends each request.\<close>

fun request_endpoint :: "request \<Rightarrow> string" where
  "request_endpoint (GetUser _) = ''Identity.GetUser''"
| "request_endpoint (GetSimpleUser _) = ''Identity.GetSimpleUser''"
| "request_endpoint (AddUser _) = ''Identity.AddUser''"
| "request_endpoint (UpdateUser _ _) = ''Identity.UpdateUser''"
| "request_endpoint (DeleteUser _) = ''Identity.DeleteUser''"
| "request_endpoint (GetUsers _) = ''Identity.GetUsers''"
| "request_endpoint (UpdateUserPassword _) = ''Identity.UpdateUserPassword''"
| "request_endpoint (ResetUserPassword _) = ''Identity.ResetUserPassword''"
| "request_endpoint (GetGroups _) = ''Identity.GetGroups''"
| "request_endpoint (GetGroup _) = ''Identity.GetGroup''"
| "request_endpoint (AddGroup _) = ''Identity.AddGroup''"
| "request_endpoint (UpdateGroup _ _) = ''Identity.UpdateGroup''"
| "request_endpoint (DeleteGroup _) = ''Identity.DeleteGroup''"
| "request_endpoint (SetGroupUsers _ _) = ''Identity.SetGroupUsers''"
| "request_endpoint (GetRoles _ _) = ''Identity.GetRoles''"
| "request_endpoint (Login _) = ''Identity.Login''"
| "request_endpoint Logout = ''Identity.Logout''"
| "request_endpoint VerifySession = ''Identity.VerifySession''"
| "request_endpoint (RevokeSession _) = ''Identity.RevokeSession''"
| "request_endpoint (SetConfig _) = ''Identity.SetConfig''"
| "request_endpoint GetConfig = ''Identity.GetConfig''"
| "request_endpoint (CheckAuthorization _) = ''Identity.CheckAuthorization''"
| "request_endpoint (GetTenants _) = ''Identity.GetTenants''"
| "request_endpoint (AddTenant _) = ''Identity.AddTenant''"
| "request_endpoint (GetTenant _) = ''Identity.GetTenant''"
| "request_endpoint (UpdateTenant _ _) = ''Identity.UpdateTenant''"
| "request_endpoint (ActivateTenant _) = ''Identity.ActivateTenant''"
| "request_endpoint (DeactivateTenant _) = ''Identity.DeactivateTenant''"

text \<open>A path template matches segment by segment; \<open>{x}\<close> matches any one segment.\<close>

definition segment_match :: "string \<Rightarrow> string \<Rightarrow> bool" where
  "segment_match t x \<longleftrightarrow> (t \<noteq> [] \<and> hd t = CHR ''{'') \<or> t = x"

definition template_match :: "string \<Rightarrow> string \<Rightarrow> bool" where
  "template_match t path \<longleftrightarrow> list_all2 segment_match (SplitChar (CHR ''/'') t) (SplitChar (CHR ''/'') path)"

definition endpoint_match :: "endpoint \<Rightarrow> http_req \<Rightarrow> bool" where
  "endpoint_match e r \<longleftrightarrow> hr_Method r \<in> set (ep_Method e) \<and> (\<exists>t \<in> set (ep_Path e). template_match t (hr_Path r))"

section \<open>apigateway.go and main.go\<close>

text \<open>Wrappers are applied in the order given: the last one sees the request first.\<close>

definition NewAPIGatewayHandler :: "wrapper list \<Rightarrow> handler \<Rightarrow> handler" where
  "NewAPIGatewayHandler wrappers rpc = foldl (\<lambda>h w. w h) rpc wrappers"

definition gateway_handler :: "genv \<Rightarrow> globals \<Rightarrow> handler \<Rightarrow> handler" where
  "gateway_handler G gl =
     NewAPIGatewayHandler [authHandler G gl, errorFilterHandler G, errorConversionHandler G, websocketHandler, corsHandler]"

end
