(* ===== verification/Spec_Session.thy ===== *)
theory Spec_Session
  imports Sample
begin

text \<open>
  What sessions and login promise: a key that \<open>newSession\<close> signed verifies until it expires, is logged
  out or is replaced, nothing else verifies, and repeated failures lock an account.
\<close>

section \<open>Keys and the store\<close>

text \<open>
  The code that is not part of the repository, at the call that issues a key (\<open>E\<close>) and at the one
  that checks it (\<open>E'\<close>): what RSA-PSS signed verifies, JSON of a payload parses back, and the hash is
  one function.
\<close>

definition crypto_ok :: "env \<Rightarrow> env \<Rightarrow> bool" where
  "crypto_ok E E' \<longleftrightarrow>
     (\<forall>h sig. e_SignPSS E h = Some sig \<longrightarrow> e_VerifyPSS E' h sig) \<and>
     (\<forall>p. in_i64 (sp_CreateDate p) \<and> in_i64 (sp_ExpiryDate p) \<longrightarrow>
        e_UnmarshalPayload E' (e_MarshalPayload E p) = Some (Some p)) \<and>
     e_sha256 E' = e_sha256 E"

lemma crypto_okD:
  assumes "crypto_ok E E'"
  shows "e_SignPSS E h = Some sig \<Longrightarrow> e_VerifyPSS E' h sig"
    "in_i64 (sp_CreateDate p) \<Longrightarrow> in_i64 (sp_ExpiryDate p) \<Longrightarrow> e_UnmarshalPayload E' (e_MarshalPayload E p) = Some (Some p)"
    "e_sha256 E' = e_sha256 E"
  using assms unfolding crypto_ok_def by blast+

lemma crypto_ok_sample: "crypto_ok sample_env sample_env"
  by (simp add: crypto_ok_def sample_env_def sample_unmarshal_marshal)

lemma storeKey_eq [simp]: "storeKey i = storeKey j \<longleftrightarrow> i = j"
  using uint_codec.enc_inj [of i j] by (auto simp: storeKey_def)

lemma validateSession_key [simp]: "validateSession (Base64Encode b @ CHR ''.'' # Base64Encode sig) = Ok (b, sig)"
  by (simp add: validateSession_def SplitChar_append SplitChar_no_sep Base64Encode_no_dot Base64Decode_Encode)

lemma generateSessionKey_Ok_iff [res_simps]:
  "generateSessionKey E p = Ok key \<longleftrightarrow> (\<exists>sig. e_SignPSS E (e_sha256 E (e_MarshalPayload E p)) = Some sig \<and>
     key = Base64Encode (e_MarshalPayload E p) @ ''.'' @ Base64Encode sig)"
  by (auto simp: generateSessionKey_def Let_def split: option.splits)

lemma orUnusableStore_Ok_iff [res_simps]: "orUnusableStore m = Ok x \<longleftrightarrow> m = Ok x"
  by (simp add: orUnusableStore_def mapE_Ok_iff)

definition issued :: "env \<Rightarrow> ctx \<Rightarrow> db \<Rightarrow> u64 \<Rightarrow> u64 \<Rightarrow> u64 \<Rightarrow> session_payload" where
  "issued E ctx d tid uid magic = generatePayload E ctx uid magic (session_timeout E d tid)"

lemma issued_fields [simp]:
  "sp_ID (issued E ctx d tid uid magic) = uid" "sp_MagicNumber (issued E ctx d tid uid magic) = magic"
  "sp_CreateDate (issued E ctx d tid uid magic) = e_now E" "in_i64 (sp_ExpiryDate (issued E ctx d tid uid magic))"
  by (simp_all add: issued_def generatePayload_def)

lemma issued_ip: "GetClientIP ctx = Ok ip \<Longrightarrow> sp_ClientIP (issued E ctx d tid uid magic) = ip"
  by (simp add: issued_def generatePayload_def)

lemma issueSession_Ok:
  assumes "issueSession E ctx d tid uid magic m = Ok (key, m')"
  obtains sig lease where "e_SignPSS E (e_sha256 E (e_MarshalPayload E (issued E ctx d tid uid magic))) = Some sig"
    "key = Base64Encode (e_MarshalPayload E (issued E ctx d tid uid magic)) @ ''.'' @ Base64Encode sig"
    "m' = kv_put (storeKey uid) (key, lease) m"
  using assms by (auto simp: issueSession_def Let_def bindR_Ok_iff orUnusableStore_Ok_iff generateSessionKey_Ok_iff
      store_Put_Ok issued_def)

text \<open>A new session is issued on the store as it was, or without the user's former key.\<close>

lemma newSession_Ok:
  assumes "newSession E ctx d tid uid force m = (Ok key, m')"
  obtains m1 where "issueSession E ctx d tid uid (e_Uint64 E) m1 = Ok (key, m')" "m1 = m \<or> m1 = kv_del (storeKey uid) m"
  using assms
  by (auto simp: newSession_def Let_def store_Delete_Ok split: res.splits if_splits prod.splits)

lemma newSession_lookup:
  assumes "newSession E ctx d tid uid force m = (Ok key, m')" "k \<noteq> storeKey uid"
  shows "kv_lookup m' k = kv_lookup m k"
  using assms(1)
  by (rule newSession_Ok) (use assms(2) in \<open>auto elim!: issueSession_Ok simp: etcd.lookup_put etcd.lookup_del\<close>)

lemma unmarshal_issued:
  assumes "crypto_ok E E'" "in_i64 (e_now E)"
  shows "unmarshalPtr E' (e_MarshalPayload E (issued E ctx d tid uid magic)) = Ok (issued E ctx d tid uid magic)"
    "unmarshalStruct E' (e_MarshalPayload E (issued E ctx d tid uid magic)) = Ok (issued E ctx d tid uid magic)"
  using crypto_okD(2) [OF assms(1), of "issued E ctx d tid uid magic"] assms(2)
  by (simp_all add: unmarshalPtr_def unmarshalStruct_def)

text \<open>What a verified key is, and what of the store it depends on.\<close>

lemma verifySession_Ok_iff:
  "verifySession E ctx m session = Ok p \<longleftrightarrow>
     (\<exists>b sig v l b' sig' q. validateSession session = Ok (b, sig) \<and> e_VerifyPSS E (e_sha256 E b) sig \<and>
        unmarshalPtr E b = Ok p \<and> e_kv_fault E ''get'' (storeKey (sp_ID p)) = None \<and>
        kv_lookup m (storeKey (sp_ID p)) = Some (v, l) \<and> validateSession v = Ok (b', sig') \<and>
        unmarshalStruct E b' = Ok q \<and> GetClientIP ctx = Ok (sp_ClientIP q) \<and>
        sp_MagicNumber p = sp_MagicNumber q \<and> e_now E \<le> sp_ExpiryDate p)"
  by (auto simp: verifySession_def res_simps orUnknown_Ok_iff not_less)

lemma unmarshalPtr_Ok_iff [res_simps]: "unmarshalPtr E b = Ok p \<longleftrightarrow> e_UnmarshalPayload E b = Some (Some p)"
  by (auto simp: unmarshalPtr_def split: option.splits)

lemma verifySession_frame:
  assumes "kv_lookup m' (storeKey (sp_ID p)) = kv_lookup m (storeKey (sp_ID p))"
  shows "verifySession E ctx m' session = Ok p \<longleftrightarrow> verifySession E ctx m session = Ok p"
  unfolding verifySession_Ok_iff assms ..

lemma deleteSession_Ok:
  "deleteSession E uid m = Ok m' \<Longrightarrow> m' = kv_del (storeKey uid) m"
  by (auto simp: deleteSession_def orUnusableStore_Ok_iff store_Delete_Ok split: res.splits)

lemma sample_timeout: "session_timeout sample_env sample_db 1 = 30"
  by code_simp

lemma sample_expiry: "sp_ExpiryDate (generatePayload sample_env ctx uid magic (session_timeout sample_env sample_db 1)) = 3800"
  by (simp add: sample_timeout generatePayload_def wrap64_def)

lemma sample_renewal: "\<exists>key m'. updateSession sample_env (sample_ctx ''root'') sample_db 2 1 7 sample_kv = Ok (key, m')"
  by (simp add: updateSession_def issueSession_def Let_def bindR_Ok_iff generateSessionKey_Ok_iff orUnusableStore_Ok_iff store_Put_Ok)
     (simp add: sample_env_def)

lemma sample_stored: "kv_lookup sample_kv (storeKey 2) \<noteq> None"
  by code_simp

lemma store_List_none:
  assumes "store_List E m p = Fail ErrNotFoundKey" "prefix p k"
  shows "kv_lookup m k = None"
proof -
  have "sort (filter (prefix p) (map fst m)) = []"
    using assms(1) by (auto simp: store_List_def kv_fault_def Let_def ErrNotFoundKey_def split: option.splits if_splits)
  then have "set (filter (prefix p) (map fst m)) = {}" by (metis set_sort list.set(1))
  with assms(2) show ?thesis using kv_lookup_key [of m k] by auto
qed

section \<open>Sessions\<close>

text \<open>
  Claim C12.  A key that \<open>newSession\<close> returned verifies on the store it left, for requests from the
  address of the login, until the session expires, and yields the payload that was signed.
\<close>

theorem issued_session_verifies:
  assumes "crypto_ok E E'" and "in_i64 (e_now E)"
    and "newSession E ctx d tid uid force m = (Ok key, m')"
    and "GetClientIP ctx = Ok ip" and "GetClientIP ctx' = Ok ip"
    and "e_now E' \<le> sp_ExpiryDate (generatePayload E ctx uid (e_Uint64 E) (session_timeout E d tid))"
    and "e_kv_fault E' ''get'' (storeKey uid) = None"
  shows "verifySession E' ctx' m' key = Ok (generatePayload E ctx uid (e_Uint64 E) (session_timeout E d tid))"
proof -
  let ?p = "issued E ctx d tid uid (e_Uint64 E)"
  from assms(3) obtain m1 where "issueSession E ctx d tid uid (e_Uint64 E) m1 = Ok (key, m')" by (rule newSession_Ok)
  then obtain sig lease where sig: "e_SignPSS E (e_sha256 E (e_MarshalPayload E ?p)) = Some sig"
    and key: "key = Base64Encode (e_MarshalPayload E ?p) @ ''.'' @ Base64Encode sig"
    and m': "m' = kv_put (storeKey uid) (key, lease) m1" by (rule issueSession_Ok)
  have v: "validateSession key = Ok (e_MarshalPayload E ?p, sig)" unfolding key by simp
  have "verifySession E' ctx' m' key = Ok ?p"
    unfolding verifySession_Ok_iff
    using v crypto_okD(1,3) [OF assms(1)] sig unmarshal_issued [OF assms(1,2)] assms(5,6,7) issued_ip [OF assms(4)]
    by (auto simp: m' etcd.lookup_put issued_def [symmetric])
  then show ?thesis by (simp add: issued_def)
qed

theorem issued_session_verifies_witness:
  "verifySession sample_env (sample_ctx ''alice'') sample_kv sample_key =
     Ok (generatePayload sample_env (sample_ctx ''root'') 2 7 (session_timeout sample_env sample_db 1))"
  using issued_session_verifies [OF crypto_ok_sample in_i64_now sample_newSession sample_ctx_ip sample_ctx_ip]
  by (simp add: sample_expiry)



text \<open>
  Logging out (or revoking a session) ends the session of that user and of nobody else:
  afterwards exactly the keys of other users that verified before verify.
\<close>

theorem logout_ends_session:
  assumes "deleteSession E uid m = Ok m'"
  shows "verifySession E' ctx m' session = Ok p \<longleftrightarrow> verifySession E' ctx m session = Ok p \<and> sp_ID p \<noteq> uid"
proof (cases "sp_ID p = uid")
  case True
  then have "kv_lookup m' (storeKey (sp_ID p)) = None"
    using deleteSession_Ok [OF assms] by (simp add: etcd.del_gone)
  then show ?thesis using True by (auto simp: verifySession_Ok_iff)
next
  case False
  then have "kv_lookup m' (storeKey (sp_ID p)) = kv_lookup m (storeKey (sp_ID p))"
    using deleteSession_Ok [OF assms] by (simp add: etcd.del_other)
  from verifySession_frame [OF this] show ?thesis using False by simp
qed

theorem logout_ends_session_witness:
  "deleteSession sample_env 2 sample_kv = Ok [] \<and>
   verifySession sample_env (sample_ctx ''root'') [] sample_key \<noteq> Ok (generatePayload sample_env (sample_ctx ''root'') 2 7 30)"
proof -
  have d: "deleteSession sample_env 2 sample_kv = Ok []" by code_simp
  show ?thesis using logout_ends_session [OF d] d by (simp add: generatePayload_def)
qed

text \<open>
  Claim C14.  After a login only keys with its magic number and from its address verify for the user,
  so that a forced login ends the earlier session; the sessions of other users are untouched.
\<close>

theorem login_replaces_session:
  assumes "crypto_ok E E'" and "in_i64 (e_now E)"
    and "newSession E ctx d tid uid force m = (Ok key, m')" and "GetClientIP ctx = Ok ip"
  shows "(verifySession E' ctx' m' session = Ok p \<and> sp_ID p = uid \<longrightarrow>
      sp_MagicNumber p = e_Uint64 E \<and> GetClientIP ctx' = Ok ip) \<and>
    (sp_ID p \<noteq> uid \<longrightarrow> verifySession E' ctx' m' session = Ok p \<longleftrightarrow> verifySession E' ctx' m session = Ok p)"
proof (intro conjI impI; (elim conjE)?)
  let ?p = "issued E ctx d tid uid (e_Uint64 E)"
  assume v: "verifySession E' ctx' m' session = Ok p" and p: "sp_ID p = uid"
  from assms(3) obtain m1 where "issueSession E ctx d tid uid (e_Uint64 E) m1 = Ok (key, m')" by (rule newSession_Ok)
  then obtain sig lease where "key = Base64Encode (e_MarshalPayload E ?p) @ ''.'' @ Base64Encode sig"
    and m': "m' = kv_put (storeKey uid) (key, lease) m1" by (rule issueSession_Ok)
  then have k: "validateSession key = Ok (e_MarshalPayload E ?p, sig)" by simp
  have "kv_lookup m' (storeKey (sp_ID p)) = Some (key, lease)" by (simp add: m' p etcd.lookup_put)
  with v k unmarshal_issued(2) [OF assms(1,2)] issued_ip [OF assms(4)]
  show "sp_MagicNumber p = e_Uint64 E" "GetClientIP ctx' = Ok ip"
    unfolding verifySession_Ok_iff by auto
next
  assume "sp_ID p \<noteq> uid"
  then have "kv_lookup m' (storeKey (sp_ID p)) = kv_lookup m (storeKey (sp_ID p))"
    by (intro newSession_lookup [OF assms(3)]) simp
  then show "verifySession E' ctx' m' session = Ok p \<longleftrightarrow> verifySession E' ctx' m session = Ok p"
    by (rule verifySession_frame)
qed

theorem login_replaces_session_witness:
  "sp_MagicNumber (generatePayload sample_env (sample_ctx ''root'') 2 7 30) = e_Uint64 sample_env"
  using login_replaces_session [OF crypto_ok_sample in_i64_now sample_newSession sample_ctx_ip,
      of "sample_ctx ''root''" sample_key] sample_verify
  by (simp add: generatePayload_def)

text \<open>
  Verifying a session renews it under the same magic number: the key that was presented
  still verifies afterwards from the same address, until its own expiry.
\<close>

theorem renewal_keeps_key:
  assumes "crypto_ok E E'" and "in_i64 (e_now E)" and "verifySession E' ctx m session = Ok p"
    and "updateSession E ctx d (sp_ID p) tid (sp_MagicNumber p) m = Ok (key, m')"
  shows "verifySession E' ctx m' session = Ok p"
proof -
  let ?p = "issued E ctx d tid (sp_ID p) (sp_MagicNumber p)"
  from assms(4) have "issueSession E ctx d tid (sp_ID p) (sp_MagicNumber p) m = Ok (key, m')" by (simp add: updateSession_def)
  then obtain sig lease where "key = Base64Encode (e_MarshalPayload E ?p) @ ''.'' @ Base64Encode sig"
    and m': "m' = kv_put (storeKey (sp_ID p)) (key, lease) m" by (rule issueSession_Ok)
  then have k: "validateSession key = Ok (e_MarshalPayload E ?p, sig)" by simp
  obtain ip where ip: "GetClientIP ctx = Ok ip" using assms(3) by (auto simp: verifySession_Ok_iff)
  show ?thesis
    using assms(3) k unmarshal_issued(2) [OF assms(1,2)] issued_ip [OF ip] ip
    unfolding verifySession_Ok_iff by (auto simp: m' etcd.lookup_put)
qed

theorem renewal_keeps_key_witness:
  "verifySession sample_env (sample_ctx ''root'')
     (snd (the (case updateSession sample_env (sample_ctx ''root'') sample_db 2 1 7 sample_kv of Ok r \<Rightarrow> Some r | _ \<Rightarrow> None)))
     sample_key = Ok (generatePayload sample_env (sample_ctx ''root'') 2 7 30)"
proof -
  let ?p = "generatePayload sample_env (sample_ctx ''root'') 2 7 30"
  obtain key m' where u: "updateSession sample_env (sample_ctx ''root'') sample_db (sp_ID ?p) 1 (sp_MagicNumber ?p) sample_kv = Ok (key, m')"
    using sample_renewal by (auto simp: generatePayload_def)
  from renewal_keeps_key [OF crypto_ok_sample in_i64_now sample_verify this] u
  show ?thesis by (simp add: generatePayload_def)
qed

text \<open>
  Without force a user who has a session in the store is refused with \<open>alreadyLogin\<close>, and the
  store is left as it was; with a store that answers, every other login only fails if signing fails.
\<close>

theorem second_login_refused:
  assumes "\<forall>op. e_kv_fault E op (storeKey uid) = None"
  shows "if kv_lookup m (storeKey uid) \<noteq> None \<and> \<not> force
    then newSession E ctx d tid uid force m = (Fail (alreadyLogin uid), m)
    else e_SignPSS E (e_sha256 E (e_MarshalPayload E
           (generatePayload E ctx uid (e_Uint64 E) (session_timeout E d tid)))) \<noteq> None \<longrightarrow>
         (\<exists>key m'. newSession E ctx d tid uid force m = (Ok key, m'))"
proof -
  have get: "store_Get E m (storeKey uid) =
      (case kv_lookup m (storeKey uid) of None \<Rightarrow> Fail ErrNotFoundKey | Some (v, _) \<Rightarrow> Ok v)"
    using assms by (simp add: store_Get_def kv_fault_def)
  have issue: "\<exists>key m2. issueSession E ctx d tid uid (e_Uint64 E) m1 = Ok (key, m2)"
    if "e_SignPSS E (e_sha256 E (e_MarshalPayload E
           (generatePayload E ctx uid (e_Uint64 E) (session_timeout E d tid)))) \<noteq> None" for m1
    using that assms
    by (auto simp: issueSession_def Let_def bindR_Ok_iff generateSessionKey_Ok_iff orUnusableStore_Ok_iff store_Put_Ok)
  have del: "store_Delete E m (storeKey uid) False = Ok (kv_del (storeKey uid) m)"
    using assms by (simp add: store_Delete_Ok)
  show ?thesis
  proof (cases "kv_lookup m (storeKey uid)")
    case None
    with get issue [of m] show ?thesis by (auto simp: newSession_def Let_def)
  next
    case (Some a)
    with get del issue [of "kv_del (storeKey uid) m"] show ?thesis
      by (cases a) (auto simp: newSession_def Let_def)
  qed
qed

theorem second_login_refused_witness:
  "newSession sample_env (sample_ctx ''alice'') sample_db 1 2 False sample_kv = (Fail (alreadyLogin 2), sample_kv)"
  using second_login_refused [of sample_env 2 sample_kv False "sample_ctx ''alice''" sample_db 1] sample_stored
  by simp

section \<open>The users who are logged in\<close>

text \<open>
  The list of users who are logged in (\<open>loginOnly\<close>) misses nobody: a user with a session in
  the store passes \<open>loginFilter\<close>, provided the id fits the \<open>int\<close> it is parsed with.
\<close>

theorem login_filter_complete:
  assumes "userFilter_Apply E d m LoginFilter q = Ok q'"
    and "u \<in> set (uq_rows q)" and "kv_lookup m (storeKey (mu_ID u)) \<noteq> None" and "uint (mu_ID u) < 2 ^ 63"
  shows "u \<in> set (uq_rows q')"
proof -
  have pre: "prefix storeKeyPrefix (storeKey (mu_ID u))" by (simp add: storeKey_def)
  have "store_List E m storeKeyPrefix \<noteq> Fail ErrNotFoundKey" using assms(3) by (auto dest: store_List_none [OF _ pre])
  then obtain keys where keys: "store_List E m storeKeyPrefix = Ok keys"
    and q': "q' = uq_where (\<lambda>u. mu_ID u \<in> set (login_ids keys)) q"
    using assms(1) by (auto split: res.splits if_splits)
  have k: "storeKey (mu_ID u) \<in> set keys" using store_List_set [OF keys] pre assms(3) by simp
  have i: "in_i64 (uint (mu_ID u))" using assms(4) by (simp add: in_i64_def order.trans [of _ 0])
  have "Atoi (TrimPrefix (storeKey (mu_ID u)) (storeKeyPrefix @ ''.'')) = Some (uint (mu_ID u))"
    using ParseInt_FormatInt [OF i] TrimPrefix_append [of "storeKeyPrefix @ ''.''" "FormatUint (mu_ID u)"]
    by (simp add: storeKey_def Atoi_def FormatInt_def FormatUint_def not_less)
  then have "mu_ID u \<in> set (login_ids keys)"
    using k unfolding login_ids_def set_map
    by (intro image_eqI [of _ _ "uint (mu_ID u)"]) (auto simp: u64_of_int_def map_filter_def image_iff intro!: bexI [of _ "storeKey (mu_ID u)"])
  then show ?thesis using assms(2) by (simp add: q' uq_where_def)
qed

theorem login_filter_complete_witness:
  "\<exists>q. userFilter_Apply sample_env sample_db sample_kv LoginFilter (tenant_query sample_db 1) = Ok q \<and>
     sample_user 2 ''alice'' \<in> set (uq_rows q)"
proof -
  have "is_Ok (userFilter_Apply sample_env sample_db sample_kv LoginFilter (tenant_query sample_db 1))"
    by code_simp
  then obtain q where q: "userFilter_Apply sample_env sample_db sample_kv LoginFilter (tenant_query sample_db 1) = Ok q"
    by (rule is_OkE)
  have "sample_user 2 ''alice'' \<in> set (uq_rows q)"
    using sample_stored by (intro login_filter_complete [OF q]) (simp_all add: tenant_query_def sample_db_def sample_user_def)
  with q show ?thesis by blast
qed

end
