(* ===== verification/Spec_Login.thy ===== *)
theory Spec_Login
  imports Spec_Session
begin

text \<open>
  What login promises: the restriction after repeated failures, the failure counter, and what a
  successful login changes.
\<close>

section \<open>Saving a user that exists\<close>

lemma user_save_existing:
  assumes "users_wf d" "u \<in> set (t_user d)" "mu_ID v = mu_ID u" "mu_Account v = mu_Account u"
    and "user_save E v d = Ok (v', d')"
  shows "d' = d\<lparr>t_user := replace_by mu_ID (user_row E v u) (t_user d)\<rparr>" "v' = v\<lparr>mu_UpdatedAt := e_now E\<rparr>"
    "mu_ID u \<noteq> 0"
proof -
  note [simp] = assms(3,4)
  have "d' = d\<lparr>t_user := replace_by mu_ID (user_row E v u) (t_user d)\<rparr> \<and> v' = v\<lparr>mu_UpdatedAt := e_now E\<rparr> \<and> mu_ID u \<noteq> 0"
    using assms(5)
  proof (cases rule: user_save_cases)
    case (create q)
    have "mu_Account v' = mu_Account u" by (subst create(4)) simp
    moreover have "mu_ID v' \<noteq> mu_ID u" using create(2) assms(2) by auto
    ultimately show ?thesis using create(3) assms(2) by (auto simp: user_constraints_Ok_iff)
  next
    case (update old)
    then have "old = u" using assms(1,2) by (intro key_unique [of mu_ID "t_user d"]) (auto simp: users_wf_def)
    with update show ?thesis by simp
  qed
  then show "d' = d\<lparr>t_user := replace_by mu_ID (user_row E v u) (t_user d)\<rparr>" "v' = v\<lparr>mu_UpdatedAt := e_now E\<rparr>"
    "mu_ID u \<noteq> 0" by simp_all
qed

lemma user_row_kept: "mu_CreatedAt v = mu_CreatedAt u \<Longrightarrow> user_row E v u = v\<lparr>mu_UpdatedAt := e_now E\<rparr>"
  by (cases v) (simp add: user_row_def)

text \<open>An account names one user.\<close>

lemma account_unique:
  "users_wf d \<Longrightarrow> x \<in> set (t_user d) \<Longrightarrow> y \<in> set (t_user d) \<Longrightarrow> mu_Account x = mu_Account y \<Longrightarrow> x = y"
  by (simp add: users_wf_def distinct_map inj_on_def)

lemma user_by_account_eq:
  assumes "users_wf d" "u \<in> set (t_user d)" "e_fault E site 0 = None"
  shows "user_by_account E site d (mu_Account u) = Ok u"
proof (cases "first_by mu_ID (\<lambda>y. mu_Account y = mu_Account u) (t_user d)")
  case None
  with assms(2) show ?thesis by (auto simp: first_by_None_iff)
next
  case (Some y)
  then have "y = u" using first_by_SomeD [OF Some] by (intro account_unique [OF assms(1) _ assms(2)]) simp_all
  with Some assms(3) show ?thesis by (simp add: user_by_account_def db_First_Ok_iff)
qed

section \<open>The restriction\<close>

text \<open>\<open>restricted E d u\<close>: the settings of the tenant lock the account at this time.\<close>

definition restricted :: "env \<Rightarrow> db \<Rightarrow> m_user \<Rightarrow> bool" where
  "restricted E d u \<longleftrightarrow> (\<exists>c a vn vt n t. mu_LastLoginFailedCount u = Some c \<and> c \<noteq> 0 \<and> mu_LastLoginFailedAt u = Some a \<and>
     map_option ParseBool (TenantConfig E d (mu_TenantID u) UserLoginRestrictionEnable) = Some (Some True) \<and>
     TenantConfig E d (mu_TenantID u) UserLoginRestrictionTryCount = Some vn \<and> ParseUint vn = Some n \<and>
     TenantConfig E d (mu_TenantID u) UserLoginRestrictionTime = Some vt \<and> ParseInt vt = Some t \<and>
     n \<noteq> 0 \<and> c mod n = 0 \<and> e_now E < wrap64 (a + t))"

lemma checkLoginRestricted_restricted:
  assumes "restricted E d u"
  shows "\<exists>c a t. checkLoginRestricted E d u = Fail (loginRestricted (mu_Account u) c a t)"
proof -
  from assms obtain c a v vn vt n t where u: "mu_LastLoginFailedCount u = Some c" "c \<noteq> 0" "mu_LastLoginFailedAt u = Some a"
    and cfg: "TenantConfig E d (mu_TenantID u) UserLoginRestrictionEnable = Some v" "ParseBool v = Some True"
      "TenantConfig E d (mu_TenantID u) UserLoginRestrictionTryCount = Some vn" "ParseUint vn = Some n"
      "TenantConfig E d (mu_TenantID u) UserLoginRestrictionTime = Some vt" "ParseInt vt = Some t"
    and now: "n \<noteq> 0" "c mod n = 0" "e_now E < wrap64 (a + t)"
    unfolding restricted_def map_option_eq_Some by (elim exE conjE) (rule that; assumption)
  have "checkLoginRestricted E d u = Fail (loginRestricted (mu_Account u) c a (wrap64 (a + t)))"
    using u cfg now by (simp add: checkLoginRestricted_def restriction_cfg_def orUnknown_def Value_Bool_def
        Value_Uint64_def Value_Int64_def value_err_def)
  then show ?thesis by blast
qed

lemma restriction_cfg_no_Panic [simp]:
  "restriction_cfg E d i k Value_Bool \<noteq> Panic" "restriction_cfg E d i k Value_Uint64 \<noteq> Panic"
  "restriction_cfg E d i k Value_Int64 \<noteq> Panic"
  by (auto simp: restriction_cfg_def orUnknown_def Value_Bool_def Value_Uint64_def Value_Int64_def value_err_def
      split: option.splits)

lemma checkLoginRestricted_no_Panic: "login_wf u \<Longrightarrow> checkLoginRestricted E d u \<noteq> Panic"
  by (auto simp: checkLoginRestricted_def bindR_Panic_iff login_wf_def guardR_def split: option.splits if_splits)

section \<open>Login\<close>

definition no_faults :: "env \<Rightarrow> bool" where
  "no_faults E \<longleftrightarrow> (\<forall>site k. e_fault E site k = None)"

lemma no_faultsD [simp]: "no_faults E \<Longrightarrow> e_fault E site k = None"
  by (simp add: no_faults_def)

text \<open>The parameters of a login request are within their bounds.\<close>

definition login_params_ok :: "login_request \<Rightarrow> bool" where
  "login_params_ok req \<longleftrightarrow> lr_Account req \<noteq> [] \<and> length (lr_Account req) \<le> accountLength \<and>
     lr_Password req \<noteq> [] \<and> length (lr_Password req) \<le> passwordLength"

lemma validateUserLogin_eq:
  assumes "users_wf d" "no_faults E" "login_params_ok req" "u \<in> set (t_user d)" "mu_Account u = lr_Account req"
  shows "validateUserLogin E d req =
    bindR (checkLoginRestricted E d u) (\<lambda>_. guardR (mu_Password u \<noteq> lr_Password req) incorrectPassword (Ok u))"
proof -
  have "user_by_account E ''validateUserLogin'' d (lr_Account req) = Ok u"
    using user_by_account_eq [OF assms(1,4), of E] assms(2,5) by simp
  then show ?thesis using assms(3)
    by (simp add: validateUserLogin_def login_params_ok_def orNotFound_def guardR_def)
qed

text \<open>
  Claim C15.  While an account is restricted (its count of failures is a multiple of the tenant's try
  count and the restriction time since the last failure has not passed), login is refused as restricted
  for every password, the right one included.
\<close>

theorem restricted_login_refused:
  assumes "users_wf d" and "no_faults E" and "login_params_ok req"
    and "u \<in> set (t_user d)" and "mu_Account u = lr_Account req" and "restricted E d u"
  shows "\<exists>c a t. loginUser E gl ctx req d = Fail (loginRestricted (lr_Account req) c a t)"
proof -
  from checkLoginRestricted_restricted [OF assms(6)]
  obtain c a t where "checkLoginRestricted E d u = Fail (loginRestricted (lr_Account req) c a t)"
    unfolding assms(5) by blast
  then have "loginUser E gl ctx req d = Fail (loginRestricted (lr_Account req) c a t)"
    by (simp add: loginUser_def validateUserLogin_eq [OF assms(1-5)])
  then show ?thesis by blast
qed

text \<open>
  An account that is not locked logs in with its password and is refused as
  \<open>incorrectPassword\<close> with any other: the password decides.
\<close>

theorem password_decides:
  assumes "users_wf d" and "no_faults E" and "login_params_ok req"
    and "u \<in> set (t_user d)" and "mu_Account u = lr_Account req" and "checkLoginRestricted E d u = Ok ()"
  shows "validateUserLogin E d req = (if mu_Password u = lr_Password req then Ok u else Fail incorrectPassword)"
  by (simp add: validateUserLogin_eq [OF assms(1-5)] assms(6) guardR_def)

lemma mapR_no_Panic: "(\<And>x. f x \<noteq> Panic) \<Longrightarrow> mapR f xs \<noteq> Panic"
  by (induction xs) (auto simp: bindR_Panic_iff)

lemma groupsToRsp_no_Panic [simp]: "groupsToRsp t gs \<noteq> Panic"
  unfolding groupsToRsp_def
  by (rule mapR_no_Panic) (auto simp: bindR_Panic_iff orUnknown_def groupModelToRsp_def guardR_def)

lemma getTenant_no_Panic [simp]: "getTenant E d i \<noteq> Panic"
  by (auto simp: getTenant_def bindR_Panic_iff tenant_first_def tenant_solutions_def)

lemma userRoles_no_Panic [simp]: "userRoles E d uid \<noteq> Panic"
  by (auto simp: userRoles_def bindR_Panic_iff user_Roles_def)

lemma userGroups_no_Panic [simp]: "userGroups E gl d tid uid roles \<noteq> Panic"
  by (auto simp: userGroups_def getGroups_def bindR_Panic_iff user_Groups_def)

lemma exec_no_Panic [simp]: "exec E site k m = Panic \<longleftrightarrow> e_fault E site k = None \<and> m = Panic"
  by (simp add: exec_def split: option.split)

lemma guardR_Panic_iff [simp]: "guardR b e k = Panic \<longleftrightarrow> \<not> b \<and> k = Panic"
  by (simp add: guardR_def)

lemma user_save_no_Panic [simp]: "user_save E u d \<noteq> Panic"
  by (auto simp: user_save_def user_create_def nextval_def user_constraints_def bindR_Panic_iff Let_def split: option.splits)

text \<open>
  On a database of the invariant, login never panics: the pointers it dereferences (the
  time of the last failure among them) are there.
\<close>

theorem login_never_panics:
  assumes "db_wf d"
  shows "loginUser E gl ctx req d \<noteq> Panic"
proof -
  have "validateUserLogin E d req \<noteq> Panic"
  proof
    assume "validateUserLogin E d req = Panic"
    then obtain u where "u \<in> set (t_user d)" "checkLoginRestricted E d u = Panic"
      by (auto simp: validateUserLogin_def bindR_Panic_iff user_by_account_def db_First_Ok_iff orNotFound_Ok_iff dest!: first_by_SomeD)
    with assms checkLoginRestricted_no_Panic show False by (auto simp: db_wf_def logins_wf_def)
  qed
  then show ?thesis
    by (auto simp: loginUser_def bindR_Panic_iff GetClientIP_def split: option.splits)
qed



section \<open>Witnesses\<close>

definition good_login :: login_request where
  "good_login = \<lparr>lr_Account = ''alice'', lr_Password = ''secret'', lr_Force = False\<rparr>"

definition bad_login :: login_request where
  "bad_login = \<lparr>lr_Account = ''alice'', lr_Password = ''guess'', lr_Force = False\<rparr>"

text \<open>Five failures, the last of them a second ago: the account is locked for a minute.\<close>

definition locked_user :: m_user where
  "locked_user = (sample_user 2 ''alice'')\<lparr>mu_LastLoginFailedCount := Some 5, mu_LastLoginFailedAt := Some 1999\<rparr>"

definition locked_db :: db where
  "locked_db = sample_db\<lparr>t_user := [sample_user 1 ''admin'', locked_user]\<rparr>"

lemma no_faults_sample [simp]: "no_faults sample_env"
  by (simp add: no_faults_def)

lemma sample_users_wf: "users_wf sample_db" "users_wf locked_db"
  using db_wf_users [OF sample_db_wf]
  by (auto simp: locked_db_def users_wf_def locked_user_def sample_db_def tenant_exists_def same_email_def sample_user_def)

lemma login_params_sample: "login_params_ok good_login" "login_params_ok bad_login"
  by (simp_all add: login_params_ok_def good_login_def bad_login_def length_defs)

lemma locked_restricted: "restricted sample_env locked_db locked_user"
proof -
  have "TenantConfig sample_env locked_db 1 UserLoginRestrictionEnable = Some ''true''"
    "TenantConfig sample_env locked_db 1 UserLoginRestrictionTryCount = Some ''5''"
    "TenantConfig sample_env locked_db 1 UserLoginRestrictionTime = Some ''60''"
    "ParseBool ''true'' = Some True" "ParseUint ''5'' = Some 5" "ParseInt ''60'' = Some 60" by code_simp+
  then show ?thesis
    by (simp add: restricted_def locked_user_def sample_user_def wrap64_def)
qed

theorem restricted_login_refused_witness:
  "\<exists>c a t. loginUser sample_env sample_globals (sample_ctx ''root'') good_login locked_db =
     Fail (loginRestricted ''alice'' c a t)"
  using restricted_login_refused [OF sample_users_wf(2) no_faults_sample login_params_sample(1) _ _ locked_restricted]
  by (simp add: locked_db_def locked_user_def good_login_def sample_user_def)

lemma sample_alice: "sample_user 2 ''alice'' \<in> set (t_user sample_db)"
  by (simp add: sample_db_def)

lemma sample_alice_free: "checkLoginRestricted sample_env sample_db (sample_user 2 ''alice'') = Ok ()"
  by (simp add: checkLoginRestricted_def sample_user_def)

theorem password_decides_witness:
  "validateUserLogin sample_env sample_db bad_login = Fail incorrectPassword"
  using password_decides [OF sample_users_wf(1) no_faults_sample login_params_sample(2) sample_alice _ sample_alice_free]
  by (simp add: bad_login_def sample_user_def)

theorem login_never_panics_witness:
  "loginUser sample_env sample_globals (sample_ctx ''root'') good_login sample_db \<noteq> Panic"
  by (rule login_never_panics [OF sample_db_wf])

lemma sample_login_Ok: "is_Ok (loginUser sample_env sample_globals (sample_ctx ''root'') good_login sample_db)"
  by code_simp


lemma sample_failure_Ok: "is_Ok (updateUserLoginFailedInfo sample_env bad_login sample_db)"
  by code_simp


end
