(* ===== verification/Spec_User.thy ===== *)
theory Spec_User
  imports Spec_Login Identity_Invariants
begin

text \<open>
  What the operations on users promise: who may change what, what a change does to the user's row and
  relations, passwords, and the list of users with its pages.
\<close>

section \<open>Relations\<close>

lemma user_group_foldR_set:
  assumes "foldR (\<lambda>g. user_group_save E \<lparr>mug_UserID = uid, mug_GroupID = pg_Id g\<rparr>) groups d = Ok d'"
  shows "set (t_user_group d') = set (t_user_group d) \<union> (\<lambda>g. \<lparr>mug_UserID = uid, mug_GroupID = pg_Id g\<rparr>) ` set groups"
  using assms
proof (induction groups arbitrary: d)
  case Nil
  then show ?case by simp
next
  case (Cons g groups)
  then obtain d1 where "user_group_save E \<lparr>mug_UserID = uid, mug_GroupID = pg_Id g\<rparr> d = Ok d1"
    "foldR (\<lambda>g. user_group_save E \<lparr>mug_UserID = uid, mug_GroupID = pg_Id g\<rparr>) groups d1 = Ok d'"
    by (auto simp: bindR_Ok_iff)
  with Cons.IH [of d1] user_group_save_Ok show ?case by fastforce
qed

lemma updateUserGroupRelations_set:
  assumes "updateUserGroupRelations E uid groups d = Ok d'"
  shows "set (t_user_group d') = {r \<in> set (t_user_group d). mug_UserID r \<noteq> uid} \<union>
    (\<lambda>g. \<lparr>mug_UserID = uid, mug_GroupID = pg_Id g\<rparr>) ` set groups"
proof -
  from assms obtain d1 where d1: "user_group_delete E mug_UserID uid d = Ok d1"
    and g: "foldR (\<lambda>g. user_group_save E \<lparr>mug_UserID = uid, mug_GroupID = pg_Id g\<rparr>) groups d1 = Ok d'"
    by (auto simp: updateUserGroupRelations_def bindR_Ok_iff)
  have "set (t_user_group d1) = {r \<in> set (t_user_group d). mug_UserID r \<noteq> uid}"
    using d1 by (simp add: user_group_delete_Ok)
  then show ?thesis unfolding user_group_foldR_set [OF g] by simp
qed

lemma updateUserGroupRelations_users:
  "updateUserGroupRelations E uid gs d = Ok d' \<Longrightarrow> t_user d' = t_user d"
  unfolding updateUserGroupRelations_def bindR_Ok_iff
  by (elim exE conjE, erule foldR_invariant) (auto simp: user_group_delete_Ok dest: user_group_save_Ok)

text \<open>Replacing both relations of a user, as adding and updating do after the user is saved.\<close>

lemma save_relations_set:
  assumes "updateUserRoleRelations E uid roles d1 = Ok d2" "updateUserGroupRelations E uid groups d2 = Ok d'"
  shows "t_user d' = t_user d1"
    "set (t_user_role d') = {r \<in> set (t_user_role d1). mur_UserID r \<noteq> uid} \<union> (\<lambda>r. \<lparr>mur_UserID = uid, mur_RoleID = pr_Id r\<rparr>) ` set roles"
    "set (t_user_group d') = {r \<in> set (t_user_group d1). mug_UserID r \<noteq> uid} \<union> (\<lambda>g. \<lparr>mug_UserID = uid, mug_GroupID = pg_Id g\<rparr>) ` set groups"
  using updateUserRoleRelations_frame [OF assms(1)] updateUserGroupRelations_users [OF assms(2)]
    updateUserGroupRelations_set [OF assms(2)] updateUserRoleRelations_set [OF assms(1)]
    updateUserGroupRelations_roles [OF assms(2)]
  by simp_all

text \<open>No relation refers to a user that is not there.\<close>

lemma fresh_relations:
  assumes "db_wf d" "i \<notin> mu_ID ` set (t_user d)"
  shows "{r \<in> set (t_user_role d). mur_UserID r \<noteq> i} = set (t_user_role d)"
    "{r \<in> set (t_user_group d). mug_UserID r \<noteq> i} = set (t_user_group d)"
proof -
  have "mur_UserID r \<in> mu_ID ` set (t_user d)" if "r \<in> set (t_user_role d)" for r
    using assms(1) that by (simp add: db_wf_def user_roles_wf_def)
  then show "{r \<in> set (t_user_role d). mur_UserID r \<noteq> i} = set (t_user_role d)" using assms(2) by blast
  have "mug_UserID r \<in> mu_ID ` set (t_user d)" if "r \<in> set (t_user_group d)" for r
    using assms(1) that unfolding db_wf_def members_wf_def member_ok_def by (metis imageI)
  then show "{r \<in> set (t_user_group d). mug_UserID r \<noteq> i} = set (t_user_group d)" using assms(2) by blast
qed

section \<open>Adding\<close>

lemma userRspToModel_fields:
  assumes "userRspToModel u = Ok r"
  shows "mu_ID r = pu_Id u" "mu_TenantID r = tenant_id (pu_Tenant u)" "mu_Account r = pu_Account u" "mu_Name r = pu_Name u"
    "mu_Email r = ptr_str (pu_Email u)" "mu_Department r = ptr_str (pu_Department u)" "mu_LastLoginFailedCount r = None"
  using assms by (auto simp: userRspToModel_def tenant_id_def split: option.splits)

text \<open>
  Claim C18.  Adding a user that passed validation appends one row: a fresh id, the caller's tenant, an
  account nobody has, the hash of the generated password and the flag to change it.  The new user gets
  exactly the requested roles, the admin role not among them, and the requested groups of the tenant;
  nobody else's roles, groups or row change.
\<close>

theorem add_user_effect:
  assumes "db_wf d" and "validateUserAdd E gl ctx d tid (Some u) = Ok t" and "addUser E (Some u) pw d = Ok (x, d')"
  shows "\<exists>row. t_user d' = t_user d @ [row] \<and> mu_ID row = pu_Id x \<and> mu_ID row \<notin> mu_ID ` set (t_user d) \<and>
    mu_TenantID row = tid \<and> mu_Account row = pu_Account u \<and> mu_Account row \<notin> mu_Account ` set (t_user d) \<and>
    mu_Password row = encodePassword E pw \<and> mu_PasswordUpdateFlag row = Some True \<and>
    set (t_user_role d') = set (t_user_role d) \<union> (\<lambda>r. \<lparr>mur_UserID = mu_ID row, mur_RoleID = pr_Id r\<rparr>) ` set (pu_Roles u) \<and>
    (\<forall>r \<in> set (pu_Roles u). pr_Id r \<noteq> gl_Admin gl) \<and>
    set (t_user_group d') = set (t_user_group d) \<union> (\<lambda>g. \<lparr>mug_UserID = mu_ID row, mug_GroupID = pg_Id g\<rparr>) ` set (pu_Groups u)"
  using assms(3)
proof (rule addUser_Ok)
  fix user user2 :: m_user and d1 d2
  let ?v = "user\<lparr>mu_Password := encodePassword E pw, mu_PasswordUpdateFlag := Some True\<rparr>"
  assume u: "userRspToModel u = Ok user" and s: "user_save E ?v d = Ok (user2, d1)"
    and r: "updateUserRoleRelations E (mu_ID user2) (pu_Roles u) d1 = Ok d2"
    and g: "updateUserGroupRelations E (mu_ID user2) (pu_Groups u) d2 = Ok d'" and x: "pu_Id x = mu_ID user2"
  note v = validateUserAdd_Ok [OF assms(2)]
  show ?thesis using s
  proof (cases rule: user_save_cases)
    case (update old)
    with userRspToModel_fields(1) [OF u] v(1) show ?thesis by simp
  next
    case (create q)
    have row: "mu_TenantID user2 = tid" "mu_Account user2 = pu_Account u" "mu_Password user2 = encodePassword E pw"
      "mu_PasswordUpdateFlag user2 = Some True"
      by (subst create(4), simp add: userRspToModel_fields [OF u] v(2))+
    have d1: "t_user d1 = t_user d @ [user2]" "t_user_role d1 = t_user_role d" "t_user_group d1 = t_user_group d"
      by (simp_all add: create(1))
    show ?thesis
      using save_relations_set [OF r g] d1 row create(2) v(9) x not_isAdmin [OF v(4)] fresh_relations [OF assms(1) create(2)]
      by (intro exI [of _ user2]) simp
  qed
qed

section \<open>Updating\<close>

lemma user_save_account_exists:
  assumes "t \<in> set (t_user d)" "mu_Account v = mu_Account t" "user_save E v d = Ok (v', d')"
  shows "mu_ID v \<noteq> 0"
  using assms(3)
proof (cases rule: user_save_cases)
  case (create q)
  have "mu_Account v' = mu_Account t" by (subst create(4)) (simp add: assms(2))
  moreover have "mu_ID t \<noteq> mu_ID v'" using create(2) assms(1) by (metis imageI)
  ultimately show ?thesis using create(3) assms(1) by (auto simp: user_constraints_Ok_iff)
qed simp

lemma userRspToModel_ID: "userRspToModel u = Ok r \<Longrightarrow> mu_ID r = pu_Id u \<and> mu_Account r = pu_Account u"
  by (simp add: userRspToModel_fields)

text \<open>
  Claim C19.  Updating a user that passed validation rewrites the user's own row and no other: id,
  tenant, account, password and old password stay.  The caller is an administrator, a manager or the
  user; only an administrator changes the admin account.  Roles and groups are replaced by the requested
  ones only if the caller is an administrator or a manager and the user is not the admin account.
\<close>

theorem update_user_effect:
  assumes "db_wf d" and "validateUserUpdate E gl ctx d tid reqUser uid (Some u) = Ok ()"
    and "updateUser E gl tid reqUser (Some u) d = Ok (x, d')"
  shows "\<exists>t row. t \<in> set (t_user d) \<and> mu_ID t = uid \<and> t_user d' = replace_by mu_ID row (t_user d) \<and>
    mu_ID row = uid \<and> mu_TenantID row = mu_TenantID t \<and> mu_Account row = mu_Account t \<and>
    mu_Password row = mu_Password t \<and> mu_OldPassword row = mu_OldPassword t \<and> mu_Name row = pu_Name u \<and>
    (isAdmin gl (pu_Roles reqUser) \<or> isManager gl (pu_Roles reqUser) \<or> pu_Id reqUser = uid) \<and>
    (uid = gl_adminUser gl \<longrightarrow> isAdmin gl (pu_Roles reqUser)) \<and>
    (if may_set_relations gl reqUser uid
     then set (t_user_role d') = {r \<in> set (t_user_role d). mur_UserID r \<noteq> uid} \<union> (\<lambda>r. \<lparr>mur_UserID = uid, mur_RoleID = pr_Id r\<rparr>) ` set (pu_Roles u) \<and>
       set (t_user_group d') = {r \<in> set (t_user_group d). mug_UserID r \<noteq> uid} \<union> (\<lambda>g. \<lparr>mug_UserID = uid, mug_GroupID = pg_Id g\<rparr>) ` set (pu_Groups u)
     else t_user_role d' = t_user_role d \<and> t_user_group d' = t_user_group d)"
  using assms(3)
proof (rule updateUser_Ok)
  fix user t0 user2 :: m_user and d1 d2
  assume u: "userRspToModel u = Ok user" and t0: "user_first E d (pu_Id u) = Ok t0"
    and s: "user_save E (updated_user user t0) d = Ok (user2, d1)"
    and r: "if may_set_relations gl reqUser (pu_Id u)
     then updateUserRoleRelations E (mu_ID user2) (pu_Roles u) d1 = Ok d2 \<and>
       updateUserGroupRelations E (mu_ID user2) (pu_Groups u) d2 = Ok d' else d' = d1"
  obtain t where v: "uid = pu_Id u" "t \<in> set (t_user d)" "pu_Id u \<noteq> 0 \<Longrightarrow> mu_ID t = pu_Id u"
    "tenant_id (pu_Tenant u) = mu_TenantID t" "pu_Account u = mu_Account t"
    "pu_Id u = gl_adminUser gl \<Longrightarrow> isAdmin gl (pu_Roles reqUser)"
    "isAdmin gl (pu_Roles reqUser) \<or> isManager gl (pu_Roles reqUser) \<or> pu_Id reqUser = pu_Id u"
    using validateUserUpdate_Ok [OF assms(2)] by metis
  have "mu_ID (updated_user user t0) \<noteq> 0"
    by (rule user_save_account_exists [OF v(2) _ s]) (simp add: userRspToModel_fields(3) [OF u] v(5))
  then have id: "mu_ID t = uid" using v(1,3) userRspToModel_ID [OF u] by simp
  have "t0 = t" using user_first_Ok [OF t0] assms(1) v(1,2) id
    by (intro key_unique [of mu_ID "t_user d"]) (auto simp: db_wf_def users_wf_def)
  note sv = user_save_existing [OF db_wf_users [OF assms(1)] v(2) _ _ s]
  have d1: "d1 = d\<lparr>t_user := replace_by mu_ID (user_row E (updated_user user t0) t) (t_user d)\<rparr>"
    and u2: "mu_ID user2 = uid"
    using sv(1,2) id v(1,5) userRspToModel_fields(1,3) [OF u] by simp_all
  have row: "mu_ID (user_row E (updated_user user t0) t) = uid" "mu_TenantID (user_row E (updated_user user t0) t) = mu_TenantID t"
    "mu_Account (user_row E (updated_user user t0) t) = mu_Account t" "mu_Password (user_row E (updated_user user t0) t) = mu_Password t"
    "mu_OldPassword (user_row E (updated_user user t0) t) = mu_OldPassword t" "mu_Name (user_row E (updated_user user t0) t) = pu_Name u"
    using userRspToModel_fields [OF u] v(1,4,5) \<open>t0 = t\<close> by (simp_all add: user_row_def updated_user_def)
  have rel: "if may_set_relations gl reqUser uid
     then t_user d' = t_user d1 \<and> set (t_user_role d') = {r \<in> set (t_user_role d). mur_UserID r \<noteq> uid} \<union> (\<lambda>r. \<lparr>mur_UserID = uid, mur_RoleID = pr_Id r\<rparr>) ` set (pu_Roles u) \<and>
       set (t_user_group d') = {r \<in> set (t_user_group d). mug_UserID r \<noteq> uid} \<union> (\<lambda>g. \<lparr>mug_UserID = uid, mug_GroupID = pg_Id g\<rparr>) ` set (pu_Groups u)
     else t_user d' = t_user d1 \<and> t_user_role d' = t_user_role d \<and> t_user_group d' = t_user_group d"
    using r save_relations_set [of E uid "pu_Roles u" d1 d2 "pu_Groups u" d'] by (simp add: v(1) [symmetric] u2 d1 split: if_splits)
  show ?thesis using v(1,2,6,7) id rel row d1
    by (intro exI [of _ t] exI [of _ "user_row E (updated_user user t0) t"]) (simp split: if_splits)
qed

section \<open>Deleting\<close>

text \<open>
  Claim C20.  Deleting a user removes its row, its roles and its group memberships, and nothing of anyone
  else.  The user belongs to the caller's tenant and does not hold the admin role.
\<close>

theorem delete_user_effect:
  assumes "db_wf d" and "deleteUser E gl tid uid d = Ok d'"
  shows "\<exists>u \<in> set (t_user d). mu_ID u = uid \<and> (tid \<noteq> 0 \<longrightarrow> mu_TenantID u = tid) \<and>
    \<lparr>mur_UserID = uid, mur_RoleID = gl_Admin gl\<rparr> \<notin> set (t_user_role d) \<and>
    d' = d\<lparr>t_user := filter (\<lambda>y. mu_ID y \<noteq> uid) (t_user d),
           t_user_role := filter (\<lambda>r. mur_UserID r \<noteq> uid) (t_user_role d),
           t_user_group := filter (\<lambda>r. mug_UserID r \<noteq> uid) (t_user_group d)\<rparr>"
  using assms(2)
proof (rule deleteUser_Ok)
  fix user
  assume v: "validateUserDelete E gl d tid uid = Ok user"
    and d': "d' = d\<lparr>t_user_group := filter (\<lambda>r. mug_UserID r \<noteq> uid) (t_user_group d),
           t_user_role := filter (\<lambda>r. mur_UserID r \<noteq> uid) (t_user_role d),
           t_user := filter (\<lambda>u. mu_ID u \<noteq> uid) (t_user d)\<rparr>"
  have na: "\<lparr>mur_UserID = uid, mur_RoleID = gl_Admin gl\<rparr> \<notin> set (t_user_role d)"
  proof
    assume a: "\<lparr>mur_UserID = uid, mur_RoleID = gl_Admin gl\<rparr> \<in> set (t_user_role d)"
    then have "gl_Admin gl \<in> mr_ID ` set (t_role d)" using assms(1) by (force simp: db_wf_def user_roles_wf_def)
    then obtain x where x: "x \<in> set (t_role d)" "mr_ID x = gl_Admin gl" by auto
    with validateUserDelete_Ok(5) [OF v x(1)] a show False by simp
  qed
  show ?thesis using validateUserDelete_Ok(2,3,4) [OF v] na by (intro bexI [of _ user]) (simp_all add: d')
qed

section \<open>Passwords\<close>

lemma save_new_password:
  assumes "users_wf d" "user \<in> set (t_user d)" "user_save E (new_password E b pw user) d = Ok (user1, d')"
  shows "d' = d\<lparr>t_user := replace_by mu_ID ((new_password E b pw user)\<lparr>mu_UpdatedAt := e_now E\<rparr>) (t_user d)\<rparr>"
proof -
  have "d' = d\<lparr>t_user := replace_by mu_ID (user_row E (new_password E b pw user) user) (t_user d)\<rparr>"
    by (rule user_save_existing(1) [OF assms(1,2) _ _ assms(3)]) (simp_all add: new_password_def)
  then show ?thesis by (simp add: user_row_kept new_password_def)
qed

lemma user_unique: "users_wf d \<Longrightarrow> x \<in> set (t_user d) \<Longrightarrow> y \<in> set (t_user d) \<Longrightarrow> mu_ID x = mu_ID y \<Longrightarrow> x = y"
  by (simp add: users_wf_def distinct_map inj_on_def)

text \<open>
  Claim C21.  Users change only their own password, and only with the current one.  The new password is
  stored, the former becomes the old password, and unless the tenant's setting allows reuse the new one
  differs from the old password on record; no other row changes.
\<close>

theorem change_password_effect:
  assumes "users_wf d" and "validateUserPasswordUpdate E d reqUser req = Ok ()"
    and "updateUserPassword E (up_UserId req) (up_NewPassword req) d = Ok d'"
  shows "\<exists>u \<in> set (t_user d). mu_ID u = up_UserId req \<and> pu_Id reqUser = up_UserId req \<and>
    mu_Password u = up_CurrentPassword req \<and> up_NewPassword req \<noteq> [] \<and>
    (mu_OldPassword u = Some (up_NewPassword req) \<longrightarrow>
       (\<exists>v. TenantConfig E d (tenant_id (pu_Tenant reqUser)) UserReuseOldPassword = Some v \<and> ParseBool v = Some True)) \<and>
    d' = d\<lparr>t_user := replace_by mu_ID
      (u\<lparr>mu_OldPassword := Some (mu_Password u), mu_PasswordUpdateFlag := Some False, mu_PasswordUpdatedAt := Some (e_now E),
         mu_Password := up_NewPassword req, mu_UpdatedAt := e_now E\<rparr>) (t_user d)\<rparr>"
proof -
  let ?reuse = "\<lambda>t. case TenantConfig E d (pt_Id t) UserReuseOldPassword of None \<Rightarrow> Ok False | Some v \<Rightarrow> orUnknown (Value_Bool v)"
  from assms(2) obtain u where u: "user_first E d (up_UserId req) = Ok u" "pu_Id reqUser = up_UserId req"
    "mu_Password u = up_CurrentPassword req" "up_NewPassword req \<noteq> []"
    and c: "(case pu_Tenant reqUser of None \<Rightarrow> Panic
       | Some t \<Rightarrow> bindR (?reuse t) (\<lambda>reusable.
           guardR (\<not> reusable \<and> mu_OldPassword u = Some (up_NewPassword req)) notReusableOldPassword (Ok ()))) = Ok ()"
    unfolding validateUserPasswordUpdate_def guardR_Ok_iff bindR_Ok_iff orNotFound_Ok_iff by blast
  from c obtain t reusable where t: "pu_Tenant reqUser = Some t"
    and reuse: "?reuse t = Ok reusable" "mu_OldPassword u = Some (up_NewPassword req) \<longrightarrow> reusable"
    by (cases "pu_Tenant reqUser") (auto simp: bindR_Ok_iff guardR_Ok_iff)
  note m = user_first_Ok [OF u(1)]
  obtain user user1 where us: "user \<in> set (t_user d)" "mu_ID user = up_UserId req"
    "user_save E (new_password E False (up_NewPassword req) user) d = Ok (user1, d')"
    using assms(3) by (rule updateUserPassword_Ok)
  have "user = u" using m us by (intro user_unique [OF assms(1)]) simp_all
  have r: "\<exists>v. TenantConfig E d (pt_Id t) UserReuseOldPassword = Some v \<and> ParseBool v = Some True" if reusable
    using reuse(1) that by (auto simp: orUnknown_Ok_iff Value_Bool_def value_err_def split: option.splits)
  show ?thesis
    using u m t reuse(2) r save_new_password [OF assms(1) us(1,3)] \<open>user = u\<close>
    by (intro bexI [of _ u]) (auto simp: new_password_def tenant_id_def)
qed

text \<open>
  Resetting a password stores the hash of the generated password that the response carries and
  flags it to be changed.  The user belongs to the caller's tenant, and a manager cannot reset the admin
  account.
\<close>

theorem reset_password_effect:
  assumes "users_wf d" and "resetUserPassword E gl ctx reqUser tid uid d = Ok (pw, d')"
  shows "\<exists>u \<in> set (t_user d). mu_ID u = uid \<and> (tid \<noteq> 0 \<longrightarrow> mu_TenantID u = tid) \<and>
    \<not> (isManager gl (pu_Roles reqUser) \<and> uid = gl_adminUser gl) \<and> generatePassword E = Ok pw \<and>
    d' = d\<lparr>t_user := replace_by mu_ID
      (u\<lparr>mu_OldPassword := Some (mu_Password u), mu_PasswordUpdateFlag := Some True, mu_PasswordUpdatedAt := Some (e_now E),
         mu_Password := encodePassword E pw, mu_UpdatedAt := e_now E\<rparr>) (t_user d)\<rparr>"
  using assms(2)
proof (rule resetUserPassword_Ok)
  fix user user1
  assume u: "user \<in> set (t_user d)" "mu_ID user = uid" "tid \<noteq> 0 \<longrightarrow> mu_TenantID user = tid"
    "\<not> (isManager gl (pu_Roles reqUser) \<and> uid = gl_adminUser gl)" "generatePassword E = Ok pw"
    and s: "user_save E (new_password E True (encodePassword E pw) user) d = Ok (user1, d')"
  with save_new_password [OF assms(1) u(1) s] show ?thesis
    by (intro bexI [of _ user]) (simp_all add: new_password_def)
qed

section \<open>Witnesses\<close>

definition bob :: p_user where
  "bob = (userModelToRsp (sample_user 0 ''bob''))\<lparr>pu_Tenant := Some sample_tenant, pu_Roles := [manager_role],
     pu_Groups := [\<lparr>pg_Id = 2, pg_Tenant = None, pg_Name = [], pg_Remarks = [], pg_CreatedAt = 0, pg_UpdatedAt = 0\<rparr>]\<rparr>"

lemma sample_users_wf': "users_wf sample_db"
  by (rule db_wf_users [OF sample_db_wf])

lemma sample_add:
  "is_Ok (validateUserAdd sample_env sample_globals (sample_ctx ''root'') sample_db 1 (Some bob))"
  "is_Ok (addUser sample_env (Some bob) ''pw'' sample_db)"
  by code_simp+

theorem add_user_effect_witness:
  "\<exists>x d' row. addUser sample_env (Some bob) ''pw'' sample_db = Ok (x, d') \<and> t_user d' = t_user sample_db @ [row] \<and>
     mu_Account row = ''bob'' \<and> mu_Password row = encodePassword sample_env ''pw''"
proof -
  obtain t where v: "validateUserAdd sample_env sample_globals (sample_ctx ''root'') sample_db 1 (Some bob) = Ok t"
    using sample_add(1) by (rule is_OkE)
  obtain x d' where a: "addUser sample_env (Some bob) ''pw'' sample_db = Ok (x, d')"
    using sample_add(2) by (auto elim: is_OkE)
  from add_user_effect [OF sample_db_wf v a]
  obtain row where "t_user d' = t_user sample_db @ [row]" "mu_Account row = pu_Account bob"
    "mu_Password row = encodePassword sample_env ''pw''" by blast
  with a show ?thesis by (auto simp: bob_def userModelToRsp_def sample_user_def)
qed

lemma sample_update:
  "validateUserUpdate sample_env sample_globals (sample_ctx ''root'') sample_db 1 root_user 2 (Some alice_user) = Ok ()"
  "is_Ok (updateUser sample_env sample_globals 1 root_user (Some alice_user) sample_db)"
  by code_simp+

theorem update_user_effect_witness:
  "\<exists>x d' row. updateUser sample_env sample_globals 1 root_user (Some alice_user) sample_db = Ok (x, d') \<and>
     t_user d' = replace_by mu_ID row (t_user sample_db) \<and> mu_ID row = 2"
proof -
  obtain x d' where a: "updateUser sample_env sample_globals 1 root_user (Some alice_user) sample_db = Ok (x, d')"
    using sample_update(2) by (auto elim: is_OkE)
  from update_user_effect [OF sample_db_wf sample_update(1) a]
  obtain row where "t_user d' = replace_by mu_ID row (t_user sample_db)" "mu_ID row = 2" by blast
  with a show ?thesis by blast
qed

lemma sample_delete: "is_Ok (deleteUser sample_env sample_globals 1 2 sample_db)"
  by code_simp

theorem delete_user_effect_witness:
  "\<exists>d'. deleteUser sample_env sample_globals 1 2 sample_db = Ok d' \<and> (\<forall>u \<in> set (t_user d'). mu_ID u \<noteq> 2)"
proof -
  obtain d' where a: "deleteUser sample_env sample_globals 1 2 sample_db = Ok d'" using sample_delete by (rule is_OkE)
  from delete_user_effect [OF sample_db_wf a] have "t_user d' = filter (\<lambda>y. mu_ID y \<noteq> 2) (t_user sample_db)" by auto
  with a show ?thesis by simp
qed

definition sample_change :: update_password_request where
  "sample_change = \<lparr>up_UserId = 2, up_CurrentPassword = ''secret'', up_NewPassword = ''better''\<rparr>"

lemma sample_password:
  "validateUserPasswordUpdate sample_env sample_db alice_user sample_change = Ok ()"
  "is_Ok (updateUserPassword sample_env (up_UserId sample_change) (up_NewPassword sample_change) sample_db)"
  "is_Ok (resetUserPassword sample_env sample_globals (sample_ctx ''root'') root_user 1 2 sample_db)"
  by code_simp+

theorem change_password_effect_witness:
  "\<exists>d'. updateUserPassword sample_env 2 ''better'' sample_db = Ok d' \<and>
     (\<exists>u \<in> set (t_user sample_db). mu_ID u = 2 \<and> mu_Password u = ''secret'')"
proof -
  obtain d' where a: "updateUserPassword sample_env (up_UserId sample_change) (up_NewPassword sample_change) sample_db = Ok d'"
    using sample_password(2) by (rule is_OkE)
  from change_password_effect [OF sample_users_wf' sample_password(1) a] a show ?thesis
    by (auto simp: sample_change_def)
qed

theorem reset_password_effect_witness:
  "\<exists>pw d'. resetUserPassword sample_env sample_globals (sample_ctx ''root'') root_user 1 2 sample_db = Ok (pw, d') \<and>
     generatePassword sample_env = Ok pw"
proof -
  obtain pw d' where a: "resetUserPassword sample_env sample_globals (sample_ctx ''root'') root_user 1 2 sample_db = Ok (pw, d')"
    using sample_password(3) by (auto elim: is_OkE)
  from reset_password_effect [OF sample_users_wf' a] a show ?thesis by blast
qed

end
