(* ===== verification/Spec_Query.thy ===== *)
theory Spec_Query
  imports Spec_User
begin

text \<open>
  What reading users promises: only users of the caller's tenant are shown, the pages of the list are
  slices of it, and the reported numbers of pages and items are those of the list.
\<close>

section \<open>Filters\<close>

lemma bindR_db_Find:
  "bindR (mapE g (db_Find E site k rs)) F = (case e_fault E site k of Some c \<Rightarrow> Fail (g (DBError c)) | None \<Rightarrow> F rs)"
  by (simp add: db_Find_def exec_def split: option.split)

lemma uq_where_True: "uq_where (\<lambda>_. True) q = q"
  by (cases q) (simp add: uq_where_def)

text \<open>A filter only narrows the rows, and looks at nothing else of the query.\<close>

lemma userFilter_where:
  assumes "userFilter_Apply E d m f q = Ok q'" "\<not> is_pagination f"
  shows "\<exists>P. \<forall>q0. userFilter_Apply E d m f q0 = Ok (uq_where P q0)"
proof -
  have that: "\<exists>P. \<forall>q0. userFilter_Apply E d m f q0 = Ok (uq_where P q0)"
    if "\<And>q0. userFilter_Apply E d m f q0 = Ok (uq_where P q0)" for P
    using that by blast
  show ?thesis
proof (cases f)
  case (UserSolutionFilter sol role)
  let ?rs = "filter (\<lambda>r. mr_Solution r = sol \<and> (role \<noteq> [] \<longrightarrow> mr_Role r = role)) (t_role d)"
  let ?us = "filter (\<lambda>r. mur_RoleID r \<in> set (map mr_ID ?rs)) (t_user_role d)"
  let ?P = "if ?rs = [] \<or> ?us = [] then (\<lambda>_. False) else (\<lambda>u. mu_ID u \<in> set (map mur_UserID ?us))"
  have "e_fault E ''userSolutionFilter roles'' 0 = None" "?rs \<noteq> [] \<longrightarrow> e_fault E ''userSolutionFilter users'' 0 = None"
    using assms(1) unfolding UserSolutionFilter userFilter_Apply.simps bindR_db_Find by (auto split: option.splits if_splits)
  then show ?thesis
    by (intro that [of ?P]) (simp add: UserSolutionFilter bindR_db_Find split del: if_split cong: if_cong, simp)
next
  case (UserExcludeGroupFilter g)
  let ?us = "filter (\<lambda>r. mug_GroupID r = g) (t_user_group d)"
  let ?P = "if ?us = [] then (\<lambda>_. True) else (\<lambda>u. mu_ID u \<notin> set (map mug_UserID ?us))"
  have "e_fault E ''userExcludeGroupFilter'' g = None"
    using assms(1) unfolding UserExcludeGroupFilter userFilter_Apply.simps bindR_db_Find by (auto split: option.splits)
  then show ?thesis
    by (intro that [of ?P]) (simp add: UserExcludeGroupFilter bindR_db_Find uq_where_True)
next
  case (UserGroupFilter g)
  let ?us = "filter (\<lambda>r. mug_GroupID r = g) (t_user_group d)"
  let ?P = "if ?us = [] then (\<lambda>_. False) else (\<lambda>u. mu_ID u \<in> set (map mug_UserID ?us))"
  have "e_fault E ''userGroupFilter'' g = None"
    using assms(1) unfolding UserGroupFilter userFilter_Apply.simps bindR_db_Find by (auto split: option.splits)
  then show ?thesis by (intro that [of ?P]) (simp add: UserGroupFilter bindR_db_Find)
next
  case (PaginationFilter o' l)
  with assms(2) show ?thesis by (simp add: is_pagination_def)
next
  case LoginFilter
  show ?thesis
  proof (cases "store_List E m storeKeyPrefix")
    case (Ok keys)
    then show ?thesis by (intro that) (simp add: LoginFilter)
  next
    case (Fail e)
    then have "e = ErrNotFoundKey" using assms(1) by (simp add: LoginFilter split: if_splits)
    then show ?thesis by (intro that) (simp add: LoginFilter Fail)
  next
    case Panic
    with assms(1) show ?thesis by (simp add: LoginFilter)
  qed
qed (rule that, simp)+
qed

lemma uq_where_fields: "uq_where P q = q\<lparr>uq_rows := filter P (uq_rows q)\<rparr>"
  by (simp add: uq_where_def)

lemma userFilter_rows:
  assumes "userFilter_Apply E d m f q = Ok q'"
  shows "\<exists>P. uq_rows q' = filter P (uq_rows q)"
proof (cases "is_pagination f")
  case True
  then obtain o' l where f: "f = PaginationFilter o' l" by (auto simp: is_pagination_def split: userFilter.splits)
  have "uq_rows q' = filter (\<lambda>_. True) (uq_rows q)" using assms by (auto simp: f)
  then show ?thesis by blast
next
  case False
  from userFilter_where [OF assms False] obtain P where "\<forall>q0. userFilter_Apply E d m f q0 = Ok (uq_where P q0)" ..
  then have "uq_rows q' = filter P (uq_rows q)" using assms by (auto simp: uq_where_fields)
  then show ?thesis by blast
qed

lemma userFilter_cong:
  assumes "userFilter_Apply E d m f q = Ok q'" "\<not> is_pagination f" "uq_rows q0 = uq_rows q"
  shows "userFilter_Apply E d m f q0 = Ok (q0\<lparr>uq_rows := uq_rows q'\<rparr>)" "uq_page q' = uq_page q"
proof -
  from userFilter_where [OF assms(1,2)] obtain P where P: "\<forall>q0. userFilter_Apply E d m f q0 = Ok (uq_where P q0)" ..
  then have "q' = uq_where P q" using assms(1) by simp
  then show "userFilter_Apply E d m f q0 = Ok (q0\<lparr>uq_rows := uq_rows q'\<rparr>)" "uq_page q' = uq_page q"
    using assms(3) by (simp_all add: P uq_where_fields)
qed

lemma filters_rows:
  "foldR (userFilter_Apply E d m) fs q = Ok q' \<Longrightarrow> \<exists>P. uq_rows q' = filter P (uq_rows q)"
proof (induction fs arbitrary: q)
  case Nil
  then have "uq_rows q' = filter (\<lambda>_. True) (uq_rows q)" by simp
  then show ?case by blast
next
  case (Cons f fs)
  then obtain q1 where q1: "userFilter_Apply E d m f q = Ok q1" and r: "foldR (userFilter_Apply E d m) fs q1 = Ok q'"
    by (auto simp: bindR_Ok_iff)
  from Cons.IH [OF r] obtain P where P: "uq_rows q' = filter P (uq_rows q1)" ..
  from userFilter_rows [OF q1] obtain Q where "uq_rows q1 = filter Q (uq_rows q)" ..
  with P have "uq_rows q' = filter (\<lambda>x. Q x \<and> P x) (uq_rows q)" by simp
  then show ?case by blast
qed

text \<open>Pagination filters set the page and leave the rows to the others.\<close>

lemma filters_page:
  assumes "foldR (userFilter_Apply E d m) fs q = Ok q'" "uq_rows q0 = uq_rows q"
  shows "foldR (userFilter_Apply E d m) (filter (\<lambda>f. \<not> is_pagination f) fs) q0 = Ok (q0\<lparr>uq_rows := uq_rows q'\<rparr>)"
    "uq_page q' = (if \<exists>f \<in> set fs. is_pagination f then Some (page_of fs p) else uq_page q)"
  using assms
proof (induction fs arbitrary: q q0 p)
  case Nil
  {
    case 1
    then show ?case by (cases q0) simp
  next
    case 2
    then show ?case by simp
  }
next
  case (Cons f fs)
  {
    case 1
    then obtain q1 where q1: "userFilter_Apply E d m f q = Ok q1" "foldR (userFilter_Apply E d m) fs q1 = Ok q'"
      by (auto simp: bindR_Ok_iff)
    show ?case
    proof (cases "is_pagination f")
      case True
      then have "uq_rows q0 = uq_rows q1" using q1(1) 1(2) by (auto simp: is_pagination_def split: userFilter.splits)
      with True Cons.IH(1) [OF q1(2)] show ?thesis by simp
    next
      case False
      have "uq_rows (q0\<lparr>uq_rows := uq_rows q1\<rparr>) = uq_rows q1" by simp
      from Cons.IH(1) [OF q1(2) this] userFilter_cong(1) [OF q1(1) False 1(2)] False show ?thesis by simp
    qed
  next
    case 2
    then obtain q1 where q1: "userFilter_Apply E d m f q = Ok q1" "foldR (userFilter_Apply E d m) fs q1 = Ok q'"
      by (auto simp: bindR_Ok_iff)
    show ?case
    proof (cases "is_pagination f")
      case True
      then obtain o' l where f: "f = PaginationFilter o' l" by (auto simp: is_pagination_def split: userFilter.splits)
      then have "uq_page q1 = Some (o', l)" using q1(1) by auto
      moreover have "page_of fs p' = p'" if "\<not> (\<exists>f \<in> set fs. is_pagination f)" for p'
        using that by (induction fs arbitrary: p') (auto simp: is_pagination_def split: userFilter.splits)
      ultimately show ?thesis using Cons.IH(2) [OF q1(2) refl, of "(o', l)"] by (simp add: f is_pagination_def)
    next
      case False
      then have "page_of (f # fs) p = page_of fs p" by (auto simp: is_pagination_def split: userFilter.splits)
      with False Cons.IH(2) [OF q1(2) refl, of p] userFilter_cong(2) [OF q1(1) False refl] show ?thesis by simp
    qed
  }
qed

section \<open>The list of users\<close>

lemma mapR_map:
  assumes "mapR f xs = Ok ys" and "\<And>x y. f x = Ok y \<Longrightarrow> g y = h x"
  shows "map g ys = map h xs"
  using assms(1) by (induction xs arbitrary: ys) (auto simp: bindR_Ok_iff assms(2))

lemma userToRsp_id: "userToRsp E gl d m tid t u = Ok x \<Longrightarrow> pu_Id x = mu_ID u \<and> pu_Tenant x = Some t"
  by (auto simp: userToRsp_def bindR_Ok_iff userModelToRsp_def)

lemma getUsers_Ok:
  assumes "getUsers E gl d m tid fs = Ok us"
  obtains t q where "getTenant E d tid = Ok t" "foldR (userFilter_Apply E d m) fs (tenant_query d tid) = Ok q"
    "mapR (userToRsp E gl d m tid t) (uq_run q) = Ok us"
proof -
  from assms obtain t q users where "getTenant E d tid = Ok t"
    "foldR (userFilter_Apply E d m) fs (tenant_query d tid) = Ok q" "db_Find E ''getUsers'' tid (uq_run q) = Ok users"
    "mapR (userToRsp E gl d m tid t) users = Ok us"
    unfolding getUsers_def bindR_Ok_iff orUnusable_Ok_iff orUnusableErr_def mapE_Ok_iff by blast
  then show ?thesis by (intro that [of t q]) (simp_all add: db_Find_Ok_iff)
qed

lemma uq_run_subset: "set (uq_run q) \<subseteq> set (uq_rows q)"
  by (auto simp: uq_run_def dest: in_set_takeD in_set_dropD split: option.splits)

text \<open>
  Claim C22.  The list of users shows users of the caller's tenant only, whatever the filters, each at
  most once, and names that tenant with each.
\<close>

theorem user_list_isolated:
  assumes "users_wf d" and "getUsers E gl d m tid fs = Ok us"
  shows "(\<forall>x \<in> set us. \<exists>u \<in> set (t_user d). mu_TenantID u = tid \<and> pu_Id x = mu_ID u) \<and>
    (\<forall>x \<in> set us. tenant_id (pu_Tenant x) = tid) \<and> distinct (map pu_Id us)"
proof -
  from assms(2) obtain t q where t: "getTenant E d tid = Ok t"
    and q: "foldR (userFilter_Apply E d m) fs (tenant_query d tid) = Ok q"
    and us: "mapR (userToRsp E gl d m tid t) (uq_run q) = Ok us" by (rule getUsers_Ok)
  obtain P where P: "uq_rows q = filter P (filter (\<lambda>u. mu_TenantID u = tid) (t_user d))"
    using filters_rows [OF q] by (auto simp: tenant_query_def)
  have ids: "map pu_Id us = map mu_ID (uq_run q)" by (rule mapR_map [OF us]) (simp add: userToRsp_id)
  have "pu_Id ` set us = mu_ID ` set (uq_run q)" using arg_cong [OF ids, of set] by simp
  then have "\<exists>u \<in> set (uq_run q). pu_Id x = mu_ID u" if "x \<in> set us" for x using that by (metis imageE imageI)
  then have "\<exists>u \<in> set (t_user d). mu_TenantID u = tid \<and> pu_Id x = mu_ID u" if "x \<in> set us" for x
    using that uq_run_subset [of q] P by fastforce
  moreover have "map (\<lambda>x. tenant_id (pu_Tenant x)) us = map (\<lambda>_. tid) (uq_run q)"
    by (rule mapR_map [OF us]) (use getTenant_Ok [OF t] in \<open>auto dest: userToRsp_id simp: tenant_id_def\<close>)
  then have "tenant_id (pu_Tenant x) = tid" if "x \<in> set us" for x
    using that by (metis (no_types, lifting) imageE imageI set_map)
  moreover have "distinct (map mu_ID (uq_rows q))"
    using assms(1) by (simp add: P users_wf_def distinct_map_filter)
  then have "distinct (map mu_ID (uq_run q))"
    by (auto simp: uq_run_def take_map [symmetric] drop_map [symmetric] split: option.splits)
  ultimately show ?thesis by (simp add: ids)
qed


lemma div_bounds:
  fixes x l :: int
  assumes "0 < l"
  shows "x div l * l \<le> x \<and> x < (x div l + 1) * l"
proof -
  have "x div l * l + x mod l = x" by simp
  moreover have "0 \<le> x mod l" "x mod l < l" using assms by simp_all
  ultimately show ?thesis unfolding distrib_right by linarith
qed

text \<open>
  The numbers of a page: unless \<open>total + limit\<close> exceeds a \<open>uint64\<close>, the number of pages is the
  total divided by the limit, rounded up, and an offset inside the list names a page that exists.
\<close>

theorem pagination_rounds_up:
  assumes "limit \<noteq> 0" and "uint items + uint limit \<le> 2 ^ 64"
  shows "uint (pp_TotalPage (pagination offset limit items)) = (uint items + uint limit - 1) div uint limit \<and>
    uint items \<le> uint (pp_TotalPage (pagination offset limit items)) * uint limit \<and>
    (0 < items \<longrightarrow> (uint (pp_TotalPage (pagination offset limit items)) - 1) * uint limit < uint items) \<and>
    (offset < items \<longrightarrow> pp_Page (pagination offset limit items) \<le> pp_TotalPage (pagination offset limit items))"
proof -
  have l: "0 < uint limit" using assms(1) by (simp add: word_neq_0_conv word_less_def)
  have "uint (items + limit - 1) = uint items + uint limit - 1"
  proof -
    have "items + limit - 1 = word_of_int (uint items + uint limit - 1)" by simp
    moreover have "0 \<le> uint items + uint limit - 1" using l uint_ge_0 [of items] by linarith
    ultimately show ?thesis using assms(2) by (simp only: uint_word_of_int) (simp add: mod_pos_pos_trivial)
  qed
  then have tp: "uint (pp_TotalPage (pagination offset limit items)) = (uint items + uint limit - 1) div uint limit"
    using assms(1) by (simp add: pagination_def uint_div)
  define q where "q = (uint items + uint limit - 1) div uint limit"
  have q: "q * uint limit \<le> uint items + uint limit - 1" "uint items + uint limit - 1 < (q + 1) * uint limit"
    using div_bounds [OF l] unfolding q_def by blast+
  have up: "uint items \<le> q * uint limit" using q(2) by (simp add: algebra_simps)
  have down: "(q - 1) * uint limit < uint items" using q(1) by (simp add: algebra_simps)
  have "pp_Page (pagination offset limit items) \<le> pp_TotalPage (pagination offset limit items)" if o: "offset < items"
  proof -
    have "uint offset < q * uint limit" using o up by (simp add: word_less_def)
    then have "uint offset div uint limit < q" 
      using div_bounds [OF l, of "uint offset"] l by (metis mult_less_cancel_right_pos order_le_less_trans)
    then have le: "uint offset div uint limit + 1 \<le> q" by simp
    have "q < 2 ^ 64" using tp uint_lt2p [of "pp_TotalPage (pagination offset limit items)"] by (simp add: q_def)
    with le have "uint (offset div limit + 1) = uint offset div uint limit + 1"
      using pos_imp_zdiv_nonneg_iff [OF l, of "uint offset"]
      by (simp add: uint_word_ariths uint_div mod_pos_pos_trivial)
    then show ?thesis using le tp assms(1) by (simp add: word_le_def pagination_def q_def)
  qed
  with tp up down show ?thesis unfolding q_def [symmetric] by simp
qed

theorem pagination_rounds_up_witness:
  "uint (pp_TotalPage (pagination 20 10 25)) = 3 \<and> pp_Page (pagination 20 10 25) \<le> pp_TotalPage (pagination 20 10 25)"
  using pagination_rounds_up [of 10 25 20] by simp

text \<open>Beyond that bound the sum wraps: a list of two users has no page at the largest limit.\<close>

lemma pagination_wraps: "pp_TotalPage (pagination 0 (- 1) 2) = 0"
  by (simp add: pagination_def)

section \<open>One user\<close>

lemma CreateError_not_Ok [simp]: "CreateError E ctx ev e s \<noteq> (Ok x, s')"
  unfolding CreateError_def Let_def by (simp add: status_defs split: res.split)

lemma createError_not_Ok [simp]: "createError E ctx ev e s \<noteq> (Ok x, s')"
  unfolding createError_def Let_def by (simp add: status_defs)

lemma onError_Ok_iff: "onError E ctx c m k s = (Ok y, s') \<longleftrightarrow> (\<exists>x. m s = Ok x \<and> k x s = (Ok y, s'))"
  by (simp add: onError_def split: res.split)

lemma ok_Ok_iff: "ok E ctx rpc rsp s = (Ok y, s') \<longleftrightarrow> y = rsp \<and> s' = snd (ok E ctx rpc rsp s)"
  by (auto simp: ok_def StatusOK_def)

text \<open>
  \<open>GetUser\<close> shows a user of the tenant that the request names, to that user or to an
  administrator or manager, and changes neither database nor store.
\<close>

theorem get_user_isolated:
  assumes "h_GetUser E gl ctx uid s = (Ok (UserResponse x), s')"
  shows "\<exists>tid reqUser u. GetTenantID ctx = Ok tid \<and> GetAuthenticatedUser E ctx = Ok reqUser \<and>
    u \<in> set (t_user (s_db s)) \<and> mu_ID u = uid \<and> mu_TenantID u = tid \<and> pu_Id x = uid \<and> pu_Account x = mu_Account u \<and>
    (isAdmin gl (pu_Roles reqUser) \<or> isManager gl (pu_Roles reqUser) \<or> pu_Id reqUser = uid) \<and>
    s_db s' = s_db s \<and> s_kv s' = s_kv s"
proof -
  from assms obtain tid reqUser where m: "getRequestMetadata E ctx = Ok (tid, reqUser)"
    and v: "validateUserGet E gl ctx reqUser uid = Ok ()" and g: "getUser E gl (s_db s) tid uid = Ok x"
    and t: "tid = tenant_id (pu_Tenant x)" and s': "s' = snd (ok E ctx ''get_user'' (UserResponse x) s)"
    unfolding h_GetUser_def withMetadata_def
    by (auto simp: onError_Ok_iff createError_not_Ok ok_Ok_iff split: if_splits)
  from m have meta: "GetTenantID ctx = Ok tid" "GetAuthenticatedUser E ctx = Ok reqUser"
    by (auto simp: getRequestMetadata_def bindR_Ok_iff mapE_Ok_iff)
  from g obtain u tenant where u: "user_first E (s_db s) uid = Ok u" "getTenant E (s_db s) (mu_TenantID u) = Ok tenant"
    "pu_Id x = mu_ID u" "pu_Account x = mu_Account u" "pu_Tenant x = Some tenant"
    by (auto simp: getUser_def bindR_Ok_iff orNotFound_Ok_iff userModelToRsp_def)
  have "isAdmin gl (pu_Roles reqUser) \<or> isManager gl (pu_Roles reqUser) \<or> pu_Id reqUser = uid"
    using v by (auto simp: validateUserGet_def guardR_Ok_iff)
  then show ?thesis using meta u user_first_Ok [OF u(1)] getTenant_Ok [OF u(2)] t
    by (intro exI [of _ tid] exI [of _ reqUser] exI [of _ u]) (simp add: s' tenant_id_def)
qed

section \<open>Witnesses\<close>

definition first_page :: "userFilter list" where
  "first_page = [PaginationFilter 1 1]"

lemma sample_list:
  "is_Ok (getUsers sample_env sample_globals sample_db [] 1 first_page)"
  "is_Ok (getUsers sample_env sample_globals sample_db [] 1 (filter (\<lambda>f. \<not> is_pagination f) first_page))"
  "is_Ok (getUsersPagination sample_env sample_db [] 1 first_page)"
  by code_simp+

theorem user_list_isolated_witness:
  "\<exists>us. getUsers sample_env sample_globals sample_db [] 1 first_page = Ok us \<and> distinct (map pu_Id us)"
proof -
  obtain us where us: "getUsers sample_env sample_globals sample_db [] 1 first_page = Ok us"
    using sample_list(1) by (rule is_OkE)
  with user_list_isolated [OF sample_users_wf' us] show ?thesis by blast
qed


lemma sample_get: "is_Ok (fst (h_GetUser sample_env sample_globals (sample_ctx ''root'') 2 sample_sys))"
  "(case fst (h_GetUser sample_env sample_globals (sample_ctx ''root'') 2 sample_sys) of Ok (UserResponse x) \<Rightarrow> True | _ \<Rightarrow> False)"
  by code_simp+

theorem get_user_isolated_witness:
  "\<exists>x s'. h_GetUser sample_env sample_globals (sample_ctx ''root'') 2 sample_sys = (Ok (UserResponse x), s') \<and>
     pu_Id x = 2 \<and> s_db s' = sample_db"
proof -
  obtain x s' where g: "h_GetUser sample_env sample_globals (sample_ctx ''root'') 2 sample_sys = (Ok (UserResponse x), s')"
    using sample_get(2) by (cases "h_GetUser sample_env sample_globals (sample_ctx ''root'') 2 sample_sys")
      (auto split: res.splits response.splits)
  from get_user_isolated [OF g] g show ?thesis by (auto simp: sample_sys_def)
qed

end
