(* ===== verification/Spec_Gateway.thy ===== *)
theory Spec_Gateway
  imports Gateway Spec_Query
begin

text \<open>
  What the API gateway guarantees to the services behind it: who gets through \<open>NewAuthHandler\<close>, what the
  forwarded request says, and what happens to the errors on their way back.
\<close>

section \<open>Transactions that succeed\<close>

text \<open>The attempt that was committed started from the database before the call.\<close>

lemma executeInTx_Ok:
  "executeInTx as body s = Some (Ok x, s') \<Longrightarrow>
    \<exists>a \<in> set as. \<exists>s0. body (at_env a) s0 = (Ok x, s') \<and> s_db s0 = s_db s \<and> (length as \<le> 1 \<longrightarrow> s0 = s)"
proof (induction as arbitrary: s)
  case Nil
  then show ?case by simp
next
  case (Cons a as)
  obtain r1 s1 where b: "body (at_env a) s = (r1, s1)" by (cases "body (at_env a) s")
  have again: ?case if e: "executeInTx as body (rollback s s1) = Some (Ok x, s')"
  proof -
    obtain a' s0 where "a' \<in> set as" "body (at_env a') s0 = (Ok x, s')" "s_db s0 = s_db s"
      using Cons.IH [OF e] by (auto simp: rollback_def)
    moreover from e have "as \<noteq> []" by auto
    ultimately show ?thesis by (intro bexI [of _ a'] exI [of _ s0]) (auto simp: Suc_le_eq)
  qed
  show ?case
  proof (cases r1)
    case (Ok y)
    with Cons.prems b have "(y = x \<and> s1 = s') \<or> executeInTx as body (rollback s s1) = Some (Ok x, s')"
      by (auto split: release.splits option.splits if_splits)
    with Ok b again show ?thesis by auto
  next
    case (Fail e)
    with Cons.prems b have "executeInTx as body (rollback s s1) = Some (Ok x, s')"
      by (auto simp: Let_def split: if_splits)
    then show ?thesis by (rule again)
  next
    case Panic
    with Cons.prems b show ?thesis by simp
  qed
qed

lemma Transaction_Ok:
  "Transaction tr body s = Some (Ok x, s') \<Longrightarrow>
    \<exists>a \<in> set (tr_attempts tr). \<exists>s0. body (at_env a) s0 = (Ok x, s') \<and> s_db s0 = s_db s \<and>
      (length (tr_attempts tr) \<le> 1 \<longrightarrow> s0 = s)"
  unfolding Transaction_def by (rule executeInTx_Ok) (simp split: option.splits)

section \<open>The two calls of the gateway\<close>

lemma onErrorKV_Ok_iff:
  "onErrorKV E ctx code m k s = (Ok y, s') \<longleftrightarrow> (\<exists>x kv. m s = (Ok x, kv) \<and> k x (s\<lparr>s_kv := kv\<rparr>) = (Ok y, s'))"
  by (auto simp: onErrorKV_def split: prod.split res.split)

lemma h_VerifySession_Ok:
  assumes "h_VerifySession E gl ctx s = (Ok x, s')"
  shows "\<exists>session tid p u key. GetAuthenticatedSession ctx = Ok session \<and> GetTenantID ctx = Ok tid \<and>
    verifySession E ctx (s_kv s) session = Ok p \<and> getUser E gl (s_db s) tid (sp_ID p) = Ok u \<and>
    x = UserResponse (u\<lparr>pu_Session := Some key\<rparr>)"
  using assms unfolding h_VerifySession_def
  by (auto simp: onError_Ok_iff onErrorKV_Ok_iff ok_Ok_iff mapE_Ok_iff)

lemma getUser_row:
  assumes "getUser E gl d tid uid = Ok u"
  shows "\<exists>r \<in> set (t_user d). mu_ID r = uid \<and> pu_Id u = uid \<and> pu_Account u = mu_Account r \<and>
    userRoles E d uid = Ok (pu_Roles u)"
proof -
  from assms obtain r where r: "user_first E d uid = Ok r" "pu_Id u = mu_ID r" "pu_Account u = mu_Account r"
    "userRoles E d (mu_ID r) = Ok (pu_Roles u)"
    by (auto simp: getUser_def bindR_Ok_iff orNotFound_Ok_iff userModelToRsp_def)
  from user_first_Ok [OF r(1)] r show ?thesis by auto
qed

lemma enforceRoles_Ok:
  "enforceRoles E gl ctx ep rs s = (Ok x, s') \<Longrightarrow> \<exists>r \<in> set rs. fst (Enforce E gl (pr_Role r) (pr_Solution r) ep)"
proof (induction rs)
  case Nil
  then show ?case by simp
next
  case (Cons r rs)
  then show ?case by (cases "Enforce E gl (pr_Role r) (pr_Solution r) ep") (auto split: bool.splits option.splits)
qed

lemma h_CheckAuthorization_Ok:
  assumes "h_CheckAuthorization tr E gl ctx ep s = Some (Ok x, s')"
  shows "\<exists>tid user. GetTenantID ctx = Ok tid \<and> GetAuthenticatedUser E ctx = Ok user \<and>
    (\<exists>t \<in> set (t_tenant (s_db s)). mt_ID t = tid) \<and>
    (isAdmin gl (pu_Roles user) \<or> (\<exists>t. pu_Tenant user = Some t \<and> pt_Id t = tid)) \<and>
    (\<exists>r \<in> set (pu_Roles user @ [user_role_entry]). fst (Enforce E gl (pr_Role r) (pr_Solution r) ep))"
proof -
  from assms obtain tid user where m: "getRequestMetadata E ctx = Ok (tid, user)"
    by (auto simp: h_CheckAuthorization_def split: res.splits prod.splits)
  from m have meta: "GetTenantID ctx = Ok tid" "GetAuthenticatedUser E ctx = Ok user"
    by (auto simp: getRequestMetadata_def bindR_Ok_iff mapE_Ok_iff)
  from assms m obtain u s1 where T: "Transaction tr (checkTenant tid) s = Some (Ok u, s1)"
    by (auto simp: h_CheckAuthorization_def split: res.splits option.splits prod.splits)
  from Transaction_Ok [OF T] obtain a :: attempt and s0 where "checkTenant tid (at_env a) s0 = (Ok u, s1)" "s_db s0 = s_db s"
    by blast
  then have t: "\<exists>t \<in> set (t_tenant (s_db s)). mt_ID t = tid"
    by (auto simp: checkTenant_def orNotFound_Ok_iff bindR_Ok_iff tenant_first_def db_First_Ok_iff dest: first_by_SomeD)
  from assms m T have e: "(isAdmin gl (pu_Roles user) \<or> (\<exists>t. pu_Tenant user = Some t \<and> pt_Id t = tid)) \<and>
      enforceRoles E gl ctx ep (pu_Roles user @ [user_role_entry]) s1 = (Ok x, s')"
    by (auto simp: h_CheckAuthorization_def split: if_splits option.splits)
  with meta t enforceRoles_Ok show ?thesis by blast
qed

section \<open>Who gets through\<close>

definition user_codec :: "genv \<Rightarrow> bool" where
  "user_codec G \<longleftrightarrow> (\<forall>i u b. g_MarshalUser G u = Ok b \<longrightarrow> e_UnmarshalUser (c_env (g_check G i)) b = Some u)"

definition verified :: "genv \<Rightarrow> http_req \<Rightarrow> sys \<Rightarrow> p_user \<Rightarrow> bool" where
  "verified G r s user \<longleftrightarrow>
     (\<exists>i. \<exists>a \<in> set (tr_attempts (c_trial (g_verify G i))). \<exists>m p row.
        verifySession (at_env a) (verify_ctx r) m (Header_Get r HeaderAuthenticatedSession) = Ok p \<and>
        (i = 0 \<and> length (tr_attempts (c_trial (g_verify G i))) \<le> 1 \<longrightarrow> m = s_kv s) \<and>
        row \<in> set (t_user (s_db s)) \<and> mu_ID row = sp_ID p \<and> pu_Id user = sp_ID p \<and> pu_Account user = mu_Account row \<and>
        userRoles (at_env a) (s_db s) (sp_ID p) = Ok (pu_Roles user))"

definition authorized :: "genv \<Rightarrow> globals \<Rightarrow> http_req \<Rightarrow> p_user \<Rightarrow> string \<Rightarrow> bool" where
  "authorized G gl r user ep \<longleftrightarrow>
     (\<exists>i tid. ParseUint (request_tenant r) = Some tid \<and>
        (isAdmin gl (pu_Roles user) \<or> (\<exists>t. pu_Tenant user = Some t \<and> pt_Id t = tid)) \<and>
        (\<exists>x \<in> set (pu_Roles user @ [user_role_entry]). fst (Enforce (c_env (g_check G i)) gl (pr_Role x) (pr_Solution x) ep)))"

text \<open>A call is one attempt, or a second one after the first has failed.\<close>

lemma client_Call_cases:
  assumes "client_Call net arrive run s = Some (x, s')"
  shows "transmit (net 0) arrive (run 0) s = Some (x, s') \<or>
    (\<exists>e s1. transmit (net 0) arrive (run 0) s = Some (Fail e, s1) \<and> transmit (net 1) arrive (run 1) s1 = Some (x, s'))"
proof (cases "transmit (net 0) arrive (run 0) s")
  case (Some p)
  obtain y s1 where "p = (y, s1)" by (cases p)
  with assms Some show ?thesis by (cases y) (auto simp: client_Call_def split: if_splits)
qed (use assms in \<open>simp add: client_Call_def\<close>)

lemma transmit_cases: "transmit d arrive run s = Some (x, s') \<Longrightarrow> s' = s \<or> (\<exists>r. run s = Some (r, s'))"
  by (auto simp: transmit_def split: delivery.splits bool.splits option.splits)

lemma transmit_Ok: "transmit d arrive run s = Some (Ok x, s') \<Longrightarrow> run s = Some (Ok x, s')"
  by (auto simp: transmit_def mapE_Ok_iff split: delivery.splits bool.splits option.splits)

text \<open>A relation that every attempt keeps.\<close>

lemma client_Call_rel:
  assumes "client_Call net arrive run s = Some (x, s')" and "P s s" and "\<And>s s' s''. P s s' \<Longrightarrow> P s' s'' \<Longrightarrow> P s s''"
    and "\<And>i s r s'. run i s = Some (r, s') \<Longrightarrow> P s s'" and "\<And>s. P s s"
  shows "P s s'"
proof -
  have t: "P t t'" if "transmit (net i) arrive (run i) t = Some (y, t')" for i t y t'
    using transmit_cases [OF that] assms(4,5) by blast
  from client_Call_cases [OF assms(1)] show ?thesis using t assms(3) by blast
qed

lemma client_Call_Ok:
  assumes "client_Call net arrive run s = Some (Ok x, s')"
  obtains i s1 where "run i s1 = Some (Ok x, s')" "s1 = s \<or> (\<exists>r. run 0 s = Some (r, s1))" "i = 0 \<longrightarrow> s1 = s"
  using client_Call_cases [OF assms] that [of 0 s] that [of 1] transmit_cases transmit_Ok by (metis zero_neq_one)

lemma recovering_Ok: "recovering run s = Some (Ok x, s') \<Longrightarrow> run s = Some (Ok x, s')"
  by (auto simp: recovering_def recovered_def split: option.splits res.splits)

lemma recovering_runs: "recovering run s = Some (r, s') \<Longrightarrow> \<exists>r. run s = Some (r, s')"
  by (auto simp: recovering_def split: option.splits)

lemma VerifySession_reads: "s_db (snd (h_VerifySession E gl ctx s)) = s_db s"
  unfolding h_VerifySession_def
  by (simp add: onError_def onErrorKV_def ok_def StatusOK_def split: res.split prod.split)

lemma serve_reads:
  assumes "serve gl c q s = Some (r, s')" and "q = VerifySession \<or> (\<exists>ep. q = CheckAuthorization ep)"
  shows "s_db s' = s_db s"
  using assms(2)
proof
  assume "q = VerifySession"
  with assms(1) have "Transaction (c_trial c) (\<lambda>E. h_VerifySession E gl (c_ctx c)) s = Some (r, s')" by (simp add: serve_def)
  then show ?thesis by (rule Transaction_reads [OF VerifySession_reads])
next
  assume "\<exists>ep. q = CheckAuthorization ep"
  with assms(1) show ?thesis by (auto simp: serve_def dest: CheckAuthorization_reads)
qed

lemma identityClient_reads:
  assumes "identityClient G gl c ctx rpc q s = Some (r, s')" and "q = VerifySession \<or> (\<exists>ep. q = CheckAuthorization ep)"
  shows "s_db s' = s_db s"
  using assms(1) unfolding identityClient_def
  by (rule client_Call_rel [where P = "\<lambda>s s'. s_db s' = s_db s"]) (auto dest!: recovering_runs intro: serve_reads [OF _ assms(2)])

lemma identityClient_Ok:
  assumes "identityClient G gl c ctx rpc q s = Some (Ok x, s')" and "q = VerifySession \<or> (\<exists>ep. q = CheckAuthorization ep)"
  obtains i s1 where "serve gl ((c i)\<lparr>c_ctx := ctx\<rparr>) q s1 = Some (Ok x, s')" "s_db s1 = s_db s" "i = 0 \<longrightarrow> s1 = s"
proof -
  from assms(1) obtain i s1 where r: "recovering (serve gl ((c i)\<lparr>c_ctx := ctx\<rparr>) q) s1 = Some (Ok x, s')"
    "s1 = s \<or> (\<exists>y. recovering (serve gl ((c 0)\<lparr>c_ctx := ctx\<rparr>) q) s = Some (y, s1))" "i = 0 \<longrightarrow> s1 = s"
    unfolding identityClient_def by (rule client_Call_Ok)
  from r(2) have db: "s_db s1 = s_db s" by (auto dest!: recovering_runs intro: serve_reads [OF _ assms(2)])
  show ?thesis by (rule that [OF recovering_Ok [OF r(1)] db r(3)])
qed

lemma verify_headers [simp]:
  "HeaderAuthenticatedSession \<noteq> HeaderTenantID" "HeaderAuthenticatedUser \<noteq> HeaderTenantID" "HeaderClientIP \<noteq> HeaderTenantID"
  "HeaderClientIP \<noteq> HeaderAuthenticatedSession" "HeaderAuthenticatedUser \<noteq> HeaderRequestID"
  "HeaderClientIP \<noteq> HeaderAuthenticatedUser"
  by (simp_all add: HeaderAuthenticatedSession_def HeaderTenantID_def HeaderAuthenticatedUser_def HeaderClientIP_def HeaderRequestID_def)

lemma verify_call:
  assumes "identityClient G gl (g_verify G) (verify_ctx r) ''VerifySession'' VerifySession s = Some (Ok x, s')"
  shows "\<exists>user key. x = UserResponse user \<and> pu_Session user = Some key \<and> verified G r s user"
proof -
  obtain i s1 where call: "serve gl ((g_verify G i)\<lparr>c_ctx := verify_ctx r\<rparr>) VerifySession s1 = Some (Ok x, s')"
    and s1: "s_db s1 = s_db s" "i = 0 \<longrightarrow> s1 = s"
    by (rule identityClient_Ok [OF assms]) simp_all
  from call have "Transaction (c_trial (g_verify G i)) (\<lambda>E. h_VerifySession E gl (verify_ctx r)) s1 = Some (Ok x, s')"
    by (simp add: serve_def)
  from Transaction_Ok [OF this] obtain a :: attempt and s0 where a: "a \<in> set (tr_attempts (c_trial (g_verify G i)))"
    "h_VerifySession (at_env a) gl (verify_ctx r) s0 = (Ok x, s')" "s_db s0 = s_db s"
    "length (tr_attempts (c_trial (g_verify G i))) \<le> 1 \<longrightarrow> s0 = s1"
    unfolding s1(1) by blast
  from h_VerifySession_Ok [OF a(2)] obtain tid p u key where v:
    "verifySession (at_env a) (verify_ctx r) (s_kv s0) (Header_Get r HeaderAuthenticatedSession) = Ok p"
    "getUser (at_env a) gl (s_db s) tid (sp_ID p) = Ok u" "x = UserResponse (u\<lparr>pu_Session := Some key\<rparr>)"
    by (auto simp: GetAuthenticatedSession_def verify_ctx_def a(3))
  from getUser_row [OF v(2)] obtain row where row: "row \<in> set (t_user (s_db s))" "mu_ID row = sp_ID p"
    "pu_Id u = sp_ID p" "pu_Account u = mu_Account row" "userRoles (at_env a) (s_db s) (sp_ID p) = Ok (pu_Roles u)"
    by blast
  have "verified G r s (u\<lparr>pu_Session := Some key\<rparr>)"
    unfolding verified_def
    by (intro exI [of _ i] bexI [OF _ a(1)] exI [of _ "s_kv s0"] exI [of _ p] exI [of _ row]) (use v(1) row a(4) s1(2) in auto)
  with v(3) show ?thesis by simp
qed

lemma check_call:
  assumes "identityClient G gl (g_check G) (check_ctx r b) ''CheckAuthorization'' (CheckAuthorization ep) s = Some (Ok x, s')"
    and "user_codec G" and "g_MarshalUser G user = Ok b"
  shows "authorized G gl r user ep"
proof -
  obtain i s1 where call: "serve gl ((g_check G i)\<lparr>c_ctx := check_ctx r b\<rparr>) (CheckAuthorization ep) s1 = Some (Ok x, s')"
    by (rule identityClient_Ok [OF assms(1)]) simp_all
  have u: "e_UnmarshalUser (c_env (g_check G i)) b = Some user" using assms(2,3) by (simp add: user_codec_def)
  from call have "h_CheckAuthorization (c_trial (g_check G i)) (c_env (g_check G i)) gl (check_ctx r b) ep s1 = Some (Ok x, s')"
    by (simp add: serve_def)
  from h_CheckAuthorization_Ok [OF this] obtain tid where
    "ParseUint (request_tenant r) = Some tid" "isAdmin gl (pu_Roles user) \<or> (\<exists>t. pu_Tenant user = Some t \<and> pt_Id t = tid)"
    "\<exists>x \<in> set (pu_Roles user @ [user_role_entry]). fst (Enforce (c_env (g_check G i)) gl (pr_Role x) (pr_Solution x) ep)"
    by (auto simp: GetTenantID_def GetAuthenticatedUser_def check_ctx_def u split: option.splits)
  then show ?thesis unfolding authorized_def by blast
qed

definition forwarded :: "genv \<Rightarrow> http_req \<Rightarrow> string \<Rightarrow> http_req" where
  "forwarded G r b = Header_Set HeaderRequestID (g_RequestID G) (Header_Set HeaderAuthenticatedUser b r)"

lemma forwarded_user: "Header_Get (forwarded G r b) HeaderAuthenticatedUser = b"
  by (simp add: forwarded_def Header_Get_def Header_Set_def)

lemma status_not_missing: "\<not> errors_Equal (Some (MicroErr c d x)) registry_ErrNotFound"
  by (simp add: registry_ErrNotFound_def)

text \<open>
  The routes that the gateway remembers never answer for the router: the error of a missing
  service reaches the comparison with \<open>registry.ErrNotFound\<close> as a go-micro status, whose text is another.
\<close>

theorem routes_never_remembered:
  "fst (endpoint_of G ctx r g) = Ok name \<longleftrightarrow> g_route G r = Ok name"
  by (cases "g_route G r")
    (auto simp: endpoint_of_def route_def StatusErr_def status_not_missing simp del: errors_Equal_Some
      split: option.split if_splits)

text \<open>The outcome of the wrapper does not depend on what it wraps, or it is that of the wrapped handler.\<close>

lemma authorize_cases:
  assumes "user_codec G"
  shows "(\<exists>out. \<forall>next. authorize G gl next user r g = out) \<or>
    (\<exists>b ep g1. g_MarshalUser G user = Ok b \<and> authorized G gl r user ep \<and>
       g_route G r = Ok ep \<and>
       (\<forall>next. authorize G gl next user r g = next (forwarded G r b) g1))"
proof (cases "g_MarshalUser G user")
  case (Ok b)
  obtain e g1 where e: "endpoint_of G (check_ctx r b) r g = (e, g1)" by (cases "endpoint_of G (check_ctx r b) r g")
  show ?thesis
  proof (cases e)
    case (Ok ep)
    have src: "g_route G r = Ok ep" using routes_never_remembered [of G "check_ctx r b" r g ep] e Ok by simp
    show ?thesis
    proof (cases "identityClient G gl (g_check G) (check_ctx r b) ''CheckAuthorization'' (CheckAuthorization ep) (gt_sys g1)")
      case None
      then show ?thesis by (auto simp: authorize_def \<open>g_MarshalUser G user = Ok b\<close> e Ok)
    next
      case (Some q)
      obtain c s2 where q: "q = (c, s2)" by (cases q)
      show ?thesis
      proof (cases c)
        case (Ok x)
        have "authorized G gl r user ep"
          by (rule check_call [OF _ assms \<open>g_MarshalUser G user = Ok b\<close>]) (use Some q Ok in simp)
        moreover have "\<forall>next. authorize G gl next user r g = next (forwarded G r b) (g1\<lparr>gt_sys := s2\<rparr>)"
          by (simp add: authorize_def \<open>g_MarshalUser G user = Ok b\<close> e \<open>e = Ok ep\<close> Some q Ok forwarded_def)
        ultimately show ?thesis using src \<open>g_MarshalUser G user = Ok b\<close> by blast
      qed (auto simp: authorize_def \<open>g_MarshalUser G user = Ok b\<close> e \<open>e = Ok ep\<close> Some q)
    qed
  qed (auto simp: authorize_def Ok e)
qed (auto simp: authorize_def Let_def split_beta)

lemma auth_cases:
  assumes "\<not> exempt r" and "user_codec G"
  shows "(\<exists>out. \<forall>next. authHandler G gl next r g = out) \<or>
    (\<exists>user key b ep g1. verified G r (gt_sys g) user \<and> g_MarshalUser G user = Ok b \<and> authorized G gl r user ep \<and>
       g_route G r = Ok ep \<and>
       Header_Get (forwarded G r b) HeaderAuthenticatedUser = b \<and>
       (\<forall>next. authHandler G gl next r g =
          (case next (forwarded G r b) g1 of (ops, f, g') \<Rightarrow> (SetHeader HeaderAuthenticatedSession key # ops, f, g'))))"
proof (cases "identityClient G gl (g_verify G) (verify_ctx r) ''VerifySession'' VerifySession (gt_sys g)")
  case None
  then show ?thesis using assms(1) by (auto simp: authHandler_def)
next
  case (Some q)
  obtain v s1 where q: "q = (v, s1)" by (cases q)
  show ?thesis
  proof (cases v)
    case (Ok x)
    from verify_call [of G gl r "gt_sys g" x s1] Some q Ok obtain user key where
      u: "x = UserResponse user" "pu_Session user = Some key" "verified G r (gt_sys g) user"
      by blast
    have eq: "authHandler G gl next r g =
        (case authorize G gl next user r (g\<lparr>gt_sys := s1\<rparr>) of (ops, f, g') \<Rightarrow> (SetHeader HeaderAuthenticatedSession key # ops, f, g'))" for "next"
      by (simp add: authHandler_def assms(1) Some q Ok u)
    from authorize_cases [OF assms(2), of gl user r "g\<lparr>gt_sys := s1\<rparr>"]
    show ?thesis
    proof (rule disjE)
      assume "\<exists>out. \<forall>next. authorize G gl next user r (g\<lparr>gt_sys := s1\<rparr>) = out"
      then show ?thesis by (auto simp: eq)
    next
      assume "\<exists>b ep g1. g_MarshalUser G user = Ok b \<and> authorized G gl r user ep \<and>
        g_route G r = Ok ep \<and>
        (\<forall>next. authorize G gl next user r (g\<lparr>gt_sys := s1\<rparr>) = next (forwarded G r b) g1)"
      then obtain b ep g1 where a: "g_MarshalUser G user = Ok b" "authorized G gl r user ep"
        "g_route G r = Ok ep"
        "\<And>next. authorize G gl next user r (g\<lparr>gt_sys := s1\<rparr>) = next (forwarded G r b) g1"
        by auto
      show ?thesis
        by (rule disjI2, rule exI [of _ user], rule exI [of _ key], rule exI [of _ b], rule exI [of _ ep], rule exI [of _ g1])
          (simp add: u a eq forwarded_user)
    qed
  qed (auto simp: authHandler_def assms(1) Some q)
qed

text \<open>
  Claim C3.  The gateway authenticates: a request outside the login and session-check paths either gets an
  answer that no service had a part in, or it is forwarded with the user whose session the key names, the
  user's row and roles come from the database, the session verified for the address of the client, some role
  of the user is allowed the endpoint that the router gives, the user may act in the tenant, and a user header that the client
  sent is overwritten.
\<close>

theorem gateway_authenticates:
  assumes "\<not> exempt r" and "user_codec G"
  shows "(\<exists>out. \<forall>next. authHandler G gl next r g = out) \<or>
    (\<exists>user key b ep g1. verified G r (gt_sys g) user \<and> g_MarshalUser G user = Ok b \<and> authorized G gl r user ep \<and>
       g_route G r = Ok ep \<and>
       Header_Get (forwarded G r b) HeaderAuthenticatedUser = b \<and>
       (\<forall>next. authHandler G gl next r g =
          (case next (forwarded G r b) g1 of (ops, f, g') \<Rightarrow> (SetHeader HeaderAuthenticatedSession key # ops, f, g'))))"
  by (rule auth_cases [OF assms])

section \<open>Endpoints\<close>

lemma exempt_path: "exempt r \<longleftrightarrow> hr_Method r \<noteq> ''DELETE'' \<and> (hr_Path r = loginPath \<or> hr_Path r = sessionCheckPath)"
  by (auto simp: exempt_def)

lemma exempt_segments:
  "SplitChar (CHR ''/'') loginPath = ['''', ''identity'', ''auth'']"
  "SplitChar (CHR ''/'') sessionCheckPath = ['''', ''identity'', ''sessions'', ''check'']"
  by (simp_all add: loginPath_def sessionCheckPath_def)

lemma identity_exempt:
  "\<forall>e \<in> set NewIdentityEndpoints. \<forall>m \<in> set (ep_Method e). \<forall>t \<in> set (ep_Path e).
     m \<noteq> ''DELETE'' \<and> (template_match t loginPath \<or> template_match t sessionCheckPath) \<longrightarrow>
     ep_Name e = ''Identity.Login'' \<or> ep_Name e = ''Identity.VerifySession''"
  unfolding NewIdentityEndpoints_def template_match_def exempt_segments api_endpoint_def
  by (simp add: segment_match_def)

lemma notification_exempt:
  "\<forall>e \<in> set NewNotificationEndpoints. \<forall>t \<in> set (ep_Path e). \<not> template_match t loginPath \<and> \<not> template_match t sessionCheckPath"
  unfolding NewNotificationEndpoints_def template_match_def exempt_segments api_endpoint_def
  by (simp add: segment_match_def)

text \<open>
  A request that the gateway does not authenticate matches no endpoint of the services but
  \<open>Login\<close> and \<open>VerifySession\<close>: in particular neither logging out nor revoking the session \<open>check\<close>.
\<close>

theorem exempt_endpoints:
  assumes "exempt r" and "e \<in> set (NewIdentityEndpoints @ NewNotificationEndpoints)" and "endpoint_match e r"
  shows "ep_Name e \<in> {request_endpoint (Login q), request_endpoint VerifySession}"
proof -
  obtain t where t: "t \<in> set (ep_Path e)" "template_match t (hr_Path r)"
    using assms(3) by (auto simp: endpoint_match_def)
  have m: "hr_Method r \<in> set (ep_Method e)" "hr_Method r \<noteq> ''DELETE''"
    using assms(1,3) by (simp_all add: endpoint_match_def exempt_path)
  have p: "template_match t loginPath \<or> template_match t sessionCheckPath"
    using assms(1) t(2) by (auto simp: exempt_path)
  have "e \<in> set NewIdentityEndpoints"
    using assms(2) p bspec [OF bspec [OF notification_exempt] t(1)] by auto
  from bspec [OF bspec [OF bspec [OF identity_exempt this] m(1)] t(1)] m(2) p show ?thesis by simp
qed

section \<open>Addresses\<close>

lemma hd_SplitChar: "hd (SplitChar c s) = takeWhile (\<lambda>x. x \<noteq> c) s"
proof (induction s)
  case Nil
  then show ?case by simp
next
  case (Cons x s)
  then show ?case by (cases "SplitChar c s") auto
qed

text \<open>
  The client address that sessions are bound to: the host for an address \<open>host:port\<close> without a
  colon in the host, but only the part before the first colon for an IPv6 peer, so that all peers that share
  their first group count as one client.
\<close>

theorem client_address:
  "(hr_RemoteAddr r = host @ CHR '':'' # port \<and> CHR '':'' \<notin> set host \<longrightarrow> verify_ctx r HeaderClientIP = Some host) \<and>
   (hr_RemoteAddr r = ''['' @ first @ CHR '':'' # rest \<and> CHR '':'' \<notin> set first \<longrightarrow>
      verify_ctx r HeaderClientIP = Some (''['' @ first))"
proof -
  have "takeWhile (\<lambda>x. x \<noteq> CHR '':'') (xs @ CHR '':'' # ys) = xs" if "CHR '':'' \<notin> set xs" for xs ys
    using that by (induction xs) auto
  moreover have "verify_ctx r HeaderClientIP = Some (takeWhile (\<lambda>x. x \<noteq> CHR '':'') (hr_RemoteAddr r))"
    by (simp add: verify_ctx_def remoteIP_def hd_SplitChar)
  ultimately show ?thesis by auto
qed

section \<open>Errors on their way back\<close>

definition plain_request :: "http_req \<Rightarrow> bool" where
  "plain_request r \<longleftrightarrow> ToUpper (hr_Method r) \<noteq> ''OPTIONS'' \<and>
     hr_Query r HeaderAuthenticatedSession = None \<and> hr_Query r HeaderTenantID = None"

lemma websocket_plain: "plain_request r \<Longrightarrow> websocketHandler next r g = next r g"
proof -
  assume p: "plain_request r"
  then have "(hr_Query r)(HeaderAuthenticatedSession := None, HeaderTenantID := None) = hr_Query r"
    by (auto simp: plain_request_def fun_eq_iff)
  with p show ?thesis by (simp add: websocketHandler_def query_header_def plain_request_def)
qed

lemma cors_plain: "plain_request r \<Longrightarrow> corsHandler next r g = (case next r g of (ops, f, g1) \<Rightarrow> (cors_headers @ ops, f, g1))"
  by (simp add: corsHandler_def plain_request_def)

text \<open>
  A request without a valid session gets the status of the identity service and its event message
  as JSON, under the headers of the gateway, and the wrapped RPC handler is not called: for every \<open>rpc\<close> the
  answer is the same.
\<close>

theorem rejection_reported:
  assumes "\<not> exempt r" and "plain_request r" and "Header_Get r ''Content-Type'' = ''application/json''"
    and "identityClient G gl (g_verify G) (verify_ctx r) ''VerifySession'' VerifySession (gt_sys g) = Some (Fail err, s)"
    and "ce = g_Parse G (g_Error G err)" and "400 \<le> mic_Code ce" and "mic_Code ce \<noteq> 500" and "mic_Detail ce \<noteq> []"
    and "g_UnmarshalError G (g_ErrorJSON G ce) = Some ce" and "g_MarshalMessage G (parseError G (mic_Detail ce)) = Some b"
  shows "\<exists>ops. gateway_handler G gl rpc r g = (ops, Finished, g\<lparr>gt_sys := s\<rparr>) \<and> http_status ops = mic_Code ce \<and>
    rs_Body (http_run ops) = b \<and>
    (\<exists>h. rs_sent (http_run ops) = Some (mic_Code ce, h) \<and> h ''Content-Type'' = Some ''application/json'' \<and>
         h ''Access-Control-Allow-Origin'' = Some ''*'')"
proof -
  have w: "writeError G r err =
      [WriteHeader (mic_Code ce), SetHeader ''Content-Type'' ''application/json'', WriteBody (g_ErrorJSON G ce)]"
    using assms(3,6) by (simp add: writeError_def Let_def assms(5))
  have a: "authHandler G gl rpc r g = (writeError G r err, Finished, g\<lparr>gt_sys := s\<rparr>)"
    using assms(1) by (simp add: authHandler_def assms(4))
  have f: "errorFilterHandler G (authHandler G gl rpc) r g =
      ([SetHeader ''Content-Type'' ''application/json'', WriteHeader (mic_Code ce), WriteBody (g_ErrorJSON G ce)],
       Finished, g\<lparr>gt_sys := s\<rparr>)"
    using assms(7) by (simp add: errorFilterHandler_def a w filter_run_def flush_def Let_def)
  have c: "errorConversionHandler G (errorFilterHandler G (authHandler G gl rpc)) r g =
      ([SetHeader ''Content-Type'' ''application/json'', WriteHeader (mic_Code ce), WriteBody b], Finished, g\<lparr>gt_sys := s\<rparr>)"
    by (simp add: errorConversionHandler_def f conversion_Write_def assms(8-10))
  have "gateway_handler G gl rpc r g =
      (cors_headers @ [SetHeader ''Content-Type'' ''application/json'', WriteHeader (mic_Code ce), WriteBody b],
       Finished, g\<lparr>gt_sys := s\<rparr>)"
    by (simp add: gateway_handler_def NewAPIGatewayHandler_def cors_plain [OF assms(2)] websocket_plain [OF assms(2)] c)
  then show ?thesis
    using assms(6) by (simp add: http_status_def http_run_def cors_headers_def send_def bodyAllowed_def)
qed

section \<open>A gateway before the sample installation\<close>

text \<open>The key \<open>.\<close> names the session of user 2; every payload decodes to that session.\<close>

definition gate_payload :: session_payload where
  "gate_payload = \<lparr>sp_ID = 2, sp_CreateDate = 2000, sp_ExpiryDate = 3000, sp_MagicNumber = 7, sp_ClientIP = ''10.0.0.1''\<rparr>"

definition gate_env :: env where
  "gate_env = sample_env\<lparr>e_MarshalPayload := \<lambda>_. [], e_UnmarshalPayload := \<lambda>_. Some (Some gate_payload)\<rparr>"

definition gate_call :: call where
  "gate_call = \<lparr>c_ctx = Map.empty,
     c_trial = \<lparr>tr_begin = None, tr_savepoint = None,
       tr_attempts = [\<lparr>at_env = gate_env, at_release = Released, at_restart = None\<rparr>]\<rparr>,
     c_failed = sample_trial, c_env = gate_env\<rparr>"

definition session_sys :: sys where
  "session_sys = sample_sys\<lparr>s_kv := [(storeKey 2, ''.'', None)]\<rparr>"

definition sample_req :: "string \<Rightarrow> string \<Rightarrow> http_req" where
  "sample_req path session =
     \<lparr>hr_Method = ''GET'', hr_Path = path, hr_RemoteAddr = ''10.0.0.1:4711'',
      hr_Header = [HeaderAuthenticatedSession \<mapsto> [session], HeaderTenantID \<mapsto> [''1''], ''Content-Type'' \<mapsto> [''application/json''],
                   HeaderAuthenticatedUser \<mapsto> [''root'']],
      hr_Query = Map.empty\<rparr>"

definition verified_alice :: p_user where
  "verified_alice = alice_user\<lparr>pu_Session := Some ''.'',
     pu_Groups := [\<lparr>pg_Id = 2, pg_Tenant = None, pg_Name = ''dev'', pg_Remarks = [], pg_CreatedAt = 1000, pg_UpdatedAt = 1000\<rparr>]\<rparr>"

definition check_env :: env where
  "check_env = gate_env\<lparr>e_UnmarshalUser := (\<lambda>v. if v = ''alice'' then Some verified_alice else None)\<rparr>"

definition sample_genv :: genv where
  "sample_genv =
     \<lparr>g_verify = (\<lambda>_. gate_call), g_check = (\<lambda>_. gate_call\<lparr>c_env := check_env\<rparr>), g_env = sample_env,
      g_net = (\<lambda>_ _. Delivered), g_arrive = id, g_route = (\<lambda>_. Ok ''Identity.GetUser''),
      g_MarshalUser = (\<lambda>u. if u = verified_alice then Ok ''alice'' else Fail (PlainErr ''json'')),
      g_Error = (\<lambda>e. case e of MicroErr c d _ \<Rightarrow> FormatInt c @ '' '' @ d | _ \<Rightarrow> error_msg e),
      g_Parse = (\<lambda>t. \<lparr>mic_Id = ''cdm'', mic_Code = 401, mic_Detail = t, mic_Status = ''Unauthorized''\<rparr>),
      g_ErrorJSON = (\<lambda>e. mic_Detail e), g_StatusText = (\<lambda>_. ''Unauthorized''), g_FromRequest = (\<lambda>_. Map.empty),
      g_UnmarshalError = (\<lambda>t. Some \<lparr>mic_Id = ''cdm'', mic_Code = 401, mic_Detail = t, mic_Status = ''Unauthorized''\<rparr>),
      g_UnmarshalMessage = (\<lambda>_. None), g_MarshalMessage = (\<lambda>(c, _). Some c), g_RequestID = ''1''\<rparr>"

definition answer :: "int \<Rightarrow> handler" where
  "answer c r g = ([WriteHeader c], Finished, g)"

definition sample_gateway :: gateway where
  "sample_gateway = \<lparr>gt_sys = session_sys, gt_services = Map.empty\<rparr>"

lemma sample_exempt [simp]: "\<not> exempt (sample_req ''/identity/users/2'' k)"
  by (simp add: exempt_path sample_req_def loginPath_def sessionCheckPath_def)

lemma sample_codec: "user_codec sample_genv"
  by (simp add: user_codec_def sample_genv_def check_env_def)

lemma sample_gateway_passes:
  "WriteHeader 200 \<in> set (fst (authHandler sample_genv sample_globals (answer 200) (sample_req ''/identity/users/2'' ''.'') sample_gateway))"
  by code_simp

lemma sample_gateway_passes_on:
  "WriteHeader 200 \<notin> set (fst (authHandler sample_genv sample_globals (answer 201) (sample_req ''/identity/users/2'' ''.'') sample_gateway))"
  by code_simp

theorem gateway_authenticates_witness:
  "\<exists>user. verified sample_genv (sample_req ''/identity/users/2'' ''.'') session_sys user \<and>
     authorized sample_genv sample_globals (sample_req ''/identity/users/2'' ''.'') user ''Identity.GetUser''"
proof -
  have "\<not> (\<exists>out. \<forall>next. authHandler sample_genv sample_globals next (sample_req ''/identity/users/2'' ''.'') sample_gateway = out)"
    using sample_gateway_passes sample_gateway_passes_on by metis
  with gateway_authenticates [where gl = sample_globals and g = sample_gateway, OF sample_exempt [of "''.''"] sample_codec] obtain user ep where
    "verified sample_genv (sample_req ''/identity/users/2'' ''.'') (gt_sys sample_gateway) user"
    "authorized sample_genv sample_globals (sample_req ''/identity/users/2'' ''.'') user ep"
    "g_route sample_genv (sample_req ''/identity/users/2'' ''.'') = Ok ep"
    by blast
  then show ?thesis by (auto simp: sample_gateway_def sample_genv_def)
qed

theorem exempt_endpoints_witness:
  "ep_Name (api_endpoint ''Identity.VerifySession'' [''/identity/sessions/check''] [''GET''] '''') \<in>
     {request_endpoint (Login \<lparr>lr_Account = [], lr_Password = [], lr_Force = False\<rparr>), request_endpoint VerifySession}"
  by (rule exempt_endpoints [of "sample_req sessionCheckPath []"])
    (simp_all add: exempt_path sample_req_def NewIdentityEndpoints_def endpoint_match_def api_endpoint_def
      template_match_def sessionCheckPath_def segment_match_def)

theorem client_address_witness:
  "verify_ctx ((sample_req loginPath [])\<lparr>hr_RemoteAddr := ''[2001:db8::7]:4711''\<rparr>) HeaderClientIP = Some ''[2001''"
  using client_address [of "(sample_req loginPath [])\<lparr>hr_RemoteAddr := ''[2001:db8::7]:4711''\<rparr>" _ _ "''2001''" "''db8::7]:4711''"]
  by simp

lemma sample_plain: "plain_request (sample_req p k)"
  by (simp add: plain_request_def sample_req_def ToUpper_def)

definition rejected :: "goerr \<times> sys" where
  "rejected = (case identityClient sample_genv sample_globals (g_verify sample_genv) (verify_ctx (sample_req ''/identity/users/2'' ''forged''))
     ''VerifySession'' VerifySession session_sys of Some (Fail e, s) \<Rightarrow> (e, s) | _ \<Rightarrow> (PlainErr [], session_sys))"

lemma sample_rejected:
  "case identityClient sample_genv sample_globals (g_verify sample_genv) (verify_ctx (sample_req ''/identity/users/2'' ''forged''))
     ''VerifySession'' VerifySession session_sys of Some (Fail e, s) \<Rightarrow> g_Error sample_genv e \<noteq> [] | _ \<Rightarrow> False"
  by code_simp

theorem rejection_reported_witness:
  "\<exists>ops g'. gateway_handler sample_genv sample_globals (answer 200) (sample_req ''/identity/users/2'' ''forged'') sample_gateway =
     (ops, Finished, g') \<and> http_status ops = 401"
proof -
  obtain err s where e: "identityClient sample_genv sample_globals (g_verify sample_genv) (verify_ctx (sample_req ''/identity/users/2'' ''forged''))
     ''VerifySession'' VerifySession session_sys = Some (Fail err, s)" "g_Error sample_genv err \<noteq> []"
    using sample_rejected by (auto split: option.splits res.splits)
  define ce where "ce = g_Parse sample_genv (g_Error sample_genv err)"
  have c: "mic_Code ce = 401" "mic_Detail ce \<noteq> []" "g_UnmarshalError sample_genv (g_ErrorJSON sample_genv ce) = Some ce"
    "g_MarshalMessage sample_genv (parseError sample_genv (mic_Detail ce)) = Some (mic_Detail ce)"
    using e(2) by (simp_all add: ce_def sample_genv_def parseError_def)
  have h: "Header_Get (sample_req p k) ''Content-Type'' = ''application/json''" for p k
    by (simp add: Header_Get_def sample_req_def HeaderAuthenticatedSession_def HeaderTenantID_def HeaderAuthenticatedUser_def)
  have v: "identityClient sample_genv sample_globals (g_verify sample_genv) (verify_ctx (sample_req ''/identity/users/2'' ''forged''))
     ''VerifySession'' VerifySession (gt_sys sample_gateway) = Some (Fail err, s)"
    using e(1) by (simp add: sample_gateway_def)
  from rejection_reported [OF sample_exempt sample_plain h v ce_def _ _ c(2-4), of "answer 200"] c(1)
  show ?thesis by auto
qed

end
