(* ===== verification/Spec_Notification.thy ===== *)
theory Spec_Notification
  imports Sample_Notification Spec_Gateway "HOL-Library.Multiset"
begin

text \<open>
  What the notification service promises: its settings read back as they were written, events are stored
  once, listed by tenant and newest first, streamed without loss and cleaned by age; who is notified, and
  which settings cannot be delivered with.
\<close>

section \<open>Settings\<close>

definition config_row :: "u64 \<Rightarrow> string \<Rightarrow> m_tenant_config \<Rightarrow> bool" where
  "config_row tid k c \<longleftrightarrow> mtc_TenantID c = tid \<and> mtc_Key c = k"

definition stored :: "db \<Rightarrow> u64 \<Rightarrow> string \<Rightarrow> string \<Rightarrow> bool" where
  "stored d tid k v \<longleftrightarrow> map mtc_Value (filter (config_row tid k) (t_tenant_config d)) = [v]"

definition unique_configs :: "db \<Rightarrow> bool" where
  "unique_configs d \<longleftrightarrow> distinct (map cfg_key (t_tenant_config d))"

lemma config_row_key: "config_row (mtc_TenantID r) (mtc_Key r) = (\<lambda>c. cfg_key c = cfg_key r)"
  by (auto simp: config_row_def cfg_key_def)

lemma filter_key_replace:
  "distinct (map f xs) \<Longrightarrow> f r \<in> f ` set xs \<Longrightarrow>
    filter (\<lambda>c. f c = f r) (map (\<lambda>y. if f y = f r then r else y) xs) = [r]"
proof (induction xs)
  case Nil
  then show ?case by simp
next
  case (Cons x xs)
  show ?case
  proof (cases "f x = f r")
    case True
    with Cons.prems(1) have "f r \<notin> f ` set xs" by auto
    then have "filter (\<lambda>c. f c = f r) (map (\<lambda>y. if f y = f r then r else y) xs) = []"
      by (auto simp: filter_empty_conv image_iff)
    with True show ?thesis by simp
  next
    case False
    with Cons show ?thesis by auto
  qed
qed

lemma filter_other_replace:
  "(\<And>y. P y \<Longrightarrow> f y \<noteq> f r) \<Longrightarrow> filter P (map (\<lambda>y. if f y = f r then r else y) xs) = filter P xs"
  by (induction xs) auto

lemma save_stored:
  assumes "tenant_config_save E r d = Ok d'" and "unique_configs d"
  shows "stored d' (mtc_TenantID r) (mtc_Key r) (mtc_Value r) \<and> unique_configs d' \<and>
    (\<forall>k v. k \<noteq> mtc_Key r \<and> stored d (mtc_TenantID r) k v \<longrightarrow> stored d' (mtc_TenantID r) k v)"
proof -
  have other: "cfg_key y \<noteq> cfg_key r" if "config_row (mtc_TenantID r) k y" "k \<noteq> mtc_Key r" for k y
    using that by (auto simp: config_row_def cfg_key_def)
  from tenant_config_save_Ok [OF assms(1)] show ?thesis
  proof (elim disjE conjE)
    assume k: "cfg_key r \<in> cfg_key ` set (t_tenant_config d)"
      and d': "d' = d\<lparr>t_tenant_config := map (\<lambda>y. if cfg_key y = cfg_key r then r else y) (t_tenant_config d)\<rparr>"
    have "map cfg_key (map (\<lambda>y. if cfg_key y = cfg_key r then r else y) (t_tenant_config d)) = map cfg_key (t_tenant_config d)"
      by simp
    then have "unique_configs d'" using assms(2) by (simp add: d' unique_configs_def del: map_map)
    moreover have "stored d' (mtc_TenantID r) (mtc_Key r) (mtc_Value r)"
      using filter_key_replace [OF assms(2) [unfolded unique_configs_def] k]
      by (simp add: stored_def d' config_row_key)
    moreover have "filter (config_row (mtc_TenantID r) k) (t_tenant_config d') = filter (config_row (mtc_TenantID r) k) (t_tenant_config d)"
      if "k \<noteq> mtc_Key r" for k
      unfolding d' by (simp, rule filter_other_replace) (rule other [OF _ that])
    ultimately show ?thesis by (simp add: stored_def)
  next
    assume k: "cfg_key r \<notin> cfg_key ` set (t_tenant_config d)" and d': "d' = d\<lparr>t_tenant_config := t_tenant_config d @ [r]\<rparr>"
    have "filter (\<lambda>c. cfg_key c = cfg_key r) (t_tenant_config d) = []"
      using k by (auto simp: filter_empty_conv image_iff)
    then have "stored d' (mtc_TenantID r) (mtc_Key r) (mtc_Value r)"
      by (simp add: stored_def d' config_row_key)
    moreover have "\<not> config_row (mtc_TenantID r) k r" if "k \<noteq> mtc_Key r" for k
      using that by (simp add: config_row_def)
    ultimately show ?thesis using assms(2) k by (auto simp: stored_def unique_configs_def d')
  qed
qed

lemma set_stored:
  assumes "setConfigValue p E tid k v d = Ok d'" and "unique_configs d"
  obtains x t where "v = Some x" "p x = Ok t" "stored d' tid k t" "unique_configs d'"
    "\<And>k' v'. k' \<noteq> k \<Longrightarrow> stored d tid k' v' \<Longrightarrow> stored d' tid k' v'"
proof -
  from setConfigValue_save [OF assms(1)] obtain x t where x: "v = Some x" "p x = Ok t"
    "tenant_config_save E \<lparr>mtc_TenantID = tid, mtc_Key = k, mtc_Value = t\<rparr> d = Ok d'"
    by blast
  from save_stored [OF x(3) assms(2)] x(1,2) show ?thesis by (intro that) auto
qed

lemma getConfigOne_stored:
  assumes "stored d tid k v" and "tid \<noteq> 0" and "k \<noteq> []" and "e_fault E (''getConfigOne '' @ k) tid = None"
  shows "getConfigOne E d tid k = Ok v"
proof -
  have "(\<lambda>c. if_given tid (mtc_TenantID c) \<and> if_given_str k (mtc_Key c)) = config_row tid k"
    using assms(2,3) by (auto simp: if_given_def if_given_str_def config_row_def)
  moreover obtain c where "filter (config_row tid k) (t_tenant_config d) = [c]" "mtc_Value c = v"
    using assms(1) by (auto simp: stored_def)
  ultimately show ?thesis using assms(4) by (simp add: getConfigOne_def db_FindOne_def exec_def)
qed

lemma ParseBool_FormatBool: "ParseBool (FormatBool b) = Some b"
  by (rule bool_codec.dec_enc) simp

lemma ucast_u32_u64: "(ucast (ucast (v :: u32) :: u64) :: u32) = v"
  by (simp add: unsigned_ucast_eq take_bit_word_eq_self)

text \<open>The settings that have been stored so far, one \<open>setConfigValue\<close> after another.\<close>

definition all_stored :: "u64 \<Rightarrow> (string \<times> string) list \<Rightarrow> db \<Rightarrow> bool" where
  "all_stored tid kvs d \<longleftrightarrow> unique_configs d \<and> (\<forall>(k, v) \<in> set kvs. stored d tid k v)"

lemma set_next:
  assumes "setConfigValue p E tid k v d = Ok d'" and "all_stored tid kvs d" and "k \<notin> fst ` set kvs"
  obtains x t where "v = Some x" "p x = Ok t" "all_stored tid ((k, t) # kvs) d'"
proof -
  obtain x t where v: "v = Some x" "p x = Ok t" and t: "stored d' tid k t" "unique_configs d'"
    and old: "\<And>k' v'. k' \<noteq> k \<Longrightarrow> stored d tid k' v' \<Longrightarrow> stored d' tid k' v'"
    by (rule set_stored [OF assms(1)]) (use assms(2) in \<open>auto simp: all_stored_def intro: that\<close>)
  have "stored d' tid k' v'" if "(k', v') \<in> set kvs" for k' v'
  proof (rule old)
    show "k' \<noteq> k" using that assms(3) by force
    show "stored d tid k' v'" using that assms(2) by (auto simp: all_stored_def)
  qed
  with t have "all_stored tid ((k, t) # kvs) d'" by (auto simp: all_stored_def)
  with v show ?thesis by (rule that)
qed

lemma n_SetConfig_stores:
  assumes "n_SetConfig N E tid c d = Ok d'" and "unique_configs d"
  obtains b1 b2 b3 b4 b5 b6 p m n t8 t9 where
    "c = \<lparr>nc_EventNotificationEnable = Some b1, nc_EventEmailNotificationEnable = Some b2, nc_EventDesktopNotificationEnable = Some b3,
       nc_EventPopupNotificationEnable = Some b4, nc_EventSmsNotificationEnable = Some b5, nc_EventCustomNotificationEnable = Some b6,
       nc_EventStorePeriod = Some p, nc_EventSmtpNotifier = Some m, nc_EventSmsNotifier = Some n\<rparr>"
    "n_MarshalSMTP N m = Ok t8" "n_MarshalSMS N n = Ok t9"
    "all_stored tid [(EventSMSNotifier, t9), (EventEmailNotifier, t8), (EventStorePeriod, FormatUint (ucast p)),
       (EventCustomNotificationEnable, FormatBool b6), (EventSmsNotificationEnable, FormatBool b5),
       (EventPopupNotificationEnable, FormatBool b4), (EventDesktopNotificationEnable, FormatBool b3),
       (EventEmailNotificationEnable, FormatBool b2), (EventNotificationEnable, FormatBool b1)] d'"
proof -
  have 0: "all_stored tid [] d" using assms(2) by (simp add: all_stored_def)
  from assms(1) obtain d1 d2 d3 d4 d5 d6 d7 d8 where s:
    "setConfigValue (\<lambda>b. Ok (FormatBool b)) E tid EventNotificationEnable (nc_EventNotificationEnable c) d = Ok d1"
    "setConfigValue (\<lambda>b. Ok (FormatBool b)) E tid EventEmailNotificationEnable (nc_EventEmailNotificationEnable c) d1 = Ok d2"
    "setConfigValue (\<lambda>b. Ok (FormatBool b)) E tid EventDesktopNotificationEnable (nc_EventDesktopNotificationEnable c) d2 = Ok d3"
    "setConfigValue (\<lambda>b. Ok (FormatBool b)) E tid EventPopupNotificationEnable (nc_EventPopupNotificationEnable c) d3 = Ok d4"
    "setConfigValue (\<lambda>b. Ok (FormatBool b)) E tid EventSmsNotificationEnable (nc_EventSmsNotificationEnable c) d4 = Ok d5"
    "setConfigValue (\<lambda>b. Ok (FormatBool b)) E tid EventCustomNotificationEnable (nc_EventCustomNotificationEnable c) d5 = Ok d6"
    "setConfigValue (\<lambda>v. Ok (FormatUint (ucast v))) E tid EventStorePeriod (nc_EventStorePeriod c) d6 = Ok d7"
    "setConfigValue (n_MarshalSMTP N) E tid EventEmailNotifier (nc_EventSmtpNotifier c) d7 = Ok d8"
    "setConfigValue (n_MarshalSMS N) E tid EventSMSNotifier (nc_EventSmsNotifier c) d8 = Ok d'"
    unfolding n_SetConfig_def setters bindR_Ok_iff by blast
  show ?thesis
    by (rule set_next [OF s(1) 0], simp, rule set_next [OF s(2)], assumption, simp add: n_keys, rule set_next [OF s(3)], assumption,
      simp add: n_keys, rule set_next [OF s(4)], assumption, simp add: n_keys, rule set_next [OF s(5)], assumption, simp add: n_keys,
      rule set_next [OF s(6)], assumption, simp add: n_keys, rule set_next [OF s(7)], assumption, simp add: n_keys,
      rule set_next [OF s(8)], assumption, simp add: n_keys, rule set_next [OF s(9)], assumption, simp add: n_keys)
      (rule that, rule n_config.equality, auto)
qed

text \<open>
  Claim C30.  The notification settings that \<open>SetConfig\<close> wrote are the ones that \<open>GetConfig\<close> reads, whatever
  other settings the tenants have, provided JSON round-trips the two notifiers.
\<close>

theorem notification_config_roundtrip:
  assumes "unique_configs d" and "tid \<noteq> 0" and "n_SetConfig N E tid c d = Ok d'"
    and "\<forall>x t. nc_EventSmtpNotifier c = Some x \<and> n_MarshalSMTP N x = Ok t \<longrightarrow> n_UnmarshalSMTP N t = Some x"
    and "\<forall>x t. nc_EventSmsNotifier c = Some x \<and> n_MarshalSMS N x = Ok t \<longrightarrow> n_UnmarshalSMS N t = Some x"
    and "\<forall>k. e_fault E' (''getConfigOne '' @ k) tid = None"
  shows "n_GetConfig N E' d' tid = Ok c"
proof (rule n_SetConfig_stores [OF assms(3,1)])
  fix b1 b2 b3 b4 b5 b6 p m n t8 t9
  assume c: "c = \<lparr>nc_EventNotificationEnable = Some b1, nc_EventEmailNotificationEnable = Some b2, nc_EventDesktopNotificationEnable = Some b3,
       nc_EventPopupNotificationEnable = Some b4, nc_EventSmsNotificationEnable = Some b5, nc_EventCustomNotificationEnable = Some b6,
       nc_EventStorePeriod = Some p, nc_EventSmtpNotifier = Some m, nc_EventSmsNotifier = Some n\<rparr>"
    and m: "n_MarshalSMTP N m = Ok t8" "n_MarshalSMS N n = Ok t9"
    and st: "all_stored tid [(EventSMSNotifier, t9), (EventEmailNotifier, t8), (EventStorePeriod, FormatUint (ucast p)),
       (EventCustomNotificationEnable, FormatBool b6), (EventSmsNotificationEnable, FormatBool b5),
       (EventPopupNotificationEnable, FormatBool b4), (EventDesktopNotificationEnable, FormatBool b3),
       (EventEmailNotificationEnable, FormatBool b2), (EventNotificationEnable, FormatBool b1)] d'"
  have read: "stored d' tid k v \<Longrightarrow> k \<noteq> [] \<Longrightarrow> getConfigOne E' d' tid k = Ok v" for k v
    by (erule getConfigOne_stored [OF _ assms(2)]) (use assms(6) in simp_all)
  have g: "getConfigOne E' d' tid EventNotificationEnable = Ok (FormatBool b1)" "getConfigOne E' d' tid EventEmailNotificationEnable = Ok (FormatBool b2)"
    "getConfigOne E' d' tid EventDesktopNotificationEnable = Ok (FormatBool b3)" "getConfigOne E' d' tid EventPopupNotificationEnable = Ok (FormatBool b4)"
    "getConfigOne E' d' tid EventSmsNotificationEnable = Ok (FormatBool b5)" "getConfigOne E' d' tid EventCustomNotificationEnable = Ok (FormatBool b6)"
    "getConfigOne E' d' tid EventStorePeriod = Ok (FormatUint (ucast p))" "getConfigOne E' d' tid EventEmailNotifier = Ok t8"
    "getConfigOne E' d' tid EventSMSNotifier = Ok t9"
    by (rule read; insert st; simp add: all_stored_def n_keys)+
  have j: "n_UnmarshalSMTP N t8 = Some m" "n_UnmarshalSMS N t9 = Some n" using assms(4,5) m by (simp_all add: c)
  show ?thesis
    unfolding n_GetConfig_def getConfigBool_def getConfigUint32_def getConfigEventSMTPNotifier_def getConfigEventSMSNotifier_def
    by (simp add: g j orUnknown_value_def ParseBool_FormatBool ParseUint_FormatUint ucast_u32_u64 c)
qed

section \<open>Receives\<close>

text \<open>
  Resetting the receives of one user leaves no receive of any user: the deletion carries no
  condition, because the blank code counts as a blank primary key.
\<close>

theorem reset_wipes_everyone:
  assumes "nh_ResetUserEventReceives tr E ctx s = Some (Ok x, s')"
  shows "t_user_receive_event (s_db s') = [] \<and> accounts (s_db s') = accounts (s_db s)"
proof -
  from assms obtain u uid s1 where t: "Transaction tr (reset_receives_body uid) s = Some (Ok u, s1)" "s_db s' = s_db s1"
    unfolding nh_ResetUserEventReceives_def by (blast dest!: withHeader_Ok n_inTx_Ok n_ok_Ok)
  from Transaction_Ok [OF t(1)] obtain a :: attempt and s0 where
    b: "reset_receives_body uid (at_env a) s0 = (Ok u, s1)" "s_db s0 = s_db s"
    by blast
  then have "(s_db s)\<lparr>t_user_receive_event := []\<rparr> = s_db s1"
    by (auto simp: reset_receives_body_def writing_def ResetUserEventReceives_def user_receive_delete_def res_simps
        split: res.splits prod.splits)
  from this [symmetric] show ?thesis by (simp add: t(2) accounts_def)
qed

section \<open>Storing events\<close>

lemma event_records_iff:
  "r \<in> set (event_records d) \<longleftrightarrow> rec_Event r \<in> set (t_event d) \<and> rec_Tenant r \<in> set (t_tenant d) \<and>
     mt_ID (rec_Tenant r) = nv_TenantID (rec_Event r) \<and> rec_EventCode r \<in> set (codes_of d (rec_Event r))"
proof
  assume "r \<in> set (event_records d)"
  then show "rec_Event r \<in> set (t_event d) \<and> rec_Tenant r \<in> set (t_tenant d) \<and>
      mt_ID (rec_Tenant r) = nv_TenantID (rec_Event r) \<and> rec_EventCode r \<in> set (codes_of d (rec_Event r))"
    by (auto simp: event_records_def)
next
  assume a: "rec_Event r \<in> set (t_event d) \<and> rec_Tenant r \<in> set (t_tenant d) \<and>
      mt_ID (rec_Tenant r) = nv_TenantID (rec_Event r) \<and> rec_EventCode r \<in> set (codes_of d (rec_Event r))"
  have "r = \<lparr>rec_Event = rec_Event r, rec_EventCode = rec_EventCode r, rec_Tenant = rec_Tenant r\<rparr>" by simp
  with a show "r \<in> set (event_records d)" unfolding event_records_def by force
qed

lemma db_FindOne_in: "db_FindOne E site k rows = Ok r \<Longrightarrow> r \<in> set rows"
  by (auto simp: db_FindOne_def exec_Ok_iff split: if_splits)

lemma n_GetEvent_Ok:
  assumes "n_GetEvent E d i tid = Ok r" and "i \<noteq> 0"
  shows "r \<in> set (event_records d) \<and> nv_ID (rec_Event r) = i \<and> (tid \<noteq> 0 \<longrightarrow> nv_TenantID (rec_Event r) = tid)"
proof -
  let ?rows = "filter (\<lambda>r. if_given i (nv_ID (rec_Event r)) \<and> if_given tid (nv_TenantID (rec_Event r))) (event_records d)"
  from assms(1) have "r \<in> set ?rows"
    unfolding n_GetEvent_def orNotFound_Ok_iff by (rule db_FindOne_in)
  with assms(2) show ?thesis by (auto simp: if_given_def)
qed

text \<open>
  Claim C25.  A report with a tenant and a code that is taken from the queue is stored exactly once: the
  events are extended by one with a fresh id, the contents of the message and an existing tenant, nothing
  else of the database changes, and the record that is published and classified is that event.
\<close>

theorem event_stored_once:
  assumes "subscribeEvent N tr msg s = Some (Ok (Some r), s')" and "events_wf (s_db s)" and "seq_event (s_db s) \<noteq> 0"
  shows "\<exists>ev q. n_UnmarshalEvent N msg = Some ev \<and> nv_TenantID ev \<noteq> 0 \<and> nv_Code ev \<noteq> [] \<and>
    s_db s' = (s_db s)\<lparr>t_event := t_event (s_db s) @ [rec_Event r], seq_event := q\<rparr> \<and>
    nv_ID (rec_Event r) \<notin> nv_ID ` set (t_event (s_db s)) \<and>
    nv_TenantID (rec_Event r) = nv_TenantID ev \<and> nv_Code (rec_Event r) = nv_Code ev \<and>
    nv_ErrorCode (rec_Event r) = nv_ErrorCode ev \<and> nv_Contents (rec_Event r) = nv_Contents ev \<and>
    rec_Tenant r \<in> set (t_tenant (s_db s)) \<and> mt_ID (rec_Tenant r) = nv_TenantID ev"
proof -
  from assms(1) obtain ev where ev: "n_UnmarshalEvent N msg = Some ev" "nv_TenantID ev \<noteq> 0" "nv_Code ev \<noteq> []"
    "Transaction tr (store_event N ev) s = Some (Ok r, s')"
    by (auto simp: subscribeEvent_def orUnknownUnless_def res_simps split: option.splits if_splits)
  from Transaction_Ok [OF ev(4)] obtain a :: attempt and s0 where
    "store_event N ev (at_env a) s0 = (Ok r, s')" and s0: "s_db s0 = s_db s"
    by blast
  then obtain ev' d where c: "createEvent N (at_env a) ev (s_db s) = Ok (ev', d)"
    and g: "n_GetEvent (at_env a) d (nv_ID ev') (nv_TenantID ev') = Ok r" and s': "s_db s' = d"
    by (auto simp: store_event_def split: res.splits prod.splits)
  from createEvent_Ok [OF c] have d: "d = (s_db s)\<lparr>t_event := t_event (s_db s) @ [ev'], seq_event := seq_event (s_db s) + e_gap (at_env a) + 1\<rparr>"
    and e: "ev' = ev\<lparr>nv_ID := seq_event (s_db s) + e_gap (at_env a), nv_CreatedAt := (if nv_CreatedAt ev = 0 then e_now (at_env a) else nv_CreatedAt ev)\<rparr>"
    and q: "unat (seq_event (s_db s)) + unat (e_gap (at_env a)) < 2 ^ 63 - 1"
    by auto
  have le: "seq_event (s_db s) \<le> nv_ID ev'" using seq_grows [OF q] by (simp add: e)
  have i: "nv_ID ev' \<noteq> 0"
  proof
    assume "nv_ID ev' = 0"
    with le have "seq_event (s_db s) = 0" by simp
    with assms(3) show False by contradiction
  qed
  have fresh: "nv_ID ev' \<notin> nv_ID ` set (t_event (s_db s))"
    using assms(2) le by (fastforce simp: events_wf_def)
  from n_GetEvent_Ok [OF g i] have r: "rec_Event r \<in> set (t_event d)" "rec_Tenant r \<in> set (t_tenant d)"
    "mt_ID (rec_Tenant r) = nv_TenantID (rec_Event r)" "nv_ID (rec_Event r) = nv_ID ev'"
    by (auto simp: event_records_iff)
  have "rec_Event r = ev'"
    using r(1,4) fresh by (auto simp: d image_iff)
  then show ?thesis
    using ev(1-3) fresh r(2,3) by (intro exI [of _ ev] exI [of _ "seq_event d"]) (simp add: s' d e)
qed

section \<open>Listing events\<close>

lemma mset_insert_sorted: "mset (insert_sorted x ys) = add_mset x (mset ys)"
  by (induction ys) simp_all

lemma mset_order_records: "mset (order_records rs) = mset rs"
  by (induction rs) (simp_all add: order_records_def mset_insert_sorted)

lemma set_insert_sorted: "set (insert_sorted x ys) = insert x (set ys)"
  by (induction ys) auto

lemma newest_first_trans: "newest_first x y \<Longrightarrow> newest_first y z \<Longrightarrow> newest_first x z"
  by (auto simp: newest_first_def)

lemma newest_first_total: "\<not> newest_first x y \<Longrightarrow> newest_first y x"
  by (auto simp: newest_first_def not_less not_le)

lemma sorted_insert_sorted: "sorted_wrt newest_first ys \<Longrightarrow> sorted_wrt newest_first (insert_sorted x ys)"
  by (induction ys) (auto simp: set_insert_sorted intro: newest_first_trans newest_first_total)

lemma sorted_order_records: "sorted_wrt newest_first (order_records rs)"
  by (induction rs) (simp_all add: order_records_def sorted_insert_sorted)

lemma get_events_Ok:
  assumes "get_events q E s = (Ok (page, cnt), s')"
  shows "\<exists>all. mset all = mset (filter (query_match q) (event_records (s_db s))) \<and> sorted_wrt newest_first all \<and>
    page = (if eq_limit q > 0 then take (unat (eq_limit q)) (drop (unat (eq_offset q)) all) else drop (unat (eq_offset q)) all) \<and>
    cnt = of_nat (length all) \<and> s' = s"
proof -
  let ?rows = "filter (query_match q) (event_records (s_db s))"
  have "length (order_records ?rows) = length ?rows" by (rule mset_eq_length [OF mset_order_records])
  with assms show ?thesis
    unfolding get_events_def Let_def prod.inject bindR_Ok_iff orUnusable_Ok_iff db_Find_Ok_iff
    by (intro exI [of _ "order_records ?rows"]) (auto simp only: mset_order_records sorted_order_records res.inject prod.inject)
qed

lemma clamp_bounds: "0 < eq_limit (events_query_of tid req dates) \<and> unat (eq_limit (events_query_of tid req dates)) \<le> 100"
proof -
  let ?l = "eq_limit (events_query_of tid req dates)"
  have "10 \<le> ?l \<and> ?l \<le> 100" by (auto simp: events_query_of_def query_defs)
  then have "unat (10 :: u64) \<le> unat ?l \<and> unat ?l \<le> unat (100 :: u64)" by (simp only: word_le_nat_alt)
  then show ?thesis by (simp add: word_less_nat_alt)
qed

lemma query_match_filter:
  "query_match (events_query_of tid req dates) r \<longleftrightarrow>
     if_given tid (nv_TenantID (rec_Event r)) \<and> code_match (events_filter req) (rec_EventCode r) \<and>
     (fst dates \<noteq> 0 \<longrightarrow> fst dates \<le> nv_CreatedAt (rec_Event r)) \<and> (snd dates \<noteq> 0 \<longrightarrow> nv_CreatedAt (rec_Event r) \<le> snd dates)"
  by (auto simp: query_match_def events_query_of_def query_defs code_match_def events_filter_def)

lemma nh_GetEvents_Ok:
  assumes "nh_GetEvents N tr E ctx req s = Some (Ok (N_EventsResponse evs pg), s')"
  obtains tid user dates records cnt s1 where "n_getRequestMetadata E ctx = Ok (tid, user)" "n_checkAuthorization user = Ok ()"
    "n_GetEvents tr (events_query_of tid req dates) s = Some (Ok (records, cnt), s1)"
    "evs = eventRecordsToResponse records" "pg = n_pagination cnt (ge_Limit req) (ge_Offset req)" "s_db s' = s_db s1"
proof -
  let ?last = "\<lambda>(records, cnt) s.
     if cnt = 0 then Some (n_createError E ctx (n_evcode ''get_events'' ''success-get'') ErrNoContent s)
     else n_ok E ctx ''get_events''
       (N_EventsResponse (eventRecordsToResponse records) (n_pagination cnt (ge_Limit req) (ge_Offset req))) s"
  from assms obtain tid user dates y s1 where b: "n_getRequestMetadata E ctx = Ok (tid, user)" "n_checkAuthorization user = Ok ()"
    "n_GetEvents tr (events_query_of tid req dates) s = Some (Ok y, s1)" "?last y s1 = Some (Ok (N_EventsResponse evs pg), s')"
    unfolding nh_GetEvents_def by (elim withHeader_Ok [THEN exE] n_onError_Ok [THEN exE] n_inTx_Ok [THEN exE] exE conjE) auto
  obtain records cnt where y: "y = (records, cnt)" by (cases y)
  from b(4) have "n_ok E ctx ''get_events''
       (N_EventsResponse (eventRecordsToResponse records) (n_pagination cnt (ge_Limit req) (ge_Offset req))) s1 =
      Some (Ok (N_EventsResponse evs pg), s')"
    by (simp add: y split: if_splits)
  from n_ok_Ok [OF this] b(1-3) that show thesis unfolding y by blast
qed

text \<open>
  Claim C26.  Listing events needs a role of the platform and shows events of the tenant of the request only,
  newest first, at most a hundred, with the number of all that match; it is a slice, at the requested offset,
  of the sorted list of the matching events.
\<close>

theorem events_isolated_sorted:
  assumes "nh_GetEvents N tr E ctx req s = Some (Ok (N_EventsResponse evs pg), s')"
  shows "\<exists>tid user dates all. GetTenantID ctx = Ok tid \<and> GetAuthenticatedUser E ctx = Ok user \<and> n_checkAuthorization user = Ok () \<and>
    mset all = mset (filter (query_match (events_query_of tid req dates)) (event_records (s_db s))) \<and> sorted_wrt newest_first all \<and>
    evs = map eventRecordToResponse (take (unat (eq_limit (events_query_of tid req dates))) (drop (unat (ge_Offset req)) all)) \<and>
    length evs \<le> 100 \<and> pp_TotalItems pg = of_nat (length all) \<and>
    (tid \<noteq> 0 \<longrightarrow> (\<forall>e \<in> set evs. pe_TenantId e = tid)) \<and> s_db s' = s_db s"
proof -
  from assms obtain tid user dates records cnt s1 where m: "n_getRequestMetadata E ctx = Ok (tid, user)"
    and u: "n_checkAuthorization user = Ok ()"
    and g: "n_GetEvents tr (events_query_of tid req dates) s = Some (Ok (records, cnt), s1)"
    and e: "evs = eventRecordsToResponse records" "pg = n_pagination cnt (ge_Limit req) (ge_Offset req)" "s_db s' = s_db s1"
    by (rule nh_GetEvents_Ok)
  let ?q = "events_query_of tid req dates"
  from g have t: "Transaction tr (get_events ?q) s = Some (Ok (records, cnt), s1)"
    by (auto simp: n_GetEvents_def orUnknownUnless_def res_simps)
  from Transaction_Ok [OF t] obtain a :: attempt and s0 where
    b: "get_events ?q (at_env a) s0 = (Ok (records, cnt), s1)" "s_db s0 = s_db s"
    by blast
  from get_events_Ok [OF b(1)] b(2) obtain all where a: "mset all = mset (filter (query_match ?q) (event_records (s_db s)))"
    "sorted_wrt newest_first all" "cnt = of_nat (length all)" "s1 = s0"
    "records = (if eq_limit ?q > 0 then take (unat (eq_limit ?q)) (drop (unat (eq_offset ?q)) all) else drop (unat (eq_offset ?q)) all)"
    by auto
  have lim: "0 < eq_limit ?q" "unat (eq_limit ?q) \<le> 100"
    using clamp_bounds [of tid req dates] by simp_all
  have off: "eq_offset ?q = ge_Offset req" by (simp add: events_query_of_def query_defs)
  have r: "records = take (unat (eq_limit ?q)) (drop (unat (ge_Offset req)) all)" using a(5) lim(1) off by simp
  have "pe_TenantId x = tid" if "tid \<noteq> 0" "x \<in> set evs" for x
  proof -
    from that(2) r obtain y where y: "x = eventRecordToResponse y" "y \<in> set all"
      by (auto simp: e(1) eventRecordsToResponse_def dest: in_set_takeD in_set_dropD)
    then have "y \<in> set (filter (query_match ?q) (event_records (s_db s)))"
      using a(1) by (metis set_mset_mset)
    with that(1) show ?thesis by (auto simp: y(1) eventRecordToResponse_def query_match_filter if_given_def event_records_iff)
  qed
  moreover have "length evs \<le> 100" using lim(2) by (simp add: e(1) eventRecordsToResponse_def r)
  moreover have "GetTenantID ctx = Ok tid" "GetAuthenticatedUser E ctx = Ok user"
    using m by (auto simp: n_getRequestMetadata_def res_simps)
  ultimately show ?thesis
    using u a(1-4) b(2) e r
    by (intro exI [of _ tid] exI [of _ user] exI [of _ dates] exI [of _ all])
      (simp add: eventRecordsToResponse_def n_pagination_def)
qed

section \<open>Cleaning\<close>

definition expired :: "env \<Rightarrow> db \<Rightarrow> u64 list \<Rightarrow> n_event \<Rightarrow> bool" where
  "expired E d tids ev \<longleftrightarrow> nv_TenantID ev \<in> set tids \<and> store_period E d (nv_TenantID ev) \<noteq> 0 \<and>
     nv_CreatedAt ev < midnight (e_now E) - 30 * 24 * 3600 * store_period E d (nv_TenantID ev)"

lemma event_deadline_exact:
  assumes "0 \<le> now" "now < 2 ^ 62" "0 \<le> p" "p \<le> 120"
  shows "event_deadline now p = midnight now - 30 * 24 * 3600 * p"
proof -
  define r where "r = now mod 86400"
  have m: "0 \<le> r" "r < 86400" "midnight now = now - r" by (simp_all add: r_def midnight_def)
  have "in_i64 (p * monthInSeconds)" "in_i64 (midnight now - p * monthInSeconds)"
    using assms m(1,2) by (simp_all add: in_i64_def monthInSeconds_def m(3))
  then show ?thesis by (simp add: event_deadline_def wrap64_id monthInSeconds_def)
qed

lemma store_period_events [simp]: "store_period E (d\<lparr>t_event := evs\<rparr>) tid = store_period E d tid"
  by (simp add: store_period_def TenantConfig_def)

lemma clean_one:
  assumes "e_fault E ''cdm_event.delete'' tid = None" and "tid \<noteq> 0" and "0 \<le> e_now E" "e_now E < 2 ^ 62"
    and "0 \<le> store_period E d tid" "store_period E d tid \<le> 120"
  shows "cleanExpiredTenantEvent E tid d = Ok (d\<lparr>t_event := filter (\<lambda>ev. \<not> expired E d [tid] ev) (t_event d)\<rparr>)"
  using assms event_deadline_exact [OF assms(3-6)]
  by (auto simp: cleanExpiredTenantEvent_def Let_def exec_def orUnusable_def expired_def if_given_def intro!: filter_cong arg_cong [where f = "\<lambda>es. d\<lparr>t_event := es\<rparr>"])

text \<open>
  Claim C31.  The cleaning at midnight deletes exactly the events of the tenants whose age exceeds the store
  period of their own tenant, counted in months of thirty days before the last midnight; a period of zero
  keeps everything, and nothing else of the state changes.
\<close>

theorem clean_effect:
  assumes "0 \<notin> set tids" and "\<forall>tid \<in> set tids. e_fault E ''cdm_event.delete'' tid = None"
    and "0 \<le> e_now E" and "e_now E < 2 ^ 62"
    and "\<forall>tid \<in> set tids. 0 \<le> store_period E (s_db s) tid \<and> store_period E (s_db s) tid \<le> 120"
  shows "clean_tenants E tids s =
    s\<lparr>s_db := (s_db s)\<lparr>t_event := filter (\<lambda>ev. \<not> expired E (s_db s) tids ev) (t_event (s_db s))\<rparr>\<rparr>"
  using assms
proof (induction tids arbitrary: s)
  case Nil
  then show ?case by (simp add: expired_def)
next
  case (Cons tid tids)
  let ?d = "(s_db s)\<lparr>t_event := filter (\<lambda>ev. \<not> expired E (s_db s) [tid] ev) (t_event (s_db s))\<rparr>"
  have "cleanExpiredTenantEvent E tid (s_db s) = Ok ?d"
    by (rule clean_one) (use Cons.prems in auto)
  then have "clean_tenants E (tid # tids) s = clean_tenants E tids (s\<lparr>s_db := ?d\<rparr>)" by simp
  also have "\<dots> = s\<lparr>s_db := ?d\<lparr>t_event := filter (\<lambda>ev. \<not> expired E ?d tids ev) (t_event ?d)\<rparr>\<rparr>"
    using Cons.IH [of "s\<lparr>s_db := ?d\<rparr>"] Cons.prems by simp
  also have "filter (\<lambda>ev. \<not> expired E ?d tids ev) (t_event ?d) = filter (\<lambda>ev. \<not> expired E (s_db s) (tid # tids) ev) (t_event (s_db s))"
    by (auto simp: expired_def intro!: filter_cong)
  finally show ?case by simp
qed

section \<open>The stream\<close>

lemma stream_fold:
  assumes "\<forall>i \<in> set is. \<forall>answer. i = Tick answer \<longrightarrow> answer = Sent" and "st_end st = None"
  shows "st_end (fold (stream_step req) is st) = None \<and>
    concat (st_sent (fold (stream_step req) is st)) @ st_buffer (fold (stream_step req) is st) =
    concat (st_sent st) @ st_buffer st @ filter (stream_match req) (concat (map (\<lambda>i. case i of Arrive r \<Rightarrow> [r] | Tick _ \<Rightarrow> []) is)) \<and>
    ([] \<notin> set (st_sent st) \<longrightarrow> [] \<notin> set (st_sent (fold (stream_step req) is st)))"
  using assms
proof (induction "is" arbitrary: st)
  case Nil
  then show ?case by simp
next
  case (Cons i "is")
  show ?case
    using Cons.prems Cons.IH [of "stream_step req i st"] by (cases i) (auto simp: stream_step_def)
qed

text \<open>
  Claim C29.  As long as sending succeeds, the stream stays open and loses, reorders and repeats nothing: the
  messages sent, with the buffer that is still to be sent, are the arrived events that match the filter, in
  the order of their arrival; no message is empty.
\<close>

theorem stream_lossless:
  assumes "\<forall>i \<in> set is. \<forall>answer. i = Tick answer \<longrightarrow> answer = Sent"
  shows "st_end (stream_run req is) = None \<and>
    concat (st_sent (stream_run req is)) @ st_buffer (stream_run req is) =
      filter (stream_match req) (concat (map (\<lambda>i. case i of Arrive r \<Rightarrow> [r] | Tick _ \<Rightarrow> []) is)) \<and>
    [] \<notin> set (st_sent (stream_run req is))"
  unfolding stream_run_def using stream_fold [OF assms, of "\<lparr>st_buffer = [], st_sent = [], st_end = None\<rparr>" req] by simp

section \<open>Delivery by mail\<close>

text \<open>
  Of the settings that the validation accepts, exactly those with an encryption can be used for
  delivery: the value "none" is accepted and every delivery with it fails as unsupported.
\<close>

theorem mail_deliverable:
  assumes "validateSmtp m = Ok ()"
  shows "if sm_Encryption m = ''none''
    then NewEmail (sm_Encryption m) (sm_AuthMechanism m) = Fail (UnsupportedEncryption ''none'')
    else \<exists>dao. NewEmail (sm_Encryption m) (sm_AuthMechanism m) = Ok dao"
proof -
  from assms have e: "sm_Encryption m \<in> {''none'', ''ssl/tls'', ''starttls''}"
    and a: "sm_AuthMechanism m \<in> {''PLAIN'', ''LOGIN'', ''CRAM-MD5''}"
    by (auto simp: validateSmtp_def validateEncryption_def validateAuthMechanism_def one_of_def res_simps)
  have n: "NewEmail ''none'' x = Fail (UnsupportedEncryption ''none'')" if "x \<in> {''PLAIN'', ''LOGIN'', ''CRAM-MD5''}" for x
    using that by (elim insertE emptyE; simp only:; code_simp)
  have "is_Ok (NewEmail e a)" if "e \<in> {''ssl/tls'', ''starttls''}" "a \<in> {''PLAIN'', ''LOGIN'', ''CRAM-MD5''}" for e a
    using that by (elim insertE emptyE; simp only:; code_simp)
  then have "is_Ok (NewEmail (sm_Encryption m) (sm_AuthMechanism m))" if "sm_Encryption m \<noteq> ''none''"
    using e a that by simp
  then show ?thesis using n [OF a] by (auto elim!: is_OkE)
qed

lemma smtp_run_prefix:
  "smtp_run N cs = (sent, r) \<Longrightarrow> (\<exists>rest. cs = sent @ rest) \<and> r \<noteq> Panic \<and>
     (r = Ok () \<longleftrightarrow> (\<forall>c \<in> set cs. n_smtp N (smtp_name c) = None)) \<and> (r = Ok () \<longrightarrow> sent = cs)"
  by (induction cs arbitrary: sent r) (auto split: option.splits prod.splits)

text \<open>
  Claim C28.  What reaches a mail server is the beginning of one conversation with the server of the settings
  of the event's tenant: the connection is encrypted before the credentials are sent, the only recipient is
  the address of the user of the delivery, and the delivery succeeds exactly when every command did.
\<close>

theorem mail_conversation:
  assumes "email_notify N E d (Some ev) u = (sent, r)" and "sent \<noteq> []"
  shows "\<exists>user address info dao host subject body rest.
    user \<in> set (t_user d) \<and> if_given (mu_ID u) (mu_ID user) \<and> mu_Email user = Some address \<and>
    GetConfigEmailNotifier N E d (nv_TenantID ev) = Ok info \<and> NewEmail (sm_Encryption info) (sm_AuthMechanism info) = Ok dao \<and>
    sent @ rest = [SDial (fst dao) (sm_ServerAddress info @ '':'' @ FormatUint (ucast (sm_ServerPort info))),
      SAuth (snd dao) (sm_Sender info) (sm_AuthPassword info) host, SMail (sm_Sender info), SRcpt address, SData,
      SWrite (mail_message (sm_Sender info) address subject body), SDataClose, SQuit] \<and>
    (r = Ok () \<longleftrightarrow> (\<forall>c \<in> set (sent @ rest). n_smtp N (smtp_name c) = None)) \<and> (r = Ok () \<longrightarrow> rest = [])"
proof -
  from assms obtain user address info dao host subject body r0 where
    u: "db_FindOne E ''notify'' (mu_ID u) (filter (\<lambda>x. if_given (mu_ID u) (mu_ID x)) (t_user d)) = Ok user"
      "mu_Email user = Some address"
    and i: "GetConfigEmailNotifier N E d (nv_TenantID ev) = Ok info" "NewEmail (sm_Encryption info) (sm_AuthMechanism info) = Ok dao"
    and s: "smtp_run N (email_session dao (sm_ServerAddress info @ '':'' @ FormatUint (ucast (sm_ServerPort info))) host
      (sm_Sender info) (sm_AuthPassword info) address subject body) = (sent, r0)" "r = mapE (\<lambda>e. Unknown (Some e)) r0"
    unfolding email_notify_def Let_def
    by (auto simp: res_simps split: res.splits option.splits if_splits prod.splits)
  have "user \<in> set (filter (\<lambda>x. if_given (mu_ID u) (mu_ID x)) (t_user d))"
    using u(1) by (rule db_FindOne_in)
  moreover have "r = Ok () \<longleftrightarrow> r0 = Ok ()" by (simp add: s(2) res_simps)
  ultimately show ?thesis
    using smtp_run_prefix [OF s(1)] u(2) i
    by (intro exI [of _ user] exI [of _ address] exI [of _ info] exI [of _ dao] exI [of _ host] exI [of _ subject] exI [of _ body])
      (fastforce simp: email_session_def)
qed

section \<open>Who is notified\<close>

lemma notified_iff:
  "u \<in> set (notified_users d ev) \<longleftrightarrow> u \<in> set (t_user d) \<and>
    (\<exists>ur \<in> set (t_user_receive_event d). \<exists>tr \<in> set (t_tenant_receive_event d). mue_UserID ur = mu_ID u \<and>
      mte_TenantID tr = mu_TenantID u \<and> if_given (nv_TenantID ev) (mu_TenantID u) \<and> if_given_str (nv_Code ev) (mte_Code tr) \<and>
      receiving ur tr)"
  by (auto simp: notified_users_def)

lemma publish_all_Ok: "publish_all E ps s = (Ok (), s') \<Longrightarrow> s' = s\<lparr>s_pub := s_pub s @ ps\<rparr>"
proof (induction ps arbitrary: s)
  case (Cons p ps)
  from Cons.prems have "publish_all E ps (s\<lparr>s_pub := s_pub s @ [p]\<rparr>) = (Ok (), s')" by (auto split: if_splits)
  from Cons.IH [OF this] show ?case by simp
qed simp


text \<open>
  A user who switched the code of an event off is notified of it all the same as soon as another
  code is switched on: the query does not compare the code of the user's rows with the event.
\<close>

theorem opt_out_ignored:
  assumes "u \<in> set (t_user d)" and "mu_TenantID u = nv_TenantID ev"
    and "\<lparr>mue_Code = nv_Code ev, mue_UserID = mu_ID u, mue_ReceiveFlag = Some False\<rparr> \<in> set (t_user_receive_event d)"
    and "\<lparr>mue_Code = other, mue_UserID = mu_ID u, mue_ReceiveFlag = Some True\<rparr> \<in> set (t_user_receive_event d)"
    and "\<lparr>mte_Code = nv_Code ev, mte_TenantID = nv_TenantID ev, mte_ReceiveFlag = flag\<rparr> \<in> set (t_tenant_receive_event d)"
  shows "u \<in> set (notified_users d ev)"
  unfolding notified_iff receiving_def if_given_def if_given_str_def
  using assms(1,2) by (intro conjI bexI [OF _ assms(4)] bexI [OF _ assms(5)]) simp_all

section \<open>What the service keeps\<close>

text \<open>
  Claim C24.  Whatever calls, messages and cleanings the notification service runs, and whatever faults occur,
  the accounts are untouched, the integrity of the identity data holds, and the stored events keep unique ids
  below the sequence and tenants that exist.
\<close>

theorem notification_keeps_accounts:
  assumes "n_reachable N s0 s" and "db_wf (s_db s0)" and "events_wf (s_db s0)"
  shows "accounts (s_db s) = accounts (s_db s0) \<and> db_wf (s_db s) \<and> events_wf (s_db s)"
  using n_accounts.reachable_I [OF assms(1) refl] n_integrity.reachable_I [OF assms(1,2)] n_events.reachable_I [OF assms(1,3)]
  by simp

section \<open>Witnesses\<close>

lemma sample_ndb_wf: "db_wf sample_ndb" "events_wf sample_ndb" "unique_configs sample_ndb"
  by (simp_all add: db_wf_def wf_defs same_email_def login_wf_def cfg_key_def events_wf_def unique_configs_def sample_defs
      sample_ndb_def sample_event_def n_keys)

definition sample_nset :: db where
  "sample_nset = (case n_SetConfig sample_nprm sample_env 1 sample_ncfg sample_ndb of Ok d \<Rightarrow> d | _ \<Rightarrow> sample_ndb)"

theorem notification_config_roundtrip_witness: "n_GetConfig sample_nprm sample_env sample_nset 1 = Ok sample_ncfg"
proof (rule notification_config_roundtrip [OF sample_ndb_wf(3)])
  have "is_Ok (n_SetConfig sample_nprm sample_env 1 sample_ncfg sample_ndb)" by code_simp
  then show "n_SetConfig sample_nprm sample_env 1 sample_ncfg sample_ndb = Ok sample_nset"
    by (auto simp: sample_nset_def elim!: is_OkE)
qed (simp_all add: sample_ncfg_def sample_nprm_def sample_smtp_def)

definition sample_reset :: n_result where
  "sample_reset = nh_ResetUserEventReceives sample_trial sample_env (sample_ctx ''alice'') sample_nsys"

theorem reset_wipes_everyone_witness:
  "\<exists>r s'. sample_reset = Some (Ok r, s') \<and> t_user_receive_event (s_db sample_nsys) \<noteq> [] \<and> t_user_receive_event (s_db s') = []"
proof -
  have "case sample_reset of Some (r, _) \<Rightarrow> is_Ok r | None \<Rightarrow> False" by code_simp
  then obtain r s' where r: "sample_reset = Some (Ok r, s')" by (auto split: option.splits elim: is_OkE)
  with reset_wipes_everyone [of sample_trial sample_env "sample_ctx ''alice''" sample_nsys r s'] show ?thesis
    by (simp add: sample_reset_def sample_nsys_def sample_ndb_def)
qed

definition sample_report :: "((goerr, event_record option) res \<times> sys) option" where
  "sample_report = subscribeEvent sample_nprm sample_trial ''message'' sample_nsys"

lemma sample_report_Ok: "\<exists>r s'. sample_report = Some (Ok (Some r), s')"
proof -
  have "case sample_report of Some (Ok (Some r), _) \<Rightarrow> True | _ \<Rightarrow> False" by code_simp
  then show ?thesis by (auto split: option.splits res.splits prod.splits)
qed

theorem event_stored_once_witness:
  "\<exists>r s'. sample_report = Some (Ok (Some r), s') \<and> nv_ID (rec_Event r) \<notin> {3, 4} \<and> nv_Code (rec_Event r) = ''vm.down'' \<and>
    length (t_event (s_db s')) = 3"
proof -
  from sample_report_Ok obtain r s' where r: "sample_report = Some (Ok (Some r), s')" by blast
  have "events_wf (s_db sample_nsys)" "seq_event (s_db sample_nsys) \<noteq> 0"
    using sample_ndb_wf(2) by (simp_all add: sample_nsys_def) (simp add: sample_ndb_def sample_db_def)
  from event_stored_once [OF r [unfolded sample_report_def] this] obtain ev q where
    e: "n_UnmarshalEvent sample_nprm ''message'' = Some ev" "nv_Code (rec_Event r) = nv_Code ev"
      "nv_ID (rec_Event r) \<notin> nv_ID ` set (t_event (s_db sample_nsys))"
    and d: "s_db s' = (s_db sample_nsys)\<lparr>t_event := t_event (s_db sample_nsys) @ [rec_Event r], seq_event := q\<rparr>"
    by blast
  have "length (t_event (s_db s')) = 3" unfolding d by (simp add: sample_nsys_def sample_ndb_def)
  moreover have "nv_Code (rec_Event r) = ''vm.down''" using e(1,2) by (auto simp: sample_nprm_def sample_event_def)
  ultimately show ?thesis
    using r e(3) by (intro exI [of _ r] exI [of _ s']) (simp add: sample_nsys_def sample_ndb_def sample_event_def)
qed

definition sample_listing :: n_result where
  "sample_listing = nh_GetEvents sample_nprm sample_trial sample_env (sample_ctx ''alice'')
     \<lparr>ge_Limit = 10, ge_Offset = 0, ge_Solution = [], ge_Class1 = [], ge_Class2 = [], ge_Class3 = [], ge_Level = [],
      ge_StartDate = 0, ge_EndDate = 0\<rparr> sample_nsys"

theorem events_isolated_sorted_witness:
  "\<exists>evs pg s'. sample_listing = Some (Ok (N_EventsResponse evs pg), s') \<and> length evs \<le> 100 \<and> s_db s' = s_db sample_nsys"
proof -
  have "case sample_listing of Some (Ok (N_EventsResponse _ _), _) \<Rightarrow> True | _ \<Rightarrow> False" by code_simp
  then obtain evs pg s' where r: "sample_listing = Some (Ok (N_EventsResponse evs pg), s')"
    by (auto split: option.splits res.splits prod.splits n_response.splits)
  from events_isolated_sorted [OF r [unfolded sample_listing_def]] r show ?thesis by blast
qed

definition late_env :: env where
  "late_env = sample_env\<lparr>e_now := 100000000\<rparr>"

theorem clean_effect_witness: "map nv_ID (t_event (s_db (clean_tenants late_env [1] sample_nsys))) = [4]"
proof -
  have p: "store_period late_env sample_ndb 1 = 12"
    by code_simp
  have "clean_tenants late_env [1] sample_nsys = sample_nsys\<lparr>s_db := (s_db sample_nsys)\<lparr>t_event :=
      filter (\<lambda>ev. \<not> expired late_env (s_db sample_nsys) [1] ev) (t_event (s_db sample_nsys))\<rparr>\<rparr>"
    by (rule clean_effect) (simp_all add: late_env_def sample_nsys_def p [unfolded late_env_def])
  then show ?thesis
    by (simp add: expired_def sample_nsys_def p) (simp add: sample_ndb_def sample_event_def late_env_def midnight_def)
qed

theorem stream_lossless_witness:
  "concat (st_sent (stream_run \<lparr>rr_Solution = [], rr_Class1 = [], rr_Class2 = [], rr_Class3 = [], rr_Level = ''error''\<rparr>
     [Arrive (sample_record 1), Arrive (sample_record 2), Tick Sent])) = [sample_record 1, sample_record 2]"
proof -
  let ?rq = "\<lparr>rr_Solution = [], rr_Class1 = [], rr_Class2 = [], rr_Class3 = [], rr_Level = ''error''\<rparr>"
  let ?is = "[Arrive (sample_record 1), Arrive (sample_record 2), Tick Sent]"
  have "st_buffer (stream_run ?rq ?is) = []"
    by (simp add: stream_run_def stream_step_def stream_match_def code_match_def if_given_str_def sample_record_def)
  with stream_lossless [of ?is ?rq] show ?thesis
    by (simp add: stream_match_def code_match_def if_given_str_def sample_record_def)
qed

theorem mail_deliverable_witness:
  "NewEmail (sm_Encryption (sample_smtp ''none'')) (sm_AuthMechanism (sample_smtp ''none'')) = Fail (UnsupportedEncryption ''none'')"
proof -
  have "is_Ok (validateSmtp (sample_smtp ''none''))" by code_simp
  then have "validateSmtp (sample_smtp ''none'') = Ok ()" by (auto elim: is_OkE)
  from mail_deliverable [OF this] show ?thesis by (simp add: sample_smtp_def)
qed

definition sample_mail :: "smtp_cmd list \<times> (goerr, unit) res" where
  "sample_mail = email_notify sample_nprm sample_env sample_ndb (Some (sample_event 3 100)) (sample_user 1 ''admin'')"

theorem mail_conversation_witness:
  "length (fst sample_mail) = 4 \<and> snd sample_mail \<noteq> Ok () \<and> fst sample_mail ! 3 = SRcpt ''root@x''"
proof -
  have l: "length (fst sample_mail) = 4 \<and> \<not> is_Ok (snd sample_mail)" by code_simp
  then have "fst sample_mail \<noteq> []" by auto
  from mail_conversation [OF prod.collapse [of sample_mail, symmetric, unfolded sample_mail_def] this [unfolded sample_mail_def]]
  obtain user address rest and p q x :: smtp_cmd and ts where
    u: "user \<in> set (t_user sample_ndb)" "if_given (mu_ID (sample_user 1 ''admin'')) (mu_ID user)" "mu_Email user = Some address"
    and c: "fst sample_mail @ rest = p # q # x # SRcpt address # ts"
    by (fold sample_mail_def) blast
  have "fst sample_mail ! 3 = (fst sample_mail @ rest) ! 3" using l by (simp add: nth_append)
  then have "fst sample_mail ! 3 = SRcpt address" by (simp add: c)
  moreover have "address = ''root@x''" using u by (auto simp: sample_ndb_def sample_user_def if_given_def)
  moreover have "snd sample_mail \<noteq> Ok ()" using l by (auto simp: is_Ok_def)
  ultimately show ?thesis using l by simp
qed

definition sample_classified :: "(goerr, unit) res \<times> sys" where
  "sample_classified = classify sample_nprm (sample_event 3 100) sample_env sample_nsys"


theorem opt_out_ignored_witness:
  "(sample_user 1 ''admin'')\<lparr>mu_Email := Some ''root@x''\<rparr> \<in> set (notified_users sample_ndb (sample_event 3 100))"
  by (rule opt_out_ignored [where other = "''vm.up''" and flag = True]) (simp_all add: sample_ndb_def sample_event_def sample_user_def)

theorem notification_keeps_accounts_witness:
  "\<exists>r s'. sample_report = Some (r, s') \<and> n_reachable sample_nprm sample_nsys s' \<and> accounts (s_db s') = accounts sample_ndb \<and>
    events_wf (s_db s')"
proof -
  from sample_report_Ok obtain r s' where r: "sample_report = Some (Ok (Some r), s')" by blast
  then have n: "n_reachable sample_nprm sample_nsys s'"
    unfolding sample_report_def by (rule n_reachable_step [OF n_reachable_init n_step_report])
  from notification_keeps_accounts [OF n] sample_ndb_wf r n show ?thesis
    by (intro exI [of _ "Ok (Some r)"] exI [of _ s']) (simp add: sample_nsys_def)
qed

end
