(* ===== verification/Discovery.thy ===== *)
theory Discovery
  imports Errors
begin

text \<open>
  How the clients of \<open>src/common\<close> find their servers: what they make of the answer of the service registry.
  The registry and the selector that orders the nodes are go-micro's.
\<close>

record service_node =
  sn_Address :: string
  sn_Metadata :: "string \<rightharpoonup> string"

text \<open>
  The answer of \<open>GetService\<close>: the services with their nodes and, after them, the nodes that the
  selector gives one after another; no such service; or another error.
\<close>

datatype registry_answer =
    Services "service_node list list" "nat \<Rightarrow> service_node"
  | ServiceNotFound
  | RegistryFailed string

definition discover ::
  "(string \<Rightarrow> goerr) \<Rightarrow> string \<Rightarrow> registry_answer \<Rightarrow> (goerr, service_node list list \<times> (nat \<Rightarrow> service_node)) res" where
  "discover mk what answer =
     (case answer of
        RegistryFailed e \<Rightarrow> Fail (mk (''could not discover '' @ what @ ''service''))
      | ServiceNotFound \<Rightarrow> Fail (mk (''not found '' @ what @ ''service''))
      | Services s next \<Rightarrow> if s = [] then Fail (mk (''not found '' @ what @ ''service'')) else Ok (s, next))"

text \<open>The loops that dial try as many nodes as the first service has, in the order of the selector.\<close>

definition nodes_to_try :: "service_node list list \<times> (nat \<Rightarrow> service_node) \<Rightarrow> service_node list" where
  "nodes_to_try = (\<lambda>(s, next). map next [0..<length (hd s)])"

text \<open>The addresses of the nodes of the first service.\<close>

definition first_addresses :: "service_node list list \<times> (nat \<Rightarrow> service_node) \<Rightarrow> string list" where
  "first_addresses = (\<lambda>(s, next). map sn_Address (hd s))"

definition one_node :: "string \<Rightarrow> registry_answer" where
  "one_node address = (let n = \<lparr>sn_Address = address, sn_Metadata = Map.empty\<rparr> in Services [[n]] (\<lambda>_. n))"

lemma discover_one_node [simp]:
  "discover mk what (one_node address) =
     Ok ([[\<lparr>sn_Address = address, sn_Metadata = Map.empty\<rparr>]], \<lambda>_. \<lparr>sn_Address = address, sn_Metadata = Map.empty\<rparr>)"
  by (simp add: discover_def one_node_def Let_def)

lemma nodes_to_try_simps [simp]: "nodes_to_try (s, next) = map next [0..<length (hd s)]" "first_addresses (s, next) = map sn_Address (hd s)"
  by (simp_all add: nodes_to_try_def first_addresses_def)

end
