(* ===== verification/Connection.thy ===== *)
theory Connection
  imports Database Discovery
begin

text \<open>
  \<open>common/database\<close>: \<open>connection.go\<close>, \<open>database.go\<close> and \<open>options.go\<close>.  The data source of a node, the handle that
  a connection holds and the loop that replaces it, and the ways to run a block: \<open>Transaction\<close> (of \<open>Database\<close>),
  \<open>Execute\<close>, \<open>GormTransaction\<close> and the savepoints of the test mode.
\<close>

section \<open>Options (options.go)\<close>

record db_options =
  do_ServiceName :: string
  do_DBName :: string
  do_Username :: string
  do_Password :: string
  do_SSLEnable :: bool
  do_SSLCACert :: string
  do_HeartbeatInterval :: int
  do_ReconnectInterval :: int
  do_TestMode :: bool

datatype db_option = SSLEnable bool | SSLCACert string | DBHeartbeatInterval int | ReconnectInterval int | TestMode

fun apply_db_option :: "db_option \<Rightarrow> db_options \<Rightarrow> db_options" where
  "apply_db_option (SSLEnable b) o' = o'\<lparr>do_SSLEnable := b\<rparr>"
| "apply_db_option (SSLCACert ca) o' = o'\<lparr>do_SSLCACert := ca\<rparr>"
| "apply_db_option (DBHeartbeatInterval i) o' = o'\<lparr>do_HeartbeatInterval := i\<rparr>"
| "apply_db_option (ReconnectInterval i) o' = o'\<lparr>do_ReconnectInterval := i\<rparr>"
| "apply_db_option TestMode o' = o'\<lparr>do_TestMode := True\<rparr>"

section \<open>The data source of a node\<close>

text \<open>\<open>net.SplitHostPort\<close>; \<open>None\<close> is its error.\<close>

definition SplitHostPort :: "string \<Rightarrow> (string \<times> string) option" where
  "SplitHostPort s =
     (let port = rev (takeWhile (\<lambda>c. c \<noteq> CHR '':'') (rev s)); h = take (length s - length port - 1) s in
      if CHR '':'' \<notin> set s then None
      else if take 1 s = ''['' then
        (if length h < 2 \<or> last h \<noteq> CHR '']'' \<or> CHR '']'' \<in> set (butlast h) \<or> CHR ''['' \<in> set (tl s) \<or> CHR '']'' \<in> set port then None
         else Some (butlast (tl h), port))
      else if CHR '':'' \<in> set h \<or> CHR ''['' \<in> set s \<or> CHR '']'' \<in> set s then None
      else Some (h, port))"

text \<open>\<open>strings.Join\<close>.\<close>

fun strings_Join :: "string list \<Rightarrow> string \<Rightarrow> string" where
  "strings_Join [] sep = []"
| "strings_Join [x] sep = x"
| "strings_Join (x # xs) sep = x @ sep @ strings_Join xs sep"

definition ssl_params :: "db_options \<Rightarrow> string \<Rightarrow> string list" where
  "ssl_params o' d =
     (if d = ''postgres'' then [if do_SSLEnable o' then ''sslmode=verify-ca'' else ''sslmode=disable''] else []) @
     (if do_SSLEnable o' \<and> do_SSLCACert o' \<noteq> [] \<and> d = ''postgres'' then [''sslrootcert='' @ do_SSLCACert o'] else [])"

text \<open>The dialect and the data source; an address that cannot be split counts as an empty host and port.\<close>

definition dataSource :: "db_options \<Rightarrow> service_node \<Rightarrow> (goerr, string \<times> string) res" where
  "dataSource o' n =
     (case (case SplitHostPort (sn_Address n) of Some hp \<Rightarrow> hp | None \<Rightarrow> ([], [])) of
        (h, p) \<Rightarrow>
          (case sn_Metadata n ''dialect'' of
             None \<Rightarrow> Fail (errors_New ''not found 'dialect' in database service node'')
           | Some d \<Rightarrow>
             (if d = ''mysql'' then
                Ok (d, do_Username o' @ '':'' @ do_Password o' @ ''@tcp('' @ h @ '':'' @ p @ '')/'' @ do_DBName o' @ ''?'' @
                       strings_Join (ssl_params o' d) ''&'')
              else if d = ''postgres'' then
                Ok (d, ''host='' @ h @ '' port='' @ p @ '' user='' @ do_Username o' @ '' dbname='' @ do_DBName o' @
                       '' password='' @ do_Password o' @ '' '' @ strings_Join (ssl_params o' d) '' '')
              else Fail (errors_New ''unsupported database dialect''))))"

section \<open>The handle of a connection\<close>

text \<open>
  A handle of \<open>gorm.Open\<close> is a number with its dialect and data source.  \<open>cw_DB\<close>: the current one;
  \<open>cw_open\<close>: those that were opened and not closed; \<open>cw_next\<close>: the next number.
\<close>

type_synonym db_handle = "nat \<times> string \<times> string"

record connection_wrapper =
  cw_opts :: db_options
  cw_DB :: "db_handle option"
  cw_open :: "db_handle list"
  cw_next :: nat
  cw_closed :: bool

definition newConnection :: "db_options \<Rightarrow> connection_wrapper" where
  "newConnection o' = \<lparr>cw_opts = o', cw_DB = None, cw_open = [], cw_next = 0, cw_closed = False\<rparr>"

text \<open>The first node that can be opened; \<open>open\<close> is the error of \<open>gorm.Open\<close>.\<close>

fun open_node :: "db_options \<Rightarrow> (string \<Rightarrow> string \<Rightarrow> string option) \<Rightarrow> service_node list \<Rightarrow> (string \<times> string) option" where
  "open_node o' gorm_Open [] = None"
| "open_node o' gorm_Open (n # ns) =
     (case dataSource o' n of
        Ok (d, s) \<Rightarrow> (case gorm_Open d s of None \<Rightarrow> Some (d, s) | Some _ \<Rightarrow> open_node o' gorm_Open ns)
      | _ \<Rightarrow> open_node o' gorm_Open ns)"

definition cw_connect ::
  "registry_answer \<Rightarrow> (string \<Rightarrow> string \<Rightarrow> string option) \<Rightarrow> connection_wrapper \<Rightarrow> (goerr, unit) res \<times> connection_wrapper" where
  "cw_connect registry gorm_Open c =
     (case discover errors_New ''database '' registry of
        Fail e \<Rightarrow> (Fail e, c)
      | Panic \<Rightarrow> (Panic, c)
      | Ok s \<Rightarrow>
        (case open_node (cw_opts c) gorm_Open (nodes_to_try s) of
           None \<Rightarrow> (Fail (errors_New ''could not connect to database''), c)
         | Some src \<Rightarrow>
           (let h = (cw_next c, src) in
            (Ok (), c\<lparr>cw_DB := Some h, cw_next := Suc (cw_next c),
                      cw_open := h # (case cw_DB c of None \<Rightarrow> cw_open c | Some old \<Rightarrow> remove1 old (cw_open c))\<rparr>))))"

text \<open>\<open>Close\<close>: closing a second time does nothing; without a handle it dereferences nil.\<close>

definition cw_Close :: "connection_wrapper \<Rightarrow> (goerr, unit) res \<times> connection_wrapper" where
  "cw_Close c =
     (if cw_closed c then (Ok (), c)
      else
        (case cw_DB c of
           None \<Rightarrow> (Panic, c\<lparr>cw_closed := True\<rparr>)
         | Some h \<Rightarrow> (Ok (), c\<lparr>cw_closed := True, cw_open := remove1 h (cw_open c)\<rparr>)))"

section \<open>The default connection (database.go)\<close>

definition init_options :: "string \<Rightarrow> string \<Rightarrow> string \<Rightarrow> string \<Rightarrow> db_option list \<Rightarrow> db_options" where
  "init_options serviceName dbName username password opts =
     fold apply_db_option opts
       \<lparr>do_ServiceName = serviceName, do_DBName = dbName, do_Username = username, do_Password = password,
        do_SSLEnable = False, do_SSLCACert = [], do_HeartbeatInterval = 10 * 10 ^ 9, do_ReconnectInterval = 10 * 10 ^ 9,
        do_TestMode = False\<rparr>"

definition database_Init :: "string \<Rightarrow> string \<Rightarrow> string \<Rightarrow> string \<Rightarrow> db_option list \<Rightarrow> connection_wrapper option" where
  "database_Init serviceName dbName username password opts =
     Some (newConnection (init_options serviceName dbName username password opts))"

text \<open>\<open>Open\<close> and \<open>OpenDefault\<close>: a connection, which then runs the loop of \<open>reconnect\<close>.\<close>

definition Open_db ::
  "string \<Rightarrow> string \<Rightarrow> string \<Rightarrow> string \<Rightarrow> db_option list \<Rightarrow> registry_answer \<Rightarrow> (string \<Rightarrow> string \<Rightarrow> string option) \<Rightarrow>
   (goerr, connection_wrapper) res" where
  "Open_db serviceName dbName username password opts registry gorm_Open =
     (case cw_connect registry gorm_Open (newConnection (init_options serviceName dbName username password opts)) of
        (Ok _, c) \<Rightarrow> Ok c | (Fail e, _) \<Rightarrow> Fail e | (Panic, _) \<Rightarrow> Panic)"

definition OpenDefault ::
  "connection_wrapper option \<Rightarrow> db_option list \<Rightarrow> registry_answer \<Rightarrow> (string \<Rightarrow> string \<Rightarrow> string option) \<Rightarrow>
   (goerr, connection_wrapper) res" where
  "OpenDefault dflt opts registry gorm_Open =
     (case dflt of
        None \<Rightarrow> Panic
      | Some c0 \<Rightarrow>
        (case cw_connect registry gorm_Open (newConnection (fold apply_db_option opts (cw_opts c0))) of
           (Ok _, c) \<Rightarrow> Ok c | (Fail e, _) \<Rightarrow> Fail e | (Panic, _) \<Rightarrow> Panic))"

definition database_Connect ::
  "registry_answer \<Rightarrow> (string \<Rightarrow> string \<Rightarrow> string option) \<Rightarrow> connection_wrapper option \<Rightarrow>
   (goerr, unit) res \<times> connection_wrapper option" where
  "database_Connect registry gorm_Open d =
     (case d of None \<Rightarrow> (Panic, None) | Some c \<Rightarrow> (case cw_connect registry gorm_Open c of (r, c') \<Rightarrow> (r, Some c')))"

definition database_Close :: "connection_wrapper option \<Rightarrow> (goerr, unit) res \<times> connection_wrapper option" where
  "database_Close d = (case d of None \<Rightarrow> (Panic, None) | Some c \<Rightarrow> (case cw_Close c of (r, c') \<Rightarrow> (r, Some c')))"

section \<open>The loop of reconnect\<close>

text \<open>
  The loop watches the handle (a health check runs beside it) or tries to connect again; it ends when the
  connection is closed while it watches.
\<close>

datatype db_loop = Monitoring | Connecting | Stopped

record dsys =
  ds_conn :: connection_wrapper
  ds_loop :: db_loop

datatype daction =
    HealthCheckFails
  | TryReconnect registry_answer "string \<Rightarrow> string \<Rightarrow> string option"
  | LoopClosed
  | CallClose

inductive dstep :: "daction \<Rightarrow> dsys \<Rightarrow> dsys \<Rightarrow> bool" where
  d_health: "ds_loop d = Monitoring \<Longrightarrow> dstep HealthCheckFails d (d\<lparr>ds_loop := Connecting\<rparr>)"
| d_connect: "ds_loop d = Connecting \<Longrightarrow> cw_connect registry gorm_Open (ds_conn d) = (r, c) \<Longrightarrow>
    dstep (TryReconnect registry gorm_Open) d (d\<lparr>ds_conn := c, ds_loop := (if r = Ok () then Monitoring else Connecting)\<rparr>)"
| d_stop: "ds_loop d = Monitoring \<Longrightarrow> cw_closed (ds_conn d) \<Longrightarrow> dstep LoopClosed d (d\<lparr>ds_loop := Stopped\<rparr>)"
| d_close: "cw_Close (ds_conn d) = (r, c) \<Longrightarrow> dstep CallClose d (d\<lparr>ds_conn := c\<rparr>)"

inductive dreachable :: "dsys \<Rightarrow> dsys \<Rightarrow> bool" for d0 where
  dreachable_init: "dreachable d0 d0"
| dreachable_step: "dreachable d0 d \<Longrightarrow> dstep a d d' \<Longrightarrow> dreachable d0 d'"

definition monitored :: "connection_wrapper \<Rightarrow> dsys" where
  "monitored c = \<lparr>ds_conn = c, ds_loop = Monitoring\<rparr>"

inductive_cases dstepE: "dstep a d d'"

section \<open>Running a block\<close>

text \<open>
  The answers to the statements of a savepoint: \<open>SAVEPOINT\<close> may fail; the errors of \<open>ROLLBACK TO\<close> are
  ignored (\<open>True\<close>: it was done), as those of \<open>RELEASE\<close>, after which nothing changes.
\<close>

record savepoint =
  sp_fails :: "string option"
  sp_rolled_back :: bool

definition nestedTransaction :: "savepoint \<Rightarrow> env \<Rightarrow> 'a body \<Rightarrow> sys \<Rightarrow> (goerr, 'a) res \<times> sys" where
  "nestedTransaction sp E body s =
     (case sp_fails sp of
        Some c \<Rightarrow> (Fail (DBErr (DBError c)), s)
      | None \<Rightarrow>
        (case body E s of
           (Ok x, s') \<Rightarrow> (Ok x, s')
         | (r, s') \<Rightarrow> (r, if sp_rolled_back sp then rollback s s' else s')))"

text \<open>
  A block of a connection in test mode runs behind a savepoint of the transaction that \<open>Test\<close> began;
  \<open>started\<close>: there is one.
\<close>

definition in_test_mode :: "bool \<Rightarrow> savepoint \<Rightarrow> env \<Rightarrow> 'a body \<Rightarrow> sys \<Rightarrow> (goerr, 'a) res \<times> sys" where
  "in_test_mode started sp E body s =
     (if started then nestedTransaction sp E body s else (Fail (errors_New ''test transaction is not started''), s))"

text \<open>\<open>Test\<close>: the blocks that the test runs one after another, each with its savepoint, and the roll back.\<close>

fun test_blocks :: "(savepoint \<times> env \<times> unit body) list \<Rightarrow> sys \<Rightarrow> (goerr, unit) res list \<times> sys" where
  "test_blocks [] s = ([], s)"
| "test_blocks ((sp, E, body) # bs) s =
     (case in_test_mode True sp E body s of (r, s1) \<Rightarrow> (case test_blocks bs s1 of (rs, s2) \<Rightarrow> (r # rs, s2)))"

definition cw_Test :: "(savepoint \<times> env \<times> unit body) list \<Rightarrow> sys \<Rightarrow> (goerr, unit) res list \<times> sys" where
  "cw_Test blocks s = (case test_blocks blocks s of (rs, s') \<Rightarrow> (rs, rollback s s'))"

definition w_Transaction :: "db_options \<Rightarrow> bool \<Rightarrow> savepoint \<Rightarrow> env \<Rightarrow> trial \<Rightarrow> 'a body \<Rightarrow> sys \<Rightarrow> ((goerr, 'a) res \<times> sys) option" where
  "w_Transaction o' started sp E tr body s =
     (if do_TestMode o' then Some (in_test_mode started sp E body s) else Transaction tr body s)"

text \<open>\<open>Execute\<close> runs the block on the connection itself: what its statements wrote stays.\<close>

definition w_Execute :: "db_options \<Rightarrow> bool \<Rightarrow> savepoint \<Rightarrow> env \<Rightarrow> 'a body \<Rightarrow> sys \<Rightarrow> (goerr, 'a) res \<times> sys" where
  "w_Execute o' started sp E body s =
     (if do_TestMode o' then in_test_mode started sp E body s
      else
        (case body E s of
           (Fail e, s') \<Rightarrow> (Fail (if errors_Equal (Some e) ErrUnusableDatabase then UnwrapUnusableDatabase e else e), s')
         | r \<Rightarrow> r))"

text \<open>
  \<open>GormTransaction\<close>: the error of the block is overwritten by that of beginning the transaction.  Where it
  could not begin, every statement of the block fails with that error.  \<open>gt_commits\<close>: the answer of the
  server to \<open>COMMIT\<close>, which rolls a transaction back in which a statement failed.  A panic of the block
  leaves the transaction unfinished.
\<close>

record gorm_trial =
  gt_begin :: "string option"
  gt_env :: env
  gt_commits :: bool

definition dead_env :: "string \<Rightarrow> env \<Rightarrow> env" where
  "dead_env c E = E\<lparr>e_fault := (\<lambda>_ _. Some c)\<rparr>"

definition w_GormTransaction :: "db_options \<Rightarrow> bool \<Rightarrow> savepoint \<Rightarrow> env \<Rightarrow> gorm_trial \<Rightarrow> unit body \<Rightarrow> sys \<Rightarrow> (goerr, unit) res \<times> sys" where
  "w_GormTransaction o' started sp E g body s =
     (if do_TestMode o' then in_test_mode started sp E body s
      else
        (case gt_begin g of
           Some c \<Rightarrow>
             (case body (dead_env c (gt_env g)) s of
                (Panic, s') \<Rightarrow> (Panic, rollback s s')
              | (_, s') \<Rightarrow> (Fail (UnusableDatabase (Some (DBErr (DBError c)))), rollback s s'))
         | None \<Rightarrow>
             (case body (gt_env g) s of
                (Panic, s') \<Rightarrow> (Panic, rollback s s')
              | (_, s') \<Rightarrow> (Ok (), if gt_commits g then s' else rollback s s'))))"

end
