(* ===== verification/Log_Files.thy ===== *)
theory Log_Files
  imports Connection
begin

text \<open>
  \<open>common/config/util.go\<close>: the deletion of the log files that are older than the period of their service.  The
  regular expressions are written out as the leftmost match they find; dates are days since 1970.
\<close>

section \<open>Library functions\<close>

text \<open>The value of \<open>strconv.Atoi\<close> whose error is ignored: 0, or the nearest bound where it overflows.\<close>

fun scan_uint :: "nat \<Rightarrow> string \<Rightarrow> nat option" where
  "scan_uint acc [] = Some acc"
| "scan_uint acc (c # cs) =
     (case digit_val c of
        None \<Rightarrow> None
      | Some d \<Rightarrow> if 10 * acc + d \<ge> 2 ^ 64 then Some (2 ^ 64 - 1) else scan_uint (10 * acc + d) cs)"

definition Atoi_value :: "string \<Rightarrow> int" where
  "Atoi_value s =
     (case s of
        [] \<Rightarrow> 0
      | c # cs \<Rightarrow>
        (let neg = (c = CHR ''-''); t = (if c = CHR ''-'' \<or> c = CHR ''+'' then cs else s) in
         if t = [] then 0
         else
           (case scan_uint 0 t of
              None \<Rightarrow> 0
            | Some n \<Rightarrow> if neg then (if n > 2 ^ 63 then - (2 ^ 63) else - int n)
                       else (if n \<ge> 2 ^ 63 then 2 ^ 63 - 1 else int n))))"

definition is_digit :: "char \<Rightarrow> bool" where
  "is_digit c \<longleftrightarrow> digit_val c \<noteq> None"

definition is_lower :: "char \<Rightarrow> bool" where
  "is_lower c \<longleftrightarrow> 97 \<le> byte c \<and> byte c \<le> 122"

text \<open>\<open>FindAllString(s, 1)\<close>, for an expression that matches at the start of a string by the given function.\<close>

fun leftmost :: "(string \<Rightarrow> string option) \<Rightarrow> string \<Rightarrow> string option" where
  "leftmost f [] = f []"
| "leftmost f (c # cs) = (case f (c # cs) of Some m \<Rightarrow> Some m | None \<Rightarrow> leftmost f cs)"

text \<open>Runs of characters of the given classes, one after another, each not empty.\<close>

fun match_runs :: "(char \<Rightarrow> bool) list \<Rightarrow> string \<Rightarrow> string option" where
  "match_runs [] s = Some []"
| "match_runs (P # Ps) s =
     (if takeWhile P s = [] then None else map_option (\<lambda>m. takeWhile P s @ m) (match_runs Ps (dropWhile P s)))"

text \<open>
  \<open>cdm-+([a-z]+)-+([a-z]+)\<close>, and \<open>20+([0-9]+)-+([0-9]+)-+([0-9]+)\<close>, whose zeros and digits are one run of digits
  that starts with a zero and has at least one more.
\<close>

definition match_service :: "string \<Rightarrow> string option" where
  "match_service s =
     (if take 3 s = ''cdm'' then
        map_option (\<lambda>m. ''cdm'' @ m)
          (match_runs [\<lambda>c. c = CHR ''-'', is_lower, \<lambda>c. c = CHR ''-'', is_lower] (drop 3 s))
      else None)"

definition match_date :: "string \<Rightarrow> string option" where
  "match_date s =
     (if take 2 s = ''20'' \<and> 2 \<le> length (takeWhile is_digit (drop 1 s)) then
        map_option (\<lambda>m. ''2'' @ m)
          (match_runs [is_digit, \<lambda>c. c = CHR ''-'', is_digit, \<lambda>c. c = CHR ''-'', is_digit] (drop 1 s))
      else None)"

subsection \<open>Dates\<close>

definition leap :: "int \<Rightarrow> bool" where
  "leap y \<longleftrightarrow> y mod 4 = 0 \<and> (y mod 100 \<noteq> 0 \<or> y mod 400 = 0)"

definition month_days :: "int \<Rightarrow> int list" where
  "month_days y = [31, if leap y then 29 else 28, 31, 30, 31, 30, 31, 31, 30, 31, 30, 31]"

definition epoch_day :: "int \<Rightarrow> nat \<Rightarrow> int \<Rightarrow> int" where
  "epoch_day y m d =
     365 * (y - 1) + (y - 1) div 4 - (y - 1) div 100 + (y - 1) div 400 - 719162 + sum_list (take (m - 1) (month_days y)) + d - 1"

text \<open>\<open>time.Parse("2006-01-02", s)\<close>, whose value besides an error is the first of January of the year 1.\<close>

definition parse_date :: "string \<Rightarrow> int option" where
  "parse_date s =
     (if length s = 10 \<and> s ! 4 = CHR ''-'' \<and> s ! 7 = CHR ''-'' then
        (case (parse_digits 0 (take 4 s), parse_digits 0 (take 2 (drop 5 s)), parse_digits 0 (drop 8 s)) of
           (Some y, Some m, Some d) \<Rightarrow>
             if 1 \<le> m \<and> m \<le> 12 \<and> 1 \<le> d \<and> int d \<le> month_days (int y) ! (m - 1) then Some (epoch_day (int y) m (int d)) else None
         | _ \<Rightarrow> None)
      else None)"

definition time_Parse_value :: "string \<Rightarrow> int" where
  "time_Parse_value s = (case parse_date s of Some day \<Rightarrow> day | None \<Rightarrow> - 719162)"

text \<open>
  \<open>int(now.Sub(date).Hours() / 24)\<close> for a time in nanoseconds: \<open>Sub\<close> stays within the range of a duration.
  The quotient is taken exactly; the floating-point one can reach a day some nanoseconds early.
\<close>

definition days_since :: "int \<Rightarrow> int \<Rightarrow> int" where
  "days_since now day =
     (let d = max (- (2 ^ 63)) (min (2 ^ 63 - 1) (now - day * day_ns)) in
      if d < 0 then - ((- d) div day_ns) else d div day_ns)"

section \<open>util.go\<close>

definition serviceNameList :: "string list" where
  "serviceNameList = [''cdm-cloud-api-gateway'', ''cdm-cloud-identity'', ''cdm-cloud-license'', ''cdm-cloud-notification'', ''cdm-cloud-scheduler'',
   ''cdm-cluster-manager'', ''cdm-dr-manager'', ''cdm-dr-migratord'', ''cdm-dr-mirrord'', ''cdm-target-snapshot'', ''cdm-openstack-request'']"

definition ServiceLogStorePeriod :: string where
  "ServiceLogStorePeriod = ''service_log_store_period''"

definition log_period :: "env \<Rightarrow> db \<Rightarrow> string \<Rightarrow> int" where
  "log_period E d name =
     (case ServiceConfig E d name ServiceLogStorePeriod of Some v \<Rightarrow> if v \<noteq> [] then Atoi_value v else 30 | None \<Rightarrow> 30)"

text \<open>The names under which the files of the services are found.\<close>

definition log_name :: "string \<Rightarrow> string" where
  "log_name s = (if s = ''cdm-cloud-api-gateway'' then ''cdm-cloud-api'' else s)"

definition getServiceLogPeriodMap :: "env \<Rightarrow> sys \<Rightarrow> (goerr, string \<rightharpoonup> int) res \<times> sys" where
  "getServiceLogPeriodMap E s =
     w_Execute (init_options [] [] [] [] []) False \<lparr>sp_fails = None, sp_rolled_back = True\<rparr> E
       (\<lambda>E s. (Ok (foldl (\<lambda>m name. m(log_name name \<mapsto> log_period E (s_db s) name)) Map.empty serviceNameList), s)) s"

definition log_expired :: "(string \<rightharpoonup> int) \<Rightarrow> int \<Rightarrow> string \<Rightarrow> bool" where
  "log_expired periods now file =
     (case leftmost match_service file of
        None \<Rightarrow> False
      | Some service \<Rightarrow>
        (case periods service of
           None \<Rightarrow> False
         | Some period \<Rightarrow>
           (case leftmost match_date file of
              None \<Rightarrow> False
            | Some date \<Rightarrow> days_since now (time_Parse_value date) > period)))"

text \<open>
  The files of the directory afterwards; \<open>removes\<close>: the system removes the file (an error is only logged).
\<close>

definition DeleteExpiredServiceLogFiles ::
  "env \<Rightarrow> int \<Rightarrow> (goerr, string list) res \<Rightarrow> (string \<Rightarrow> bool) \<Rightarrow> sys \<Rightarrow> (goerr, string list) res" where
  "DeleteExpiredServiceLogFiles E now dir removes s =
     bindR dir (\<lambda>files.
     bindR (fst (getServiceLogPeriodMap E s)) (\<lambda>periods.
     Ok (filter (\<lambda>f. \<not> (log_expired periods now f \<and> removes f)) files)))"

end
