(* ===== verification/Spec_Log_Files.thy ===== *)
theory Spec_Log_Files
  imports Log_Files Sample
begin

text \<open>Which log files are deleted.\<close>

lemma takeWhile_run: "\<forall>c \<in> set xs. P c \<Longrightarrow> \<not> P y \<Longrightarrow> takeWhile P (xs @ y # ys) = xs \<and> dropWhile P (xs @ y # ys) = y # ys"
  by (induction xs) auto

lemma match_runs_step:
  assumes "xs \<noteq> []" and "\<forall>c \<in> set xs. P c" and "\<not> P y"
  shows "match_runs (P # Ps) (xs @ y # ys) = map_option (\<lambda>m. xs @ m) (match_runs Ps (y # ys))"
  using takeWhile_run [OF assms(2,3)] assms(1) by simp

lemma match_dash:
  "x \<noteq> CHR ''-'' \<Longrightarrow> match_runs ((\<lambda>c. c = CHR ''-'') # Ps) (CHR ''-'' # x # xs) = map_option (\<lambda>m. ''-'' @ m) (match_runs Ps (x # xs))"
  using match_runs_step [of "''-''" "\<lambda>c. c = CHR ''-''" x Ps xs] by simp

lemma leftmost_here: "f s = Some m \<Longrightarrow> leftmost f s = Some m"
  by (cases s) auto

lemma leftmost_date_skip: "CHR ''2'' \<notin> set pre \<Longrightarrow> leftmost match_date (pre @ c # s) = leftmost match_date (c # s)"
proof (induction pre)
  case (Cons a pre)
  then have "take 2 (a # pre @ c # s) \<noteq> ''20''" by auto
  then have "match_date (a # pre @ c # s) = None" by (simp only: match_date_def if_False simp_thms)
  with Cons show ?case by simp
qed simp

lemma digit_2 [simp]: "is_digit CHR ''2''" and digit_0 [simp]: "is_digit CHR ''0''" and digit_dash [simp]: "\<not> is_digit CHR ''-''"
  and digit_dot [simp]: "\<not> is_digit CHR ''.''"
  by code_simp+

lemma match_date_found:
  assumes "y \<noteq> []" "m \<noteq> []" "d \<noteq> []" and "\<forall>c \<in> set (y @ m @ d). is_digit c"
  shows "match_date (''20'' @ y @ ''-'' @ m @ ''-'' @ d @ ''.log'') = Some (''20'' @ y @ ''-'' @ m @ ''-'' @ d)"
proof -
  have run: "\<forall>c \<in> set (CHR ''0'' # y). is_digit c" "\<forall>c \<in> set m. is_digit c" "\<forall>c \<in> set d. is_digit c"
    using assms(4) by auto
  have "takeWhile is_digit ((CHR ''0'' # y) @ CHR ''-'' # m @ ''-'' @ d @ ''.log'') = CHR ''0'' # y"
    using takeWhile_run [OF run(1)] digit_dash by blast
  then have two: "2 \<le> length (takeWhile is_digit (drop 1 (''20'' @ y @ ''-'' @ m @ ''-'' @ d @ ''.log'')))"
    using assms(1) by (cases y) auto
  note dash = match_dash
  obtain m1 m2 d1 d2 where md: "m = m1 # m2" "d = d1 # d2" using assms(2,3) by (auto simp: neq_Nil_conv)
  then have n: "m1 \<noteq> CHR ''-''" "d1 \<noteq> CHR ''-''" using run(2,3) digit_dash by auto
  have 1: "match_runs (is_digit # Ps) ((CHR ''0'' # y) @ CHR ''-'' # m @ ''-'' @ d @ ''.log'') =
      map_option (\<lambda>m. (CHR ''0'' # y) @ m) (match_runs Ps (CHR ''-'' # m @ ''-'' @ d @ ''.log''))" for Ps
    by (rule match_runs_step) (use run(1) in auto)
  have 2: "match_runs (is_digit # Ps) (m @ CHR ''-'' # d @ ''.log'') = map_option (\<lambda>x. m @ x) (match_runs Ps (CHR ''-'' # d @ ''.log''))" for Ps
    by (rule match_runs_step) (use run(2) assms(2) in auto)
  have 3: "match_runs (is_digit # Ps) (d @ CHR ''.'' # ''log'') = map_option (\<lambda>x. d @ x) (match_runs Ps ''.log'')" for Ps
    by (rule match_runs_step) (use run(3) assms(3) in auto)
  have "match_runs [is_digit, \<lambda>c. c = CHR ''-'', is_digit, \<lambda>c. c = CHR ''-'', is_digit] ((CHR ''0'' # y) @ CHR ''-'' # m @ ''-'' @ d @ ''.log'')
      = Some ((CHR ''0'' # y) @ ''-'' @ m @ ''-'' @ d)"
    using 1 [of "[\<lambda>c. c = CHR ''-'', is_digit, \<lambda>c. c = CHR ''-'', is_digit]"] 2 [of "[\<lambda>c. c = CHR ''-'', is_digit]"] 3 [of "[]"] dash [OF n(1)] dash [OF n(2)] md by (simp del: match_runs.simps(2))
  with two show ?thesis by (simp add: match_date_def)
qed

lemma match_service_parts:
  assumes "A \<noteq> []" "B \<noteq> []" and "\<forall>c \<in> set (A @ B). is_lower c"
  shows "match_service (''cdm-'' @ A @ ''-'' @ B @ ''-'' @ s) = Some (''cdm-'' @ A @ ''-'' @ B)"
proof -
  have l: "\<not> is_lower CHR ''-''" by code_simp
  obtain a1 a2 b1 b2 where ab: "A = a1 # a2" "B = b1 # b2" using assms(1,2) by (auto simp: neq_Nil_conv)
  then have n: "a1 \<noteq> CHR ''-''" "b1 \<noteq> CHR ''-''" using assms(3) l by auto
  have 1: "match_runs (is_lower # Ps) (A @ CHR ''-'' # B @ ''-'' @ s) = map_option (\<lambda>x. A @ x) (match_runs Ps (CHR ''-'' # B @ ''-'' @ s))" for Ps
    by (rule match_runs_step) (use assms(1,3) l in auto)
  have 2: "match_runs (is_lower # Ps) (B @ CHR ''-'' # s) = map_option (\<lambda>x. B @ x) (match_runs Ps (CHR ''-'' # s))" for Ps
    by (rule match_runs_step) (use assms(2,3) l in auto)
  have "match_runs [\<lambda>c. c = CHR ''-'', is_lower, \<lambda>c. c = CHR ''-'', is_lower] (CHR ''-'' # A @ ''-'' @ B @ ''-'' @ s)
      = Some (''-'' @ A @ ''-'' @ B)"
    using 1 [of "[\<lambda>c. c = CHR ''-'', is_lower]"] 2 [of "[]"] match_dash [OF n(1)] match_dash [OF n(2)] ab
    by (simp del: match_runs.simps(2))
  then show ?thesis by (simp add: match_service_def del: match_runs.simps(2))
qed

lemma service_parts:
  assumes "svc \<in> set serviceNameList"
  obtains A B where "log_name svc = ''cdm-'' @ A @ ''-'' @ B" "A \<noteq> []" "B \<noteq> []" "\<forall>c \<in> set (A @ B). is_lower c"
proof -
  let ?ps = "[(''cloud'', ''api''), (''cloud'', ''identity''), (''cloud'', ''license''), (''cloud'', ''notification''), (''cloud'', ''scheduler''),
    (''cluster'', ''manager''), (''dr'', ''manager''), (''dr'', ''migratord''), (''dr'', ''mirrord''), (''target'', ''snapshot''), (''openstack'', ''request'')]"
  have "list_all (\<lambda>svc. list_ex (\<lambda>(A, B). log_name svc = ''cdm-'' @ A @ ''-'' @ B \<and> A \<noteq> [] \<and> B \<noteq> [] \<and> list_all is_lower (A @ B)) ?ps) serviceNameList"
    by code_simp
  with assms have "\<exists>(A, B) \<in> set ?ps. log_name svc = ''cdm-'' @ A @ ''-'' @ B \<and> A \<noteq> [] \<and> B \<noteq> [] \<and> list_all is_lower (A @ B)"
    unfolding list_all_iff list_ex_iff by blast
  then show ?thesis using that by (auto simp only: list_all_iff split_beta)
qed

lemma match_service_found:
  assumes "svc \<in> set serviceNameList"
  shows "match_service (log_name svc @ ''-'' @ s) = Some (log_name svc)"
  using service_parts [OF assms] match_service_parts [of _ _ s] by (metis append.assoc)

definition service_periods :: "env \<Rightarrow> db \<Rightarrow> string \<rightharpoonup> int" where
  "service_periods E d = foldl (\<lambda>m name. m(log_name name \<mapsto> log_period E d name)) Map.empty serviceNameList"

lemma periods_of: "fst (getServiceLogPeriodMap E s) = Ok (service_periods E (s_db s))"
  by (simp add: getServiceLogPeriodMap_def w_Execute_def init_options_def service_periods_def)

lemma periods_lookup: "svc \<in> set serviceNameList \<Longrightarrow> service_periods E d (log_name svc) = Some (log_period E d svc)"
  by (auto simp: service_periods_def serviceNameList_def log_name_def)

lemma periods_dom: "service_periods E d name = Some p \<Longrightarrow> name \<in> log_name ` set serviceNameList"
  by (auto simp: service_periods_def serviceNameList_def split: if_splits)

lemma parse_failure_days: "0 \<le> now \<Longrightarrow> days_since now (- 719162) = 106751"
  by (simp add: days_since_def day_ns_def Let_def min_def max_def)



end
