(* ===== verification/Broker.thy ===== *)
theory Broker
  imports Discovery
begin

text \<open>
  \<open>common/broker\<close>: subscriptions, deliveries and publishing over RabbitMQ, and the connection that reconnects.
  The AMQP library and the service registry are not part of the repository: the library answers every
  operation, in order, with an error or none, and what matters is which operations are asked of it.
\<close>

section \<open>The AMQP library\<close>

record message =
  msg_Header :: "(string \<times> string) list"
  msg_Body :: string

datatype amqp_op =
    A_Dial string
  | A_NewUUID
  | A_Channel
  | A_Qos nat bool
  | A_ExchangeDeclare string bool
  | A_QueueDeclare string bool bool
  | A_QueueBind string string string
  | A_Consume string bool
  | A_Publish string string message "nat option" "nat option"
  | A_Ack
  | A_Nack bool
  | A_CloseConnection

text \<open>The answer to the n-th operation, and the operations so far.\<close>

record amqp =
  aq_answer :: "nat \<Rightarrow> string option"
  aq_log :: "amqp_op list"

definition amqp_do :: "amqp_op \<Rightarrow> amqp \<Rightarrow> (goerr, unit) res \<times> amqp" where
  "amqp_do op w =
     ((case aq_answer w (length (aq_log w)) of None \<Rightarrow> Ok () | Some e \<Rightarrow> Fail (PlainErr e)), w\<lparr>aq_log := aq_log w @ [op]\<rparr>)"

text \<open>Operations one after another, up to the first that fails.\<close>

fun amqp_all :: "amqp_op list \<Rightarrow> amqp \<Rightarrow> (goerr, unit) res \<times> amqp" where
  "amqp_all [] w = (Ok (), w)"
| "amqp_all (op # ops) w =
     (case amqp_do op w of (Ok _, w') \<Rightarrow> amqp_all ops w' | (r, w') \<Rightarrow> (r, w'))"

definition QueueReportEvent :: string where
  "QueueReportEvent = ''cdm.cloud.report.event''"

section \<open>Options (broker_options.go and rabbitmq_options.go)\<close>

record subscribe_options =
  so_AutoAck :: bool
  so_Queue :: string
  so_durableQueue :: bool
  so_requeueOnError :: bool

datatype subscribe_option = DisableAutoAck | Queue string | DurableQueue | RequeueOnError

fun apply_subscribe_option :: "subscribe_option \<Rightarrow> subscribe_options \<Rightarrow> subscribe_options" where
  "apply_subscribe_option DisableAutoAck o' = o'\<lparr>so_AutoAck := False\<rparr>"
| "apply_subscribe_option (Queue name) o' = o'\<lparr>so_Queue := name\<rparr>"
| "apply_subscribe_option DurableQueue o' = o'\<lparr>so_durableQueue := True\<rparr>"
| "apply_subscribe_option RequeueOnError o' = o'\<lparr>so_requeueOnError := True\<rparr>"

record publish_options =
  po_DeliveryMode :: "nat option"
  po_Priority :: "nat option"

datatype publish_option = DeliveryMode nat | Priority nat

fun apply_publish_option :: "publish_option \<Rightarrow> publish_options \<Rightarrow> publish_options" where
  "apply_publish_option (DeliveryMode v) o' = o'\<lparr>po_DeliveryMode := Some v\<rparr>"
| "apply_publish_option (Priority v) o' = o'\<lparr>po_Priority := Some v\<rparr>"

record broker_options =
  bo_ServiceName :: string
  bo_PersistentQueues :: "string list"
  bo_Exchange :: string
  bo_DurableExchange :: bool
  bo_Secure :: bool
  bo_TLS :: bool

datatype broker_option = PersistentQueue "string list" | ExchangeName string | DurableExchange | Secure bool | TLSConfig

fun apply_broker_option :: "broker_option \<Rightarrow> broker_options \<Rightarrow> broker_options" where
  "apply_broker_option (PersistentQueue vs) o' = o'\<lparr>bo_PersistentQueues := bo_PersistentQueues o' @ vs\<rparr>"
| "apply_broker_option (ExchangeName e) o' = o'\<lparr>bo_Exchange := e\<rparr>"
| "apply_broker_option DurableExchange o' = o'\<lparr>bo_DurableExchange := True\<rparr>"
| "apply_broker_option (Secure b) o' = o'\<lparr>bo_Secure := b\<rparr>"
| "apply_broker_option TLSConfig o' = o'\<lparr>bo_TLS := True\<rparr>"

section \<open>Channels (rabbitmq_channel.go)\<close>

definition newRabbitChannel :: "nat \<Rightarrow> bool \<Rightarrow> amqp_op list" where
  "newRabbitChannel prefetchCount prefetchGlobal = [A_NewUUID, A_Channel, A_Qos prefetchCount prefetchGlobal]"

definition DeclareQueue :: "string \<Rightarrow> amqp_op" where
  "DeclareQueue queue = A_QueueDeclare queue False True"

definition DeclareDurableQueue :: "string \<Rightarrow> amqp_op" where
  "DeclareDurableQueue queue = A_QueueDeclare queue True False"

definition DeclareExchange :: "string \<Rightarrow> amqp_op" where
  "DeclareExchange exchange = A_ExchangeDeclare exchange False"

definition DeclareDurableExchange :: "string \<Rightarrow> amqp_op" where
  "DeclareDurableExchange exchange = A_ExchangeDeclare exchange True"

definition ConsumeQueue :: "string \<Rightarrow> bool \<Rightarrow> amqp_op" where
  "ConsumeQueue queue autoAck = A_Consume queue autoAck"

definition BindQueue :: "string \<Rightarrow> string \<Rightarrow> string \<Rightarrow> amqp_op" where
  "BindQueue queue key exchange = A_QueueBind queue key exchange"

section \<open>Connections (rabbitmq_connection.go)\<close>

text \<open>
  \<open>rc_closed\<close>: the channel \<open>close\<close> is closed; \<open>rc_wait\<close>: the channel \<open>waitConnection\<close> is open, so that
  whoever waits for the connection is blocked.
\<close>

record rabbitMQConn =
  rc_exchange :: string
  rc_durable :: bool
  rc_serviceName :: string
  rc_qNames :: "string list"
  rc_account :: string
  rc_secure :: bool
  rc_connected :: bool
  rc_closed :: bool
  rc_wait :: bool

definition newRabbitMQConn :: "broker_options \<Rightarrow> string \<Rightarrow> rabbitMQConn" where
  "newRabbitMQConn bo auth =
     \<lparr>rc_exchange = bo_Exchange bo, rc_durable = bo_DurableExchange bo, rc_serviceName = bo_ServiceName bo,
      rc_qNames = bo_PersistentQueues bo, rc_account = auth, rc_secure = bo_Secure bo \<or> bo_TLS bo,
      rc_connected = False, rc_closed = False, rc_wait = False\<rparr>"

definition conn_Close :: "rabbitMQConn \<Rightarrow> amqp \<Rightarrow> (goerr, unit) res \<times> rabbitMQConn \<times> amqp" where
  "conn_Close c w =
     (if rc_closed c then (Ok (), c, w)
      else (case amqp_do A_CloseConnection w of (r, w') \<Rightarrow> (r, c\<lparr>rc_closed := True, rc_connected := False\<rparr>, w')))"

definition declarePersistentQueue :: "string \<Rightarrow> string \<Rightarrow> string \<Rightarrow> amqp_op list" where
  "declarePersistentQueue q key exchange = newRabbitChannel 0 False @ [DeclareDurableQueue q, BindQueue q key exchange]"

definition node_url :: "rabbitMQConn \<Rightarrow> string \<Rightarrow> string" where
  "node_url c address = (if rc_secure c then ''amqps://'' else ''amqp://'') @ rc_account c @ ''@'' @ address @ ''/''"

fun dial_nodes :: "rabbitMQConn \<Rightarrow> string list \<Rightarrow> amqp \<Rightarrow> (goerr, unit) res \<times> amqp" where
  "dial_nodes c [] w = (Fail (PlainErr ''could not connect to broker''), w)"
| "dial_nodes c (address # rest) w =
     (case amqp_do (A_Dial (node_url c address)) w of (Ok _, w') \<Rightarrow> (Ok (), w') | (_, w') \<Rightarrow> dial_nodes c rest w')"

definition doTryConnect :: "rabbitMQConn \<Rightarrow> registry_answer \<Rightarrow> amqp \<Rightarrow> (goerr, unit) res \<times> amqp" where
  "doTryConnect c registry w =
     (case discover PlainErr ''broker '' registry of
        Ok s \<Rightarrow> dial_nodes c (map sn_Address (nodes_to_try s)) w
      | Fail e \<Rightarrow> (Fail e, w)
      | Panic \<Rightarrow> (Panic, w))"

text \<open>A queue is declared again and again until it works.\<close>

partial_function (option) declare_queue :: "string \<Rightarrow> string \<Rightarrow> amqp \<Rightarrow> amqp option" where
  "declare_queue q exchange w =
     (case amqp_all (declarePersistentQueue q q exchange) w of
        (Ok _, w') \<Rightarrow> Some w' | (_, w') \<Rightarrow> declare_queue q exchange w')"

declare declare_queue.simps [code]

fun declare_queues :: "string list \<Rightarrow> string \<Rightarrow> amqp \<Rightarrow> amqp option" where
  "declare_queues [] exchange w = Some w"
| "declare_queues (q # qs) exchange w =
     (case declare_queue q exchange w of None \<Rightarrow> None | Some w' \<Rightarrow> declare_queues qs exchange w')"

text \<open>A failure after the dial closes the connection.\<close>

definition tryConnect ::
  "rabbitMQConn \<Rightarrow> registry_answer \<Rightarrow> amqp \<Rightarrow> ((goerr, unit) res \<times> rabbitMQConn \<times> amqp) option" where
  "tryConnect c registry w =
     (case doTryConnect c registry w of
        (Ok _, w1) \<Rightarrow>
          (case amqp_all (newRabbitChannel 0 False @
                  [if rc_durable c then DeclareDurableExchange (rc_exchange c) else DeclareExchange (rc_exchange c)] @
                  newRabbitChannel 0 False) w1 of
             (Ok _, w2) \<Rightarrow> map_option (\<lambda>w3. (Ok (), c, w3)) (declare_queues (rc_qNames c) (rc_exchange c) w2)
           | (r, w2) \<Rightarrow> (case conn_Close c w2 of (_, c', w3) \<Rightarrow> Some (r, c', w3)))
      | (r, w1) \<Rightarrow> Some (r, c, w1))"

definition Consume :: "rabbitMQConn \<Rightarrow> string \<Rightarrow> string \<Rightarrow> bool \<Rightarrow> bool \<Rightarrow> amqp_op list" where
  "Consume c queue key autoAck durableQueue =
     newRabbitChannel 0 False @
     [if durableQueue then DeclareDurableQueue queue else DeclareQueue queue,
      ConsumeQueue queue autoAck, BindQueue queue key (rc_exchange c)]"

section \<open>Publishing and subscribing (rabbitmq.go)\<close>

record rbroker =
  rb_opts :: broker_options
  rb_auth :: string
  rb_conn :: "rabbitMQConn option"

definition NewBroker :: "string \<Rightarrow> string \<Rightarrow> string \<Rightarrow> broker_option list \<Rightarrow> rbroker" where
  "NewBroker name i passwd opts =
     \<lparr>rb_opts = fold apply_broker_option opts
        \<lparr>bo_ServiceName = name, bo_PersistentQueues = [], bo_Exchange = ''micro'', bo_DurableExchange = False,
         bo_Secure = False, bo_TLS = False\<rparr>,
      rb_auth = i @ '':'' @ passwd, rb_conn = None\<rparr>"

definition r_Publish :: "rbroker \<Rightarrow> string \<Rightarrow> message \<Rightarrow> publish_option list \<Rightarrow> amqp \<Rightarrow> (goerr, unit) res \<times> amqp" where
  "r_Publish r topic msg opts w =
     (case rb_conn r of
        None \<Rightarrow> (Fail (PlainErr ''not connected broker''), w)
      | Some c \<Rightarrow>
          (let po = fold apply_publish_option opts \<lparr>po_DeliveryMode = None, po_Priority = None\<rparr> in
           amqp_do (A_Publish (rc_exchange c) topic msg (po_DeliveryMode po) (po_Priority po)) w))"

record sub =
  sb_topic :: string
  sb_opts :: subscribe_options
  sb_mayRun :: bool

definition r_subscribe :: "rbroker \<Rightarrow> string \<Rightarrow> subscribe_option list \<Rightarrow> (goerr, sub) res" where
  "r_subscribe r topic opts =
     (case rb_conn r of
        None \<Rightarrow> Fail (PlainErr ''not connected broker'')
      | Some _ \<Rightarrow>
          Ok \<lparr>sb_topic = topic,
              sb_opts = fold apply_subscribe_option opts \<lparr>so_AutoAck = True, so_Queue = [], so_durableQueue = False, so_requeueOnError = False\<rparr>,
              sb_mayRun = True\<rparr>)"

definition r_SubscribePersistentQueue :: "rbroker \<Rightarrow> string \<Rightarrow> bool \<Rightarrow> subscribe_option list \<Rightarrow> (goerr, sub) res" where
  "r_SubscribePersistentQueue r topic requeueOnError opts =
     r_subscribe r topic (opts @ [Queue topic, DurableQueue, DisableAutoAck] @ (if requeueOnError then [RequeueOnError] else []))"

definition r_SubscribeTempQueue :: "rbroker \<Rightarrow> string \<Rightarrow> subscribe_option list \<Rightarrow> (goerr, sub) res" where
  "r_SubscribeTempQueue r topic opts = r_subscribe r topic opts"

text \<open>The answer to the broker after the handler ran; an error of the answer itself is only logged.\<close>

definition delivery_answer :: "subscribe_options \<Rightarrow> (goerr, unit) res \<Rightarrow> amqp_op list" where
  "delivery_answer so r =
     (if so_AutoAck so then []
      else (case r of Ok _ \<Rightarrow> [A_Ack] | Fail _ \<Rightarrow> [A_Nack (so_requeueOnError so)] | Panic \<Rightarrow> []))"

section \<open>The loop of a subscription\<close>

definition minResubscribeDelay :: nat where
  "minResubscribeDelay = 100"

definition maxResubscribeDelay :: nat where
  "maxResubscribeDelay = 30000"

text \<open>The delays, in milliseconds, that a run of failures of \<open>Consume\<close> sleeps for.\<close>

fun resubscribe_delays :: "nat \<Rightarrow> nat \<Rightarrow> nat list" where
  "resubscribe_delays 0 delay = []"
| "resubscribe_delays (Suc n) delay =
     (let d = (if delay > maxResubscribeDelay then maxResubscribeDelay else delay) in d # resubscribe_delays n (2 * d))"

section \<open>The running connection\<close>

text \<open>
  The goroutines: the loop of \<open>reconnect\<close>, which watches the connection or retries, and the loops of
  \<open>resubscribe\<close>, each at its top or reading deliveries.
\<close>

datatype loop_state = Watching | Retrying | LoopEnded

datatype sub_state = AtTop | Consuming | SubEnded

record bsys =
  bs_conn :: rabbitMQConn
  bs_loop :: loop_state
  bs_subs :: "(sub \<times> sub_state) list"
  bs_panic :: bool

definition set_sub :: "nat \<Rightarrow> sub \<times> sub_state \<Rightarrow> bsys \<Rightarrow> bsys" where
  "set_sub i x b = b\<lparr>bs_subs := (bs_subs b)[i := x]\<rparr>"

text \<open>What \<open>reconnect\<close> does with the outcome of an attempt: closing a closed channel panics.\<close>

definition reconnected :: "(goerr, unit) res \<times> rabbitMQConn \<Rightarrow> bsys \<Rightarrow> bsys" where
  "reconnected rc b =
     (case rc of
        (Ok _, c) \<Rightarrow>
          b\<lparr>bs_conn := c\<lparr>rc_connected := True, rc_wait := False\<rparr>, bs_loop := Watching,
            bs_panic := bs_panic b \<or> \<not> rc_wait c\<rparr>
      | (_, c) \<Rightarrow> b\<lparr>bs_conn := c\<rparr>)"

datatype baction =
    ConnectionLost
  | LoopStops
  | Reconnect registry_answer amqp
  | Disconnect amqp
  | Subscribe sub
  | Unsubscribe nat
  | SubscriberStops nat
  | SubscriberConsumes nat amqp
  | DeliveriesEnd nat

text \<open>
  A \<open>select\<close> takes any branch that is ready: a subscriber stops when the broker is closed, and goes on when
  nobody makes it wait and there is a connection.
\<close>

inductive bstep :: "baction \<Rightarrow> bsys \<Rightarrow> bsys \<Rightarrow> bool" where
  b_lost: "bs_loop b = Watching \<Longrightarrow>
    bstep ConnectionLost b (b\<lparr>bs_conn := (bs_conn b)\<lparr>rc_connected := False, rc_wait := True\<rparr>, bs_loop := Retrying\<rparr>)"
| b_loop_stops: "bs_loop b = Watching \<Longrightarrow> rc_closed (bs_conn b) \<Longrightarrow> bstep LoopStops b (b\<lparr>bs_loop := LoopEnded\<rparr>)"
| b_reconnect: "bs_loop b = Retrying \<Longrightarrow> tryConnect (bs_conn b) registry w = Some (r, c, w') \<Longrightarrow>
    bstep (Reconnect registry w) b (reconnected (r, c) b)"
| b_disconnect: "conn_Close (bs_conn b) w = (r, c, w') \<Longrightarrow> bstep (Disconnect w) b (b\<lparr>bs_conn := c\<rparr>)"
| b_subscribe: "sb_mayRun s \<Longrightarrow> bstep (Subscribe s) b (b\<lparr>bs_subs := bs_subs b @ [(s, AtTop)]\<rparr>)"
| b_unsubscribe: "i < length (bs_subs b) \<Longrightarrow> bs_subs b ! i = (s, st) \<Longrightarrow>
    bstep (Unsubscribe i) b (set_sub i (s\<lparr>sb_mayRun := False\<rparr>, st) b)"
| b_sub_stops: "i < length (bs_subs b) \<Longrightarrow> bs_subs b ! i = (s, AtTop) \<Longrightarrow> \<not> sb_mayRun s \<or> rc_closed (bs_conn b) \<Longrightarrow>
    bstep (SubscriberStops i) b (set_sub i (s, SubEnded) b)"
| b_sub_consumes: "i < length (bs_subs b) \<Longrightarrow> bs_subs b ! i = (s, AtTop) \<Longrightarrow> sb_mayRun s \<Longrightarrow> \<not> rc_wait (bs_conn b) \<Longrightarrow>
    rc_connected (bs_conn b) \<Longrightarrow>
    amqp_all (Consume (bs_conn b) (so_Queue (sb_opts s)) (sb_topic s) (so_AutoAck (sb_opts s)) (so_durableQueue (sb_opts s))) w = (r, w') \<Longrightarrow>
    bstep (SubscriberConsumes i w) b (if r = Ok () then set_sub i (s, Consuming) b else b)"
| b_deliveries_end: "i < length (bs_subs b) \<Longrightarrow> bs_subs b ! i = (s, Consuming) \<Longrightarrow>
    bstep (DeliveriesEnd i) b (set_sub i (s, AtTop) b)"

text \<open>
  \<open>Connect\<close>: nothing on a connection that is up; otherwise an attempt, after which the loop of \<open>reconnect\<close>
  starts (the flag).  \<open>breachable\<close> describes a broker from its first \<open>Connect\<close> on, which is how the services
  use it, so that there is one such loop.
\<close>

definition conn_Connect ::
  "rabbitMQConn \<Rightarrow> registry_answer \<Rightarrow> amqp \<Rightarrow> ((goerr, unit) res \<times> rabbitMQConn \<times> bool \<times> amqp) option" where
  "conn_Connect c registry w =
     (if rc_connected c then Some (Ok (), c, False, w)
      else
        (case tryConnect (c\<lparr>rc_closed := False\<rparr>) registry w of
           None \<Rightarrow> None
         | Some (Ok _, c', w') \<Rightarrow> Some (Ok (), c'\<lparr>rc_connected := True\<rparr>, True, w')
         | Some (r, c', w') \<Rightarrow> Some (r, c', False, w')))"

definition r_Connect :: "rbroker \<Rightarrow> registry_answer \<Rightarrow> amqp \<Rightarrow> ((goerr, unit) res \<times> rbroker \<times> bool \<times> amqp) option" where
  "r_Connect r registry w =
     map_option (\<lambda>(e, c, starts, w').
        (e, (if e = Ok () \<or> rb_conn r \<noteq> None then r\<lparr>rb_conn := Some c\<rparr> else r), starts, w'))
       (conn_Connect (case rb_conn r of None \<Rightarrow> newRabbitMQConn (rb_opts r) (rb_auth r) | Some c \<Rightarrow> c) registry w)"

definition r_Disconnect :: "rbroker \<Rightarrow> amqp \<Rightarrow> (goerr, unit) res \<times> rbroker \<times> amqp" where
  "r_Disconnect r w =
     (case rb_conn r of
        None \<Rightarrow> (Fail (PlainErr ''connection is nil''), r, w)
      | Some c \<Rightarrow> (case conn_Close c w of (e, c', w') \<Rightarrow> (e, r\<lparr>rb_conn := Some c'\<rparr>, w')))"

definition connected_bsys :: "rabbitMQConn \<Rightarrow> bsys" where
  "connected_bsys c = \<lparr>bs_conn = c, bs_loop = Watching, bs_subs = [], bs_panic = False\<rparr>"

text \<open>The states reached by actions of a kind; \<open>undisturbed\<close>: nobody disconnects or unsubscribes.\<close>

inductive breachable :: "(baction \<Rightarrow> bool) \<Rightarrow> bsys \<Rightarrow> bsys \<Rightarrow> bool" for P b0 where
  breachable_init: "breachable P b0 b0"
| breachable_step: "breachable P b0 b \<Longrightarrow> P a \<Longrightarrow> bstep a b b' \<Longrightarrow> breachable P b0 b'"

definition undisturbed :: "baction \<Rightarrow> bool" where
  "undisturbed a \<longleftrightarrow> (case a of Disconnect _ \<Rightarrow> False | Unsubscribe _ \<Rightarrow> False | _ \<Rightarrow> True)"

inductive_cases bstepE: "bstep a b b'"

section \<open>The default broker (broker.go)\<close>

text \<open>
  \<open>DefaultBroker\<close> is \<open>None\<close> before \<open>Init\<close> and after \<open>Disconnect\<close>; calling a method on it then
  dereferences nil.
\<close>

definition broker_Init :: "string \<Rightarrow> string \<Rightarrow> string \<Rightarrow> broker_option list \<Rightarrow> rbroker option" where
  "broker_Init name i passwd opts = Some (NewBroker name i passwd opts)"

definition broker_Connect ::
  "rbroker option \<Rightarrow> registry_answer \<Rightarrow> amqp \<Rightarrow> ((goerr, unit) res \<times> rbroker option \<times> amqp) option" where
  "broker_Connect b registry w =
     (case b of
        None \<Rightarrow> Some (Panic, None, w)
      | Some r \<Rightarrow> map_option (\<lambda>(e, r', _, w'). (e, Some r', w')) (r_Connect r registry w))"

definition broker_Disconnect :: "rbroker option \<Rightarrow> amqp \<Rightarrow> (goerr, unit) res \<times> rbroker option \<times> amqp" where
  "broker_Disconnect b w =
     (case b of None \<Rightarrow> (Panic, None, w) | Some r \<Rightarrow> (case r_Disconnect r w of (e, _, w') \<Rightarrow> (e, None, w')))"

definition broker_Publish :: "rbroker option \<Rightarrow> string \<Rightarrow> message \<Rightarrow> publish_option list \<Rightarrow> amqp \<Rightarrow> (goerr, unit) res \<times> amqp" where
  "broker_Publish b topic msg opts w = (case b of None \<Rightarrow> (Panic, w) | Some r \<Rightarrow> r_Publish r topic msg opts w)"

definition broker_SubscribePersistentQueue :: "rbroker option \<Rightarrow> string \<Rightarrow> bool \<Rightarrow> subscribe_option list \<Rightarrow> (goerr, sub) res" where
  "broker_SubscribePersistentQueue b topic requeueOnError opts =
     (case b of None \<Rightarrow> Panic | Some r \<Rightarrow> r_SubscribePersistentQueue r topic requeueOnError opts)"

definition broker_SubscribeTempQueue :: "rbroker option \<Rightarrow> string \<Rightarrow> subscribe_option list \<Rightarrow> (goerr, sub) res" where
  "broker_SubscribeTempQueue b topic opts = (case b of None \<Rightarrow> Panic | Some r \<Rightarrow> r_SubscribeTempQueue r topic opts)"

end
