(* ===== verification/Logger.thy ===== *)
theory Logger
  imports Broker Database
begin

text \<open>
  \<open>common/logger\<close>: what is logged at which level, and the watcher that keeps the level of a process at the
  setting of its service.  The levels and their names are those of go-micro's logger.
\<close>

section \<open>Levels\<close>

definition TraceLevel :: int where
  "TraceLevel = - 2"

definition DebugLevel :: int where
  "DebugLevel = - 1"

definition InfoLevel :: int where
  "InfoLevel = 0"

definition WarnLevel :: int where
  "WarnLevel = 1"

definition ErrorLevel :: int where
  "ErrorLevel = 2"

definition FatalLevel :: int where
  "FatalLevel = 3"

lemmas level_defs = TraceLevel_def DebugLevel_def InfoLevel_def WarnLevel_def ErrorLevel_def FatalLevel_def

definition level_table :: "(string \<times> int) list" where
  "level_table = [(''trace'', TraceLevel), (''debug'', DebugLevel), (''info'', InfoLevel), (''warn'', WarnLevel),
     (''error'', ErrorLevel), (''fatal'', FatalLevel)]"

text \<open>The value of \<open>GetLevel\<close>, whose error for an unknown name the callers ignore.\<close>

definition GetLevel :: "string \<Rightarrow> int" where
  "GetLevel s = (case map_of level_table s of Some l \<Rightarrow> l | None \<Rightarrow> InfoLevel)"

definition level_String :: "int \<Rightarrow> string" where
  "level_String l = (case map_of (map (\<lambda>(n, l). (l, n)) level_table) l of Some n \<Rightarrow> n | None \<Rightarrow> [])"

section \<open>The logger (default.go and logger.go)\<close>

text \<open>\<open>lg_out\<close>: the lines written so far.\<close>

record default_logger =
  lg_Level :: int
  lg_ServiceName :: "string option"
  lg_CallerSkipCount :: nat
  lg_out :: "string list"

datatype logger_option = WithLevel int | WithServiceName string | WithCallerSkipCount nat

fun apply_logger_option :: "logger_option \<Rightarrow> default_logger \<Rightarrow> default_logger" where
  "apply_logger_option (WithLevel l) lg = lg\<lparr>lg_Level := l\<rparr>"
| "apply_logger_option (WithServiceName n) lg = lg\<lparr>lg_ServiceName := Some n\<rparr>"
| "apply_logger_option (WithCallerSkipCount n) lg = lg\<lparr>lg_CallerSkipCount := n\<rparr>"

definition logger_Init :: "logger_option list \<Rightarrow> default_logger \<Rightarrow> default_logger" where
  "logger_Init opts lg = fold apply_logger_option opts lg"

definition NewLogger :: "logger_option list \<Rightarrow> default_logger" where
  "NewLogger opts = logger_Init opts \<lparr>lg_Level = InfoLevel, lg_ServiceName = None, lg_CallerSkipCount = 2, lg_out = []\<rparr>"

text \<open>\<open>%-5s\<close> and \<open>%-40s\<close> pad to a number of runes; upper case for the names of the levels, which are ASCII.\<close>

definition pad_right :: "nat \<Rightarrow> string \<Rightarrow> string" where
  "pad_right n s = s @ replicate (n - RuneCountInString s) CHR '' ''"

definition upper :: "char \<Rightarrow> char" where
  "upper c = (if 97 \<le> byte c \<and> byte c \<le> 122 then char_of (byte c - 32) else c)"

definition log_text :: "string \<Rightarrow> int \<Rightarrow> string \<Rightarrow> string option \<Rightarrow> string" where
  "log_text now level msg caller =
     now @ '' ['' @ pad_right 5 (map upper (level_String level)) @ ''] '' @ pad_right 40 msg @
     (case caller of None \<Rightarrow> [] | Some c \<Rightarrow> '' ('' @ c @ '')'')"

text \<open>\<open>Log\<close> and \<open>Logf\<close>, for the time and the caller as they are printed, and the text after formatting.\<close>

definition logger_Log :: "string \<Rightarrow> string option \<Rightarrow> int \<Rightarrow> string \<Rightarrow> default_logger \<Rightarrow> default_logger" where
  "logger_Log now caller level msg lg =
     (if lg_Level lg \<le> level then lg\<lparr>lg_out := lg_out lg @ [log_text now level msg caller]\<rparr> else lg)"

text \<open>\<open>Fatal\<close> and \<open>Fatalf\<close> log and panic.\<close>

definition logger_Fatal :: "string \<Rightarrow> string option \<Rightarrow> string \<Rightarrow> default_logger \<Rightarrow> (goerr, unit) res \<times> default_logger" where
  "logger_Fatal now caller msg lg = (Panic, logger_Log now caller FatalLevel msg lg)"

section \<open>The watcher (watcher.go)\<close>

definition TopicNoticeGlobalLoggingLevelUpdated :: string where
  "TopicNoticeGlobalLoggingLevelUpdated = ''cdm.cloud.notice.global.logging.level.updated''"

definition TopicNoticeServiceLoggingLevelUpdated :: string where
  "TopicNoticeServiceLoggingLevelUpdated = ''cdm.cloud.notice.service.logging.level.updated''"

definition ServiceLogLevel :: string where
  "ServiceLogLevel = ''service_log_level''"

definition GlobalLogLevel :: string where
  "GlobalLogLevel = ''global_log_level''"

record watcher =
  wt_serviceName :: string
  wt_gSub :: "sub option"
  wt_sSub :: "sub option"

definition findServiceLoggingLevel :: "env \<Rightarrow> db \<Rightarrow> string \<Rightarrow> int option" where
  "findServiceLoggingLevel E d s = map_option GetLevel (ServiceConfig E d s ServiceLogLevel)"

definition findGlobalLoggingLevel :: "env \<Rightarrow> db \<Rightarrow> int option" where
  "findGlobalLoggingLevel E d = map_option GetLevel (GlobalConfig E d GlobalLogLevel)"

definition find_level :: "string \<Rightarrow> env \<Rightarrow> db \<Rightarrow> int option" where
  "find_level name E d =
     (case (if name \<noteq> [] then findServiceLoggingLevel E d name else None) of
        Some l \<Rightarrow> Some l | None \<Rightarrow> findGlobalLoggingLevel E d)"

text \<open>
  The block of the transaction assigns the level to a variable outside of it, which keeps the value of the
  last attempt although the transaction fails; the error is only logged.
\<close>

fun last_env :: "attempt list \<Rightarrow> env option" where
  "last_env [] = None"
| "last_env (a # as) =
     (case at_release a of
        ReleaseRetryable _ \<Rightarrow> if at_restart a = None then last_env as else Some (at_env a)
      | _ \<Rightarrow> Some (at_env a))"

definition level_block :: "string \<Rightarrow> env \<Rightarrow> sys \<Rightarrow> (goerr, int option) res \<times> sys" where
  "level_block name E s = (Ok (find_level name E (s_db s)), s)"

definition assigned_level :: "string \<Rightarrow> trial \<Rightarrow> sys \<Rightarrow> (goerr, int option) res \<Rightarrow> int option" where
  "assigned_level name tr s r =
     (case r of
        Ok l \<Rightarrow> l
      | _ \<Rightarrow> if tr_begin tr \<noteq> None \<or> tr_savepoint tr \<noteq> None then None
             else (case last_env (tr_attempts tr) of None \<Rightarrow> None | Some E \<Rightarrow> find_level name E (s_db s)))"

definition updateLoggingLevel :: "trial \<Rightarrow> watcher \<Rightarrow> sys \<Rightarrow> default_logger \<Rightarrow> default_logger option" where
  "updateLoggingLevel tr w s lg =
     (case Transaction tr (level_block (wt_serviceName w)) s of
        None \<Rightarrow> None
      | Some (r, _) \<Rightarrow>
          Some (case assigned_level (wt_serviceName w) tr s r of None \<Rightarrow> lg | Some l \<Rightarrow> logger_Init [WithLevel l] lg))"

text \<open>What the two subscriptions do with a message; \<open>ServiceNotice\<close> carries the body, the name of a service.\<close>

datatype notice = GlobalNotice | ServiceNotice string

definition on_notice :: "trial \<Rightarrow> watcher \<Rightarrow> notice \<Rightarrow> sys \<Rightarrow> default_logger \<Rightarrow> default_logger option" where
  "on_notice tr w n s lg =
     (case n of
        GlobalNotice \<Rightarrow> updateLoggingLevel tr w s lg
      | ServiceNotice body \<Rightarrow>
          if wt_serviceName w = [] then Some lg
          else if wt_serviceName w = body then updateLoggingLevel tr w s lg else Some lg)"

definition ok_sub :: "(goerr, sub) res \<Rightarrow> sub option" where
  "ok_sub r = (case r of Ok s \<Rightarrow> Some s | _ \<Rightarrow> None)"

text \<open>The errors of subscribing and unsubscribing are only logged; without a default broker it dereferences nil.\<close>

definition watcher_watch ::
  "trial \<Rightarrow> rbroker option \<Rightarrow> string \<Rightarrow> sys \<Rightarrow> default_logger \<Rightarrow> ((goerr, watcher) res \<times> default_logger) option" where
  "watcher_watch tr b name s lg =
     (let w = \<lparr>wt_serviceName = name, wt_gSub = None, wt_sSub = None\<rparr> in
      case updateLoggingLevel tr w s lg of
        None \<Rightarrow> None
      | Some lg' \<Rightarrow>
          Some (if b = None then Panic
                else Ok (w\<lparr>wt_gSub := ok_sub (broker_SubscribeTempQueue b TopicNoticeGlobalLoggingLevelUpdated []),
                           wt_sSub := ok_sub (broker_SubscribeTempQueue b TopicNoticeServiceLoggingLevelUpdated [])\<rparr>), lg'))"

definition unsubscribed :: "sub option \<Rightarrow> sub option" where
  "unsubscribed = map_option (\<lambda>s. s\<lparr>sb_mayRun := False\<rparr>)"

definition watcher_stop :: "watcher \<Rightarrow> watcher" where
  "watcher_stop w = w\<lparr>wt_gSub := unsubscribed (wt_gSub w), wt_sSub := unsubscribed (wt_sSub w)\<rparr>"

text \<open>
  \<open>Watch\<close> and \<open>Stop\<close>, on the default watcher; the list has the watchers that were stopped.
\<close>

definition Watch ::
  "trial \<Rightarrow> rbroker option \<Rightarrow> string \<Rightarrow> sys \<Rightarrow> watcher option \<times> watcher list \<Rightarrow> default_logger \<Rightarrow>
   ((goerr, unit) res \<times> (watcher option \<times> watcher list) \<times> default_logger) option" where
  "Watch tr b name s ws lg =
     (let stopped = snd ws @ (case fst ws of None \<Rightarrow> [] | Some old \<Rightarrow> [watcher_stop old]) in
      case watcher_watch tr b name s lg of
        None \<Rightarrow> None
      | Some (Ok w, lg') \<Rightarrow> Some (Ok (), (Some w, stopped), lg')
      | Some (_, lg') \<Rightarrow> Some (Panic, (fst ws, stopped), lg'))"

definition watcher_Stop :: "watcher option \<times> watcher list \<Rightarrow> watcher option \<times> watcher list" where
  "watcher_Stop ws = (None, snd ws @ (case fst ws of None \<Rightarrow> [] | Some old \<Rightarrow> [watcher_stop old]))"

end
