(* ===== verification/Etcd.thy ===== *)
theory Etcd
  imports Store Discovery
begin

text \<open>
  The clients of etcd: the configuration and the endpoints of \<open>store.NewStore\<close> (\<open>etcd_store.go\<close>,
  \<open>etcd_store_options.go\<close>, \<open>options.go\<close>) and of the backend of \<open>common/sync\<close>, with its leaders and mutexes.
  Durations are nanoseconds; TLS configurations, dial options and contexts are names.
\<close>

section \<open>Options of the client (etcd_store_options.go)\<close>

text \<open>The values of the context of \<open>Options\<close>, one field per key.\<close>

record etcd_context =
  ec_autoSyncInterval :: "int option"
  ec_dialTimeout :: "int option"
  ec_dialKeepAliveTime :: "int option"
  ec_dialKeepAliveTimeout :: "int option"
  ec_maxCallSendMsgSize :: "int option"
  ec_maxCallRecvMsgSize :: "int option"
  ec_tls :: "string option"
  ec_rejectOldCluster :: "bool option"
  ec_dialOptions :: "string list option"
  ec_clientContext :: "string option"
  ec_permitWithoutStream :: "bool option"
  ec_username :: "string option"
  ec_password :: "string option"

definition Background :: etcd_context where
  "Background =
     \<lparr>ec_autoSyncInterval = None, ec_dialTimeout = None, ec_dialKeepAliveTime = None, ec_dialKeepAliveTimeout = None,
      ec_maxCallSendMsgSize = None, ec_maxCallRecvMsgSize = None, ec_tls = None, ec_rejectOldCluster = None,
      ec_dialOptions = None, ec_clientContext = None, ec_permitWithoutStream = None, ec_username = None, ec_password = None\<rparr>"

record store_options =
  st_ServiceName :: string
  st_Context :: etcd_context
  st_HeartBeatInterval :: int

datatype store_option =
    AutoSyncInterval int
  | DialTimeout int
  | DialKeepAliveTime int
  | DialKeepAliveTimeout int
  | MaxCallSendMsgSize int
  | MaxCallRecvMsgSize int
  | TLS string
  | RejectOldCluster bool
  | DialOptions "string list"
  | ClientContext string
  | PermitWithoutStream bool
  | Auth string string
  | HeartbeatInterval int

fun with_value :: "store_option \<Rightarrow> etcd_context \<Rightarrow> etcd_context" where
  "with_value (AutoSyncInterval d) c = c\<lparr>ec_autoSyncInterval := Some d\<rparr>"
| "with_value (DialTimeout d) c = c\<lparr>ec_dialTimeout := Some d\<rparr>"
| "with_value (DialKeepAliveTime d) c = c\<lparr>ec_dialKeepAliveTime := Some d\<rparr>"
| "with_value (DialKeepAliveTimeout d) c = c\<lparr>ec_dialKeepAliveTimeout := Some d\<rparr>"
| "with_value (MaxCallSendMsgSize n) c = c\<lparr>ec_maxCallSendMsgSize := Some n\<rparr>"
| "with_value (MaxCallRecvMsgSize n) c = c\<lparr>ec_maxCallRecvMsgSize := Some n\<rparr>"
| "with_value (TLS conf) c = c\<lparr>ec_tls := Some conf\<rparr>"
| "with_value (RejectOldCluster b) c = c\<lparr>ec_rejectOldCluster := Some b\<rparr>"
| "with_value (DialOptions opts) c = (if opts \<noteq> [] then c\<lparr>ec_dialOptions := Some opts\<rparr> else c)"
| "with_value (ClientContext x) c = c\<lparr>ec_clientContext := Some x\<rparr>"
| "with_value (PermitWithoutStream b) c = c\<lparr>ec_permitWithoutStream := Some b\<rparr>"
| "with_value (Auth u p) c = c\<lparr>ec_username := Some u, ec_password := Some p\<rparr>"
| "with_value (HeartbeatInterval i) c = c"

definition apply_store_option :: "store_option \<Rightarrow> store_options \<Rightarrow> store_options" where
  "apply_store_option o' s =
     (case o' of HeartbeatInterval i \<Rightarrow> s\<lparr>st_HeartBeatInterval := i\<rparr> | _ \<Rightarrow> s\<lparr>st_Context := with_value o' (st_Context s)\<rparr>)"

text \<open>The fields of \<open>clientv3.Config\<close> that the source sets.\<close>

record etcd_config =
  cf_Endpoints :: "string list"
  cf_AutoSyncInterval :: int
  cf_DialTimeout :: int
  cf_DialKeepAliveTime :: int
  cf_DialKeepAliveTimeout :: int
  cf_MaxCallSendMsgSize :: int
  cf_MaxCallRecvMsgSize :: int
  cf_TLS :: "string option"
  cf_RejectOldCluster :: bool
  cf_DialOptions :: "string list"
  cf_Context :: "string option"
  cf_PermitWithoutStream :: bool
  cf_Username :: string
  cf_Password :: string

definition defaultTimeout :: int where
  "defaultTimeout = 10 * 10 ^ 9"

definition newConfig :: etcd_config where
  "newConfig =
     \<lparr>cf_Endpoints = [], cf_AutoSyncInterval = 0, cf_DialTimeout = defaultTimeout, cf_DialKeepAliveTime = 0,
      cf_DialKeepAliveTimeout = 0, cf_MaxCallSendMsgSize = 0, cf_MaxCallRecvMsgSize = 0, cf_TLS = None,
      cf_RejectOldCluster = False, cf_DialOptions = [], cf_Context = None, cf_PermitWithoutStream = False,
      cf_Username = [], cf_Password = []\<rparr>"

definition given :: "'v option \<Rightarrow> 'v \<Rightarrow> 'v" where
  "given v old = (case v of None \<Rightarrow> old | Some x \<Rightarrow> x)"

definition applyConfig :: "etcd_context \<Rightarrow> etcd_config \<Rightarrow> etcd_config" where
  "applyConfig x c =
     c\<lparr>cf_AutoSyncInterval := given (ec_autoSyncInterval x) (cf_AutoSyncInterval c),
       cf_DialTimeout := given (ec_dialTimeout x) (cf_DialTimeout c),
       cf_DialKeepAliveTime := given (ec_dialKeepAliveTime x) (cf_DialKeepAliveTime c),
       cf_DialKeepAliveTimeout := given (ec_dialKeepAliveTimeout x) (cf_DialKeepAliveTimeout c),
       cf_MaxCallSendMsgSize := given (ec_maxCallSendMsgSize x) (cf_MaxCallSendMsgSize c),
       cf_MaxCallRecvMsgSize := given (ec_maxCallRecvMsgSize x) (cf_MaxCallRecvMsgSize c),
       cf_TLS := (if ec_tls x = None then cf_TLS c else ec_tls x),
       cf_RejectOldCluster := given (ec_rejectOldCluster x) (cf_RejectOldCluster c),
       cf_DialOptions := given (ec_dialOptions x) (cf_DialOptions c),
       cf_Context := (if ec_clientContext x = None then cf_Context c else ec_clientContext x),
       cf_PermitWithoutStream := given (ec_permitWithoutStream x) (cf_PermitWithoutStream c),
       cf_Username := given (ec_username x) (cf_Username c),
       cf_Password := given (ec_password x) (cf_Password c)\<rparr>"

section \<open>Connecting and following the registry (etcd_store.go)\<close>

text \<open>\<open>es_client\<close>: the endpoints of the client of the library, once there is one.\<close>

record etcd_store =
  es_options :: store_options
  es_config :: etcd_config
  es_client :: "string list option"

definition NewStore :: "string \<Rightarrow> store_option list \<Rightarrow> etcd_store" where
  "NewStore name opts =
     (let o' = fold apply_store_option opts
        \<lparr>st_ServiceName = name, st_Context = Background, st_HeartBeatInterval = defaultTimeout\<rparr>
      in \<lparr>es_options = o', es_config = applyConfig (st_Context o') newConfig, es_client = None\<rparr>)"

definition getServiceEndpoints :: "string \<Rightarrow> registry_answer \<Rightarrow> (goerr, string list) res" where
  "getServiceEndpoints what registry = bindR (discover PlainErr what registry) (\<lambda>s. Ok (first_addresses s))"

text \<open>One round of the loop of \<open>resetEndpoints\<close>.\<close>

definition resetEndpoints :: "registry_answer \<Rightarrow> string list \<Rightarrow> string list" where
  "resetEndpoints registry endpoints =
     (let ep1 = sort (case getServiceEndpoints ''store '' registry of Ok es \<Rightarrow> es | _ \<Rightarrow> []); ep2 = sort endpoints in
      if ep1 = ep2 then endpoints else if ep1 \<noteq> [] then ep1 else endpoints)"

text \<open>\<open>new\<close>: the error of \<open>clientv3.New\<close>.\<close>

definition es_Connect :: "registry_answer \<Rightarrow> string option \<Rightarrow> etcd_store \<Rightarrow> (goerr, unit) res \<times> etcd_store" where
  "es_Connect registry new e =
     (case getServiceEndpoints ''store '' registry of
        Ok es \<Rightarrow>
          (let e' = e\<lparr>es_config := (es_config e)\<lparr>cf_Endpoints := es\<rparr>\<rparr> in
           case new of
             None \<Rightarrow> (Ok (), e'\<lparr>es_client := Some es\<rparr>)
           | Some c \<Rightarrow> (Fail (PlainErr c), e'\<lparr>es_client := None\<rparr>))
      | Fail err \<Rightarrow> (Fail err, e\<lparr>es_config := (es_config e)\<lparr>cf_Endpoints := []\<rparr>\<rparr>)
      | Panic \<Rightarrow> (Panic, e))"

text \<open>Closing a client that was never made dereferences nil.\<close>

definition es_Close :: "string option \<Rightarrow> etcd_store \<Rightarrow> (goerr, unit) res" where
  "es_Close close e =
     (case es_client e of None \<Rightarrow> Panic | Some _ \<Rightarrow> (case close of None \<Rightarrow> Ok () | Some c \<Rightarrow> Fail (PlainErr c)))"

text \<open>The default store (store.go).\<close>

definition store_Init :: "string \<Rightarrow> store_option list \<Rightarrow> etcd_store option" where
  "store_Init name opts = Some (NewStore name opts)"

definition store_Connect :: "registry_answer \<Rightarrow> string option \<Rightarrow> etcd_store option \<Rightarrow> (goerr, unit) res \<times> etcd_store option" where
  "store_Connect registry new s =
     (case s of None \<Rightarrow> (Panic, None) | Some e \<Rightarrow> (case es_Connect registry new e of (r, e') \<Rightarrow> (r, Some e')))"

definition store_Close :: "string option \<Rightarrow> etcd_store option \<Rightarrow> (goerr, unit) res" where
  "store_Close close s = (case s of None \<Rightarrow> Panic | Some e \<Rightarrow> es_Close close e)"

section \<open>Reading by prefix (etcd_store.go)\<close>

text \<open>\<open>strings.ReplaceAll\<close> for a pattern that is not empty.\<close>

function ReplaceAll :: "string \<Rightarrow> string \<Rightarrow> string \<Rightarrow> string" where
  "ReplaceAll s old new =
     (if s = [] \<or> old = [] then s
      else if prefix old s then new @ ReplaceAll (drop (length old) s) old new
      else hd s # ReplaceAll (tl s) old new)"
  by pat_completeness auto
termination by (relation "measure (\<lambda>(s, _, _). length s)") auto

declare ReplaceAll.simps [simp del]

text \<open>\<open>GetAll\<close> up to \<open>json.Marshal\<close>, which does not fail on strings: the keys with their cleaned values.\<close>

definition clean_value :: "string \<Rightarrow> string" where
  "clean_value v =
     ReplaceAll (ReplaceAll (ReplaceAll v [CHR 0x5C] []) (CHR 0x22 # ''{'') ''{'') (''}'' @ [CHR 0x22]) ''}''"

definition store_GetAll :: "env \<Rightarrow> kv \<Rightarrow> string \<Rightarrow> (goerr, (string \<times> string) list) res" where
  "store_GetAll E m key = kv_fault E ''get'' key
     (let found = filter (\<lambda>(k, _). prefix key k) m in
      if found = [] then Fail ErrNotFoundKey else Ok (map (\<lambda>(k, v, _). (k, clean_value v)) found))"

lemma ReplaceAll_absent: "c \<in> set old \<Longrightarrow> c \<notin> set s \<Longrightarrow> ReplaceAll s old new = s"
proof (induction s)
  case (Cons x s)
  then have "\<not> prefix old (x # s)" by (meson set_mono_prefix subsetD)
  with Cons show ?case by (subst ReplaceAll.simps) simp
qed (simp add: ReplaceAll.simps)

text \<open>A value without a backslash and without braces comes back as it was stored; another one may not.\<close>

lemma clean_value_plain: "set v \<inter> {CHR 0x5C, CHR ''{'', CHR ''}''} = {} \<Longrightarrow> clean_value v = v"
  by (simp add: clean_value_def ReplaceAll_absent [of "CHR 0x5C"] ReplaceAll_absent [of "CHR ''{''"] ReplaceAll_absent [of "CHR ''}''"])

section \<open>The backend of common/sync\<close>

record sync_options =
  so_ttl :: int
  so_user :: string
  so_password :: string
  so_heartbeatInterval :: int

datatype sync_option = SyncTTL int | SyncAuth string string | SyncHeartbeatInterval int

fun apply_sync_option :: "sync_option \<Rightarrow> sync_options \<Rightarrow> sync_options" where
  "apply_sync_option (SyncTTL n) o' = o'\<lparr>so_ttl := n\<rparr>"
| "apply_sync_option (SyncAuth u p) o' = o'\<lparr>so_user := u, so_password := p\<rparr>"
| "apply_sync_option (SyncHeartbeatInterval i) o' = o'\<lparr>so_heartbeatInterval := i\<rparr>"

definition defaultHeartbeatTimeout :: int where
  "defaultHeartbeatTimeout = 10 * 10 ^ 9"

definition defaultTTL :: int where
  "defaultTTL = 60"

text \<open>
  \<open>sync/internal/etcd\<close> repeats the options, the configuration and the loop of \<open>common/store\<close>; only
  the heartbeat has no default, and the errors do not name the store.
\<close>

definition client_apply_option :: "store_option \<Rightarrow> store_options \<Rightarrow> store_options" where
  "client_apply_option = apply_store_option"

definition client_applyConfig :: "etcd_context \<Rightarrow> etcd_config \<Rightarrow> etcd_config" where
  "client_applyConfig = applyConfig"

definition client_getServiceEndpoints :: "registry_answer \<Rightarrow> (goerr, string list) res" where
  "client_getServiceEndpoints = getServiceEndpoints []"

definition client_resetEndpoints :: "registry_answer \<Rightarrow> string list \<Rightarrow> string list" where
  "client_resetEndpoints registry endpoints =
     (let ep1 = sort (case client_getServiceEndpoints registry of Ok es \<Rightarrow> es | _ \<Rightarrow> []); ep2 = sort endpoints in
      if ep1 = ep2 then endpoints else if ep1 \<noteq> [] then ep1 else endpoints)"

record etcd_sync =
  ey_client :: etcd_store
  ey_ttl :: int

definition client_init :: "store_options \<Rightarrow> registry_answer \<Rightarrow> string option \<Rightarrow> (goerr, etcd_store) res" where
  "client_init o' registry new =
     (let c = client_applyConfig (st_Context o') newConfig in
      bindR (client_getServiceEndpoints registry) (\<lambda>es.
      case new of
        None \<Rightarrow> Ok \<lparr>es_options = o', es_config = c\<lparr>cf_Endpoints := es\<rparr>, es_client = Some es\<rparr>
      | Some e \<Rightarrow> Fail (PlainErr e)))"

definition NewClient :: "string \<Rightarrow> store_option list \<Rightarrow> registry_answer \<Rightarrow> string option \<Rightarrow> (goerr, etcd_store) res" where
  "NewClient name opts =
     client_init (fold client_apply_option opts \<lparr>st_ServiceName = name, st_Context = Background, st_HeartBeatInterval = 0\<rparr>)"

lemmas NewClient_defs = NewClient_def client_init_def client_getServiceEndpoints_def client_apply_option_def

definition NewEtcdSync :: "string \<Rightarrow> sync_option list \<Rightarrow> registry_answer \<Rightarrow> string option \<Rightarrow> (goerr, etcd_sync) res" where
  "NewEtcdSync serviceName opts registry new =
     (let o' = fold apply_sync_option opts
        \<lparr>so_ttl = defaultTTL, so_user = [], so_password = [], so_heartbeatInterval = defaultHeartbeatTimeout\<rparr> in
      bindR (NewClient serviceName [Auth (so_user o') (so_password o'), HeartbeatInterval (so_heartbeatInterval o')] registry new)
        (\<lambda>c. Ok \<lparr>ey_client = c, ey_ttl = so_ttl o'\<rparr>))"

text \<open>\<open>sync.Init\<close> sets the default to what \<open>NewEtcdSync\<close> returns, nil with an error.\<close>

definition sync_Init :: "string \<Rightarrow> sync_option list \<Rightarrow> registry_answer \<Rightarrow> string option \<Rightarrow> (goerr, unit) res \<times> etcd_sync option" where
  "sync_Init serviceName opts registry new =
     (case NewEtcdSync serviceName opts registry new of
        Ok s \<Rightarrow> (Ok (), Some s) | Fail e \<Rightarrow> (Fail e, None) | Panic \<Rightarrow> (Panic, None))"

definition sync_Close :: "string option \<Rightarrow> etcd_sync option \<Rightarrow> (goerr, unit) res" where
  "sync_Close close s = (case s of None \<Rightarrow> Panic | Some e \<Rightarrow> es_Close close (ey_client e))"

subsection \<open>Leaders and mutexes\<close>

text \<open>
  A leader or a mutex is a session, with the election or the mutex of the library once it was obtained: a
  campaign or a lock that fails returns a value without it, together with the error.
\<close>

record leader =
  ld_election :: bool
  ld_uuid :: string

definition CampaignLeader :: "string option \<Rightarrow> string option \<Rightarrow> string \<Rightarrow> leader option \<times> goerr option" where
  "CampaignLeader session campaign uid =
     (case session of
        Some e \<Rightarrow> (None, Some (PlainErr e))
      | None \<Rightarrow>
        (case campaign of
           Some e \<Rightarrow> (Some \<lparr>ld_election = False, ld_uuid = []\<rparr>, Some (PlainErr e))
         | None \<Rightarrow> (Some \<lparr>ld_election = True, ld_uuid = uid\<rparr>, None)))"

text \<open>What \<open>Status\<close> sends, for the leaders that the election observes: one value, when another one leads.\<close>

definition leader_Status :: "leader \<Rightarrow> string list \<Rightarrow> (goerr, bool list) res" where
  "leader_Status l observed =
     (if ld_election l then Ok (if \<exists>v \<in> set observed. v \<noteq> ld_uuid l then [True] else []) else Panic)"

definition leader_Resign :: "leader \<Rightarrow> string option \<Rightarrow> (goerr, unit) res" where
  "leader_Resign l answer =
     (if ld_election l then (case answer of None \<Rightarrow> Ok () | Some e \<Rightarrow> Fail (PlainErr e)) else Panic)"

record locker =
  lk_mutex :: bool

definition sync_Lock :: "string option \<Rightarrow> string option \<Rightarrow> locker option \<times> goerr option" where
  "sync_Lock session lock =
     (case session of
        Some e \<Rightarrow> (None, Some (PlainErr e))
      | None \<Rightarrow>
        (case lock of
           Some e \<Rightarrow> (Some \<lparr>lk_mutex = False\<rparr>, Some (PlainErr e))
         | None \<Rightarrow> (Some \<lparr>lk_mutex = True\<rparr>, None)))"

definition locker_Unlock :: "locker \<Rightarrow> string option \<Rightarrow> (goerr, unit) res" where
  "locker_Unlock l answer = (if lk_mutex l then (case answer of None \<Rightarrow> Ok () | Some e \<Rightarrow> Fail (PlainErr e)) else Panic)"

end
