(* ===== verification/Command.thy ===== *)
theory Command
  imports Logger Etcd Connection
begin

text \<open>
  \<open>common/command.go\<close> and \<open>common/common.go\<close>: the flags of every service, and how the broker, the store, the lock
  backend, the database and the logger of a process are set up from them and torn down.  A process that is
  set up calls the definitions of \<open>Broker\<close>, \<open>Etcd\<close>, \<open>Connection\<close> and \<open>Logger\<close>.
\<close>

section \<open>Flags\<close>

datatype flag_kind = StringFlag | IntFlag | BoolFlag

record flag =
  fl_Name :: string
  fl_kind :: flag_kind
  fl_Required :: bool
  fl_Value :: "string option"

definition req_string :: "string \<Rightarrow> flag" where
  "req_string n = \<lparr>fl_Name = n, fl_kind = StringFlag, fl_Required = True, fl_Value = None\<rparr>"

definition opt_flag :: "flag_kind \<Rightarrow> string \<Rightarrow> flag" where
  "opt_flag k n = \<lparr>fl_Name = n, fl_kind = k, fl_Required = False, fl_Value = None\<rparr>"

definition defaultFlags :: "flag list" where
  "defaultFlags =
     [opt_flag StringFlag ''micro_registry'',
      req_string ''cdm_broker_service_name'', req_string ''cdm_broker_username'', req_string ''cdm_broker_password'',
      req_string ''cdm_store_service_name'', opt_flag StringFlag ''cdm_store_username'', opt_flag StringFlag ''cdm_store_password'',
      opt_flag IntFlag ''cdm_store_heartbeat_interval'',
      req_string ''cdm_sync_backend_service_name'', opt_flag StringFlag ''cdm_sync_backend_username'',
      opt_flag StringFlag ''cdm_sync_backend_password'', opt_flag IntFlag ''cdm_sync_backend_heartbeat_interval'',
      opt_flag IntFlag ''cdm_sync_ttl'',
      req_string ''cdm_database_service_name'', req_string ''cdm_database_name'', req_string ''cdm_database_username'',
      req_string ''cdm_database_password'', opt_flag BoolFlag ''cdm_database_ssl_enable'', opt_flag StringFlag ''cdm_database_ssl_ca'',
      opt_flag IntFlag ''cdm_database_heartbeat_interval'', opt_flag IntFlag ''cdm_database_reconnect_interval'',
      (opt_flag StringFlag ''micro_logger_level'')\<lparr>fl_Value := Some ''warn''\<rparr>,
      (opt_flag IntFlag ''micro_client_request_timeout'')\<lparr>fl_Value := Some ''30''\<rparr>]"

definition defaultPersistentQueues :: "string list" where
  "defaultPersistentQueues = [QueueReportEvent]"

record common_options =
  co_Flags :: "flag list"
  co_PersistentQueues :: "string list"

datatype common_option = WithFlags "flag list" | WithPersistentQueue "string list"

fun apply_common_option :: "common_option \<Rightarrow> common_options \<Rightarrow> common_options" where
  "apply_common_option (WithFlags fs) o' = o'\<lparr>co_Flags := co_Flags o' @ fs\<rparr>"
| "apply_common_option (WithPersistentQueue qs) o' = o'\<lparr>co_PersistentQueues := co_PersistentQueues o' @ qs\<rparr>"

definition newCommand :: "common_option list \<Rightarrow> common_options" where
  "newCommand opts = fold apply_common_option opts \<lparr>co_Flags = defaultFlags, co_PersistentQueues = defaultPersistentQueues\<rparr>"

definition seconds :: "int \<Rightarrow> int" where
  "seconds n = wrap64 (n * 10 ^ 9)"

section \<open>The process and what is around it\<close>

text \<open>The values of the flags, as the command line library gives them.\<close>

record cli_context =
  cx_String :: "string \<Rightarrow> string"
  cx_Int :: "string \<Rightarrow> int"
  cx_Bool :: "string \<Rightarrow> bool"
  cx_IsSet :: "string \<Rightarrow> bool"
  cx_AppName :: string

text \<open>
  The outside: the registry and the names of the registries known to go-micro, the broker's answers, the
  errors of the clients of etcd and of \<open>gorm.Open\<close>, and the database that the level is read from.
\<close>

record world =
  wd_registry :: "string \<Rightarrow> registry_answer"
  wd_registries :: "string list"
  wd_amqp :: amqp
  wd_store_new :: "string option"
  wd_sync_new :: "string option"
  wd_gorm_Open :: "string \<Rightarrow> string \<Rightarrow> string option"
  wd_trial :: trial
  wd_sys :: sys

record process =
  pr_timeout :: int
  pr_registry :: "string option"
  pr_broker :: "rbroker option"
  pr_store :: "etcd_store option"
  pr_sync :: "etcd_sync option"
  pr_database :: "connection_wrapper option"
  pr_watchers :: "watcher option \<times> watcher list"
  pr_logger :: default_logger
  pr_micro_level :: int

definition new_process :: process where
  "new_process =
     \<lparr>pr_timeout = 5 * 10 ^ 9, pr_registry = None, pr_broker = None, pr_store = None, pr_sync = None, pr_database = None,
      pr_watchers = (None, []), pr_logger = NewLogger [], pr_micro_level = InfoLevel\<rparr>"

section \<open>Setting up (command.go)\<close>

definition initDefaults :: "world \<Rightarrow> cli_context \<Rightarrow> process \<Rightarrow> (goerr, unit) res \<times> process" where
  "initDefaults W x p =
     (let t = cx_Int x ''micro_client_request_timeout''; p1 = (if t > 0 then p\<lparr>pr_timeout := seconds t\<rparr> else p);
          r = cx_String x ''micro_registry'' in
      if r = [] then (Ok (), p1)
      else if r \<in> set (wd_registries W) then (Ok (), p1\<lparr>pr_registry := Some r\<rparr>)
      else (Fail (errors_New ''invalid registry name''), p1))"

definition initBroker :: "common_options \<Rightarrow> world \<Rightarrow> cli_context \<Rightarrow> process \<Rightarrow> ((goerr, unit) res \<times> process) option" where
  "initBroker co W x p =
     (let opts = (if co_PersistentQueues co \<noteq> [] then [PersistentQueue (co_PersistentQueues co)] else []);
          b = broker_Init (cx_String x ''cdm_broker_service_name'') (cx_String x ''cdm_broker_username'')
                (cx_String x ''cdm_broker_password'') opts in
      map_option (\<lambda>(r, b', _). (r, p\<lparr>pr_broker := b'\<rparr>))
        (broker_Connect b (wd_registry W (cx_String x ''cdm_broker_service_name'')) (wd_amqp W)))"

definition initStore :: "world \<Rightarrow> cli_context \<Rightarrow> process \<Rightarrow> (goerr, unit) res \<times> process" where
  "initStore W x p =
     (let opts =
        (if cx_IsSet x ''cdm_store_username'' \<and> cx_IsSet x ''cdm_store_password''
         then [Auth (cx_String x ''cdm_store_username'') (cx_String x ''cdm_store_password'')] else []) @
        (if cx_IsSet x ''cdm_store_heartbeat_interval''
         then [HeartbeatInterval (seconds (cx_Int x ''cdm_store_heartbeat_interval''))] else []) in
      case store_Connect (wd_registry W (cx_String x ''cdm_store_service_name'')) (wd_store_new W)
             (store_Init (cx_String x ''cdm_store_service_name'') opts) of
        (r, s) \<Rightarrow> (r, p\<lparr>pr_store := s\<rparr>))"

definition initSync :: "world \<Rightarrow> cli_context \<Rightarrow> process \<Rightarrow> (goerr, unit) res \<times> process" where
  "initSync W x p =
     (let opts =
        (if cx_IsSet x ''cdm_sync_backend_username'' \<and> cx_IsSet x ''cdm_sync_backend_password''
         then [SyncAuth (cx_String x ''cdm_store_username'') (cx_String x ''cdm_store_password'')] else []) @
        (if cx_IsSet x ''cdm_sync_backend_heartbeat_interval''
         then [SyncHeartbeatInterval (seconds (cx_Int x ''cdm_store_heartbeat_interval''))] else []) @
        (if cx_IsSet x ''cdm_sync_ttl'' then [SyncTTL (cx_Int x ''cdm_sync_ttl'')] else []) in
      case sync_Init (cx_String x ''cdm_sync_backend_service_name'') opts
             (wd_registry W (cx_String x ''cdm_sync_backend_service_name'')) (wd_sync_new W) of
        (r, s) \<Rightarrow> (r, p\<lparr>pr_sync := s\<rparr>))"

definition initDatabase :: "world \<Rightarrow> cli_context \<Rightarrow> process \<Rightarrow> (goerr, unit) res \<times> process" where
  "initDatabase W x p =
     (let opts =
        [SSLEnable (cx_Bool x ''cdm_database_ssl_enable'')] @
        (if cx_IsSet x ''cdm_database_ssl_ca'' then [SSLCACert (cx_String x ''cdm_database_ssl_ca'')] else []) @
        (if cx_IsSet x ''cdm_database_heartbeat_interval''
         then [DBHeartbeatInterval (seconds (cx_Int x ''cdm_database_heartbeat_interval''))] else []) @
        (if cx_IsSet x ''cdm_database_reconnect_interval''
         then [ReconnectInterval (seconds (cx_Int x ''cdm_database_reconnect_interval''))] else []) in
      case database_Connect (wd_registry W (cx_String x ''cdm_database_service_name'')) (wd_gorm_Open W)
             (database_Init (cx_String x ''cdm_database_service_name'') (cx_String x ''cdm_database_name'')
                (cx_String x ''cdm_database_username'') (cx_String x ''cdm_database_password'') opts) of
        (r, d) \<Rightarrow> (r, p\<lparr>pr_database := d\<rparr>))"

definition initLogger :: "world \<Rightarrow> cli_context \<Rightarrow> process \<Rightarrow> ((goerr, unit) res \<times> process) option" where
  "initLogger W x p =
     (let lg = logger_Init [WithServiceName (cx_AppName x), WithLevel InfoLevel, WithCallerSkipCount 2] (pr_logger p) in
      case Watch (wd_trial W) (pr_broker p) (cx_AppName x) (wd_sys W) (pr_watchers p) lg of
        None \<Rightarrow> None
      | Some (Ok _, ws, lg') \<Rightarrow>
          (let l = cx_String x ''micro_logger_level'' in
           Some (Ok (), p\<lparr>pr_watchers := ws, pr_logger := lg',
                          pr_micro_level := (if l \<in> fst ` set level_table then GetLevel l else pr_micro_level p)\<rparr>))
      | Some (r, ws, lg') \<Rightarrow> Some (r, p\<lparr>pr_watchers := ws, pr_logger := lg'\<rparr>))"

text \<open>\<open>Before\<close>: one after another, up to the first that fails.\<close>

type_synonym init_step = "process \<Rightarrow> ((goerr, unit) res \<times> process) option"

fun run_steps :: "init_step list \<Rightarrow> process \<Rightarrow> ((goerr, unit) res \<times> process) option" where
  "run_steps [] p = Some (Ok (), p)"
| "run_steps (f # fs) p =
     (case f p of
        None \<Rightarrow> None
      | Some (Ok _, p') \<Rightarrow> run_steps fs p'
      | Some (r, p') \<Rightarrow> Some (r, p'))"

definition Before :: "common_options \<Rightarrow> world \<Rightarrow> cli_context \<Rightarrow> process \<Rightarrow> ((goerr, unit) res \<times> process) option" where
  "Before co W x =
     run_steps [\<lambda>p. Some (initDefaults W x p), initBroker co W x, \<lambda>p. Some (initStore W x p), \<lambda>p. Some (initSync W x p),
       \<lambda>p. Some (initDatabase W x p), initLogger W x]"

section \<open>Tearing down\<close>

text \<open>
  The errors of closing are only logged; a nil dereference ends \<open>Destroy\<close>.  The outside: the answers of the
  broker and the errors of closing the clients of etcd.
\<close>

record closing =
  cl_amqp :: amqp
  cl_store :: "string option"
  cl_sync :: "string option"

definition destroyLogger :: "process \<Rightarrow> (goerr, unit) res \<times> process" where
  "destroyLogger p = (Ok (), p\<lparr>pr_watchers := watcher_Stop (pr_watchers p)\<rparr>)"

definition destroyDatabase :: "process \<Rightarrow> (goerr, unit) res \<times> process" where
  "destroyDatabase p = (case database_Close (pr_database p) of (r, d) \<Rightarrow> (r, p\<lparr>pr_database := d\<rparr>))"

definition destroyStore :: "closing \<Rightarrow> process \<Rightarrow> (goerr, unit) res \<times> process" where
  "destroyStore c p =
     (if pr_store p = None then (Ok (), p) else (store_Close (cl_store c) (pr_store p), p\<lparr>pr_store := None\<rparr>))"

definition destroySync :: "closing \<Rightarrow> process \<Rightarrow> (goerr, unit) res \<times> process" where
  "destroySync c p =
     (if pr_sync p = None then (Ok (), p) else (sync_Close (cl_sync c) (pr_sync p), p\<lparr>pr_sync := None\<rparr>))"

definition destroyBroker :: "closing \<Rightarrow> process \<Rightarrow> (goerr, unit) res \<times> process" where
  "destroyBroker c p =
     (if pr_broker p = None then (Ok (), p)
      else (case broker_Disconnect (pr_broker p) (cl_amqp c) of (r, b, _) \<Rightarrow> (r, p\<lparr>pr_broker := b\<rparr>)))"

fun run_all :: "(process \<Rightarrow> (goerr, unit) res \<times> process) list \<Rightarrow> process \<Rightarrow> (goerr, unit) res \<times> process" where
  "run_all [] p = (Ok (), p)"
| "run_all (f # fs) p = (case f p of (Panic, p') \<Rightarrow> (Panic, p') | (_, p') \<Rightarrow> run_all fs p')"

definition Destroy :: "closing \<Rightarrow> process \<Rightarrow> (goerr, unit) res \<times> process" where
  "Destroy c = run_all [destroyLogger, destroyDatabase, destroyStore c, destroySync c, destroyBroker c]"

end
