(* ===== verification/Services.thy ===== *)
theory Services
  imports Command Identity_Handler Notification_Handler
begin

text \<open>
  The programs: \<open>main\<close> of the identity and the notification service (how they start, what they report when they
  cannot, and what they release), the loop of the event cleaner, and \<open>registerd\<close>, which registers a backing service.
\<close>

section \<open>Starting a service\<close>

text \<open>
  \<open>logger.Fatalf\<close> panics, as a nil dereference does: the calls that \<open>main\<close> has deferred until then are run.
\<close>

datatype start = Running | Panicked

definition default_tenant_block :: "u64 body" where
  "default_tenant_block E s =
     (case db_First E ''default tenant'' 0 (find (\<lambda>t. mt_Name t = ''default'') (t_tenant (s_db s))) of
        Ok t \<Rightarrow> (Ok (mt_ID t), s)
      | Fail e \<Rightarrow> (Fail (DBErr e), s)
      | Panic \<Rightarrow> (Panic, s))"

section \<open>The identity service\<close>

definition reportEventWithDefaultTenant :: "trial \<Rightarrow> env \<Rightarrow> string \<Rightarrow> string \<Rightarrow> goerr \<Rightarrow> sys \<Rightarrow> sys option" where
  "reportEventWithDefaultTenant tr E eventCode errorCode contents s =
     (case Transaction tr default_tenant_block s of
        None \<Rightarrow> None
      | Some (Ok tid, s') \<Rightarrow> Some (n_reportEvent E tid eventCode errorCode (Some contents) s')
      | Some (_, s') \<Rightarrow> Some s')"

text \<open>
  \<open>init\<close> of the handler: the key file, a connection of its own, and the casbin enforcer on it; the libraries
  are their answers.  A file without a PEM block gives no key and no error.
\<close>

record handler_world =
  hw_ReadFile :: "string + string"
  hw_Decode :: "string \<Rightarrow> string option"
  hw_Parse :: "string \<Rightarrow> string + string"
  hw_registry :: registry_answer
  hw_gorm_Open :: "string \<Rightarrow> string \<Rightarrow> string option"
  hw_adapter :: "string option"
  hw_model :: "string option"
  hw_enforcer :: "string option"

definition getPrivateKeyFromFile :: "handler_world \<Rightarrow> (goerr, string option) res" where
  "getPrivateKeyFromFile h =
     (case hw_ReadFile h of
        Inl e \<Rightarrow> Fail (PlainErr e)
      | Inr content \<Rightarrow>
        (case hw_Decode h content of
           None \<Rightarrow> Ok None
         | Some block \<Rightarrow> (case hw_Parse h block of Inl e \<Rightarrow> Fail (PlainErr e) | Inr key \<Rightarrow> Ok (Some key))))"

definition unless :: "string option \<Rightarrow> (goerr \<Rightarrow> goerr) \<Rightarrow> (goerr, 'a) res \<Rightarrow> (goerr, 'a) res" where
  "unless err wrap k = (case err of None \<Rightarrow> k | Some e \<Rightarrow> Fail (wrap (PlainErr e)))"

definition handler_init :: "handler_world \<Rightarrow> connection_wrapper option \<Rightarrow> (goerr, string option \<times> connection_wrapper) res" where
  "handler_init h dflt =
     bindR (mapE (\<lambda>e. Unknown (Some e)) (getPrivateKeyFromFile h)) (\<lambda>key.
     bindR (mapE (\<lambda>e. UnusableDatabase (Some e)) (OpenDefault dflt [] (hw_registry h) (hw_gorm_Open h))) (\<lambda>c.
     unless (hw_adapter h) (\<lambda>e. UnusableDatabase (Some e)) (
     unless (hw_model h) (\<lambda>e. Unknown (Some e)) (
     unless (hw_enforcer h) (\<lambda>e. Unknown (Some e)) (
     Ok (key, c))))))"

record identity_service =
  is_globals :: globals
  is_privateKey :: "string option"
  is_db :: connection_wrapper

definition new_identity :: "(string \<times> string \<times> string) list \<Rightarrow> handler_world \<Rightarrow> connection_wrapper option \<Rightarrow> env \<Rightarrow> db \<Rightarrow>
  (goerr, identity_service) res" where
  "new_identity policy h dflt E d =
     bindR (NewIdentityHandler policy E d) (\<lambda>gl.
     bindR (handler_init h dflt) (\<lambda>(key, c).
     Ok \<lparr>is_globals = gl, is_privateKey = key, is_db = c\<rparr>))"

definition handler_Close :: "identity_service \<Rightarrow> (goerr, unit) res \<times> identity_service" where
  "handler_Close i =
     (case cw_Close (is_db i) of (r, c) \<Rightarrow> (mapE (\<lambda>e. UnusableDatabase (Some e)) r, i\<lparr>is_db := c\<rparr>))"

text \<open>
  \<open>main\<close> up to \<open>Run\<close>, with the handler if it was made.  An error that is neither of the two kinds would be ignored, and
  the service would run on a nil handler.  \<open>register\<close>: the error of registering the handler at the server.
\<close>

definition start_identity :: "(string \<times> string \<times> string) list \<Rightarrow> handler_world \<Rightarrow> connection_wrapper option \<Rightarrow> string option \<Rightarrow>
  trial \<Rightarrow> env \<Rightarrow> sys \<Rightarrow> (start \<times> identity_service option \<times> sys) option" where
  "start_identity policy h dflt register tr E s =
     (let failed = (\<lambda>i code errorCode e. map_option (\<lambda>s'. (Panicked, i, s'))
            (reportEventWithDefaultTenant tr E (''cdm-cloud.identity.main.failure-'' @ code) errorCode e s));
          registered = (\<lambda>i. case register of
            None \<Rightarrow> Some (Running, i, s)
          | Some e \<Rightarrow> failed i ''register_handler'' ''unknown'' (Unknown (Some (PlainErr e)))) in
      case new_identity policy h dflt E (s_db s) of
        Ok i \<Rightarrow> registered (Some i)
      | Panic \<Rightarrow> Some (Panicked, None, s)
      | Fail err \<Rightarrow>
          if errors_Equal (Some err) ErrUnusableDatabase then failed None ''create_handler'' ''unusable_database'' err
          else if errors_Equal (Some err) ErrUnknown then failed None ''create_handler'' ''unknown'' err
          else registered None)"

text \<open>The deferred calls, last first: the handler, if there is one, then \<open>common.Destroy\<close>.\<close>

definition stop_identity :: "closing \<Rightarrow> trial \<Rightarrow> env \<Rightarrow> identity_service option \<Rightarrow> process \<Rightarrow> sys \<Rightarrow>
  (identity_service option \<times> ((goerr, unit) res \<times> process) \<times> sys) option" where
  "stop_identity c tr E i p s =
     (case i of
        None \<Rightarrow> Some (None, Destroy c p, s)
      | Some sv \<Rightarrow>
        (case handler_Close sv of
           (Fail e, sv') \<Rightarrow>
             map_option (\<lambda>s'. (Some sv', Destroy c p, s'))
               (reportEventWithDefaultTenant tr E ''cdm-cloud.identity.main.failure-close_handler'' ''unusable_database'' e s)
         | (r, sv') \<Rightarrow> Some (Some sv', (case Destroy c p of (r', p') \<Rightarrow> (if r = Panic then Panic else r', p')), s)))"

text \<open>\<open>run\<close>: the error of \<open>Run\<close>, which ends in a panic as well.\<close>

definition run_identity :: "string option \<Rightarrow> trial \<Rightarrow> env \<Rightarrow> sys \<Rightarrow> sys option" where
  "run_identity run tr E s =
     (case run of
        None \<Rightarrow> Some s
      | Some e \<Rightarrow> reportEventWithDefaultTenant tr E ''cdm-cloud.identity.main.failure-run_service'' ''unknown''
                    (Unknown (Some (PlainErr e))) s)"

section \<open>The notification service\<close>

definition event_Subscribe :: "rbroker option \<Rightarrow> (goerr, sub) res" where
  "event_Subscribe r = broker_SubscribePersistentQueue r QueueReportEvent False []"

definition notifier_Subscribe :: "rbroker option \<Rightarrow> (goerr, sub) res" where
  "notifier_Subscribe r = broker_SubscribePersistentQueue r QueueNotifyEmail True []"

definition loadDefaultTenantID :: "trial \<Rightarrow> sys \<Rightarrow> ((goerr, u64) res \<times> sys) option" where
  "loadDefaultTenantID tr s =
     map_option (\<lambda>(r, s'). (mapE (\<lambda>e. if e = DBErr ErrRecordNotFound then Unknown (Some e) else UnusableDatabase (Some e)) r, s'))
       (Transaction tr default_tenant_block s)"

text \<open>The cleaner: the tenant that it reports for, and whether its loop runs.\<close>

record cleaner =
  cr_tenantID :: u64
  cr_running :: bool

definition NewCleaner :: "u64 \<Rightarrow> cleaner" where
  "NewCleaner tid = \<lparr>cr_tenantID = tid, cr_running = False\<rparr>"

definition cleaner_Start :: "cleaner \<Rightarrow> cleaner" where
  "cleaner_Start c = c\<lparr>cr_running := True\<rparr>"

definition cleaner_Stop :: "cleaner \<Rightarrow> cleaner" where
  "cleaner_Stop c = c\<lparr>cr_running := False\<rparr>"

text \<open>What \<open>main\<close> has acquired; \<open>ns_tenant\<close> is the id of \<open>defaultTenant\<close>, zero before it was loaded.\<close>

record notification_service =
  ns_tenant :: u64
  ns_events :: "sub option"
  ns_mails :: "sub option"
  ns_cleaner :: "cleaner option"

definition nothing_yet :: "u64 \<Rightarrow> notification_service" where
  "nothing_yet tid = \<lparr>ns_tenant = tid, ns_events = None, ns_mails = None, ns_cleaner = None\<rparr>"

definition n_main_report :: "env \<Rightarrow> u64 \<Rightarrow> string \<Rightarrow> string \<Rightarrow> goerr \<Rightarrow> sys \<Rightarrow> sys" where
  "n_main_report E tid code errorCode e = n_reportEvent E tid (''cdm-cloud.notification.main.failure-'' @ code) errorCode (Some e)"

definition start_notification :: "rbroker option \<Rightarrow> string option \<Rightarrow> trial \<Rightarrow> env \<Rightarrow> sys \<Rightarrow>
  (start \<times> notification_service \<times> sys) option" where
  "start_notification b register tr E s =
     (case loadDefaultTenantID tr s of
        None \<Rightarrow> None
      | Some (Ok tid, s1) \<Rightarrow>
        (let n0 = nothing_yet tid in
         case event_Subscribe b of
           Panic \<Rightarrow> Some (Panicked, n0, s1)
         | Fail e \<Rightarrow> Some (Panicked, n0, n_main_report E tid ''notification_event_subscribe'' ''unusable_broker'' (UnusableBroker (Some e)) s1)
         | Ok sub \<Rightarrow>
           (let n1 = n0\<lparr>ns_events := Some sub\<rparr> in
            case notifier_Subscribe b of
              Panic \<Rightarrow> Some (Panicked, n1, s1)
            | Fail e \<Rightarrow> Some (Panicked, n1, n_main_report E tid ''notifier_subscribe'' ''unusable_broker'' (UnusableBroker (Some e)) s1)
            | Ok mails \<Rightarrow>
              (let n2 = n1\<lparr>ns_mails := Some mails, ns_cleaner := Some (cleaner_Start (NewCleaner tid))\<rparr> in
               case register of
                 Some e \<Rightarrow> Some (Panicked, n2, n_main_report E tid ''register_handler'' ''unknown'' (Unknown (Some (PlainErr e))) s1)
               | None \<Rightarrow> Some (Running, n2, s1))))
      | Some (_, s1) \<Rightarrow> Some (Panicked, nothing_yet 0, s1))"

definition run_notification :: "string option \<Rightarrow> env \<Rightarrow> u64 \<Rightarrow> sys \<Rightarrow> sys" where
  "run_notification run E tid s =
     (case run of None \<Rightarrow> s | Some e \<Rightarrow> n_main_report E tid ''run_service'' ''unknown'' (Unknown (Some (PlainErr e))) s)"

text \<open>
  The deferred calls, last first: the cleaner, the two subscriptions and \<open>common.Destroy\<close>, each if it was
  acquired.  \<open>mails\<close> and \<open>events\<close>: the errors of closing the channels of the subscriptions.
\<close>

definition release_sub :: "env \<Rightarrow> u64 \<Rightarrow> string \<Rightarrow> string option \<Rightarrow> sub option \<Rightarrow> sys \<Rightarrow> sub option \<times> sys" where
  "release_sub E tid code close sub s =
     (case sub of
        None \<Rightarrow> (None, s)
      | Some b \<Rightarrow>
          (Some (b\<lparr>sb_mayRun := False\<rparr>),
           case close of None \<Rightarrow> s | Some e \<Rightarrow> n_main_report E tid code ''unusable_broker'' (UnusableBroker (Some (PlainErr e))) s))"

definition stop_notification :: "closing \<Rightarrow> string option \<Rightarrow> string option \<Rightarrow> env \<Rightarrow> notification_service \<Rightarrow> process \<Rightarrow> sys \<Rightarrow>
  notification_service \<times> ((goerr, unit) res \<times> process) \<times> sys" where
  "stop_notification c mails events E n p s =
     (case release_sub E (ns_tenant n) ''notifier_unsubscribe'' mails (ns_mails n) s of (m, s1) \<Rightarrow>
      case release_sub E (ns_tenant n) ''notification_event_unsubscribe'' events (ns_events n) s1 of (e, s2) \<Rightarrow>
        (n\<lparr>ns_cleaner := map_option cleaner_Stop (ns_cleaner n), ns_mails := m, ns_events := e\<rparr>, Destroy c p, s2))"

section \<open>The loop of the cleaner\<close>

text \<open>Times in nanoseconds since the epoch, in UTC; \<open>time.Date\<close> carries a day past the end of the month over.\<close>

definition nextMidnight :: "int \<Rightarrow> int" where
  "nextMidnight now = (now div day_ns + 1) * day_ns"

definition nextMidnightTicker :: "int \<Rightarrow> int" where
  "nextMidnightTicker now = nextMidnight now - now"

text \<open>
  One run after another: every run takes its time and is followed by a wait for the ticker, until \<open>done\<close>.
  The list has how long each run took; the result the times at which the runs started.
\<close>

fun cleaner_runs :: "int list \<Rightarrow> int \<Rightarrow> int list" where
  "cleaner_runs [] now = [now]"
| "cleaner_runs (took # rest) now = now # cleaner_runs rest (now + took + nextMidnightTicker (now + took))"

section \<open>The API gateway\<close>

text \<open>The flags that its \<open>main\<close> adds; its handler and its wrappers are in \<open>Gateway\<close>.\<close>

definition gateway_flags :: "flag list" where
  "gateway_flags =
     [\<lparr>fl_Name = ''cdm_cloud_api_gateway_port'', fl_kind = IntFlag, fl_Required = True, fl_Value = None\<rparr>,
      (opt_flag IntFlag ''cdm_cloud_api_gateway_ttl'')\<lparr>fl_Value := Some ''30''\<rparr>]"

definition gateway_command :: common_options where
  "gateway_command = newCommand [WithFlags gateway_flags]"

section \<open>registerd\<close>

record service =
  sv_Name :: string
  sv_Version :: string
  sv_AdvertisePort :: string
  sv_Metadata :: "string \<rightharpoonup> string"

text \<open>\<open>getEnv\<close>: a variable that is required and not set ends the process (\<open>None\<close>).\<close>

definition getEnv :: "(string \<rightharpoonup> string) \<Rightarrow> string \<Rightarrow> bool \<Rightarrow> string option" where
  "getEnv vars key req = (case vars key of Some v \<Rightarrow> Some v | None \<Rightarrow> if req then None else Some [])"

definition parse_item :: "string \<Rightarrow> (string \<rightharpoonup> string) \<Rightarrow> (string \<rightharpoonup> string)" where
  "parse_item item md = (case SplitChar (CHR ''='') item of [k, v] \<Rightarrow> md(k \<mapsto> v) | _ \<Rightarrow> md)"

definition parseMetadata :: "string \<Rightarrow> (string \<rightharpoonup> string)" where
  "parseMetadata s = (if s = [] then Map.empty else fold parse_item (SplitChar (CHR '','') s) Map.empty)"

text \<open>\<open>Register\<close>: the registry that it uses, or the error; \<open>run\<close> is the error of the framework.\<close>

definition Register :: "string list \<Rightarrow> string option \<Rightarrow> service \<Rightarrow> (goerr, string option) res" where
  "Register registries run sv =
     (let name = (case sv_Metadata sv ''MICRO_REGISTRY'' of Some n \<Rightarrow> n | None \<Rightarrow> []) in
      if name \<noteq> [] \<and> name \<notin> set registries then Fail (errors_New ''invalid registry name'')
      else (case run of Some e \<Rightarrow> Fail (PlainErr e) | None \<Rightarrow> Ok (if name = [] then None else Some name)))"

definition service_of :: "(string \<rightharpoonup> string) \<Rightarrow> service option" where
  "service_of vars =
     Option.bind (getEnv vars ''CDM_SERVICE_METADATA'' False) (\<lambda>metadata.
     Option.bind (getEnv vars ''CDM_SOLUTION_NAME'' True) (\<lambda>solution.
     Option.bind (getEnv vars ''CDM_SERVICE_DESCRIPTION'' True) (\<lambda>description.
     Option.bind (getEnv vars ''MICRO_REGISTRY'' False) (\<lambda>registry.
     Option.bind (getEnv vars ''CDM_SERVICE_NAME'' True) (\<lambda>name.
     Option.bind (getEnv vars ''CDM_SERVICE_VERSION'' True) (\<lambda>version.
     Option.bind (getEnv vars ''CDM_SERVICE_ADVERTISE_PORT'' True) (\<lambda>port.
     Some \<lparr>sv_Name = name, sv_Version = version, sv_AdvertisePort = port,
           sv_Metadata = (parseMetadata metadata)(''CDM_SOLUTION_NAME'' \<mapsto> solution,
             ''CDM_SERVICE_DESCRIPTION'' \<mapsto> description, ''MICRO_REGISTRY'' \<mapsto> registry)\<rparr>)))))))"

text \<open>\<open>main\<close>: the service and the registry, or an exit with status 1.\<close>

definition registerd_main :: "string list \<Rightarrow> string option \<Rightarrow> (string \<rightharpoonup> string) \<Rightarrow> (service \<times> string option) option" where
  "registerd_main registries run vars =
     (case service_of vars of
        None \<Rightarrow> None
      | Some sv \<Rightarrow> (case Register registries run sv of Ok r \<Rightarrow> Some (sv, r) | _ \<Rightarrow> None))"

end
