(* ===== verification/Spec_Broker.thy ===== *)
theory Spec_Broker
  imports Services
begin

text \<open>
  What the broker client does: how deliveries are answered, how long a subscription waits, that an attempt to
  connect ends, and what the loops of a connection keep, with the run that loses a subscription for good.
\<close>

section \<open>Subscriptions and deliveries\<close>

lemma fold_requeue:
  "so_requeueOnError (fold apply_subscribe_option opts so) \<longleftrightarrow> so_requeueOnError so \<or> RequeueOnError \<in> set opts"
proof (induction opts arbitrary: so)
  case (Cons o' opts)
  then show ?case by (cases o') auto
qed simp

lemma persistent_subscription:
  assumes "r_SubscribePersistentQueue r topic requeue opts = Ok s"
  shows "sb_topic s = topic \<and> so_Queue (sb_opts s) = topic \<and> so_durableQueue (sb_opts s) \<and> \<not> so_AutoAck (sb_opts s) \<and>
    (so_requeueOnError (sb_opts s) \<longleftrightarrow> requeue \<or> RequeueOnError \<in> set opts) \<and> sb_mayRun s"
  using assms by (cases requeue) (auto simp: r_SubscribePersistentQueue_def r_subscribe_def fold_requeue split: option.splits)

text \<open>
  Every message of the report queue and of the mail queue is answered once: acknowledged when its
  handler succeeded; otherwise refused, the report for good, so that an event that could not be stored is
  lost, and the mail with its return to the queue.  Whatever options the caller adds, such a subscription
  reads a durable queue named after its topic.
\<close>

theorem queue_answers:
  assumes "event_Subscribe (Some r) = Ok s" and "notifier_Subscribe (Some r) = Ok t"
  shows "delivery_answer (sb_opts s) res = (case res of Ok _ \<Rightarrow> [A_Ack] | Fail _ \<Rightarrow> [A_Nack False] | Panic \<Rightarrow> []) \<and>
    delivery_answer (sb_opts t) res = (case res of Ok _ \<Rightarrow> [A_Ack] | Fail _ \<Rightarrow> [A_Nack True] | Panic \<Rightarrow> []) \<and>
    (\<forall>requeue opts u topic. r_SubscribePersistentQueue r topic requeue opts = Ok u \<longrightarrow>
       Consume c (so_Queue (sb_opts u)) (sb_topic u) (so_AutoAck (sb_opts u)) (so_durableQueue (sb_opts u)) =
       [A_NewUUID, A_Channel, A_Qos 0 False, A_QueueDeclare topic True False, A_Consume topic False, A_QueueBind topic topic (rc_exchange c)])"
proof (intro conjI allI impI)
  note e = persistent_subscription [OF assms(1) [unfolded event_Subscribe_def broker_SubscribePersistentQueue_def option.simps]]
  note n = persistent_subscription [OF assms(2) [unfolded notifier_Subscribe_def broker_SubscribePersistentQueue_def option.simps]]
  show "delivery_answer (sb_opts s) res = (case res of Ok _ \<Rightarrow> [A_Ack] | Fail _ \<Rightarrow> [A_Nack False] | Panic \<Rightarrow> [])"
    using e by (simp add: delivery_answer_def split: res.split)
  show "delivery_answer (sb_opts t) res = (case res of Ok _ \<Rightarrow> [A_Ack] | Fail _ \<Rightarrow> [A_Nack True] | Panic \<Rightarrow> [])"
    using n by (simp add: delivery_answer_def split: res.split)
  fix requeue opts u topic
  assume u: "r_SubscribePersistentQueue r topic requeue opts = Ok u"
  show "Consume c (so_Queue (sb_opts u)) (sb_topic u) (so_AutoAck (sb_opts u)) (so_durableQueue (sb_opts u)) =
       [A_NewUUID, A_Channel, A_Qos 0 False, A_QueueDeclare topic True False, A_Consume topic False, A_QueueBind topic topic (rc_exchange c)]"
    using persistent_subscription [OF u]
    by (simp add: Consume_def newRabbitChannel_def DeclareDurableQueue_def ConsumeQueue_def BindQueue_def)
qed

definition connected_rbroker :: rbroker where
  "connected_rbroker =
     (NewBroker ''rabbit'' ''guest'' ''pw'' [PersistentQueue [QueueReportEvent, QueueNotifyEmail]])
       \<lparr>rb_conn := Some (newRabbitMQConn (rb_opts (NewBroker ''rabbit'' ''guest'' ''pw'' [])) ''guest:pw'')\<rparr>"

lemma connected_subscriptions:
  "event_Subscribe (Some connected_rbroker) = Ok \<lparr>sb_topic = QueueReportEvent, sb_opts = \<lparr>so_AutoAck = False, so_Queue = QueueReportEvent,
     so_durableQueue = True, so_requeueOnError = False\<rparr>, sb_mayRun = True\<rparr>"
  "notifier_Subscribe (Some connected_rbroker) = Ok \<lparr>sb_topic = QueueNotifyEmail, sb_opts = \<lparr>so_AutoAck = False, so_Queue = QueueNotifyEmail,
     so_durableQueue = True, so_requeueOnError = True\<rparr>, sb_mayRun = True\<rparr>"
  by (simp_all add: event_Subscribe_def notifier_Subscribe_def broker_SubscribePersistentQueue_def r_SubscribePersistentQueue_def r_subscribe_def connected_rbroker_def)

theorem queue_answers_witness:
  "\<exists>s. event_Subscribe (Some connected_rbroker) = Ok s \<and> delivery_answer (sb_opts s) (Fail (PlainErr ''full'')) = [A_Nack False]"
proof -
  have "delivery_answer \<lparr>so_AutoAck = False, so_Queue = QueueReportEvent, so_durableQueue = True, so_requeueOnError = False\<rparr>
      (Fail (PlainErr ''full'')) = [A_Nack False]"
    using queue_answers [OF connected_subscriptions, of "Fail (PlainErr ''full'')"] by simp
  with connected_subscriptions(1) show ?thesis by simp
qed

section \<open>Delays\<close>

lemma min_double: "min m (2 * min m d * 2 ^ k) = min m (d * 2 ^ Suc k)" for m d :: nat
proof (cases "d \<le> m")
  case False
  have "m * 1 \<le> m * (2 * 2 ^ k)" and "m * 1 \<le> d * (2 * 2 ^ k)" using False by (intro mult_le_mono; simp)+
  with False show ?thesis by (simp add: mult_ac)
qed (simp add: mult_ac)

lemma delays_from: "resubscribe_delays n delay = map (\<lambda>k. min maxResubscribeDelay (delay * 2 ^ k)) [0..<n]"
proof (induction n arbitrary: delay)
  case (Suc n)
  have shift: "map f [0..<Suc n] = f 0 # map (\<lambda>k. f (Suc k)) [0..<n]" for f :: "nat \<Rightarrow> nat"
    by (simp add: upt_conv_Cons map_Suc_upt [symmetric] comp_def del: upt_Suc)
  have d: "(if delay > maxResubscribeDelay then maxResubscribeDelay else delay) = min maxResubscribeDelay delay" by simp
  show ?case unfolding resubscribe_delays.simps Let_def d Suc.IH shift min_double by simp
qed simp

text \<open>
  A subscription that cannot be renewed waits 100 ms, then twice as long each time, and never
  longer than 30 seconds.
\<close>

theorem backoff_bounded:
  "resubscribe_delays n minResubscribeDelay = map (\<lambda>k. min 30000 (100 * 2 ^ k)) [0..<n]"
  using delays_from [of n minResubscribeDelay] by (simp add: minResubscribeDelay_def maxResubscribeDelay_def)

section \<open>Attempts to connect\<close>

lemma amqp_do_log: "aq_log (snd (amqp_do op w)) = aq_log w @ [op]" "aq_answer (snd (amqp_do op w)) = aq_answer w"
  by (simp_all add: amqp_do_def)

lemma amqp_all_log:
  "aq_answer (snd (amqp_all ops w)) = aq_answer w \<and> (ops \<noteq> [] \<longrightarrow> length (aq_log w) < length (aq_log (snd (amqp_all ops w))))
    \<and> length (aq_log w) \<le> length (aq_log (snd (amqp_all ops w)))"
proof (induction ops arbitrary: w)
  case (Cons op ops)
  obtain r w' where d: "amqp_do op w = (r, w')" by (cases "amqp_do op w")
  have w': "length (aq_log w') = Suc (length (aq_log w))" "aq_answer w' = aq_answer w"
    using amqp_do_log [of op w] d by auto
  show ?case using Cons.IH [of w'] w' d by (auto split: res.split)
qed simp

lemma amqp_all_answered:
  assumes "\<forall>n \<ge> length (aq_log w). aq_answer w n = None"
  shows "fst (amqp_all ops w) = Ok ()"
  using assms
proof (induction ops arbitrary: w)
  case (Cons op ops)
  have "amqp_do op w = (Ok (), w\<lparr>aq_log := aq_log w @ [op]\<rparr>)" using Cons.prems by (simp add: amqp_do_def)
  with Cons.IH [of "w\<lparr>aq_log := aq_log w @ [op]\<rparr>"] Cons.prems show ?case by simp
qed simp

lemma declare_queue_ends:
  assumes "\<forall>n \<ge> k. aq_answer w n = None"
  shows "\<exists>w'. declare_queue q ex w = Some w' \<and> aq_answer w' = aq_answer w"
  using assms
proof (induction "k - length (aq_log w)" arbitrary: w rule: less_induct)
  case less
  let ?ops = "declarePersistentQueue q q ex"
  obtain r w1 where d: "amqp_all ?ops w = (r, w1)" by (cases "amqp_all ?ops w")
  have ops: "?ops \<noteq> []" by (simp add: declarePersistentQueue_def)
  have w1: "length (aq_log w) < length (aq_log w1)" "aq_answer w1 = aq_answer w"
    using amqp_all_log [of ?ops w] d ops by auto
  show ?case
  proof (cases r)
    case (Ok x)
    with d w1 show ?thesis by (simp add: declare_queue.simps [of q ex w])
  next
    case (Fail e)
    have "\<not> k \<le> length (aq_log w)"
    proof
      assume "k \<le> length (aq_log w)"
      then have "fst (amqp_all ?ops w) = Ok ()" using less.prems by (intro amqp_all_answered) auto
      with d Fail show False by simp
    qed
    then have "k - length (aq_log w1) < k - length (aq_log w)" using w1(1) by simp
    from less.hyps [OF this] less.prems w1(2) d Fail show ?thesis by (simp add: declare_queue.simps [of q ex w])
  next
    case Panic
    have "\<not> k \<le> length (aq_log w)"
    proof
      assume "k \<le> length (aq_log w)"
      then have "fst (amqp_all ?ops w) = Ok ()" using less.prems by (intro amqp_all_answered) auto
      with d Panic show False by simp
    qed
    then have "k - length (aq_log w1) < k - length (aq_log w)" using w1(1) by simp
    from less.hyps [OF this] less.prems w1(2) d Panic show ?thesis by (simp add: declare_queue.simps [of q ex w])
  qed
qed

lemma declare_queues_ends: "\<forall>n \<ge> k. aq_answer w n = None \<Longrightarrow> \<exists>w'. declare_queues qs ex w = Some w'"
proof (induction qs arbitrary: w)
  case (Cons q qs)
  from declare_queue_ends [OF Cons.prems] obtain w1 where w1: "declare_queue q ex w = Some w1" "aq_answer w1 = aq_answer w"
    by blast
  with Cons.IH [of w1] Cons.prems show ?case by simp
qed simp

lemma dial_nodes_answer: "aq_answer (snd (dial_nodes c nodes w)) = aq_answer w"
proof (induction nodes arbitrary: w)
  case (Cons a nodes)
  show ?case using Cons.IH [of "snd (amqp_do (A_Dial (node_url c a)) w)"]
    by (auto simp: amqp_do_log split: res.split prod.split) (metis amqp_do_log(2) snd_conv)+
qed simp

lemma tryConnect_ends:
  assumes "\<forall>n \<ge> k. aq_answer w n = None"
  shows "\<exists>r c' w'. tryConnect c registry w = Some (r, c', w') \<and> (r = Ok () \<longrightarrow> c' = c) \<and> (rc_connected c' \<longrightarrow> rc_connected c)"
proof -
  obtain r w1 where d: "doTryConnect c registry w = (r, w1)" by (cases "doTryConnect c registry w")
  have w1: "aq_answer w1 = aq_answer w"
    using d dial_nodes_answer [of c _ w] by (auto simp: doTryConnect_def split: res.splits) (metis snd_conv)+
  let ?ops = "newRabbitChannel 0 False @
    [if rc_durable c then DeclareDurableExchange (rc_exchange c) else DeclareExchange (rc_exchange c)] @ newRabbitChannel 0 False"
  obtain r2 w2 where o: "amqp_all ?ops w1 = (r2, w2)" by (cases "amqp_all ?ops w1")
  have "aq_answer w2 = aq_answer w" using amqp_all_log [of ?ops w1] o w1 by simp
  with assms declare_queues_ends [of k w2 "rc_qNames c" "rc_exchange c"] obtain w3 where
    q: "declare_queues (rc_qNames c) (rc_exchange c) w2 = Some w3" by auto
  show ?thesis
  proof (cases r)
    case (Ok x)
    with d o q show ?thesis
      by (cases r2) (auto simp: tryConnect_def conn_Close_def split: prod.split)
  qed (use d in \<open>simp_all add: tryConnect_def\<close>)
qed



section \<open>What the loops keep\<close>

locale b_invariant =
  fixes I :: "bsys \<Rightarrow> bool"
  assumes I_step: "bstep a b b' \<Longrightarrow> I b \<Longrightarrow> I b'"
begin

lemma reachable_I: "breachable P b0 b \<Longrightarrow> I b0 \<Longrightarrow> I b"
  by (induction rule: breachable.induct) (auto intro: I_step)

end

lemma tryConnect_frame:
  assumes "tryConnect c registry w = Some (r, c', w')"
  shows "rc_wait c' = rc_wait c \<and> (rc_closed c \<longrightarrow> rc_closed c') \<and> (rc_connected c' \<longrightarrow> rc_connected c)"
  using assms by (auto simp: tryConnect_def conn_Close_def split: res.splits prod.splits if_splits)

definition loops_ok :: "bsys \<Rightarrow> bool" where
  "loops_ok b \<longleftrightarrow> (rc_wait (bs_conn b) \<longleftrightarrow> bs_loop b = Retrying) \<and> \<not> bs_panic b \<and>
     (rc_connected (bs_conn b) \<longrightarrow> bs_loop b \<noteq> Retrying)"

lemma set_sub_simps [simp]:
  "bs_conn (set_sub i x b) = bs_conn b" "bs_loop (set_sub i x b) = bs_loop b" "bs_panic (set_sub i x b) = bs_panic b"
  "bs_subs (set_sub i x b) = (bs_subs b)[i := x]"
  by (simp_all add: set_sub_def)

lemma conn_Close_frame:
  "conn_Close c w = (r, c', w') \<Longrightarrow> rc_wait c' = rc_wait c \<and> rc_closed c' \<and> (rc_connected c' \<longrightarrow> rc_connected c)"
  by (auto simp: conn_Close_def split: if_splits prod.splits)

lemma loops_ok_step: "bstep a b b' \<Longrightarrow> loops_ok b \<Longrightarrow> loops_ok b'"
proof (induction rule: bstep.induct)
  case (b_reconnect b registry w r c w')
  then show ?case using tryConnect_frame [OF b_reconnect(2)]
    by (cases r) (auto simp: loops_ok_def reconnected_def)
next
  case (b_disconnect b w r c w')
  then show ?case using conn_Close_frame [OF b_disconnect(1)] by (auto simp: loops_ok_def)
qed (auto simp: loops_ok_def)

lemma closed_step: "bstep a b b' \<Longrightarrow> rc_closed (bs_conn b) \<Longrightarrow> rc_closed (bs_conn b')"
proof (induction rule: bstep.induct)
  case (b_reconnect b registry w r c w')
  then show ?case using tryConnect_frame [OF b_reconnect(2)]
    by (cases r) (auto simp: reconnected_def)
next
  case (b_disconnect b w r c w')
  then show ?case using conn_Close_frame [OF b_disconnect(1)] by simp
qed simp_all

interpretation b_loops: b_invariant loops_ok
  by unfold_locales (rule loops_ok_step)

interpretation b_closed: b_invariant "\<lambda>b. rc_closed (bs_conn b)"
  by unfold_locales (rule closed_step)

text \<open>
  Claim C32.  However connections are lost, restored and closed: subscribers are made to wait exactly while
  the loop of the connection retries, the loop never closes a channel twice, a connection marked as connected
  is one that the loop does not retry, and a broker that was closed stays closed.
\<close>

theorem connection_invariant:
  assumes "breachable P (connected_bsys c) b" and "\<not> rc_wait c"
  shows "(rc_wait (bs_conn b) \<longleftrightarrow> bs_loop b = Retrying) \<and> \<not> bs_panic b \<and> (rc_connected (bs_conn b) \<longrightarrow> bs_loop b \<noteq> Retrying) \<and>
    (rc_closed c \<longrightarrow> rc_closed (bs_conn b))"
  using b_loops.reachable_I [OF assms(1)] b_closed.reachable_I [OF assms(1)] assms(2)
  by (simp add: loops_ok_def connected_bsys_def)

theorem connection_invariant_witness:
  "\<exists>b. breachable (\<lambda>_. True) (connected_bsys (newRabbitMQConn (rb_opts connected_rbroker) ''guest:pw'')) b \<and>
     bs_loop b = Retrying \<and> rc_wait (bs_conn b) \<and> \<not> rc_connected (bs_conn b)"
proof -
  let ?start = "connected_bsys (newRabbitMQConn (rb_opts connected_rbroker) ''guest:pw'')"
  let ?b = "?start\<lparr>bs_conn := (bs_conn ?start)\<lparr>rc_connected := False, rc_wait := True\<rparr>, bs_loop := Retrying\<rparr>"
  have "bs_loop ?start = Watching" by (simp add: connected_bsys_def)
  then have "bstep ConnectionLost ?start ?b" by (rule b_lost)
  then have r: "breachable (\<lambda>_. True) ?start ?b" by (intro breachable_step [OF breachable_init]) simp_all
  have "\<not> rc_wait (newRabbitMQConn (rb_opts connected_rbroker) ''guest:pw'')" by (simp add: newRabbitMQConn_def)
  from connection_invariant [OF r this] have "rc_wait (bs_conn ?b)" "\<not> rc_connected (bs_conn ?b)" by simp_all
  with r show ?thesis by (intro exI [of _ ?b]) simp
qed

section \<open>The run that loses a subscription\<close>

text \<open>The node answers, but the first channel cannot be opened; and an attempt without any error.\<close>

definition no_channel :: amqp where
  "no_channel = \<lparr>aq_answer = (\<lambda>n. if n = 2 then Some ''channel'' else None), aq_log = []\<rparr>"

definition no_error :: amqp where
  "no_error = \<lparr>aq_answer = (\<lambda>_. None), aq_log = []\<rparr>"

lemma tryConnect_no_channel:
  "\<not> rc_closed c \<Longrightarrow> \<exists>w'. tryConnect c (one_node n) no_channel = Some (Fail (PlainErr ''channel''), c\<lparr>rc_closed := True, rc_connected := False\<rparr>, w')"
  by (simp add: tryConnect_def doTryConnect_def amqp_do_def no_channel_def newRabbitChannel_def conn_Close_def)

lemma tryConnect_no_error: "\<exists>w'. tryConnect c (one_node n) no_error = Some (Ok (), c, w')"
proof -
  obtain r c' w' where t: "tryConnect c (one_node n) no_error = Some (r, c', w')"
    using tryConnect_ends [of 0 no_error c "one_node n"] by (auto simp: no_error_def)
  moreover have "fst (amqp_all ops \<lparr>aq_answer = (\<lambda>_. None), aq_log = l\<rparr>) = Ok ()" for ops l
    by (rule amqp_all_answered) simp
  ultimately show ?thesis
    by (auto simp: tryConnect_def doTryConnect_def amqp_do_def no_error_def split: res.splits prod.splits)
      (metis fst_conv res.distinct)+
qed

text \<open>
  Claim C34.  A subscription can end for good although nobody disconnects or unsubscribes: when the first
  attempt after a lost connection fails behind the dial, it closes the broker for its subscribers too, whose
  loops stop; the connection that the next attempt restores has no subscribers, and no loop that watches it.
\<close>

theorem subscription_lost:
  assumes "bs_loop b = Watching" and "\<not> rc_closed (bs_conn b)" and "i < length (bs_subs b)"
    and "bs_subs b ! i = (s, Consuming)" and "sb_mayRun s"
  shows "\<exists>b'. breachable undisturbed b b' \<and> rc_connected (bs_conn b') \<and> bs_subs b' ! i = (s, SubEnded) \<and> bs_loop b' = LoopEnded"
proof -
  let ?c1 = "(bs_conn b)\<lparr>rc_connected := False, rc_wait := True\<rparr>"
  let ?b1 = "b\<lparr>bs_conn := ?c1, bs_loop := Retrying\<rparr>"
  let ?b2 = "set_sub i (s, AtTop) ?b1"
  let ?c3 = "?c1\<lparr>rc_closed := True, rc_connected := False\<rparr>"
  let ?b3 = "?b2\<lparr>bs_conn := ?c3\<rparr>"
  let ?b4 = "set_sub i (s, SubEnded) ?b3"
  let ?b5 = "?b4\<lparr>bs_conn := ?c3\<lparr>rc_connected := True, rc_wait := False\<rparr>, bs_loop := Watching, bs_panic := bs_panic b\<rparr>"
  let ?b6 = "?b5\<lparr>bs_loop := LoopEnded\<rparr>"
  have 1: "bstep ConnectionLost b ?b1" using assms(1) by (rule b_lost)
  have 2: "bstep (DeliveriesEnd i) ?b1 ?b2" using assms(3,4) by (intro b_deliveries_end) simp_all
  obtain w3 where "tryConnect ?c1 (one_node ''n'') no_channel = Some (Fail (PlainErr ''channel''), ?c3, w3)"
    using tryConnect_no_channel [of ?c1 "''n''"] assms(2) by auto
  then have "bstep (Reconnect (one_node ''n'') no_channel) ?b2 (reconnected (Fail (PlainErr ''channel''), ?c3) ?b2)"
    by (intro b_reconnect) simp_all
  then have 3: "bstep (Reconnect (one_node ''n'') no_channel) ?b2 ?b3" by (simp add: reconnected_def)
  have 4: "bstep (SubscriberStops i) ?b3 ?b4" using assms(3) by (intro b_sub_stops) simp_all
  obtain w5 where "tryConnect ?c3 (one_node ''n'') no_error = Some (Ok (), ?c3, w5)"
    using tryConnect_no_error [of ?c3 "''n''"] by auto
  then have "bstep (Reconnect (one_node ''n'') no_error) ?b4 (reconnected (Ok (), ?c3) ?b4)"
    by (intro b_reconnect) simp_all
  then have 5: "bstep (Reconnect (one_node ''n'') no_error) ?b4 ?b5" by (simp add: reconnected_def)
  have 6: "bstep LoopStops ?b5 ?b6" by (intro b_loop_stops) simp_all
  have "breachable undisturbed b ?b6"
    by (rule breachable_step [OF breachable_step [OF breachable_step [OF breachable_step [OF breachable_step [OF breachable_step
          [OF breachable_init _ 1] _ 2] _ 3] _ 4] _ 5] _ 6]) (simp_all add: undisturbed_def)
  moreover have "bs_subs ?b6 ! i = (s, SubEnded)" using assms(3) by simp
  ultimately show ?thesis by (intro exI [of _ ?b6]) simp
qed

theorem subscription_lost_witness:
  "\<exists>b'. breachable undisturbed
      (connected_bsys (newRabbitMQConn (rb_opts connected_rbroker) ''guest:pw'')\<lparr>bs_subs :=
         [(\<lparr>sb_topic = QueueReportEvent, sb_opts = \<lparr>so_AutoAck = False, so_Queue = QueueReportEvent, so_durableQueue = True,
             so_requeueOnError = False\<rparr>, sb_mayRun = True\<rparr>, Consuming)]\<rparr>) b' \<and>
    rc_connected (bs_conn b') \<and> snd (bs_subs b' ! 0) = SubEnded"
proof -
  let ?s = "\<lparr>sb_topic = QueueReportEvent, sb_opts = \<lparr>so_AutoAck = False, so_Queue = QueueReportEvent, so_durableQueue = True,
             so_requeueOnError = False\<rparr>, sb_mayRun = True\<rparr>"
  let ?b = "connected_bsys (newRabbitMQConn (rb_opts connected_rbroker) ''guest:pw'')\<lparr>bs_subs := [(?s, Consuming)]\<rparr>"
  have b: "bs_loop ?b = Watching" "\<not> rc_closed (bs_conn ?b)" "0 < length (bs_subs ?b)" "bs_subs ?b ! 0 = (?s, Consuming)" "sb_mayRun ?s"
    by (simp_all add: connected_bsys_def newRabbitMQConn_def)
  from subscription_lost [OF b] show ?thesis by auto
qed

end
