(* ===== verification/Spec_Connection.thy ===== *)
theory Spec_Connection
  imports Connection Sample
begin

text \<open>
  Database connections: the data source of a node, the handles that the loop of \<open>reconnect\<close> opens and closes, and
  what becomes of a block that fails, in each of the ways to run it.
\<close>

section \<open>Addresses and data sources\<close>

lemma takeWhile_before: "c \<notin> set xs \<Longrightarrow> takeWhile (\<lambda>x. x \<noteq> c) (xs @ c # ys) = xs"
  by (induction xs) auto

lemma SplitHostPort_plain:
  assumes "set (h @ p) \<inter> {CHR '':'', CHR ''['', CHR '']''} = {}"
  shows "SplitHostPort (h @ '':'' @ p) = Some (h, p)"
proof -
  have "CHR '':'' \<notin> set (rev p)" using assms by auto
  then have port: "rev (takeWhile (\<lambda>c. c \<noteq> CHR '':'') (rev (h @ '':'' @ p))) = p"
    using takeWhile_before [of "CHR '':''" "rev p" "rev h"] by simp
  have "take 1 (h @ '':'' @ p) \<noteq> ''[''" using assms by (cases h) auto
  with assms show ?thesis unfolding SplitHostPort_def Let_def port by auto
qed

lemma SplitHostPort_bracketed:
  assumes "set h \<inter> {CHR ''['', CHR '']''} = {}" and "set p \<inter> {CHR '':'', CHR ''['', CHR '']''} = {}"
  shows "SplitHostPort (''['' @ h @ '']:'' @ p) = Some (h, p)"
proof -
  have "CHR '':'' \<notin> set (rev p)" using assms by auto
  then have port: "rev (takeWhile (\<lambda>c. c \<noteq> CHR '':'') (rev (''['' @ h @ '']:'' @ p))) = p"
    using takeWhile_before [of "CHR '':''" "rev p" "rev (''['' @ h @ '']'')"] by simp
  have h: "take (length (''['' @ h @ '']:'' @ p) - length p - 1) (''['' @ h @ '']:'' @ p) = ''['' @ h @ '']''" by simp
  show ?thesis unfolding SplitHostPort_def Let_def port h using assms by (auto simp: butlast_append)
qed

text \<open>
  The data source of a node addresses the node's host and port, IPv6 addresses included, and
  carries TLS only for PostgreSQL: for MySQL the settings that ask for TLS and name a certificate make no
  difference, and the connection is made without.
\<close>

theorem data_source_tls:
  assumes "sn_Address n = h @ '':'' @ p" and "set (h @ p) \<inter> {CHR '':'', CHR ''['', CHR '']''} = {}"
    and "sn_Metadata n ''dialect'' = Some d"
  shows "(d = ''mysql'' \<longrightarrow> dataSource o' n = dataSource (o'\<lparr>do_SSLEnable := False, do_SSLCACert := []\<rparr>) n) \<and>
    (d = ''postgres'' \<longrightarrow> (\<exists>s. dataSource o' n = Ok (d, ''host='' @ h @ '' port='' @ p @ s) \<and>
       suffix (if do_SSLEnable o' then (if do_SSLCACert o' = [] then ''sslmode=verify-ca'' else ''sslmode=verify-ca sslrootcert='' @ do_SSLCACert o')
               else ''sslmode=disable'') s)) \<and>
    (\<forall>v6. sn_Address n' = ''['' @ v6 @ '']:'' @ p \<and> set v6 \<inter> {CHR ''['', CHR '']''} = {} \<and> sn_Metadata n' ''dialect'' = Some ''postgres'' \<longrightarrow>
       (\<exists>s. dataSource o' n' = Ok (''postgres'', ''host='' @ v6 @ '' port='' @ p @ s)))"
proof (intro conjI impI allI)
  have hp: "SplitHostPort (sn_Address n) = Some (h, p)" unfolding assms(1) by (rule SplitHostPort_plain [OF assms(2)])
  show "dataSource o' n = dataSource (o'\<lparr>do_SSLEnable := False, do_SSLCACert := []\<rparr>) n" if "d = ''mysql''"
    using assms(3) that by (simp add: dataSource_def hp ssl_params_def)
  show "\<exists>s. dataSource o' n = Ok (d, ''host='' @ h @ '' port='' @ p @ s) \<and>
       suffix (if do_SSLEnable o' then (if do_SSLCACert o' = [] then ''sslmode=verify-ca'' else ''sslmode=verify-ca sslrootcert='' @ do_SSLCACert o')
               else ''sslmode=disable'') s" if "d = ''postgres''"
    using assms(3) that by (auto simp: dataSource_def hp ssl_params_def suffix_def)
  fix v6 assume v6: "sn_Address n' = ''['' @ v6 @ '']:'' @ p \<and> set v6 \<inter> {CHR ''['', CHR '']''} = {} \<and> sn_Metadata n' ''dialect'' = Some ''postgres''"
  have "set p \<inter> {CHR '':'', CHR ''['', CHR '']''} = {}" using assms(2) by auto
  from SplitHostPort_bracketed [of v6 p, OF _ this] v6 have "SplitHostPort (sn_Address n') = Some (v6, p)" by simp
  with v6 show "\<exists>s. dataSource o' n' = Ok (''postgres'', ''host='' @ v6 @ '' port='' @ p @ s)" by (simp add: dataSource_def)
qed

definition sample_node :: "string \<Rightarrow> string \<Rightarrow> service_node" where
  "sample_node address dialect = \<lparr>sn_Address = address, sn_Metadata = [''dialect'' \<mapsto> dialect]\<rparr>"

definition sample_db_options :: "db_options" where
  "sample_db_options = init_options ''cdm-database'' ''cdm'' ''root'' ''pw'' [SSLEnable True, SSLCACert ''/ca.pem'']"

theorem data_source_tls_witness:
  "dataSource sample_db_options (sample_node ''db-0:3306'' ''mysql'') =
   dataSource (sample_db_options\<lparr>do_SSLEnable := False, do_SSLCACert := []\<rparr>) (sample_node ''db-0:3306'' ''mysql'')"
proof -
  have "set (''db-0'' @ ''3306'') \<inter> {CHR '':'', CHR ''['', CHR '']''} = {}" by simp
  from data_source_tls [of "sample_node ''db-0:3306'' ''mysql''" "''db-0''" "''3306''" "''mysql''" sample_db_options, OF _ this]
  show ?thesis by (simp add: sample_node_def)
qed

section \<open>Handles\<close>

locale d_invariant =
  fixes I :: "dsys \<Rightarrow> bool"
  assumes I_step: "dstep a d d' \<Longrightarrow> I d \<Longrightarrow> I d'"
begin

lemma reachable_I: "dreachable d0 d \<Longrightarrow> I d0 \<Longrightarrow> I d"
  by (induction rule: dreachable.induct) (auto intro: I_step)

end

definition one_handle :: "dsys \<Rightarrow> bool" where
  "one_handle d \<longleftrightarrow>
     (\<exists>h. cw_DB (ds_conn d) = Some h \<and> (cw_open (ds_conn d) = [h] \<or> (cw_closed (ds_conn d) \<and> cw_open (ds_conn d) = [])))"

lemma cw_connect_cases:
  assumes "cw_connect registry gorm_Open c = (r, c')"
  obtains (failed) "c' = c" "r \<noteq> Ok ()"
  | (connected) src where "r = Ok ()"
      "c' = c\<lparr>cw_DB := Some (cw_next c, src), cw_next := Suc (cw_next c),
             cw_open := (cw_next c, src) # (case cw_DB c of None \<Rightarrow> cw_open c | Some old \<Rightarrow> remove1 old (cw_open c))\<rparr>"
  using assms by (auto simp: cw_connect_def Let_def split: res.splits option.splits)

lemma one_handle_connect:
  assumes "cw_connect registry gorm_Open (ds_conn d) = (r, c)" and "one_handle d"
  shows "one_handle (d\<lparr>ds_conn := c, ds_loop := l\<rparr>)"
  using assms(1)
proof (cases rule: cw_connect_cases)
  case failed
  with assms(2) show ?thesis by (simp add: one_handle_def)
next
  case (connected src)
  with assms(2) show ?thesis by (auto simp: one_handle_def)
qed

lemma one_handle_step: "dstep a d d' \<Longrightarrow> one_handle d \<Longrightarrow> one_handle d'"
proof (induction rule: dstep.induct)
  case (d_connect d registry gorm_Open r c)
  then show ?case by (intro one_handle_connect)
next
  case (d_close d r c)
  then show ?case by (auto simp: cw_Close_def one_handle_def split: if_splits option.splits)
qed (simp_all add: one_handle_def)

interpretation d_handles: d_invariant one_handle
  by unfold_locales (rule one_handle_step)

lemma Open_db_handle:
  assumes "Open_db serviceName dbName username password opts registry gorm_Open = Ok c"
  shows "one_handle (monitored c) \<and> \<not> cw_closed c"
proof -
  let ?c = "newConnection (init_options serviceName dbName username password opts)"
  obtain r c' where k: "cw_connect registry gorm_Open ?c = (r, c')" by (cases "cw_connect registry gorm_Open ?c")
  have "c = c' \<and> r = Ok ()" using assms k by (auto simp: Open_db_def split: res.splits)
  with k show ?thesis
    by (auto simp: one_handle_def monitored_def newConnection_def elim!: cw_connect_cases)
qed

text \<open>
  Claim C35.  However often the database is lost, reconnected and closed, a connection holds at most one
  handle: the old one is closed when another takes its place, so that the retries leak nothing, and until
  \<open>Close\<close> the current handle is open.
\<close>

theorem handles_not_leaked:
  assumes "Open_db serviceName dbName username password opts registry gorm_Open = Ok c" and "dreachable (monitored c) d"
  shows "\<exists>h. cw_DB (ds_conn d) = Some h \<and> (cw_open (ds_conn d) = [h] \<or> (cw_closed (ds_conn d) \<and> cw_open (ds_conn d) = []))"
proof -
  have "one_handle d" by (rule d_handles.reachable_I [OF assms(2) conjunct1 [OF Open_db_handle [OF assms(1)]]])
  then show ?thesis by (auto simp: one_handle_def split: option.splits)
qed

definition sample_registry :: registry_answer where
  "sample_registry = (let n = sample_node ''10.0.0.2:26257'' ''postgres'' in Services [[n]] (\<lambda>_. n))"

definition sample_connection :: connection_wrapper where
  "sample_connection = (case Open_db ''cdm-database'' ''cdm'' ''root'' ''pw'' [] sample_registry (\<lambda>_ _. None) of Ok c \<Rightarrow> c)"

lemma sample_connection_opened:
  "Open_db ''cdm-database'' ''cdm'' ''root'' ''pw'' [] sample_registry (\<lambda>_ _. None) = Ok sample_connection"
proof -
  have "is_Ok (Open_db ''cdm-database'' ''cdm'' ''root'' ''pw'' [] sample_registry (\<lambda>_ _. None))" by code_simp
  then show ?thesis by (auto simp: sample_connection_def is_Ok_def split: res.splits)
qed

theorem handles_not_leaked_witness:
  "\<exists>d h. dreachable (monitored sample_connection) d \<and> ds_loop d = Connecting \<and> cw_DB (ds_conn d) = Some h"
proof -
  let ?d = "(monitored sample_connection)\<lparr>ds_loop := Connecting\<rparr>"
  have "dstep HealthCheckFails (monitored sample_connection) ?d" by (rule d_health) (simp add: monitored_def)
  then have r: "dreachable (monitored sample_connection) ?d" by (rule dreachable_step [OF dreachable_init])
  from handles_not_leaked [OF sample_connection_opened r] r show ?thesis by (intro exI [of _ ?d]) auto
qed

text \<open>
  Closing a connection during an outage does not last: the loop goes on to reconnect, opens a new
  handle, and only then sees that the connection is closed and ends, so that the handle stays open for good.
\<close>

theorem closed_connection_reopened:
  assumes "ds_loop d = Connecting" and "one_handle d" and "\<not> cw_closed (ds_conn d)" and "cw_connect registry gorm_Open (ds_conn d) = (Ok (), c)"
  shows "\<exists>d' h. dreachable d d' \<and> cw_closed (ds_conn d') \<and> ds_loop d' = Stopped \<and> cw_open (ds_conn d') = [h] \<and>
    (\<forall>d''. dreachable d' d'' \<longrightarrow> cw_open (ds_conn d'') = [h])"
proof -
  obtain old where old: "cw_DB (ds_conn d) = Some old" "cw_open (ds_conn d) = [old]"
    using assms(2,3) by (auto simp: one_handle_def split: option.splits)
  let ?c1 = "snd (cw_Close (ds_conn d))"
  have c1: "cw_closed ?c1" "cw_open ?c1 = []" "cw_DB ?c1 = Some old" "cw_opts ?c1 = cw_opts (ds_conn d)"
    using old assms(3) by (auto simp: cw_Close_def)
  obtain r2 c2 where k2: "cw_connect registry gorm_Open ?c1 = (r2, c2)" by (cases "cw_connect registry gorm_Open ?c1")
  have r2: "r2 = Ok ()" using k2 assms(4) c1(4) by (auto simp: cw_connect_def Let_def split: res.splits option.splits)
  obtain h where c2: "cw_closed c2" "cw_open c2 = [h]"
    using k2
  proof (cases rule: cw_connect_cases)
    case failed
    with r2 show ?thesis by simp
  next
    case (connected src)
    with c1 that show ?thesis by simp
  qed
  let ?d1 = "d\<lparr>ds_conn := ?c1\<rparr>"
  let ?d2 = "?d1\<lparr>ds_conn := c2, ds_loop := Monitoring\<rparr>"
  let ?d3 = "?d2\<lparr>ds_loop := Stopped\<rparr>"
  have 1: "dstep CallClose d ?d1" by (rule d_close [of _ "fst (cw_Close (ds_conn d))"]) simp
  have "dstep (TryReconnect registry gorm_Open) ?d1 (?d1\<lparr>ds_conn := c2, ds_loop := (if r2 = Ok () then Monitoring else Connecting)\<rparr>)"
    using k2 assms(1) by (intro d_connect) simp_all
  then have 2: "dstep (TryReconnect registry gorm_Open) ?d1 ?d2" using r2 by simp
  have 3: "dstep LoopClosed ?d2 ?d3" using c2 by (intro d_stop) simp_all
  have reach: "dreachable d ?d3"
    by (rule dreachable_step [OF dreachable_step [OF dreachable_step [OF dreachable_init 1] 2] 3])
  have stays: "ds_loop d'' = Stopped \<and> cw_closed (ds_conn d'') \<and> cw_open (ds_conn d'') = [h]" if "dreachable ?d3 d''" for d''
    using that
  proof (induction rule: dreachable.induct)
    case dreachable_init
    with c2 show ?case by simp
  next
    case (dreachable_step d a d')
    from dreachable_step.hyps(2) dreachable_step.IH show ?case by (auto elim!: dstepE simp: cw_Close_def)
  qed
  from reach c2 stays show ?thesis by (intro exI [of _ ?d3] exI [of _ h]) simp
qed

theorem closed_connection_reopened_witness:
  "\<exists>d'. dreachable ((monitored sample_connection)\<lparr>ds_loop := Connecting\<rparr>) d' \<and> cw_closed (ds_conn d') \<and> cw_open (ds_conn d') \<noteq> []"
proof -
  let ?d = "(monitored sample_connection)\<lparr>ds_loop := Connecting\<rparr>"
  note h = Open_db_handle [OF sample_connection_opened]
  have d: "ds_loop ?d = Connecting" "one_handle ?d" "\<not> cw_closed (ds_conn ?d)"
    using h by (auto simp: monitored_def one_handle_def)
  have "fst (cw_connect sample_registry (\<lambda>_ _. None) sample_connection) = Ok ()" by code_simp
  then have "cw_connect sample_registry (\<lambda>_ _. None) (ds_conn ?d) = (Ok (), snd (cw_connect sample_registry (\<lambda>_ _. None) sample_connection))"
    by (simp add: monitored_def prod_eq_iff)
  from closed_connection_reopened [OF d this] show ?thesis by force
qed

section \<open>Blocks that fail\<close>


text \<open>A block that writes a row and then finds that a parameter is missing.\<close>

definition write_then_fail :: "unit body" where
  "write_then_fail E s = (Fail (RequiredParameter ''id''), s\<lparr>s_db := (s_db s)\<lparr>t_role := []\<rparr>\<rparr>)"


end
