(* ===== verification/Spec_Command.thy ===== *)
theory Spec_Command
  imports Command Spec_Connection "HOL-Library.Multiset"
begin

text \<open>
  A process from its flags to its end: what is set up and torn down, the endpoints of the clients of etcd, and the
  level of the logger.
\<close>

section \<open>Endpoints\<close>

lemma resetEndpoints_failed: "getServiceEndpoints ''store '' a = Fail e \<Longrightarrow> resetEndpoints a es = es"
  by (simp add: resetEndpoints_def Let_def)

lemma resetEndpoints_found:
  assumes "getServiceEndpoints ''store '' a = Ok found" and "found \<noteq> []"
  shows "mset (resetEndpoints a es) = mset found"
proof -
  have "sort found \<noteq> []" using assms(2) by (metis length_sort length_0_conv)
  then show ?thesis using assms(1) by (auto simp: resetEndpoints_def Let_def) (metis mset_sort)
qed

lemma resetEndpoints_not_Nil: "es \<noteq> [] \<Longrightarrow> resetEndpoints a es \<noteq> []"
  by (simp add: resetEndpoints_def Let_def)

text \<open>
  The client of the store follows the registry: after a round that finds nodes its endpoints are
  the addresses of these nodes, a round that finds no service or no node changes nothing, and whatever the
  registry answers over time, a client that has endpoints never loses the last one.
\<close>

theorem endpoints_follow_registry:
  assumes "es \<noteq> []"
  shows "fold resetEndpoints answers es \<noteq> [] \<and>
    (\<forall>s next. s \<noteq> [] \<and> hd s \<noteq> [] \<longrightarrow>
       mset (fold resetEndpoints (answers @ [Services s next]) es) = mset (map sn_Address (hd s))) \<and>
    (\<forall>a. a = ServiceNotFound \<or> a = Services [] next' \<or> (\<exists>e. a = RegistryFailed e) \<or> (\<exists>s. a = Services ([] # s) next') \<longrightarrow>
       fold resetEndpoints (answers @ [a]) es = fold resetEndpoints answers es)"
proof (intro conjI allI impI)
  show "fold resetEndpoints answers es \<noteq> []"
    using assms by (induction answers arbitrary: es) (simp_all add: resetEndpoints_not_Nil)
  fix s :: "service_node list list" and "next" assume "s \<noteq> [] \<and> hd s \<noteq> []"
  then show "mset (fold resetEndpoints (answers @ [Services s next]) es) = mset (map sn_Address (hd s))"
    by (simp add: resetEndpoints_found getServiceEndpoints_def discover_def)
next
  fix a assume "a = ServiceNotFound \<or> a = Services [] next' \<or> (\<exists>e. a = RegistryFailed e) \<or> (\<exists>s. a = Services ([] # s) next')"
  then show "fold resetEndpoints (answers @ [a]) es = fold resetEndpoints answers es"
    by (auto simp: resetEndpoints_def getServiceEndpoints_def discover_def)
qed

theorem endpoints_follow_registry_witness:
  "mset (fold resetEndpoints [ServiceNotFound, one_node ''10.0.0.9:2379''] [''10.0.0.1:2379'']) = {#''10.0.0.9:2379''#}"
  using endpoints_follow_registry [of "[''10.0.0.1:2379'']" "[ServiceNotFound]"] by (simp add: one_node_def Let_def)

section \<open>The level of the logger\<close>

lemma executeInTx_reads:
  assumes "last_env as = Some E"
  shows "\<exists>r. executeInTx as (level_block name) s = Some (r, s) \<and> (\<forall>l. r = Ok l \<longrightarrow> l = find_level name E (s_db s))"
  using assms
proof (induction as)
  case (Cons a as)
  have rb: "rollback s s = s" by (simp add: rollback_def)
  from Cons show ?case by (auto simp: level_block_def rb split: release.splits if_splits option.splits)
qed simp

text \<open>The level that the last attempt saw is applied, whatever became of the transaction.\<close>

lemma updateLoggingLevel_last:
  assumes "tr_begin tr = None" "tr_savepoint tr = None" "last_env (tr_attempts tr) = Some E"
  shows "updateLoggingLevel tr w s lg =
    Some (case find_level (wt_serviceName w) E (s_db s) of None \<Rightarrow> lg | Some l \<Rightarrow> lg\<lparr>lg_Level := l\<rparr>)"
proof -
  obtain r where r: "executeInTx (tr_attempts tr) (level_block (wt_serviceName w)) s = Some (r, s)"
      "\<forall>l. r = Ok l \<longrightarrow> l = find_level (wt_serviceName w) E (s_db s)"
    using executeInTx_reads [OF assms(3)] by blast
  have "assigned_level (wt_serviceName w) tr s r = find_level (wt_serviceName w) E (s_db s)"
    using assms r(2) by (cases r) (simp_all add: assigned_level_def)
  with assms r(1) show ?thesis
    by (simp add: updateLoggingLevel_def Transaction_def logger_Init_def split: option.split)
qed


definition logging_sys :: sys where
  "logging_sys = sample_sys\<lparr>s_db := (s_db sample_sys)\<lparr>t_global_config := [\<lparr>mgc_Key = GlobalLogLevel, mgc_Value = ''error''\<rparr>]\<rparr>\<rparr>"


section \<open>Setting up and tearing down\<close>

lemma run_steps_Ok: "run_steps (f # fs) p = Some (Ok (), p'') \<longleftrightarrow> (\<exists>p'. f p = Some (Ok (), p') \<and> run_steps fs p' = Some (Ok (), p''))"
  by (auto split: option.split res.split)

lemma conn_Connect_Ok:
  assumes "conn_Connect k registry w = Some (Ok (), k', starts, w')"
  shows "rc_connected k' \<and> rc_qNames k' = rc_qNames k \<and> rc_account k' = rc_account k"
proof (cases "rc_connected k")
  case False
  then obtain k1 where t: "tryConnect (k\<lparr>rc_closed := False\<rparr>) registry w = Some (Ok (), k1, w')" "k' = k1\<lparr>rc_connected := True\<rparr>"
    using assms by (auto simp: conn_Connect_def split: option.splits res.splits)
  from t(1) have "k1 = k\<lparr>rc_closed := False\<rparr>"
    by (auto simp: tryConnect_def split: res.splits prod.splits)
  with t(2) show ?thesis by simp
qed (use assms in \<open>simp add: conn_Connect_def\<close>)

lemma broker_Connect_Ok:
  assumes "broker_Connect (broker_Init name u pw opts) registry w = Some (Ok (), b', w')"
  shows "\<exists>b c. b' = Some b \<and> rb_conn b = Some c \<and> rc_connected c \<and>
    rc_qNames c = bo_PersistentQueues (rb_opts (NewBroker name u pw opts)) \<and> rc_account c = u @ '':'' @ pw"
proof -
  let ?r = "NewBroker name u pw opts"
  have n: "rb_conn ?r = None" "rb_auth ?r = u @ '':'' @ pw" by (simp_all add: NewBroker_def)
  obtain c starts where c: "conn_Connect (newRabbitMQConn (rb_opts ?r) (rb_auth ?r)) registry w = Some (Ok (), c, starts, w')"
    "b' = Some (?r\<lparr>rb_conn := Some c\<rparr>)"
    using assms n(1) by (auto simp: broker_Connect_def broker_Init_def r_Connect_def)
  with conn_Connect_Ok [OF c(1)] n(2) show ?thesis by (simp add: newRabbitMQConn_def)
qed

lemma initBroker_Ok:
  assumes "initBroker co W x p = Some (Ok (), p')"
  shows "\<exists>b c. p' = p\<lparr>pr_broker := Some b\<rparr> \<and> rb_conn b = Some c \<and> rc_connected c \<and> rc_qNames c = co_PersistentQueues co \<and>
    rc_account c = cx_String x ''cdm_broker_username'' @ '':'' @ cx_String x ''cdm_broker_password''"
proof -
  let ?opts = "if co_PersistentQueues co \<noteq> [] then [PersistentQueue (co_PersistentQueues co)] else []"
  obtain b' w' where b: "broker_Connect (broker_Init (cx_String x ''cdm_broker_service_name'') (cx_String x ''cdm_broker_username'')
      (cx_String x ''cdm_broker_password'') ?opts) (wd_registry W (cx_String x ''cdm_broker_service_name'')) (wd_amqp W) =
      Some (Ok (), b', w')" "p' = p\<lparr>pr_broker := b'\<rparr>"
    using assms unfolding initBroker_def Let_def by auto
  have "bo_PersistentQueues (rb_opts (NewBroker n u pw ?opts)) = co_PersistentQueues co" for n u pw
    by (simp add: NewBroker_def)
  with broker_Connect_Ok [OF b(1)] b(2) show ?thesis by auto
qed

lemma initStore_Ok:
  assumes "initStore W x p = (Ok (), p')"
  shows "\<exists>s es. p' = p\<lparr>pr_store := Some s\<rparr> \<and> es_client s = Some es \<and>
    getServiceEndpoints ''store '' (wd_registry W (cx_String x ''cdm_store_service_name'')) = Ok es"
  using assms
  by (auto simp: initStore_def store_Connect_def store_Init_def es_Connect_def Let_def split: option.splits res.splits prod.splits)

lemma sync_Init_Ok:
  assumes "sync_Init name opts registry new = (Ok (), s)"
  shows "\<exists>y es. s = Some y \<and> es_client (ey_client y) = Some es \<and> getServiceEndpoints [] registry = Ok es"
proof -
  obtain y where "NewEtcdSync name opts registry new = Ok y" "s = Some y"
    using assms by (auto simp: sync_Init_def split: res.splits)
  then show ?thesis
    by (cases new) (auto simp: NewEtcdSync_def NewClient_defs bindR_Ok_iff Let_def)
qed

lemma initSync_Ok:
  assumes "initSync W x p = (Ok (), p')"
  shows "\<exists>y es. p' = p\<lparr>pr_sync := Some y\<rparr> \<and> es_client (ey_client y) = Some es \<and>
    getServiceEndpoints [] (wd_registry W (cx_String x ''cdm_sync_backend_service_name'')) = Ok es"
proof -
  obtain opts s where s: "sync_Init (cx_String x ''cdm_sync_backend_service_name'') opts
      (wd_registry W (cx_String x ''cdm_sync_backend_service_name'')) (wd_sync_new W) = (Ok (), s)" "p' = p\<lparr>pr_sync := s\<rparr>"
    using assms unfolding initSync_def Let_def by (simp split: prod.splits)
  with sync_Init_Ok [OF s(1)] show ?thesis by auto
qed

lemma database_Connect_Ok:
  assumes "database_Connect registry gorm_Open (database_Init name dbName u pw opts) = (Ok (), d')"
  shows "\<exists>d h. d' = Some d \<and> cw_DB d = Some h \<and> cw_open d = [h] \<and> \<not> cw_closed d"
  using assms
  by (auto simp: database_Connect_def database_Init_def newConnection_def split: prod.splits elim!: cw_connect_cases)

lemma initDatabase_Ok:
  assumes "initDatabase W x p = (Ok (), p')"
  shows "\<exists>d h. p' = p\<lparr>pr_database := Some d\<rparr> \<and> cw_DB d = Some h \<and> cw_open d = [h] \<and> \<not> cw_closed d"
proof -
  obtain registry gorm_Open name dbName u pw opts d where
    d: "database_Connect registry gorm_Open (database_Init name dbName u pw opts) = (Ok (), d)" "p' = p\<lparr>pr_database := d\<rparr>"
    using assms unfolding initDatabase_def Let_def by (simp split: prod.splits)
  with database_Connect_Ok [OF d(1)] show ?thesis by auto
qed

lemma initLogger_Ok:
  assumes "initLogger W x p = Some (Ok (), p')" and "pr_watchers p = (None, [])"
  shows "\<exists>w lg l. p' = p\<lparr>pr_watchers := (Some w, []), pr_logger := lg, pr_micro_level := l\<rparr>"
  using assms by (auto simp: initLogger_def Watch_def Let_def split: option.splits res.splits prod.splits)

lemma initDefaults_watchers: "initDefaults W x p = (r, p') \<Longrightarrow> pr_watchers p' = pr_watchers p"
  by (auto simp: initDefaults_def Let_def split: if_splits)

lemma newCommand_queues: "QueueReportEvent \<in> set (co_PersistentQueues (newCommand opts))"
proof -
  have "q \<in> set (co_PersistentQueues (fold apply_common_option opts o'))" if "q \<in> set (co_PersistentQueues o')" for q o'
    using that
  proof (induction opts arbitrary: o')
    case (Cons a opts)
    then show ?case by (cases a) simp_all
  qed simp
  then show ?thesis by (simp add: newCommand_def defaultPersistentQueues_def)
qed

text \<open>Nothing is set up yet when a process starts; what \<open>Before\<close> leaves when it succeeds.\<close>

definition running :: "common_options \<Rightarrow> world \<Rightarrow> cli_context \<Rightarrow> process \<Rightarrow> bool" where
  "running co W x p \<longleftrightarrow>
     (\<exists>b c. pr_broker p = Some b \<and> rb_conn b = Some c \<and> rc_connected c \<and> rc_qNames c = co_PersistentQueues co \<and>
        rc_account c = cx_String x ''cdm_broker_username'' @ '':'' @ cx_String x ''cdm_broker_password'') \<and>
     (\<exists>s es. pr_store p = Some s \<and> es_client s = Some es \<and>
        getServiceEndpoints ''store '' (wd_registry W (cx_String x ''cdm_store_service_name'')) = Ok es) \<and>
     (\<exists>y es. pr_sync p = Some y \<and> es_client (ey_client y) = Some es \<and>
        getServiceEndpoints [] (wd_registry W (cx_String x ''cdm_sync_backend_service_name'')) = Ok es) \<and>
     (\<exists>d h. pr_database p = Some d \<and> cw_DB d = Some h \<and> cw_open d = [h] \<and> \<not> cw_closed d) \<and>
     (\<exists>w. pr_watchers p = (Some w, []))"

lemma Before_running:
  assumes "Before co W x new_process = Some (Ok (), p)"
  shows "running co W x p"
proof -
  obtain p1 p2 p3 p4 p5 where
    1: "initDefaults W x new_process = (Ok (), p1)" and 2: "initBroker co W x p1 = Some (Ok (), p2)" and
    3: "initStore W x p2 = (Ok (), p3)" and 4: "initSync W x p3 = (Ok (), p4)" and 5: "initDatabase W x p4 = (Ok (), p5)" and
    6: "initLogger W x p5 = Some (Ok (), p)"
    using assms unfolding Before_def run_steps_Ok by auto
  obtain b k where b: "p2 = p1\<lparr>pr_broker := Some b\<rparr>" "rb_conn b = Some k" "rc_connected k" "rc_qNames k = co_PersistentQueues co"
    "rc_account k = cx_String x ''cdm_broker_username'' @ '':'' @ cx_String x ''cdm_broker_password''"
    using initBroker_Ok [OF 2] by blast
  obtain s es where s: "p3 = p2\<lparr>pr_store := Some s\<rparr>" "es_client s = Some es"
    "getServiceEndpoints ''store '' (wd_registry W (cx_String x ''cdm_store_service_name'')) = Ok es"
    using initStore_Ok [OF 3] by blast
  obtain y es' where y: "p4 = p3\<lparr>pr_sync := Some y\<rparr>" "es_client (ey_client y) = Some es'"
    "getServiceEndpoints [] (wd_registry W (cx_String x ''cdm_sync_backend_service_name'')) = Ok es'"
    using initSync_Ok [OF 4] by blast
  obtain d h where d: "p5 = p4\<lparr>pr_database := Some d\<rparr>" "cw_DB d = Some h" "cw_open d = [h]" "\<not> cw_closed d"
    using initDatabase_Ok [OF 5] by blast
  have "pr_watchers p5 = (None, [])"
    using initDefaults_watchers [OF 1] by (simp add: d(1) y(1) s(1) b(1) new_process_def)
  then obtain w lg l where w: "p = p5\<lparr>pr_watchers := (Some w, []), pr_logger := lg, pr_micro_level := l\<rparr>"
    using initLogger_Ok [OF 6] by blast
  have "pr_broker p = Some b" "pr_store p = Some s" "pr_sync p = Some y" "pr_database p = Some d" "pr_watchers p = (Some w, [])"
    by (simp_all add: w d(1) y(1) s(1) b(1))
  with b(2-) s(2-) y(2-) d(2-) show ?thesis unfolding running_def by blast
qed

definition torn_down :: "process \<Rightarrow> bool" where
  "torn_down p \<longleftrightarrow> pr_broker p = None \<and> pr_store p = None \<and> pr_sync p = None \<and>
     (\<exists>d. pr_database p = Some d \<and> cw_closed d \<and> cw_open d = []) \<and> fst (pr_watchers p) = None \<and>
     (\<forall>w \<in> set (snd (pr_watchers p)). \<forall>s. wt_gSub w = Some s \<or> wt_sSub w = Some s \<longrightarrow> \<not> sb_mayRun s)"

lemma Destroy_running:
  assumes "running co W x p"
  shows "\<exists>p'. Destroy c p = (Ok (), p') \<and> torn_down p'"
proof -
  from assms obtain b k s es y es' d h w where
    p: "pr_broker p = Some b" "rb_conn b = Some k" "pr_store p = Some s" "es_client s = Some es" "pr_sync p = Some y"
      "es_client (ey_client y) = Some es'" "pr_database p = Some d" "cw_DB d = Some h" "cw_open d = [h]" "\<not> cw_closed d"
      "pr_watchers p = (Some w, [])"
    unfolding running_def by blast
  have st: "store_Close (cl_store c) (pr_store p) \<noteq> Panic" "sync_Close (cl_sync c) (pr_sync p) \<noteq> Panic"
    using p by (simp_all add: store_Close_def sync_Close_def es_Close_def split: option.split)
  obtain r w' where br: "broker_Disconnect (pr_broker p) (cl_amqp c) = (r, None, w')" "r \<noteq> Panic"
    by (cases "rc_closed k"; cases "aq_answer (cl_amqp c) (length (aq_log (cl_amqp c)))")
      (simp_all add: p broker_Disconnect_def r_Disconnect_def conn_Close_def amqp_do_def)
  define p' where "p' = p\<lparr>pr_watchers := watcher_Stop (pr_watchers p), pr_database := Some (d\<lparr>cw_closed := True, cw_open := []\<rparr>),
    pr_store := None, pr_sync := None, pr_broker := None\<rparr>"
  have "Destroy c p = (Ok (), p')"
    using p st br
    by (auto simp: Destroy_def destroyLogger_def destroyDatabase_def destroyStore_def destroySync_def destroyBroker_def
        database_Close_def cw_Close_def p'_def split: res.splits)
  moreover have "torn_down p'"
    using p by (auto simp: torn_down_def p'_def watcher_Stop_def watcher_stop_def unsubscribed_def)
  ultimately show ?thesis by blast
qed

text \<open>
  A process whose start succeeds, whatever options its service adds, has a connected broker (with the
  account of its flags and the queue of event reports among its queues), clients of the store and of the lock
  backend whose endpoints the registry gave, exactly one open database handle and a watcher of the logging
  level.  When it ends, whatever the broker and etcd answer to closing, \<open>Destroy\<close> reaches its end: the watcher is
  unsubscribed, the handle closed, and no default client is left.
\<close>

theorem startup_shutdown:
  assumes "Before (newCommand opts) W x new_process = Some (Ok (), p)"
  shows "running (newCommand opts) W x p \<and> QueueReportEvent \<in> set (co_PersistentQueues (newCommand opts)) \<and>
    (\<exists>p'. Destroy c p = (Ok (), p') \<and> torn_down p')"
  using Before_running [OF assms] Destroy_running newCommand_queues by blast

lemma NewEtcdSync_account:
  assumes "NewEtcdSync name opts registry new = Ok y"
  defines "o' \<equiv> fold apply_sync_option opts
    \<lparr>so_ttl = defaultTTL, so_user = [], so_password = [], so_heartbeatInterval = defaultHeartbeatTimeout\<rparr>"
  shows "cf_Username (es_config (ey_client y)) = so_user o' \<and> cf_Password (es_config (ey_client y)) = so_password o'"
proof (cases new)
  case None
  with assms(1) show ?thesis unfolding NewEtcdSync_def NewClient_defs Let_def bindR_Ok_iff o'_def [symmetric]
    by (auto simp: apply_store_option_def client_applyConfig_def applyConfig_def given_def)
next
  case (Some e)
  with assms(1) show ?thesis by (simp add: NewEtcdSync_def NewClient_defs Let_def bindR_Ok_iff)
qed

text \<open>
  The client of the lock backend gets the user and the password of the store, where the flags of the lock
  backend are given.
\<close>

theorem sync_uses_store_account:
  assumes "initSync W x p = (Ok (), p')" and "cx_IsSet x ''cdm_sync_backend_username''" and "cx_IsSet x ''cdm_sync_backend_password''"
  shows "\<exists>y. pr_sync p' = Some y \<and> cf_Username (es_config (ey_client y)) = cx_String x ''cdm_store_username'' \<and>
    cf_Password (es_config (ey_client y)) = cx_String x ''cdm_store_password''"
proof -
  let ?opts = "[SyncAuth (cx_String x ''cdm_store_username'') (cx_String x ''cdm_store_password'')] @
     (if cx_IsSet x ''cdm_sync_backend_heartbeat_interval''
      then [SyncHeartbeatInterval (seconds (cx_Int x ''cdm_store_heartbeat_interval''))] else []) @
     (if cx_IsSet x ''cdm_sync_ttl'' then [SyncTTL (cx_Int x ''cdm_sync_ttl'')] else [])"
  from assms obtain y where y: "pr_sync p' = Some y" "NewEtcdSync (cx_String x ''cdm_sync_backend_service_name'') ?opts
      (wd_registry W (cx_String x ''cdm_sync_backend_service_name'')) (wd_sync_new W) = Ok y"
    unfolding initSync_def sync_Init_def Let_def by (auto split: res.splits)
  with NewEtcdSync_account [OF y(2)] show ?thesis by simp
qed

section \<open>A start and an end\<close>

definition sample_world :: world where
  "sample_world =
     \<lparr>wd_registry = (\<lambda>_. sample_registry), wd_registries = [''etcd''], wd_amqp = \<lparr>aq_answer = (\<lambda>_. None), aq_log = []\<rparr>,
      wd_store_new = None, wd_sync_new = None, wd_gorm_Open = (\<lambda>_ _. None), wd_trial = sample_trial, wd_sys = sample_sys\<rparr>"

definition sample_flags :: cli_context where
  "sample_flags = \<lparr>cx_String = (\<lambda>f. if f = ''micro_registry'' then [] else f), cx_Int = (\<lambda>_. 30), cx_Bool = (\<lambda>_. False),
     cx_IsSet = (\<lambda>_. False), cx_AppName = ''cdm-cloud-identity''\<rparr>"

definition sample_start :: "((goerr, unit) res \<times> process) option" where
  "sample_start = Before (newCommand []) sample_world sample_flags new_process"

theorem startup_shutdown_witness:
  "\<exists>p p'. sample_start = Some (Ok (), p) \<and>
     Destroy \<lparr>cl_amqp = \<lparr>aq_answer = (\<lambda>_. Some ''gone''), aq_log = []\<rparr>, cl_store = Some ''gone'', cl_sync = None\<rparr> p = (Ok (), p') \<and> torn_down p'"
proof -
  have "case sample_start of Some (r, _) \<Rightarrow> is_Ok r | None \<Rightarrow> False" by code_simp
  then obtain p where p: "sample_start = Some (Ok (), p)" by (auto split: option.splits elim: is_OkE)
  from startup_shutdown [OF this [unfolded sample_start_def]] p show ?thesis by blast
qed

end
