(* ===== verification/Spec_Services.thy ===== *)
theory Spec_Services
  imports Services Spec_Broker Spec_Command
begin

text \<open>
  The programs from start to end: what a service holds while it runs, what it reports when it cannot start, what it
  releases; when the cleaner runs; and what \<open>registerd\<close> registers.
\<close>

section \<open>Transactions that only read\<close>

lemma executeInTx_readonly:
  assumes "executeInTx as body s = Some (r, s')" and "\<And>E. snd (body E s) = s"
  shows "s' = s \<and> (\<forall>x. r = Ok x \<longrightarrow> (\<exists>E. fst (body E s) = Ok x)) \<and> (r = Panic \<longrightarrow> (\<exists>E. fst (body E s) = Panic))"
  using assms(1)
proof (induction as)
  case (Cons a as)
  have rb: "rollback s s = s" by (simp add: rollback_def)
  obtain q where q: "body (at_env a) s = (q, s)" using assms(2) [of "at_env a"] by (cases "body (at_env a) s") simp
  then have f: "fst (body (at_env a) s) = q" by simp
  from Cons q show ?case
    by (cases q) (auto simp: rb Let_def split: release.splits if_splits option.splits intro: exI [of _ "at_env a"])
qed simp

lemma Transaction_readonly:
  assumes "Transaction tr body s = Some (r, s')" and "\<And>E. snd (body E s) = s"
  shows "s' = s \<and> (\<forall>x. r = Ok x \<longrightarrow> (\<exists>E. fst (body E s) = Ok x)) \<and> (r = Panic \<longrightarrow> (\<exists>E. fst (body E s) = Panic))"
  using assms(1) executeInTx_readonly [where body = body and s = s, OF _ assms(2)] by (auto simp: Transaction_def split: option.splits)

definition default_tenant :: "db \<Rightarrow> u64 \<Rightarrow> bool" where
  "default_tenant d tid \<longleftrightarrow> (\<exists>t \<in> set (t_tenant d). mt_Name t = ''default'' \<and> mt_ID t = tid)"

lemma default_tenant_read:
  assumes "Transaction tr default_tenant_block s = Some (r, s')"
  shows "s' = s \<and> (\<forall>tid. r = Ok tid \<longrightarrow> default_tenant (s_db s) tid) \<and> r \<noteq> Panic"
proof -
  have "snd (default_tenant_block E s) = s" for E by (simp add: default_tenant_block_def split: res.split)
  note t = Transaction_readonly [OF assms this]
  have ok: "default_tenant (s_db s) tid" if "fst (default_tenant_block E s) = Ok tid" for E tid
    using that by (auto simp: default_tenant_block_def default_tenant_def db_First_Ok_iff find_Some_iff split: res.splits)
  have "fst (default_tenant_block E s) \<noteq> Panic" for E
    by (auto simp: default_tenant_block_def split: res.split)
  with t ok show ?thesis by blast
qed

text \<open>What a program leaves behind when it does not start: at most one event, for the default tenant.\<close>

definition reported_at_most_once :: "sys \<Rightarrow> sys \<Rightarrow> bool" where
  "reported_at_most_once s s' \<longleftrightarrow> s_db s' = s_db s \<and> s_kv s' = s_kv s \<and> s_pub s' = s_pub s \<and>
     (s_out s' = s_out s \<or> (\<exists>e. s_out s' = s_out s @ [e] \<and> default_tenant (s_db s) (me_TenantID e)))"

lemma reported_nothing: "reported_at_most_once s s"
  by (simp add: reported_at_most_once_def)

lemma n_reportEvent_once: "default_tenant (s_db s) tid \<Longrightarrow> reported_at_most_once s (n_reportEvent E tid code ec c s)"
  by (auto simp: reported_at_most_once_def n_reportEvent_def ReportEvent_def)

lemma with_default_tenant_once:
  "reportEventWithDefaultTenant tr E code ec c s = Some s' \<Longrightarrow> reported_at_most_once s s'"
  by (auto simp: reportEventWithDefaultTenant_def reported_nothing split: option.splits res.splits
      dest!: default_tenant_read n_reportEvent_once)

section \<open>The notification service\<close>

lemma running_subscriptions:
  assumes "running co W x p"
  shows "\<exists>e m. event_Subscribe (pr_broker p) = Ok e \<and> notifier_Subscribe (pr_broker p) = Ok m \<and>
    sb_topic e = QueueReportEvent \<and> sb_topic m = QueueNotifyEmail \<and> sb_mayRun e \<and> sb_mayRun m"
proof -
  from assms obtain b c where b: "pr_broker p = Some b" "rb_conn b = Some c" unfolding running_def by blast
  have "\<exists>s. broker_SubscribePersistentQueue (pr_broker p) q rq [] = Ok s" for q rq
    using b by (auto simp: broker_SubscribePersistentQueue_def r_SubscribePersistentQueue_def r_subscribe_def)
  moreover have "sb_topic s = q \<and> sb_mayRun s" if "broker_SubscribePersistentQueue (pr_broker p) q rq [] = Ok s" for q rq s
    using persistent_subscription that by (simp add: b broker_SubscribePersistentQueue_def)
  ultimately show ?thesis unfolding event_Subscribe_def notifier_Subscribe_def by metis
qed

definition serving :: "sys \<Rightarrow> notification_service \<Rightarrow> bool" where
  "serving s n \<longleftrightarrow> default_tenant (s_db s) (ns_tenant n) \<and>
     (\<exists>e m. ns_events n = Some e \<and> ns_mails n = Some m \<and> sb_topic e = QueueReportEvent \<and> sb_topic m = QueueNotifyEmail \<and>
        sb_mayRun e \<and> sb_mayRun m) \<and>
     ns_cleaner n = Some \<lparr>cr_tenantID = ns_tenant n, cr_running = True\<rparr>"

definition released :: "notification_service \<Rightarrow> bool" where
  "released n \<longleftrightarrow> (\<forall>b. ns_events n = Some b \<or> ns_mails n = Some b \<longrightarrow> \<not> sb_mayRun b) \<and>
     (\<forall>c. ns_cleaner n = Some c \<longrightarrow> \<not> cr_running c)"

lemma start_notification_outcome:
  assumes "running co W x p" and "start_notification (pr_broker p) register tr E s = Some (st, n, s')"
  shows "(st = Running \<longrightarrow> s' = s \<and> serving s n \<and> register = None) \<and> reported_at_most_once s s'"
proof -
  obtain e m where sub: "event_Subscribe (pr_broker p) = Ok e" "notifier_Subscribe (pr_broker p) = Ok m"
    "sb_topic e = QueueReportEvent" "sb_topic m = QueueNotifyEmail" "sb_mayRun e" "sb_mayRun m"
    using running_subscriptions [OF assms(1)] by blast
  obtain r s1 where t: "Transaction tr default_tenant_block s = Some (r, s1)"
    using assms(2) by (auto simp: start_notification_def loadDefaultTenantID_def split: option.splits)
  note d = default_tenant_read [OF t]
  show ?thesis
  proof (cases r)
    case (Ok tid)
    with assms(2) t sub d show ?thesis
      by (auto simp: start_notification_def loadDefaultTenantID_def serving_def cleaner_Start_def NewCleaner_def nothing_yet_def
          n_main_report_def reported_nothing Let_def split: option.splits intro: n_reportEvent_once)
  next
    case (Fail e')
    with assms(2) t d show ?thesis by (auto simp: start_notification_def loadDefaultTenantID_def reported_nothing)
  qed (use d in simp)
qed

lemma release_sub_simps: "release_sub E tid code close b s = (b', s') \<Longrightarrow> (\<forall>x. b' = Some x \<longrightarrow> \<not> sb_mayRun x) \<and> s_db s' = s_db s"
  by (auto simp: release_sub_def n_main_report_def n_reportEvent_def split: option.splits res.splits)

lemma stop_notification_releases:
  assumes "running co W x p"
  shows "\<exists>n' p' s2. stop_notification c mails events E n p s = (n', (Ok (), p'), s2) \<and> released n' \<and> torn_down p' \<and> s_db s2 = s_db s"
proof -
  obtain p' where p': "Destroy c p = (Ok (), p')" "torn_down p'" using Destroy_running [OF assms] by blast
  obtain m s1 where m: "release_sub E (ns_tenant n) ''notifier_unsubscribe'' mails (ns_mails n) s = (m, s1)" by fastforce
  obtain e s2 where e: "release_sub E (ns_tenant n) ''notification_event_unsubscribe'' events (ns_events n) s1 = (e, s2)" by fastforce
  show ?thesis
    using p' release_sub_simps [OF m] release_sub_simps [OF e]
    by (auto simp: stop_notification_def m e released_def cleaner_Stop_def)
qed

text \<open>
  Claim C39.  The notification service from start to end, in a process that was set up.  Its start does not write to
  the database.  When it runs, it reads the report queue and the mail queue and its cleaner runs, for a tenant named
  \<open>default\<close>; otherwise it has reported at most one event, for that tenant.  Either way, whatever was acquired is
  released by the deferred calls, whatever closing answers: no subscription and no cleaner is left running, and
  the process is torn down.
\<close>

theorem notification_lifecycle:
  assumes "Before (newCommand opts) W x new_process = Some (Ok (), p)"
    and "start_notification (pr_broker p) register tr E s = Some (st, n, s')"
  shows "reported_at_most_once s s' \<and> (st = Running \<longrightarrow> s' = s \<and> serving s n) \<and>
    (\<exists>n' p' s2. stop_notification c mails events E1 n p s1 = (n', (Ok (), p'), s2) \<and>
       released n' \<and> torn_down p' \<and> s_db s2 = s_db s1)"
  using start_notification_outcome [OF Before_running [OF assms(1)] assms(2)] stop_notification_releases [OF Before_running [OF assms(1)]]
  by blast

section \<open>The identity service\<close>

lemma unless_Ok_iff: "unless err wrap k = Ok x \<longleftrightarrow> err = None \<and> k = Ok x"
  by (simp add: unless_def split: option.split)

text \<open>The errors that \<open>main\<close> looks for.\<close>

definition expected :: "goerr \<Rightarrow> bool" where
  "expected e \<longleftrightarrow> errors_Equal (Some e) ErrUnusableDatabase \<or> errors_Equal (Some e) ErrUnknown"

lemma expected_simps [simp]: "expected (Unknown c)" "expected (UnusableDatabase c)"
  by (simp_all add: expected_def ErrUnknown_def ErrUnusableDatabase_def)

lemma NewIdentityHandler_kinds:
  "NewIdentityHandler policy E d = Fail e \<Longrightarrow> expected e" "NewIdentityHandler policy E d \<noteq> Panic"
  unfolding NewIdentityHandler_def
  by (auto simp: orNotFound_def bindR_Panic_iff elim!: mapE.elims split: dberr.splits)

lemma cw_connect_no_Panic: "fst (cw_connect registry gorm_Open c) \<noteq> Panic"
  by (auto simp: cw_connect_def discover_def Let_def split: res.split option.split registry_answer.split list.split)

lemma OpenDefault_outcome:
  "OpenDefault (Some c0) opts registry gorm_Open = Ok c \<Longrightarrow> \<exists>h. cw_DB c = Some h \<and> cw_open c = [h] \<and> \<not> cw_closed c"
  "OpenDefault (Some c0) opts registry gorm_Open \<noteq> Panic"
proof -
  obtain r c' where k: "cw_connect registry gorm_Open (newConnection (fold apply_db_option opts (cw_opts c0))) = (r, c')" by fastforce
  then have "r \<noteq> Panic" using cw_connect_no_Panic by (metis fst_conv)
  with k show "OpenDefault (Some c0) opts registry gorm_Open \<noteq> Panic" by (simp add: OpenDefault_def split: res.split)
  assume "OpenDefault (Some c0) opts registry gorm_Open = Ok c"
  with k have "c' = c" "r = Ok ()" by (auto simp: OpenDefault_def split: res.splits)
  with k show "\<exists>h. cw_DB c = Some h \<and> cw_open c = [h] \<and> \<not> cw_closed c"
    by (auto simp: newConnection_def elim!: cw_connect_cases)
qed

lemma getPrivateKeyFromFile_no_Panic: "getPrivateKeyFromFile h \<noteq> Panic"
  by (simp add: getPrivateKeyFromFile_def split: sum.split option.split)

lemma handler_init_kinds: "handler_init h (Some c0) = Fail e \<Longrightarrow> expected e" "handler_init h (Some c0) \<noteq> Panic"
  unfolding handler_init_def
  by (auto simp: unless_def bindR_Panic_iff bindR_Fail_iff OpenDefault_outcome getPrivateKeyFromFile_no_Panic
      elim!: mapE.elims split: option.splits)

lemma new_identity_kinds: "new_identity policy h (Some c0) E d = Fail e \<Longrightarrow> expected e" "new_identity policy h (Some c0) E d \<noteq> Panic"
  unfolding new_identity_def
  by (auto simp: bindR_Panic_iff bindR_Fail_iff NewIdentityHandler_kinds(2) handler_init_kinds(2)
      intro: NewIdentityHandler_kinds(1) handler_init_kinds(1))

lemma new_identity_Ok:
  assumes "new_identity policy h (Some c0) E d = Ok i"
  shows "NewIdentityHandler policy E d = Ok (is_globals i) \<and> getPrivateKeyFromFile h = Ok (is_privateKey i) \<and>
    (\<exists>k. cw_DB (is_db i) = Some k \<and> cw_open (is_db i) = [k] \<and> \<not> cw_closed (is_db i))"
  using assms OpenDefault_outcome(1)
  by (auto simp: new_identity_def handler_init_def bindR_Ok_iff unless_Ok_iff mapE_Ok_iff)

text \<open>A handler that was made from a file without a PEM block has no key to sign session keys with.\<close>

theorem key_file_unchecked:
  assumes "new_identity policy h (Some c0) E d = Ok i" and "hw_ReadFile h = Inr content" and "hw_Decode h content = None"
  shows "is_privateKey i = None"
  using new_identity_Ok [OF assms(1)] assms(2,3) by (simp add: getPrivateKeyFromFile_def)


section \<open>Midnight\<close>

lemma nextMidnight_bounds: "now < nextMidnight now" "nextMidnight now \<le> now + day_ns" "day_ns dvd nextMidnight now"
proof -
  have d: "0 < day_ns" by (simp add: day_ns_def)
  have "now = now div day_ns * day_ns + now mod day_ns" by simp
  then have n: "nextMidnight now = now - now mod day_ns + day_ns" by (simp add: nextMidnight_def algebra_simps)
  have m: "0 \<le> now mod day_ns" "now mod day_ns < day_ns" using d by simp_all
  show "now < nextMidnight now" using n m by simp
  show "nextMidnight now \<le> now + day_ns" using n m by simp
  show "day_ns dvd nextMidnight now" by (simp add: nextMidnight_def)
qed

lemma nextMidnight_least: "now < m \<Longrightarrow> day_ns dvd m \<Longrightarrow> nextMidnight now \<le> m"
proof -
  assume "now < m" "day_ns dvd m"
  then obtain k where k: "m = k * day_ns" by (metis dvd_def mult.commute)
  have d: "0 < day_ns" by (simp add: day_ns_def)
  have "now div day_ns * day_ns \<le> now" using d by (simp add: minus_mod_eq_div_mult [symmetric])
  then have "now div day_ns * day_ns < k * day_ns" using \<open>now < m\<close> k by simp
  then have "now div day_ns + 1 \<le> k" using d by simp
  then show ?thesis using d by (simp add: k nextMidnight_def)
qed

lemma cleaner_runs_length [simp]: "length (cleaner_runs took now) = Suc (length took)"
  by (induction took arbitrary: now) simp_all

text \<open>
  When the cleaner runs: at once when it is started, and then, as often as it is not stopped, at the
  first midnight after the end of the run before it, so every day unless a run lasts past a midnight.  Its
  ticker is never made with an interval that is not positive, on which \<open>time.NewTicker\<close> panics, nor with
  one of more than a day.
\<close>

theorem cleaner_at_midnight:
  assumes "\<forall>t \<in> set took. 0 \<le> t"
  shows "0 < nextMidnightTicker t \<and> nextMidnightTicker t \<le> day_ns \<and> cleaner_runs took now ! 0 = now \<and>
    (\<forall>i < length took. let ended = cleaner_runs took now ! i + took ! i; starts = cleaner_runs took now ! Suc i in
       ended < starts \<and> day_ns dvd starts \<and> (\<forall>m. ended < m \<and> day_ns dvd m \<longrightarrow> starts \<le> m))"
proof (intro conjI allI impI)
  show "0 < nextMidnightTicker t" "nextMidnightTicker t \<le> day_ns"
    using nextMidnight_bounds [of t] by (simp_all add: nextMidnightTicker_def)
  show "cleaner_runs took now ! 0 = now" by (cases took) simp_all
  fix i assume "i < length took"
  then have "cleaner_runs took now ! Suc i = nextMidnight (cleaner_runs took now ! i + took ! i)"
  proof (induction took arbitrary: now i)
    case (Cons t took)
    have "cleaner_runs took n ! 0 = n" for n by (cases took) simp_all
    with Cons show ?case by (cases i) (simp_all add: nextMidnightTicker_def)
  qed simp
  with nextMidnight_bounds nextMidnight_least
  show "let ended = cleaner_runs took now ! i + took ! i; starts = cleaner_runs took now ! Suc i in
      ended < starts \<and> day_ns dvd starts \<and> (\<forall>m. ended < m \<and> day_ns dvd m \<longrightarrow> starts \<le> m)"
    by (simp add: Let_def)
qed

theorem cleaner_at_midnight_witness: "day_ns dvd cleaner_runs [5, day_ns] 7 ! 2 \<and> 0 < nextMidnightTicker 0"
  using cleaner_at_midnight [of "[5, day_ns]" 0 7] by (auto simp: day_ns_def Let_def)

section \<open>registerd\<close>

definition plain :: "string \<Rightarrow> bool" where
  "plain s \<longleftrightarrow> CHR '','' \<notin> set s \<and> CHR ''='' \<notin> set s"

definition FormatMetadata :: "(string \<times> string) list \<Rightarrow> string" where
  "FormatMetadata kvs = strings_Join (map (\<lambda>(k, v). k @ ''='' @ v) kvs) '',''"

lemma SplitChar_Join:
  "xs \<noteq> [] \<Longrightarrow> \<forall>x \<in> set xs. c \<notin> set x \<Longrightarrow> SplitChar c (strings_Join xs [c]) = xs"
proof (induction xs)
  case (Cons x xs)
  then show ?case by (cases xs) (simp_all add: SplitChar_no_sep SplitChar_append)
qed simp

lemma parse_item_plain: "plain k \<Longrightarrow> plain v \<Longrightarrow> parse_item (k @ ''='' @ v) md = md(k \<mapsto> v)"
  by (simp add: parse_item_def plain_def SplitChar_append SplitChar_no_sep)

lemma parse_items:
  "\<forall>(k, v) \<in> set kvs. plain k \<and> plain v \<Longrightarrow>
   fold parse_item (map (\<lambda>(k, v). k @ ''='' @ v) kvs) md = md ++ map_of (rev kvs)"
  by (induction kvs arbitrary: md) (auto simp: parse_item_plain [simplified])

lemma FormatMetadata_not_Nil: "kvs \<noteq> [] \<Longrightarrow> FormatMetadata kvs \<noteq> []"
  by (cases kvs; cases "tl kvs") (auto simp: FormatMetadata_def)

lemma parseMetadata_Format:
  assumes "\<forall>(k, v) \<in> set kvs. plain k \<and> plain v"
  shows "parseMetadata (FormatMetadata kvs) = map_of (rev kvs)"
proof (cases "kvs = []")
  case False
  have "SplitChar (CHR '','') (FormatMetadata kvs) = map (\<lambda>(k, v). k @ ''='' @ v) kvs"
    unfolding FormatMetadata_def using False assms by (intro SplitChar_Join) (auto simp: plain_def)
  then have "parseMetadata (FormatMetadata kvs) = fold parse_item (map (\<lambda>(k, v). k @ ''='' @ v) kvs) Map.empty"
    by (simp only: parseMetadata_def FormatMetadata_not_Nil [OF False] if_False)
  then show ?thesis by (simp only: parse_items [OF assms] empty_map_add)
qed (simp add: FormatMetadata_def parseMetadata_def)

text \<open>
  What \<open>registerd\<close> registers.  Without one of the five variables that it requires it exits and
  registers nothing; otherwise it registers the service under its name, version and port, with the metadata
  that was written as \<open>k=v\<close> items (of equal keys the last), except that the solution, the description and the
  registry are those of their own variables, whatever the metadata says.
\<close>

theorem registered_metadata:
  assumes "vars ''CDM_SERVICE_METADATA'' = Some (FormatMetadata kvs)" and "\<forall>(k, v) \<in> set kvs. plain k \<and> plain v"
  shows "(\<forall>req \<in> {''CDM_SOLUTION_NAME'', ''CDM_SERVICE_DESCRIPTION'', ''CDM_SERVICE_NAME'', ''CDM_SERVICE_VERSION'',
        ''CDM_SERVICE_ADVERTISE_PORT''}. vars req = None \<longrightarrow> registerd_main registries run vars = None) \<and>
    (\<forall>sv r. registerd_main registries run vars = Some (sv, r) \<longrightarrow>
       vars ''CDM_SERVICE_NAME'' = Some (sv_Name sv) \<and> vars ''CDM_SERVICE_VERSION'' = Some (sv_Version sv) \<and>
       vars ''CDM_SERVICE_ADVERTISE_PORT'' = Some (sv_AdvertisePort sv) \<and>
       sv_Metadata sv ''CDM_SOLUTION_NAME'' = vars ''CDM_SOLUTION_NAME'' \<and>
       sv_Metadata sv ''CDM_SERVICE_DESCRIPTION'' = vars ''CDM_SERVICE_DESCRIPTION'' \<and>
       (\<forall>k. k \<notin> {''CDM_SOLUTION_NAME'', ''CDM_SERVICE_DESCRIPTION'', ''MICRO_REGISTRY''} \<longrightarrow> sv_Metadata sv k = map_of (rev kvs) k) \<and>
       r = (case vars ''MICRO_REGISTRY'' of None \<Rightarrow> None | Some n \<Rightarrow> if n = [] then None else Some n) \<and>
       (\<forall>n. r = Some n \<longrightarrow> n \<in> set registries))"
proof (intro conjI ballI allI impI)
  fix req assume "req \<in> {''CDM_SOLUTION_NAME'', ''CDM_SERVICE_DESCRIPTION'', ''CDM_SERVICE_NAME'', ''CDM_SERVICE_VERSION'',
        ''CDM_SERVICE_ADVERTISE_PORT''}" and "vars req = None"
  then show "registerd_main registries run vars = None"
    by (auto simp: registerd_main_def service_of_def getEnv_def split: option.splits bind_splits)
next
  fix sv r assume "registerd_main registries run vars = Some (sv, r)"
  then have s: "service_of vars = Some sv" and reg: "Register registries run sv = Ok r"
    by (auto simp: registerd_main_def split: option.splits res.splits)
  from s obtain sol desc name ver port where
    v: "vars ''CDM_SOLUTION_NAME'' = Some sol" "vars ''CDM_SERVICE_DESCRIPTION'' = Some desc" "vars ''CDM_SERVICE_NAME'' = Some name"
      "vars ''CDM_SERVICE_VERSION'' = Some ver" "vars ''CDM_SERVICE_ADVERTISE_PORT'' = Some port"
    and sv: "sv = \<lparr>sv_Name = name, sv_Version = ver, sv_AdvertisePort = port,
      sv_Metadata = (map_of (rev kvs))(''CDM_SOLUTION_NAME'' \<mapsto> sol, ''CDM_SERVICE_DESCRIPTION'' \<mapsto> desc,
        ''MICRO_REGISTRY'' \<mapsto> (case vars ''MICRO_REGISTRY'' of None \<Rightarrow> [] | Some n \<Rightarrow> n))\<rparr>"
    using assms(1) by (auto simp: service_of_def getEnv_def parseMetadata_Format [OF assms(2)] split: option.splits)
  show "vars ''CDM_SERVICE_NAME'' = Some (sv_Name sv)" "vars ''CDM_SERVICE_VERSION'' = Some (sv_Version sv)"
    "vars ''CDM_SERVICE_ADVERTISE_PORT'' = Some (sv_AdvertisePort sv)"
    "sv_Metadata sv ''CDM_SOLUTION_NAME'' = vars ''CDM_SOLUTION_NAME''"
    "sv_Metadata sv ''CDM_SERVICE_DESCRIPTION'' = vars ''CDM_SERVICE_DESCRIPTION''"
    by (simp_all add: sv v)
  show "sv_Metadata sv k = map_of (rev kvs) k" if "k \<notin> {''CDM_SOLUTION_NAME'', ''CDM_SERVICE_DESCRIPTION'', ''MICRO_REGISTRY''}" for k
    using that by (simp add: sv)
  show "r = (case vars ''MICRO_REGISTRY'' of None \<Rightarrow> None | Some n \<Rightarrow> if n = [] then None else Some n)"
    using reg by (simp add: sv Register_def Let_def split: option.splits if_splits)
  show "n \<in> set registries" if "r = Some n" for n
    using reg that by (auto simp: sv Register_def Let_def split: option.splits if_splits)
qed

definition sample_vars :: "string \<rightharpoonup> string" where
  "sample_vars = [''CDM_SERVICE_METADATA'' \<mapsto> ''dialect=postgres,zone=a'', ''CDM_SOLUTION_NAME'' \<mapsto> ''CDM-Cloud'',
     ''CDM_SERVICE_DESCRIPTION'' \<mapsto> ''Database'', ''CDM_SERVICE_NAME'' \<mapsto> ''cdm-cloud-cockroach'',
     ''CDM_SERVICE_VERSION'' \<mapsto> ''1'', ''CDM_SERVICE_ADVERTISE_PORT'' \<mapsto> ''26257'']"

theorem registered_metadata_witness:
  "\<exists>sv r. registerd_main [''etcd''] None sample_vars = Some (sv, r) \<and> sv_Metadata sv ''dialect'' = Some ''postgres'' \<and> r = None"
proof -
  have v: "sample_vars ''CDM_SERVICE_METADATA'' = Some (FormatMetadata [(''dialect'', ''postgres''), (''zone'', ''a'')])"
    by (simp add: sample_vars_def FormatMetadata_def)
  have "registerd_main [''etcd''] None sample_vars \<noteq> None" by code_simp
  then obtain sv r where r: "registerd_main [''etcd''] None sample_vars = Some (sv, r)" by auto
  have "sv_Metadata sv ''dialect'' = map_of (rev [(''dialect'', ''postgres''), (''zone'', ''a'')]) ''dialect'' \<and> r = None"
    using registered_metadata [where vars = sample_vars and kvs = "[(''dialect'', ''postgres''), (''zone'', ''a'')]" and
        registries = "[''etcd'']" and run = None] v r
    by (simp add: plain_def) (simp add: sample_vars_def)
  with r show ?thesis by simp
qed

section \<open>Two programs\<close>

definition sample_process :: process where
  "sample_process = (case sample_start of Some (_, p) \<Rightarrow> p | None \<Rightarrow> new_process)"

lemma sample_process_started: "Before (newCommand []) sample_world sample_flags new_process = Some (Ok (), sample_process)"
proof -
  have "case sample_start of Some (r, _) \<Rightarrow> is_Ok r | None \<Rightarrow> False" by code_simp
  then show ?thesis by (auto simp: sample_process_def sample_start_def split: option.splits elim: is_OkE)
qed

theorem notification_lifecycle_witness:
  "\<exists>n. start_notification (pr_broker sample_process) None sample_trial sample_env sample_sys = Some (Running, n, sample_sys) \<and>
     serving sample_sys n"
proof -
  have "case start_notification (pr_broker sample_process) None sample_trial sample_env sample_sys of
      Some (st, _, _) \<Rightarrow> st = Running | None \<Rightarrow> False" by code_simp
  then obtain n s' where n: "start_notification (pr_broker sample_process) None sample_trial sample_env sample_sys = Some (Running, n, s')"
    by (auto split: option.splits start.splits)
  from notification_lifecycle [OF sample_process_started n] n show ?thesis by auto
qed

definition sample_hw :: handler_world where
  "sample_hw = \<lparr>hw_ReadFile = Inr ''pem'', hw_Decode = Some, hw_Parse = Inr, hw_registry = sample_registry, hw_gorm_Open = (\<lambda>_ _. None), hw_adapter = None, hw_model = None,
     hw_enforcer = None\<rparr>"


text \<open>
  The mail queue is none of the queues that a connection of this service declares: until the mail subscription
  has declared it, nothing is bound to the key under which deliveries are published.
\<close>

theorem mail_queue_undeclared:
  assumes "Before (newCommand []) W x new_process = Some (Ok (), p)"
  shows "\<exists>b c. pr_broker p = Some b \<and> rb_conn b = Some c \<and> rc_qNames c = [QueueReportEvent] \<and> QueueNotifyEmail \<notin> set (rc_qNames c)"
proof -
  have "QueueNotifyEmail \<noteq> QueueReportEvent" by code_simp
  with Before_running [OF assms] show ?thesis
    by (auto simp: running_def newCommand_def defaultPersistentQueues_def)
qed

end
