(* ===== verification/Facade.thy ===== *)
theory Facade
  imports Etcd
begin

text \<open>
  The package-level functions of \<open>common/store\<close>: every call takes functional options, which are applied in order over the
  defaults, and goes to \<open>DefaultStore\<close>.  With them the remaining helpers of \<open>common/errors\<close>: the message of an error
  between services, and the rendering of errors.
\<close>

section \<open>Options of the calls (store/options.go)\<close>

record get_options =
  go_Timeout :: int

datatype get_option = GetTimeout int

fun apply_get :: "get_option \<Rightarrow> get_options \<Rightarrow> get_options" where
  "apply_get (GetTimeout d) r = r\<lparr>go_Timeout := d\<rparr>"

record put_options =
  po_TTL :: int
  po_Timeout :: int

datatype put_option = PutTTL int | PutTimeout int

fun apply_put :: "put_option \<Rightarrow> put_options \<Rightarrow> put_options" where
  "apply_put (PutTTL d) w = w\<lparr>po_TTL := d\<rparr>"
| "apply_put (PutTimeout d) w = w\<lparr>po_Timeout := d\<rparr>"

record delete_options =
  do_Timeout :: int
  do_Prefix :: bool

datatype delete_option = DeleteTimeout int | DeletePrefix

fun apply_delete :: "delete_option \<Rightarrow> delete_options \<Rightarrow> delete_options" where
  "apply_delete (DeleteTimeout t) d = d\<lparr>do_Timeout := t\<rparr>"
| "apply_delete DeletePrefix d = d\<lparr>do_Prefix := True\<rparr>"

record list_options =
  lo_Timeout :: int

datatype list_option = ListTimeout int

fun apply_list :: "list_option \<Rightarrow> list_options \<Rightarrow> list_options" where
  "apply_list (ListTimeout d) l = l\<lparr>lo_Timeout := d\<rparr>"

record txn_options =
  to_Timeout :: int

datatype txn_option = TxnCommitTimeout int

fun apply_txn :: "txn_option \<Rightarrow> txn_options \<Rightarrow> txn_options" where
  "apply_txn (TxnCommitTimeout d) t = t\<lparr>to_Timeout := d\<rparr>"

section \<open>Calls of a store (etcd_store.go)\<close>

text \<open>
  A store that was not connected has a nil client, which a call dereferences.  A request whose context is born with no time
  left fails before it is sent; whether one with time left runs out of it is a fault of the environment.
\<close>

definition DeadlineExceeded :: goerr where
  "DeadlineExceeded = PlainErr ''context deadline exceeded''"

definition in_time :: "int \<Rightarrow> (goerr, 'a) res \<Rightarrow> (goerr, 'a) res" where
  "in_time d m = (if d \<le> 0 then Fail DeadlineExceeded else m)"

definition with_client :: "etcd_store \<Rightarrow> (goerr, 'a) res \<Rightarrow> (goerr, 'a) res" where
  "with_client e m = (case es_client e of None \<Rightarrow> Panic | Some _ \<Rightarrow> m)"

definition es_Get :: "etcd_store \<Rightarrow> env \<Rightarrow> kv \<Rightarrow> string \<Rightarrow> get_option list \<Rightarrow> (goerr, string) res" where
  "es_Get e E m key opts =
     (let options = fold apply_get opts \<lparr>go_Timeout = defaultTimeout\<rparr> in
      with_client e (in_time (go_Timeout options) (store_Get E m key)))"

definition es_GetAll :: "etcd_store \<Rightarrow> env \<Rightarrow> kv \<Rightarrow> string \<Rightarrow> get_option list \<Rightarrow> (goerr, (string \<times> string) list) res" where
  "es_GetAll e E m key opts =
     (let options = fold apply_get opts \<lparr>go_Timeout = defaultTimeout\<rparr> in
      with_client e (in_time (go_Timeout options) (store_GetAll E m key)))"

definition es_Put :: "etcd_store \<Rightarrow> env \<Rightarrow> kv \<Rightarrow> string \<Rightarrow> string \<Rightarrow> put_option list \<Rightarrow> (goerr, kv) res" where
  "es_Put e E m key v opts =
     (let options = fold apply_put opts \<lparr>po_TTL = 0, po_Timeout = defaultTimeout\<rparr> in
      with_client e (in_time (po_Timeout options) (store_Put E m key v (po_TTL options))))"

definition es_Delete :: "etcd_store \<Rightarrow> env \<Rightarrow> kv \<Rightarrow> string \<Rightarrow> delete_option list \<Rightarrow> (goerr, kv) res" where
  "es_Delete e E m key opts =
     (let options = fold apply_delete opts \<lparr>do_Timeout = defaultTimeout, do_Prefix = False\<rparr> in
      with_client e (in_time (do_Timeout options) (store_Delete E m key (do_Prefix options))))"

definition es_List :: "etcd_store \<Rightarrow> env \<Rightarrow> kv \<Rightarrow> string \<Rightarrow> list_option list \<Rightarrow> (goerr, string list) res" where
  "es_List e E m key opts =
     (let options = fold apply_list opts \<lparr>lo_Timeout = defaultTimeout\<rparr> in
      with_client e (in_time (lo_Timeout options) (store_List E m key)))"

text \<open>The block runs before the client is used, so that its error comes first.\<close>

definition es_Transaction :: "etcd_store \<Rightarrow> env \<Rightarrow> kv \<Rightarrow> (goerr, kv_op list) res \<Rightarrow> txn_option list \<Rightarrow> (goerr, kv) res" where
  "es_Transaction e E m fc opts =
     (let options = fold apply_txn opts \<lparr>to_Timeout = defaultTimeout\<rparr> in
      bindR fc (\<lambda>ops. with_client e (in_time (to_Timeout options) (store_Transaction E m (Ok ops)))))"

text \<open>The operations that a block collects (etcd_txn.go): a deletion has options too, of which only the prefix counts.\<close>

definition txn_Put :: "string \<Rightarrow> string \<Rightarrow> kv_op list \<Rightarrow> kv_op list" where
  "txn_Put key v ops = ops @ [OpPut key v]"

definition txn_Delete :: "string \<Rightarrow> delete_option list \<Rightarrow> kv_op list \<Rightarrow> kv_op list" where
  "txn_Delete key opts ops =
     (let options = fold apply_delete opts \<lparr>do_Timeout = 0, do_Prefix = False\<rparr> in ops @ [OpDelete key (do_Prefix options)])"

section \<open>The default store (store/store.go)\<close>

text \<open>\<open>DefaultStore\<close> is nil until \<open>Init\<close>.\<close>

definition default_Get :: "etcd_store option \<Rightarrow> env \<Rightarrow> kv \<Rightarrow> string \<Rightarrow> get_option list \<Rightarrow> (goerr, string) res" where
  "default_Get s E m key opts = (case s of None \<Rightarrow> Panic | Some e \<Rightarrow> es_Get e E m key opts)"

definition default_GetAll :: "etcd_store option \<Rightarrow> env \<Rightarrow> kv \<Rightarrow> string \<Rightarrow> get_option list \<Rightarrow> (goerr, (string \<times> string) list) res" where
  "default_GetAll s E m key opts = (case s of None \<Rightarrow> Panic | Some e \<Rightarrow> es_GetAll e E m key opts)"

definition default_Put :: "etcd_store option \<Rightarrow> env \<Rightarrow> kv \<Rightarrow> string \<Rightarrow> string \<Rightarrow> put_option list \<Rightarrow> (goerr, kv) res" where
  "default_Put s E m key v opts = (case s of None \<Rightarrow> Panic | Some e \<Rightarrow> es_Put e E m key v opts)"

definition default_Delete :: "etcd_store option \<Rightarrow> env \<Rightarrow> kv \<Rightarrow> string \<Rightarrow> delete_option list \<Rightarrow> (goerr, kv) res" where
  "default_Delete s E m key opts = (case s of None \<Rightarrow> Panic | Some e \<Rightarrow> es_Delete e E m key opts)"

definition default_List :: "etcd_store option \<Rightarrow> env \<Rightarrow> kv \<Rightarrow> string \<Rightarrow> list_option list \<Rightarrow> (goerr, string list) res" where
  "default_List s E m key opts = (case s of None \<Rightarrow> Panic | Some e \<Rightarrow> es_List e E m key opts)"

definition default_Transaction :: "etcd_store option \<Rightarrow> env \<Rightarrow> kv \<Rightarrow> (goerr, kv_op list) res \<Rightarrow> txn_option list \<Rightarrow> (goerr, kv) res" where
  "default_Transaction s E m fc opts = (case s of None \<Rightarrow> Panic | Some e \<Rightarrow> es_Transaction e E m fc opts)"

section \<open>Errors between services (errors/ipc.go)\<close>

text \<open>The message of a failed call; the assertion \<open>err.(*Error)\<close> panics on another error of the same text.\<close>

definition ipc_message_value :: "goerr \<Rightarrow> goerr option" where
  "ipc_message_value e = (case errors_value e ''message'' of Some (VCause m) \<Rightarrow> m | _ \<Rightarrow> None)"

definition GetIPCMessage :: "goerr option \<Rightarrow> (goerr, goerr option) res" where
  "GetIPCMessage err =
     (case err of None \<Rightarrow> Ok None
      | Some e \<Rightarrow>
          if errors_Equal err ErrIPCFailed then
            (case e of GoErr _ _ \<Rightarrow> Ok (ipc_message_value e) | _ \<Rightarrow> Panic)
          else if IsIPCFailed err then Ok (ipc_message_value (IPCFailed e))
          else Ok None)"

section \<open>Rendering of errors (errors/error.go)\<close>

text \<open>
  \<open>callers\<close>: at most 32 frames from the third caller on, less those that are skipped; slicing panics beyond them.
  \<open>fmt\<close> with the flag \<open>+\<close>: the text, the values as indented JSON when there are some, and the frames, each on its line.
\<close>

definition callers :: "nat \<Rightarrow> string list \<Rightarrow> (goerr, string list) res" where
  "callers skip frames = (let pcs = take 32 frames in if length pcs < skip then Panic else Ok (drop skip pcs))"

definition value_len :: "((string \<times> gval) list \<Rightarrow> string option) \<Rightarrow> (string \<times> gval) list \<Rightarrow> nat" where
  "value_len marshal v = (case marshal v of None \<Rightarrow> 0 | Some _ \<Rightarrow> card (fst ` set v))"

definition value_format :: "((string \<times> gval) list \<Rightarrow> string option) \<Rightarrow> char \<Rightarrow> (string \<times> gval) list \<Rightarrow> string" where
  "value_format marshal verb v =
     (if value_len marshal v = 0 then []
      else if verb = CHR ''v'' \<or> verb = CHR ''s'' then CHR 0x0A # (case marshal v of Some b \<Rightarrow> b | None \<Rightarrow> [])
      else [])"

definition stack_format :: "char \<Rightarrow> bool \<Rightarrow> string list \<Rightarrow> string" where
  "stack_format verb flag frames = (if verb = CHR ''v'' \<and> flag then concat (map (\<lambda>f. CHR 0x0A # f) frames) else [])"

definition error_Format ::
  "((string \<times> gval) list \<Rightarrow> string option) \<Rightarrow> (string \<Rightarrow> string) \<Rightarrow> char \<Rightarrow> bool \<Rightarrow>
    string \<Rightarrow> (string \<times> gval) list \<Rightarrow> string list \<Rightarrow> string" where
  "error_Format marshal quote verb flag text v frames =
     (if verb = CHR ''v'' \<and> flag then text @ value_format marshal verb v @ stack_format verb flag frames
      else if verb = CHR ''v'' \<or> verb = CHR ''s'' then text
      else if verb = CHR ''q'' then quote text
      else [])"

end
