(* ===== verification/Spec_Facade.thy ===== *)
theory Spec_Facade
  imports Facade Sample
begin

text \<open>
  What the callers of the default store can rely on: options, round trips, and prefixes.
\<close>

section \<open>What a caller can rely on\<close>

text \<open>Later options win; the flag of a prefix stays once it is set.\<close>

lemma put_options_last [simp]: "po_TTL (fold apply_put (opts @ [PutTTL d]) w) = d"
  by simp

lemma delete_prefix_set: "do_Prefix (fold apply_delete opts d) \<longleftrightarrow> do_Prefix d \<or> DeletePrefix \<in> set opts"
proof (induction opts arbitrary: d)
  case (Cons x opts)
  then show ?case by (cases x) auto
qed simp

lemma with_client_Ok [simp]: "with_client e m = Ok x \<longleftrightarrow> es_client e \<noteq> None \<and> m = Ok x"
  by (simp add: with_client_def split: option.split)

lemma in_time_Ok [simp]: "in_time d m = Ok x \<longleftrightarrow> 0 < d \<and> m = Ok x"
  by (simp add: in_time_def)

lemma default_Put_Ok:
  assumes "default_Put s E m key v opts = Ok m'"
  shows "\<exists>e. s = Some e \<and> es_client e \<noteq> None \<and>
    store_Put E m key v (po_TTL (fold apply_put opts \<lparr>po_TTL = 0, po_Timeout = defaultTimeout\<rparr>)) = Ok m'"
  using assms by (auto simp: default_Put_def es_Put_def Let_def split: option.splits)

lemma default_Delete_Ok:
  assumes "default_Delete s E m key opts = Ok m'"
  shows "\<exists>e. s = Some e \<and> es_client e \<noteq> None \<and> store_Delete E m key (DeletePrefix \<in> set opts) = Ok m'"
  using assms by (auto simp: default_Delete_def es_Delete_def Let_def delete_prefix_set split: option.splits)

lemma default_Get_plain:
  assumes "s = Some e" and "es_client e \<noteq> None" and "e_kv_fault E ''get'' k = None"
  shows "default_Get s E m k [] = (case kv_lookup m k of None \<Rightarrow> Fail ErrNotFoundKey | Some (v, _) \<Rightarrow> Ok v)"
  using assms by (auto simp: default_Get_def es_Get_def with_client_def in_time_def defaultTimeout_def store_Get_def kv_fault_def
      split: option.split)

text \<open>
  The default store keeps what it is given.  What a \<open>Put\<close> that succeeded stored, whatever its options, a \<open>Get\<close>
  returns, other keys read as before, and the entry lives as long as the last \<open>PutTTL\<close> says; a deletion with \<open>DeletePrefix\<close>
  among its options takes exactly the keys under the prefix.
\<close>

theorem store_roundtrip:
  assumes "default_Put s E m key v (opts @ [PutTTL d]) = Ok m1" and "default_Delete s E m1 p dopts = Ok m2"
    and "DeletePrefix \<in> set dopts" and "e_kv_fault E ''get'' k = None"
  shows "default_Get s E m1 k [] = (if k = key then Ok v else default_Get s E m k []) \<and>
    kv_lookup m1 key = Some (v, if d = 0 then None else Some (ttl_seconds d)) \<and>
    default_Get s E m2 k [] = (if prefix p k then Fail ErrNotFoundKey else default_Get s E m1 k [])"
proof -
  from default_Put_Ok [OF assms(1)] obtain e where e: "s = Some e" "es_client e \<noteq> None" "store_Put E m key v d = Ok m1"
    by (auto simp del: fold_append)
  from default_Delete_Ok [OF assms(2)] assms(3) have "store_Delete E m1 p True = Ok m2" by auto
  then have m2: "m2 = delete_prefix p m1" by (auto simp: store_Delete_def kv_fault_def split: option.splits)
  have m1: "m1 = kv_put key (v, if d = 0 then None else Some (ttl_seconds d)) m" using e(3) by (simp add: store_Put_Ok)
  show ?thesis unfolding default_Get_plain [OF e(1,2) assms(4)]
    by (simp add: m2 m1 lookup_delete_prefix etcd.lookup_put split: option.split)
qed

definition some_store :: etcd_store where
  "some_store = (NewStore ''store'' [])\<lparr>es_client := Some [''10.0.0.9:2379'']\<rparr>"

theorem store_roundtrip_witness:
  "\<exists>m1 m2. default_Put (Some some_store) sample_env [] ''a/b'' ''v'' [PutTimeout 5, PutTTL 0] = Ok m1 \<and>
     default_Delete (Some some_store) sample_env m1 ''a/'' [DeletePrefix] = Ok m2 \<and>
     default_Get (Some some_store) sample_env m2 ''a/b'' [] = Fail ErrNotFoundKey"
proof -
  let ?m1 = "kv_put ''a/b'' (''v'', None) []"
  let ?m2 = "delete_prefix ''a/'' ?m1"
  have put: "default_Put (Some some_store) sample_env [] ''a/b'' ''v'' ([PutTimeout 5] @ [PutTTL 0]) = Ok ?m1"
    by (simp add: default_Put_def es_Put_def some_store_def sample_env_def store_Put_Ok)
  have del: "default_Delete (Some some_store) sample_env ?m1 ''a/'' [DeletePrefix] = Ok ?m2"
    by (simp add: default_Delete_def es_Delete_def some_store_def sample_env_def defaultTimeout_def store_Delete_def kv_fault_def)
  have "default_Get (Some some_store) sample_env ?m2 ''a/b'' [] = Fail ErrNotFoundKey"
    using store_roundtrip [OF put del, of "''a/b''"] by (simp add: sample_env_def)
  with put del show ?thesis by auto
qed

end
