(* ===== verification/Rpc.thy ===== *)
theory Rpc
  imports Gateway Notification_Handler
begin

text \<open>
  The generated code between the services (\<open>identity.pb.micro.go\<close>, \<open>notification.pb.micro.go\<close>): the stubs of the
  clients, the method sets and endpoints that the servers register, and a call from the one to the other over the
  gRPC client and server of go-micro.  Go types are their names; what is sent over the wire is a parameter.
\<close>

section \<open>The names on the wire\<close>

text \<open>\<open>methodToGRPC\<close> of the client: \<open>Foo.Bar\<close> of the service \<open>pkg\<close> becomes \<open>/pkg.Foo/Bar\<close>.\<close>

definition methodToGRPC :: "string \<Rightarrow> string \<Rightarrow> string" where
  "methodToGRPC service meth =
     (if meth = [] \<or> hd meth = CHR ''/'' then meth
      else case SplitChar (CHR ''.'') meth of
        [a, b] \<Rightarrow> (if service = [] then ''/'' @ a @ ''/'' @ b else ''/'' @ service @ ''.'' @ a @ ''/'' @ b)
      | _ \<Rightarrow> meth)"

text \<open>\<open>ServiceMethod\<close> of the server, \<open>None\<close> for a malformed name.\<close>

definition ServiceMethod :: "string \<Rightarrow> (string \<times> string) option" where
  "ServiceMethod m =
     (if m = [] then None
      else if hd m = CHR ''/'' then
        (case SplitChar (CHR ''/'') m of
           [_, a, b] \<Rightarrow> (if a = [] \<or> b = [] then None else Some (last (SplitChar (CHR ''.'') a), b))
         | _ \<Rightarrow> None)
      else (case SplitChar (CHR ''.'') m of [a, b] \<Rightarrow> Some (a, b) | _ \<Rightarrow> None))"

section \<open>Clients and servers\<close>

text \<open>A stub: its method, the endpoint of its request, the type of the request and of the message it allocates.\<close>

record stub =
  sb_Method :: string
  sb_Endpoint :: string
  sb_In :: string
  sb_Out :: string

definition mk_stub :: "string \<Rightarrow> string \<Rightarrow> string \<Rightarrow> string \<Rightarrow> stub" where
  "mk_stub m e i out = \<lparr>sb_Method = m, sb_Endpoint = e, sb_In = i, sb_Out = out\<rparr>"

text \<open>What a server registers: the name of the struct, its methods with their message types, the endpoints.\<close>

record rpc_method =
  rm_Name :: string
  rm_In :: string
  rm_Out :: string

definition mk_method :: "string \<Rightarrow> string \<Rightarrow> string \<Rightarrow> rpc_method" where
  "mk_method n i out = \<lparr>rm_Name = n, rm_In = i, rm_Out = out\<rparr>"

record registration =
  rg_Name :: string
  rg_Methods :: "rpc_method list"
  rg_Endpoints :: "endpoint list"

text \<open>The codec of the transport: a request is decoded into the type of the method, a reply into the type of the stub.\<close>

record ('q, 'r, 'w) codec =
  k_Request :: "'q \<Rightarrow> 'w"
  k_Decode :: "string \<Rightarrow> string \<Rightarrow> 'w \<Rightarrow> 'q option"
  k_Reply :: "'r \<Rightarrow> 'w"
  k_Result :: "string \<Rightarrow> 'w \<Rightarrow> 'r option"

type_synonym ('q, 'r) rpc_service = "ctx \<Rightarrow> 'q \<Rightarrow> sys \<Rightarrow> ((goerr, 'r) res \<times> sys) option"

text \<open>The server: find the struct and the method, decode the request, run the handler under \<open>recover\<close>.\<close>

definition unimplemented :: goerr where
  "unimplemented = PlainErr ''unknown service''"

definition undecodable :: goerr where
  "undecodable = PlainErr ''grpc: failed to unmarshal the received message''"

definition grpc_server :: "('q, 'r, 'w) codec \<Rightarrow> registration \<Rightarrow> ('q, 'r) rpc_service \<Rightarrow> string \<Rightarrow> ('w, 'w) rpc_service" where
  "grpc_server K R srv full ctx w s =
     (case ServiceMethod full of
        None \<Rightarrow> Some (Fail (PlainErr ''malformed method name''), s)
      | Some (name, m) \<Rightarrow>
          if name \<noteq> rg_Name R then Some (Fail unimplemented, s)
          else
            (case find (\<lambda>x. rm_Name x = m) (rg_Methods R) of
               None \<Rightarrow> Some (Fail unimplemented, s)
             | Some x \<Rightarrow>
                 (case k_Decode K m (rm_In x) w of
                    None \<Rightarrow> Some (Fail undecodable, s)
                  | Some q \<Rightarrow>
                      (case recovering (srv ctx q) s of
                         None \<Rightarrow> None
                       | Some (r, s') \<Rightarrow> Some (bindR r (\<lambda>x. Ok (k_Reply K x)), s')))))"

text \<open>
  A stub: \<open>NewRequest\<close> with its endpoint, \<open>Call\<close> into the message it allocates, and the error or the message.  Each attempt
  reaches a server (\<open>server i\<close>), and its reply is decoded into the type of the stub.
\<close>

definition stub_call ::
  "('q, 'r, 'w) codec \<Rightarrow> (string \<Rightarrow> nat \<Rightarrow> delivery) \<Rightarrow> (goerr \<Rightarrow> goerr) \<Rightarrow> (nat \<Rightarrow> string \<Rightarrow> ('w, 'w) rpc_service) \<Rightarrow>
    string \<Rightarrow> stub \<Rightarrow> ('q, 'r) rpc_service" where
  "stub_call K net arrive server name st ctx q s =
     client_Call (net (sb_Method st)) arrive
       (\<lambda>i s. case server i (methodToGRPC name (sb_Endpoint st)) ctx (k_Request K q) s of
           None \<Rightarrow> None
         | Some (r, s') \<Rightarrow>
             Some (bindR r (\<lambda>w. case k_Result K (sb_Out st) w of None \<Rightarrow> Fail undecodable | Some x \<Rightarrow> Ok x), s')) s"

section \<open>identity.pb.micro.go\<close>

text \<open>\<open>IdentityService\<close>: the method of the interface that a request is the argument of, and the type of that argument.\<close>

fun request_type :: "request \<Rightarrow> string \<times> string" where
  "request_type (GetUser _) = (''GetUser'', ''GetUserRequest'')"
| "request_type (GetSimpleUser _) = (''GetSimpleUser'', ''GetSimpleUserRequest'')"
| "request_type (AddUser _) = (''AddUser'', ''AddUserRequest'')"
| "request_type (UpdateUser _ _) = (''UpdateUser'', ''UpdateUserRequest'')"
| "request_type (DeleteUser _) = (''DeleteUser'', ''DeleteUserRequest'')"
| "request_type (GetUsers _) = (''GetUsers'', ''GetUsersRequest'')"
| "request_type (UpdateUserPassword _) = (''UpdateUserPassword'', ''UpdateUserPasswordRequest'')"
| "request_type (ResetUserPassword _) = (''ResetUserPassword'', ''ResetUserPasswordRequest'')"
| "request_type (GetGroups _) = (''GetGroups'', ''GetGroupsRequest'')"
| "request_type (GetGroup _) = (''GetGroup'', ''GetGroupRequest'')"
| "request_type (AddGroup _) = (''AddGroup'', ''AddGroupRequest'')"
| "request_type (UpdateGroup _ _) = (''UpdateGroup'', ''UpdateGroupRequest'')"
| "request_type (DeleteGroup _) = (''DeleteGroup'', ''DeleteGroupRequest'')"
| "request_type (SetGroupUsers _ _) = (''SetGroupUsers'', ''SetGroupUsersRequest'')"
| "request_type (GetRoles _ _) = (''GetRoles'', ''GetRolesRequest'')"
| "request_type (Login _) = (''Login'', ''LoginRequest'')"
| "request_type Logout = (''Logout'', ''Empty'')"
| "request_type VerifySession = (''VerifySession'', ''Empty'')"
| "request_type (RevokeSession _) = (''RevokeSession'', ''RevokeSessionRequest'')"
| "request_type (SetConfig _) = (''SetConfig'', ''ConfigRequest'')"
| "request_type GetConfig = (''GetConfig'', ''Empty'')"
| "request_type (CheckAuthorization _) = (''CheckAuthorization'', ''CheckAuthorizationRequest'')"
| "request_type (GetTenants _) = (''GetTenants'', ''TenantsRequest'')"
| "request_type (AddTenant _) = (''AddTenant'', ''AddTenantRequest'')"
| "request_type (GetTenant _) = (''GetTenant'', ''TenantRequest'')"
| "request_type (UpdateTenant _ _) = (''UpdateTenant'', ''UpdateTenantRequest'')"
| "request_type (ActivateTenant _) = (''ActivateTenant'', ''TenantRequest'')"
| "request_type (DeactivateTenant _) = (''DeactivateTenant'', ''TenantRequest'')"

text \<open>The stubs, in the order of the file.\<close>

definition user_stubs :: "stub list" where
  "user_stubs =
     [mk_stub ''GetUser'' ''Identity.GetUser'' ''GetUserRequest'' ''UserResponse'',
      mk_stub ''GetSimpleUser'' ''Identity.GetSimpleUser'' ''GetSimpleUserRequest'' ''SimpleUserResponse'',
      mk_stub ''AddUser'' ''Identity.AddUser'' ''AddUserRequest'' ''AddUserResponse'',
      mk_stub ''UpdateUser'' ''Identity.UpdateUser'' ''UpdateUserRequest'' ''UserResponse'',
      mk_stub ''DeleteUser'' ''Identity.DeleteUser'' ''DeleteUserRequest'' ''MessageResponse'',
      mk_stub ''GetUsers'' ''Identity.GetUsers'' ''GetUsersRequest'' ''UsersResponse'',
      mk_stub ''UpdateUserPassword'' ''Identity.UpdateUserPassword'' ''UpdateUserPasswordRequest'' ''MessageResponse'',
      mk_stub ''ResetUserPassword'' ''Identity.ResetUserPassword'' ''ResetUserPasswordRequest'' ''UserPasswordResponse'']"

definition group_stubs :: "stub list" where
  "group_stubs =
     [mk_stub ''GetGroups'' ''Identity.GetGroups'' ''GetGroupsRequest'' ''GroupsResponse'',
      mk_stub ''GetGroup'' ''Identity.GetGroup'' ''GetGroupRequest'' ''GroupResponse'',
      mk_stub ''AddGroup'' ''Identity.AddGroup'' ''AddGroupRequest'' ''GroupResponse'',
      mk_stub ''UpdateGroup'' ''Identity.UpdateGroup'' ''UpdateGroupRequest'' ''GroupResponse'',
      mk_stub ''DeleteGroup'' ''Identity.DeleteGroup'' ''DeleteGroupRequest'' ''MessageResponse'',
      mk_stub ''SetGroupUsers'' ''Identity.SetGroupUsers'' ''SetGroupUsersRequest'' ''UsersResponse'',
      mk_stub ''GetRoles'' ''Identity.GetRoles'' ''GetRolesRequest'' ''RolesResponse'']"

definition session_stubs :: "stub list" where
  "session_stubs =
     [mk_stub ''Login'' ''Identity.Login'' ''LoginRequest'' ''UserResponse'',
      mk_stub ''Logout'' ''Identity.Logout'' ''Empty'' ''MessageResponse'',
      mk_stub ''VerifySession'' ''Identity.VerifySession'' ''Empty'' ''UserResponse'',
      mk_stub ''RevokeSession'' ''Identity.RevokeSession'' ''RevokeSessionRequest'' ''MessageResponse'',
      mk_stub ''SetConfig'' ''Identity.SetConfig'' ''ConfigRequest'' ''ConfigResponse'',
      mk_stub ''GetConfig'' ''Identity.GetConfig'' ''Empty'' ''ConfigResponse'',
      mk_stub ''CheckAuthorization'' ''Identity.CheckAuthorization'' ''CheckAuthorizationRequest'' ''MessageResponse'']"

definition tenant_stubs :: "stub list" where
  "tenant_stubs =
     [mk_stub ''GetTenants'' ''Identity.GetTenants'' ''TenantsRequest'' ''TenantsResponse'',
      mk_stub ''AddTenant'' ''Identity.AddTenant'' ''AddTenantRequest'' ''TenantResponse'',
      mk_stub ''GetTenant'' ''Identity.GetTenant'' ''TenantRequest'' ''TenantResponse'',
      mk_stub ''UpdateTenant'' ''Identity.UpdateTenant'' ''UpdateTenantRequest'' ''TenantResponse'',
      mk_stub ''ActivateTenant'' ''Identity.ActivateTenant'' ''TenantRequest'' ''TenantResponse'',
      mk_stub ''DeactivateTenant'' ''Identity.DeactivateTenant'' ''TenantRequest'' ''TenantResponse'']"

definition identity_stubs :: "stub list" where
  "identity_stubs = user_stubs @ group_stubs @ session_stubs @ tenant_stubs"

text \<open>\<open>RegisterIdentityHandler\<close>: the method set of the registered struct, and the options of the handler.\<close>

definition identity_methods :: "rpc_method list" where
  "identity_methods =
     [mk_method ''GetUser'' ''GetUserRequest'' ''UserResponse'',
      mk_method ''GetSimpleUser'' ''GetSimpleUserRequest'' ''SimpleUserResponse'',
      mk_method ''AddUser'' ''AddUserRequest'' ''AddUserResponse'',
      mk_method ''UpdateUser'' ''UpdateUserRequest'' ''UserResponse'',
      mk_method ''DeleteUser'' ''DeleteUserRequest'' ''MessageResponse'',
      mk_method ''GetUsers'' ''GetUsersRequest'' ''UsersResponse'',
      mk_method ''UpdateUserPassword'' ''UpdateUserPasswordRequest'' ''MessageResponse'',
      mk_method ''ResetUserPassword'' ''ResetUserPasswordRequest'' ''UserPasswordResponse'',
      mk_method ''GetGroups'' ''GetGroupsRequest'' ''GroupsResponse'',
      mk_method ''GetGroup'' ''GetGroupRequest'' ''GroupResponse'',
      mk_method ''AddGroup'' ''AddGroupRequest'' ''GroupResponse'',
      mk_method ''UpdateGroup'' ''UpdateGroupRequest'' ''GroupResponse'',
      mk_method ''DeleteGroup'' ''DeleteGroupRequest'' ''MessageResponse'',
      mk_method ''SetGroupUsers'' ''SetGroupUsersRequest'' ''UsersResponse'',
      mk_method ''GetRoles'' ''GetRolesRequest'' ''RolesResponse'',
      mk_method ''Login'' ''LoginRequest'' ''UserResponse'',
      mk_method ''Logout'' ''Empty'' ''MessageResponse'',
      mk_method ''VerifySession'' ''Empty'' ''UserResponse'',
      mk_method ''RevokeSession'' ''RevokeSessionRequest'' ''MessageResponse'',
      mk_method ''SetConfig'' ''ConfigRequest'' ''ConfigResponse'',
      mk_method ''GetConfig'' ''Empty'' ''ConfigResponse'',
      mk_method ''CheckAuthorization'' ''CheckAuthorizationRequest'' ''MessageResponse'',
      mk_method ''GetTenants'' ''TenantsRequest'' ''TenantsResponse'',
      mk_method ''AddTenant'' ''AddTenantRequest'' ''TenantResponse'',
      mk_method ''GetTenant'' ''TenantRequest'' ''TenantResponse'',
      mk_method ''UpdateTenant'' ''UpdateTenantRequest'' ''TenantResponse'',
      mk_method ''ActivateTenant'' ''TenantRequest'' ''TenantResponse'',
      mk_method ''DeactivateTenant'' ''TenantRequest'' ''TenantResponse'']"

definition identity_options :: "endpoint list" where
  "identity_options =
     [api_endpoint ''Identity.GetUser'' [''/identity/users/{user_id}''] [''GET''] '''',
      api_endpoint ''Identity.AddUser'' [''/identity/users''] [''POST''] ''*'',
      api_endpoint ''Identity.UpdateUser'' [''/identity/users/{user_id}''] [''PATCH''] ''*'',
      api_endpoint ''Identity.DeleteUser'' [''/identity/users/{user_id}''] [''DELETE''] '''',
      api_endpoint ''Identity.GetUsers'' [''/identity/users''] [''GET''] '''',
      api_endpoint ''Identity.UpdateUserPassword'' [''/identity/users/{user_id}/password''] [''POST''] ''*'',
      api_endpoint ''Identity.ResetUserPassword'' [''/identity/users/{user_id}/password-reset''] [''POST''] '''',
      api_endpoint ''Identity.GetGroups'' [''/identity/groups''] [''GET''] '''',
      api_endpoint ''Identity.GetGroup'' [''/identity/groups/{group_id}''] [''GET''] '''',
      api_endpoint ''Identity.AddGroup'' [''/identity/groups''] [''POST''] ''*'',
      api_endpoint ''Identity.UpdateGroup'' [''/identity/groups/{group_id}''] [''PATCH''] ''*'',
      api_endpoint ''Identity.DeleteGroup'' [''/identity/groups/{group_id}''] [''DELETE''] '''',
      api_endpoint ''Identity.SetGroupUsers'' [''/identity/groups/{group_id}/users''] [''PUT''] '''',
      api_endpoint ''Identity.GetRoles'' [''/identity/roles''] [''GET''] '''',
      api_endpoint ''Identity.Login'' [''/identity/auth''] [''POST''] ''*'']"

definition identity_options2 :: "endpoint list" where
  "identity_options2 =
     [api_endpoint ''Identity.Logout'' [''/identity/auth''] [''DELETE''] '''',
      api_endpoint ''Identity.VerifySession'' [''/identity/sessions/check''] [''GET''] '''',
      api_endpoint ''Identity.RevokeSession'' [''/identity/sessions/{session_key}''] [''DELETE''] '''',
      api_endpoint ''Identity.SetConfig'' [''/identity/config''] [''PUT''] ''*'',
      api_endpoint ''Identity.GetConfig'' [''/identity/config''] [''GET''] '''',
      api_endpoint ''Identity.GetTenants'' [''/tenants''] [''GET''] '''',
      api_endpoint ''Identity.AddTenant'' [''/tenants''] [''POST''] '''',
      api_endpoint ''Identity.GetTenant'' [''/tenants/{tenant_id}''] [''GET''] '''',
      api_endpoint ''Identity.UpdateTenant'' [''/tenants/{tenant_id}''] [''PATCH''] '''',
      api_endpoint ''Identity.ActivateTenant'' [''/tenants/{tenant_id}/activate''] [''POST''] '''',
      api_endpoint ''Identity.DeactivateTenant'' [''/tenants/{tenant_id}/deactivate''] [''POST''] '''']"

definition RegisterIdentityHandler :: registration where
  "RegisterIdentityHandler = \<lparr>rg_Name = ''Identity'', rg_Methods = identity_methods, rg_Endpoints = identity_options @ identity_options2\<rparr>"

text \<open>\<open>identityHandler\<close>: every method of the registered struct calls that of the handler.\<close>

fun identityHandler :: "globals \<times> call \<Rightarrow> (request, response) rpc_service" where
  "identityHandler (gl, c) ctx q s = serve gl (c\<lparr>c_ctx := ctx\<rparr>) q s"

definition ServiceIdentity :: string where
  "ServiceIdentity = ''cdm-cloud-identity''"

text \<open>\<open>NewIdentityService(name, c)\<close>: the client, with the stub of the method that is called.\<close>

definition NewIdentityService ::
  "(request, response, 'w) codec \<Rightarrow> (string \<Rightarrow> nat \<Rightarrow> delivery) \<Rightarrow> (goerr \<Rightarrow> goerr) \<Rightarrow> (nat \<Rightarrow> string \<Rightarrow> ('w, 'w) rpc_service) \<Rightarrow>
    string \<Rightarrow> (request, response) rpc_service" where
  "NewIdentityService K net arrive server name ctx q s =
     (case find (\<lambda>x. sb_Method x = fst (request_type q)) identity_stubs of
        None \<Rightarrow> None | Some st \<Rightarrow> stub_call K net arrive server name st ctx q s)"

section \<open>notification.pb.micro.go\<close>

fun n_request_type :: "n_request \<Rightarrow> string \<times> string" where
  "n_request_type (N_GetEvent _) = (''GetEvent'', ''GetEventRequest'')"
| "n_request_type (N_GetEvents _) = (''GetEvents'', ''GetEventsRequest'')"
| "n_request_type N_GetEventClassifications = (''GetEventClassifications'', ''Empty'')"
| "n_request_type (N_GetTenantEventReceives _) = (''GetTenantEventReceives'', ''GetEventReceivesRequest'')"
| "n_request_type (N_SetTenantEventReceives _) = (''SetTenantEventReceives'', ''EventReceivesRequest'')"
| "n_request_type (N_GetUserEventReceives _) = (''GetUserEventReceives'', ''GetEventReceivesRequest'')"
| "n_request_type (N_SetUserEventReceives _) = (''SetUserEventReceives'', ''EventReceivesRequest'')"
| "n_request_type N_ResetUserEventReceives = (''ResetUserEventReceives'', ''Empty'')"
| "n_request_type N_GetConfig = (''GetConfig'', ''Empty'')"
| "n_request_type (N_SetConfig _) = (''SetConfig'', ''SetConfigRequest'')"

definition event_stubs :: "stub list" where
  "event_stubs =
     [mk_stub ''GetEvent'' ''Notification.GetEvent'' ''GetEventRequest'' ''GetEventResponse'',
      mk_stub ''GetEvents'' ''Notification.GetEvents'' ''GetEventsRequest'' ''GetEventsResponse'',
      mk_stub ''GetEventClassifications'' ''Notification.GetEventClassifications'' ''Empty'' ''GetEventClassificationsResponse'']"

definition receive_stubs :: "stub list" where
  "receive_stubs =
     [mk_stub ''GetTenantEventReceives'' ''Notification.GetTenantEventReceives'' ''GetEventReceivesRequest'' ''EventReceivesResponse'',
      mk_stub ''SetTenantEventReceives'' ''Notification.SetTenantEventReceives'' ''EventReceivesRequest'' ''MessageResponse'',
      mk_stub ''GetUserEventReceives'' ''Notification.GetUserEventReceives'' ''GetEventReceivesRequest'' ''EventReceivesResponse'',
      mk_stub ''SetUserEventReceives'' ''Notification.SetUserEventReceives'' ''EventReceivesRequest'' ''MessageResponse'',
      mk_stub ''ResetUserEventReceives'' ''Notification.ResetUserEventReceives'' ''Empty'' ''MessageResponse'',
      mk_stub ''GetConfig'' ''Notification.GetConfig'' ''Empty'' ''GetConfigResponse'',
      mk_stub ''SetConfig'' ''Notification.SetConfig'' ''SetConfigRequest'' ''GetConfigResponse'']"

definition notification_stubs :: "stub list" where
  "notification_stubs = event_stubs @ receive_stubs"

text \<open>The stream is registered too, with a method that takes the stream only; \<open>notification_methods\<close> are the others.\<close>

definition notification_methods :: "rpc_method list" where
  "notification_methods =
     [mk_method ''GetEvent'' ''GetEventRequest'' ''GetEventResponse'',
      mk_method ''GetEvents'' ''GetEventsRequest'' ''GetEventsResponse'',
      mk_method ''GetEventClassifications'' ''Empty'' ''GetEventClassificationsResponse'',
      mk_method ''GetTenantEventReceives'' ''GetEventReceivesRequest'' ''EventReceivesResponse'',
      mk_method ''SetTenantEventReceives'' ''EventReceivesRequest'' ''MessageResponse'',
      mk_method ''GetUserEventReceives'' ''GetEventReceivesRequest'' ''EventReceivesResponse'',
      mk_method ''SetUserEventReceives'' ''EventReceivesRequest'' ''MessageResponse'',
      mk_method ''ResetUserEventReceives'' ''Empty'' ''MessageResponse'',
      mk_method ''GetConfig'' ''Empty'' ''GetConfigResponse'',
      mk_method ''SetConfig'' ''SetConfigRequest'' ''GetConfigResponse'']"

definition notification_options :: "endpoint list" where
  "notification_options =
     [api_endpoint ''Notification.GetEvent'' [''/notification/events/{event_id}''] [''GET''] '''',
      api_endpoint ''Notification.GetEvents'' [''/notification/events''] [''GET''] '''',
      (api_endpoint ''Notification.GetEventsStream'' [''/notification/monitor''] [''GET''] '''')\<lparr>ep_Stream := True\<rparr>,
      api_endpoint ''Notification.GetEventClassifications'' [''/notification/event-classifications''] [''GET''] '''',
      api_endpoint ''Notification.GetTenantEventReceives'' [''/notification/config/receivers/tenant''] [''GET''] '''',
      api_endpoint ''Notification.SetTenantEventReceives'' [''/notification/config/receivers/tenant''] [''PATCH''] ''*'',
      api_endpoint ''Notification.GetUserEventReceives'' [''/notification/config/receivers/user''] [''GET''] '''',
      api_endpoint ''Notification.SetUserEventReceives'' [''/notification/config/receivers/user''] [''PATCH''] ''*'',
      api_endpoint ''Notification.ResetUserEventReceives'' [''/notification/config/receivers/user-reset''] [''POST''] '''',
      api_endpoint ''Notification.GetConfig'' [''/notification/config''] [''GET''] '''',
      api_endpoint ''Notification.SetConfig'' [''/notification/config''] [''PUT''] ''*'']"

definition RegisterNotificationHandler :: registration where
  "RegisterNotificationHandler =
     \<lparr>rg_Name = ''Notification'', rg_Methods = notification_methods, rg_Endpoints = notification_options\<rparr>"

fun notificationHandler :: "nprm \<times> trial \<times> env \<Rightarrow> (n_request, n_response) rpc_service" where
  "notificationHandler (N, tr, E) ctx q s = n_serve N tr E ctx q s"

definition ServiceNotification :: string where
  "ServiceNotification = ''cdm-cloud-notification''"

definition NewNotificationService ::
  "(n_request, n_response, 'w) codec \<Rightarrow> (string \<Rightarrow> nat \<Rightarrow> delivery) \<Rightarrow> (goerr \<Rightarrow> goerr) \<Rightarrow> (nat \<Rightarrow> string \<Rightarrow> ('w, 'w) rpc_service) \<Rightarrow>
    string \<Rightarrow> (n_request, n_response) rpc_service" where
  "NewNotificationService K net arrive server name ctx q s =
     (case find (\<lambda>x. sb_Method x = fst (n_request_type q)) notification_stubs of
        None \<Rightarrow> None | Some st \<Rightarrow> stub_call K net arrive server name st ctx q s)"

subsection \<open>The stream of events\<close>

text \<open>
  The streams of go-micro are parameters.  The client opens the stream and sends its request over it, the server
  receives the request and hands it to the handler, which sends its batches back.
\<close>

record 'c stream_client =
  sc_Stream :: "string \<Rightarrow> (goerr, 'c) res"
  sc_Send :: "stream_request \<Rightarrow> 'c \<Rightarrow> (goerr, 'c) res"
  sc_Recv :: "'c \<Rightarrow> (goerr, p_event list \<times> 'c) res"

definition client_GetEventsStream :: "'c stream_client \<Rightarrow> string \<Rightarrow> stream_request \<Rightarrow> (goerr, 'c) res" where
  "client_GetEventsStream C name q =
     bindR (sc_Stream C (methodToGRPC name ''Notification.GetEventsStream'')) (\<lambda>stream. sc_Send C q stream)"

definition stream_Recv :: "'c stream_client \<Rightarrow> 'c \<Rightarrow> (goerr, p_event list \<times> 'c) res" where
  "stream_Recv C stream = bindR (sc_Recv C stream) (\<lambda>(m, stream'). Ok (m, stream'))"

definition handler_GetEventsStream ::
  "(goerr, stream_request) res \<Rightarrow> env \<Rightarrow> ctx \<Rightarrow> stream_input list \<Rightarrow> sys \<Rightarrow> p_event list list \<times> ((goerr, unit) res \<times> sys) option" where
  "handler_GetEventsStream recv E ctx is s =
     (case recv of
        Panic \<Rightarrow> ([], Some (Panic, s))
      | Fail e \<Rightarrow> ([], Some (Fail e, s))
      | Ok m \<Rightarrow> nh_GetEventsStream E ctx m is s)"

end
