(* ===== verification/Platform.thy ===== *)
theory Platform
  imports Notification_Invariants
begin

text \<open>
  The identity service and the notification service on the database that they share: what each of them leaves to
  the other, and the invariants that hold however their calls interleave.
\<close>

section \<open>The platform\<close>

inductive p_step :: "globals \<Rightarrow> nprm \<Rightarrow> sys \<Rightarrow> sys \<Rightarrow> bool" for gl N where
  p_identity: "step gl s s' \<Longrightarrow> p_step gl N s s'"
| p_notification: "n_step N s s' \<Longrightarrow> p_step gl N s s'"

inductive p_reachable :: "globals \<Rightarrow> nprm \<Rightarrow> sys \<Rightarrow> sys \<Rightarrow> bool" for gl N s0 where
  p_reachable_init: "p_reachable gl N s0 s0"
| p_reachable_step: "p_reachable gl N s0 s \<Longrightarrow> p_step gl N s s' \<Longrightarrow> p_reachable gl N s0 s'"

locale platform_invariant = idn: db_invariant gl I + ntf: n_invariant N I for gl :: globals and N :: nprm and I :: "db \<Rightarrow> bool"
begin

lemma p_step_I: "p_step gl N s s' \<Longrightarrow> I (s_db s) \<Longrightarrow> I (s_db s')"
  by (induction rule: p_step.induct) (auto intro: idn.I_steps ntf.I_steps step_db n_step_stays)

lemma p_reachable_I: "p_reachable gl N s0 s \<Longrightarrow> I (s_db s0) \<Longrightarrow> I (s_db s)"
  by (induction rule: p_reachable.induct) (auto intro: p_step_I)

end

section \<open>What the identity service leaves alone\<close>

text \<open>The settings and the events stay as they are, and tenants are never deleted.\<close>

definition apart :: "db \<Rightarrow> db \<Rightarrow> bool" where
  "apart d d' \<longleftrightarrow> t_tenant_config d' = t_tenant_config d \<and> t_event d' = t_event d \<and> seq_event d' = seq_event d \<and>
     mt_ID ` set (t_tenant d) \<subseteq> mt_ID ` set (t_tenant d')"

lemma apart_refl [simp]: "apart d d"
  by (simp add: apart_def)

lemma apart_trans [trans]: "apart d d' \<Longrightarrow> apart d' d'' \<Longrightarrow> apart d d''"
  by (auto simp: apart_def)

lemma user_save_apart: "user_save E u d = Ok (u', d') \<Longrightarrow> apart d d'"
  by (erule user_save_cases) (auto simp: apart_def)

lemma group_save_apart: "group_save E g d = Ok (g', d') \<Longrightarrow> apart d d'"
  by (erule group_save_cases) (auto simp: apart_def)

lemma tenant_save_apart: "tenant_save E t d = Ok (t', d') \<Longrightarrow> apart d d'"
  using tenant_save_ids [of E t d t' d'] by (frule_tac tenant_save_Ok) (auto simp: apart_def)

lemma relation_apart:
  "user_role_save E r d = Ok d' \<Longrightarrow> apart d d'" "user_role_delete E uid d = Ok d' \<Longrightarrow> apart d d'"
  "user_group_save E m d = Ok d' \<Longrightarrow> apart d d'" "user_group_delete E c i d = Ok d' \<Longrightarrow> apart d d'"
  "tenant_solution_save E ts d = Ok d' \<Longrightarrow> apart d d'" "tenant_solution_delete E i d = Ok d' \<Longrightarrow> apart d d'"
  by (auto simp: apart_def res_simps tenant_solution_delete_Ok
      dest!: user_role_save_Ok user_group_save_Ok tenant_solution_save_Ok)

lemma foldR_apart:
  assumes "foldR f xs d = Ok d'" and "\<And>x d d'. f x d = Ok d' \<Longrightarrow> apart d d'"
  shows "apart d d'"
  using assms(1) apart_refl by (rule foldR_invariant) (blast intro: apart_trans assms(2))

lemma relations_apart:
  "updateUserRoleRelations E uid roles d = Ok d' \<Longrightarrow> apart d d'"
  "updateUserGroupRelations E uid gs d = Ok d' \<Longrightarrow> apart d d'"
  "save_solutions E tid sols d = Ok d' \<Longrightarrow> apart d d'"
  unfolding updateUserRoleRelations_def updateUserGroupRelations_def save_solutions_def bindR_Ok_iff orUnusable_Ok_iff
  by (blast intro: apart_trans relation_apart foldR_apart)+

lemma addMembers_apart: "addMembers E t gid us d = Ok (rs, d') \<Longrightarrow> apart d d'"
proof (induction us arbitrary: d rs)
  case (Cons u us)
  then obtain d1 rs' where "apart d d1" "addMembers E t gid us d1 = Ok (rs', d')"
    by (auto simp: bindR_Ok_iff orUnusable_Ok_iff intro: relation_apart)
  with Cons.IH show ?case by (blast intro: apart_trans)
qed simp

lemmas write_apart = user_save_apart group_save_apart tenant_save_apart relation_apart relations_apart addMembers_apart

lemma tenant_ops_apart:
  "addTenant E treq d = Ok (t, d') \<Longrightarrow> apart d d'" "updateTenant E tid treq d = Ok (t, d') \<Longrightarrow> apart d d'"
  "set_use_flag b E tid d = Ok (t, d') \<Longrightarrow> apart d d'"
  by (auto simp: addTenant_def updateTenant_def set_use_flag_def bindR_Ok_iff orUnusable_Ok_iff Let_def split: option.splits
      dest!: write_apart intro: apart_trans)

lemma group_ops_apart:
  "addGroup E ctx tid greq d = Ok (g, d') \<Longrightarrow> apart d d'" "updateGroup E tid greq d = Ok (g, d') \<Longrightarrow> apart d d'"
  "deleteGroup E ctx tid gid d = Ok d' \<Longrightarrow> apart d d'" "setGroupUsers E ctx tid gid users d = Ok (us, d') \<Longrightarrow> apart d d'"
  by (auto simp: addGroup_def updateGroup_def deleteGroup_def setGroupUsers_def bindR_Ok_iff orUnusable_Ok_iff
      split: option.splits dest!: write_apart intro: apart_trans)

lemma account_ops_apart:
  "updateUserPassword E uid pw d = Ok d' \<Longrightarrow> apart d d'"
  "resetUserPassword E gl ctx reqUser tid uid d = Ok (pw, d') \<Longrightarrow> apart d d'"
  "loginUser E gl ctx lreq d = Ok (x, d') \<Longrightarrow> apart d d'"
  "updateUserLoginFailedInfo E lreq d = Ok d' \<Longrightarrow> apart d d'"
  by (auto elim!: updateUserPassword_Ok resetUserPassword_Ok loginUser_Ok updateUserLoginFailedInfo_Ok dest: user_save_apart)

lemma user_ops_apart:
  "addUser E (Some u) pw d = Ok (x, d') \<Longrightarrow> apart d d'" "updateUser E gl tid reqUser (Some u) d = Ok (x, d') \<Longrightarrow> apart d d'"
  "deleteUser E gl tid uid d = Ok d' \<Longrightarrow> apart d d'"
proof -
  show "addUser E (Some u) pw d = Ok (x, d') \<Longrightarrow> apart d d'"
    by (erule addUser_Ok) (blast intro: apart_trans dest: write_apart)
  show "updateUser E gl tid reqUser (Some u) d = Ok (x, d') \<Longrightarrow> apart d d'"
    by (erule updateUser_Ok) (auto split: if_splits dest!: write_apart intro: apart_trans)
  show "deleteUser E gl tid uid d = Ok d' \<Longrightarrow> apart d d'"
    by (erule deleteUser_Ok) (simp add: apart_def)
qed

lemma db_step_apart: "db_step gl d d' \<Longrightarrow> apart d d' \<or> (\<exists>E tid cfg. setConfig E tid cfg d = Ok d')"
  by (induction rule: db_step.induct) (blast dest: tenant_ops_apart group_ops_apart account_ops_apart user_ops_apart)+

end
