(* ===== verification/Front.thy ===== *)
theory Front
  imports Rpc Platform
begin

text \<open>
  The gateway in front of the two services.  Behind the wrappers of \<open>Gateway\<close> stands go-micro's RPC handler
  (\<open>api/handler/rpc/rpc.go\<close>): it routes the request, makes the call of its endpoint over the wire of \<open>Rpc\<close>, and
  writes the reply.  A message is its JSON text; the router, the payload, its codec, and the faults of the transport are parameters.
\<close>

section \<open>The RPC handler\<close>

text \<open>
  \<open>f_Route\<close>: the service and the endpoint of a request; \<open>f_Stream\<close>: the first message and the inputs of a request
  that opens the stream; \<open>f_Net\<close>: what the network does with each attempt of a call; \<open>f_Call\<close> and \<open>f_Ntf\<close>: the
  outcomes of the transactions of each attempt.
\<close>

record front =
  f_K :: "(request, response, string) codec"
  f_N :: "(n_request, n_response, string) codec"
  f_Route :: "http_req \<Rightarrow> (goerr, string \<times> string) res"
  f_Stream :: "http_req \<Rightarrow> ((goerr, stream_request) res \<times> stream_input list) option"
  f_Payload :: "http_req \<Rightarrow> (goerr, string) res"
  f_Net :: "string \<Rightarrow> string \<Rightarrow> nat \<Rightarrow> delivery"
  f_Arrive :: "goerr \<Rightarrow> goerr"
  f_Error :: "http_req \<Rightarrow> goerr \<Rightarrow> wop list"
  f_Write :: "http_req \<Rightarrow> string \<Rightarrow> wop list"
  f_Call :: "nat \<Rightarrow> call"
  f_Ntf :: "nat \<Rightarrow> trial \<times> env"

text \<open>The metadata of the call: that of the request (\<open>g_FromRequest\<close>, its host and method included), overwritten by its headers.\<close>

definition front_ctx :: "genv \<Rightarrow> http_req \<Rightarrow> ctx" where
  "front_ctx G r = (\<lambda>k. case hr_Header r k of None \<Rightarrow> g_FromRequest G r k | Some _ \<Rightarrow> Some (Header_Get r k))"

text \<open>The servers, by the name under which they are registered, in the attempt \<open>i\<close> of a call.\<close>

definition backend :: "front \<Rightarrow> globals \<Rightarrow> nprm \<Rightarrow> nat \<Rightarrow> string \<Rightarrow> string \<Rightarrow> (string, string) rpc_service" where
  "backend F gl N i name full =
     (if name = ServiceIdentity then grpc_server (f_K F) RegisterIdentityHandler (identityHandler (gl, f_Call F i)) full
      else if name = ServiceNotification then
        grpc_server (f_N F) RegisterNotificationHandler (notificationHandler (N, f_Ntf F i)) full
      else (\<lambda>_ _ s. Some (Fail registry_ErrNotFound, s)))"

text \<open>\<open>c.Call(cx, c.NewRequest(service.Name, service.Endpoint.Name, payload), response)\<close>.\<close>

definition front_call :: "front \<Rightarrow> globals \<Rightarrow> nprm \<Rightarrow> string \<Rightarrow> string \<Rightarrow> (string, string) rpc_service" where
  "front_call F gl N name ep ctx w =
     client_Call (f_Net F name ep) (f_Arrive F) (\<lambda>i. backend F gl N i name (methodToGRPC name ep) ctx w)"

text \<open>\<open>serveWebsocket\<close>: the connection is taken over for the stream, until it ends.\<close>

definition serveWebsocket :: "front \<Rightarrow> genv \<Rightarrow> (goerr, stream_request) res \<Rightarrow> stream_input list \<Rightarrow> handler" where
  "serveWebsocket F G first is r g =
     (case snd (handler_GetEventsStream first (snd (f_Ntf F 0)) (front_ctx G r) is (gt_sys g)) of
        None \<Rightarrow> ([Hijack], Blocked, g)
      | Some (_, s) \<Rightarrow> ([Hijack], Finished, g\<lparr>gt_sys := s\<rparr>))"

definition rpcHandler :: "front \<Rightarrow> genv \<Rightarrow> globals \<Rightarrow> nprm \<Rightarrow> handler" where
  "rpcHandler F G gl N r g =
     (case f_Route F r of
        Panic \<Rightarrow> ([], Panicked, g)
      | Fail e \<Rightarrow> (f_Error F r (MicroErr 500 (error_msg e) None), Finished, g)
      | Ok (name, ep) \<Rightarrow>
          (case f_Stream F r of
             Some (first, is) \<Rightarrow> serveWebsocket F G first is r g
           | None \<Rightarrow>
               (case f_Payload F r of
                  Panic \<Rightarrow> ([], Panicked, g)
                | Fail e \<Rightarrow> (f_Error F r e, Finished, g)
                | Ok w \<Rightarrow>
                    (case front_call F gl N name ep (front_ctx G r) w (gt_sys g) of
                       None \<Rightarrow> ([], Blocked, g)
                     | Some (Panic, s) \<Rightarrow> ([], Panicked, g\<lparr>gt_sys := s\<rparr>)
                     | Some (Fail e, s) \<Rightarrow> (f_Error F r e, Finished, g\<lparr>gt_sys := s\<rparr>)
                     | Some (Ok x, s) \<Rightarrow> (f_Write F r x, Finished, g\<lparr>gt_sys := s\<rparr>)))))"

section \<open>The running platform\<close>

text \<open>
  HTTP requests through the gateway, each with the outcomes of its own run, and between them whatever the two
  services do by themselves.
\<close>

inductive g_step :: "globals \<Rightarrow> nprm \<Rightarrow> gateway \<Rightarrow> gateway \<Rightarrow> bool" for gl N where
  g_request: "gateway_handler G gl (rpcHandler F G gl N) r g = (ops, f, g') \<Longrightarrow> g_step gl N g g'"
| g_service: "p_step gl N (gt_sys g) s \<Longrightarrow> g_step gl N g (g\<lparr>gt_sys := s\<rparr>)"

inductive g_reachable :: "globals \<Rightarrow> nprm \<Rightarrow> gateway \<Rightarrow> gateway \<Rightarrow> bool" for gl N g0 where
  g_reachable_init: "g_reachable gl N g0 g0"
| g_reachable_step: "g_reachable gl N g0 g \<Longrightarrow> g_step gl N g g' \<Longrightarrow> g_reachable gl N g0 g'"

end
