(* ===== verification/Spec_Rpc.thy ===== *)
theory Spec_Rpc
  imports Rpc Spec_Gateway Notification_Invariants
begin

text \<open>
  The generated clients and servers fit together: a call through a stub is the call of the handler.  The locale
  \<open>rpc_contract\<close> is what a client and a server of go-micro need of each other; both services are interpretations.
\<close>

section \<open>Names on the wire\<close>

lemma SplitChar_at: "SplitChar c (s @ c # t) = SplitChar c s @ SplitChar c t"
proof (induction s)
  case (Cons x s)
  then show ?case by (cases "SplitChar c s") auto
qed simp

lemma ServiceMethod_methodToGRPC:
  assumes "CHR ''/'' \<notin> set name" and "svc \<noteq> []" "set svc \<inter> {CHR ''/'', CHR ''.''} = {}"
    and "m \<noteq> []" "set m \<inter> {CHR ''/'', CHR ''.''} = {}"
  shows "ServiceMethod (methodToGRPC name (svc @ ''.'' @ m)) = Some (svc, m)"
proof -
  have split: "SplitChar (CHR ''.'') (svc @ CHR ''.'' # m) = [svc, m]"
    using assms(3,5) by (simp add: SplitChar_append SplitChar_no_sep)
  have hd: "hd (svc @ CHR ''.'' # m) \<noteq> CHR ''/''" using assms(2,3) by (cases svc) auto
  have last_name: "last (SplitChar (CHR ''.'') (name @ CHR ''.'' # svc)) = svc"
    using assms(3) by (simp add: SplitChar_at SplitChar_no_sep)
  have parts: "SplitChar (CHR ''/'') (a @ CHR ''/'' # m) = [a, m]" if "CHR ''/'' \<notin> set a" for a
    using that assms(5) by (simp add: SplitChar_append SplitChar_no_sep)
  have svc1: "SplitChar (CHR ''.'') svc = [svc]" using assms(3) by (simp add: SplitChar_no_sep)
  show ?thesis
  proof (cases "name = []")
    case True
    then have "methodToGRPC name (svc @ ''.'' @ m) = CHR ''/'' # svc @ CHR ''/'' # m"
      using hd by (simp add: methodToGRPC_def split)
    then show ?thesis using assms parts [of svc] by (simp add: ServiceMethod_def svc1)
  next
    case False
    then have "methodToGRPC name (svc @ ''.'' @ m) = CHR ''/'' # (name @ CHR ''.'' # svc) @ CHR ''/'' # m"
      using hd by (simp add: methodToGRPC_def split)
    moreover have "CHR ''/'' \<notin> set (name @ CHR ''.'' # svc)" using assms(1,3) by auto
    ultimately show ?thesis using assms(4) parts [of "name @ CHR ''.'' # svc"] by (simp add: ServiceMethod_def last_name)
  qed
qed

section \<open>A client and a server that fit\<close>

definition wire_ok :: "('q, 'r, 'w) codec \<Rightarrow> ('q \<Rightarrow> string \<times> string) \<Rightarrow> ('r \<Rightarrow> string) \<Rightarrow> bool" where
  "wire_ok K qt rt \<longleftrightarrow>
     (\<forall>q. k_Decode K (fst (qt q)) (snd (qt q)) (k_Request K q) = Some q) \<and>
     (\<forall>r. k_Result K (rt r) (k_Reply K r) = Some r)"

definition fits :: "registration \<Rightarrow> string \<times> string \<Rightarrow> stub \<Rightarrow> bool" where
  "fits R t st \<longleftrightarrow> sb_Method st = fst t \<and> sb_Endpoint st = rg_Name R @ ''.'' @ fst t \<and>
     fst t \<noteq> [] \<and> set (fst t) \<inter> {CHR ''/'', CHR ''.''} = {} \<and>
     find (\<lambda>x. rm_Name x = fst t) (rg_Methods R) = Some (mk_method (fst t) (snd t) (sb_Out st))"

locale rpc_contract =
  fixes qt :: "'q \<Rightarrow> string \<times> string" and rt :: "'r \<Rightarrow> string" and stubs :: "stub list" and R :: registration
    and srv :: "'c \<Rightarrow> ('q, 'r) rpc_service"
  assumes svc: "rg_Name R \<noteq> []" "set (rg_Name R) \<inter> {CHR ''/'', CHR ''.''} = {}"
    and stub_of: "\<exists>st. find (\<lambda>x. sb_Method x = fst (qt q)) stubs = Some st \<and> fits R (qt q) st \<and>
      (\<forall>c ctx s r s'. srv c ctx q s = Some (Ok r, s') \<longrightarrow> rt r = sb_Out st)"
begin

lemma transparent:
  assumes "wire_ok K qt rt" and "CHR ''/'' \<notin> set name"
  shows "(case find (\<lambda>x. sb_Method x = fst (qt q)) stubs of
       None \<Rightarrow> None | Some st \<Rightarrow> stub_call K net arrive (\<lambda>i. grpc_server K R (srv (c i))) name st ctx q s) =
     client_Call (net (fst (qt q))) arrive (\<lambda>i. recovering (srv (c i) ctx q)) s"
proof -
  obtain st where find: "find (\<lambda>x. sb_Method x = fst (qt q)) stubs = Some st" and fits: "fits R (qt q) st"
    and typed: "\<forall>c ctx s r s'. srv c ctx q s = Some (Ok r, s') \<longrightarrow> rt r = sb_Out st"
    using stub_of [of q] by (elim exE conjE)
  have st: "sb_Method st = fst (qt q)" "sb_Endpoint st = rg_Name R @ ''.'' @ fst (qt q)" "fst (qt q) \<noteq> []"
    "set (fst (qt q)) \<inter> {CHR ''/'', CHR ''.''} = {}"
    "find (\<lambda>x. rm_Name x = fst (qt q)) (rg_Methods R) = Some (mk_method (fst (qt q)) (snd (qt q)) (sb_Out st))"
    using fits unfolding fits_def by blast+
  have name: "ServiceMethod (methodToGRPC name (sb_Endpoint st)) = Some (rg_Name R, fst (qt q))"
    unfolding st(2) by (rule ServiceMethod_methodToGRPC [OF assms(2) svc st(3,4)])
  have dec: "k_Decode K (fst (qt q)) (rm_In (mk_method (fst (qt q)) (snd (qt q)) (sb_Out st))) (k_Request K q) = Some q"
    using assms(1) by (simp add: wire_ok_def mk_method_def)
  have "(case grpc_server K R (srv (c i)) (methodToGRPC name (sb_Endpoint st)) ctx (k_Request K q) t of
      None \<Rightarrow> None
    | Some (r, s') \<Rightarrow> Some (bindR r (\<lambda>w. case k_Result K (sb_Out st) w of None \<Rightarrow> Fail undecodable | Some x \<Rightarrow> Ok x), s')) =
    recovering (srv (c i) ctx q) t" for i t
  proof (cases "recovering (srv (c i) ctx q) t")
    case None
    then show ?thesis by (simp add: grpc_server_def name st(5) dec)
  next
    case (Some p)
    obtain r s' where p: "p = (r, s')" by (cases p)
    have "k_Result K (sb_Out st) (k_Reply K x) = Some x" if "r = Ok x" for x
    proof -
      have "rt x = sb_Out st" by (rule typed [rule_format, OF recovering_Ok]) (use Some p that in simp)
      moreover have "k_Result K (rt x) (k_Reply K x) = Some x" using assms(1) by (simp add: wire_ok_def)
      ultimately show ?thesis by simp
    qed
    with Some p show ?thesis by (cases r) (simp_all add: grpc_server_def name st(5) dec)
  qed
  then show ?thesis by (simp add: find stub_call_def st(1))
qed

end

section \<open>The types of the replies\<close>

fun response_type :: "response \<Rightarrow> string" where
  "response_type (UserResponse _) = ''UserResponse''"
| "response_type (SimpleUserResponse _) = ''SimpleUserResponse''"
| "response_type (AddUserResponse _ _) = ''AddUserResponse''"
| "response_type MessageResponse = ''MessageResponse''"
| "response_type (UsersResponse _ _) = ''UsersResponse''"
| "response_type (UserPasswordResponse _) = ''UserPasswordResponse''"
| "response_type (GroupsResponse _) = ''GroupsResponse''"
| "response_type (GroupResponse _) = ''GroupResponse''"
| "response_type (RolesResponse _) = ''RolesResponse''"
| "response_type (ConfigResponse _) = ''ConfigResponse''"
| "response_type (TenantsResponse _) = ''TenantsResponse''"
| "response_type (TenantResponse _) = ''TenantResponse''"

text \<open>A handler replies with \<open>t\<close> when it succeeds; one rule for each way a handler is put together.\<close>

definition gives :: "string \<Rightarrow> (sys \<Rightarrow> (goerr, response) res \<times> sys) \<Rightarrow> bool" where
  "gives t m \<longleftrightarrow> (\<forall>s r s'. m s = (Ok r, s') \<longrightarrow> response_type r = t)"

lemma gives_ok: "response_type r = t \<Longrightarrow> gives t (ok E ctx rpc r)"
  by (simp add: gives_def ok_Ok_iff)

lemma gives_createError: "gives t (createError E ctx code e)"
  by (auto simp: gives_def createError_def Let_def status_defs split: if_splits)

lemma gives_onError: "(\<And>x. gives t (k x)) \<Longrightarrow> gives t (onError E ctx code m k)"
  using gives_createError [of t E ctx code] by (auto simp: gives_def onError_def split: res.splits)

lemma gives_onErrorDB: "(\<And>x. gives t (k x)) \<Longrightarrow> gives t (onErrorDB E ctx code m k)"
  using gives_createError [of t E ctx code] by (auto simp: gives_def onErrorDB_def split: res.splits prod.splits)

lemma gives_onErrorKV: "(\<And>x. gives t (k x)) \<Longrightarrow> gives t (onErrorKV E ctx code m k)"
  using gives_createError [of t E ctx code] by (auto simp: gives_def onErrorKV_def split: res.splits prod.splits)

lemma gives_if: "gives t m \<Longrightarrow> gives t m' \<Longrightarrow> gives t (if b then m else m')"
  by simp

lemma gives_pair: "(\<And>x y. gives t (k x y)) \<Longrightarrow> gives t (case p of (x, y) \<Rightarrow> k x y)"
  by (cases p) simp

lemma gives_withMetadata: "(\<And>tid u. gives t (k tid u)) \<Longrightarrow> gives t (withMetadata E ctx rpc k)"
  unfolding withMetadata_def by (intro gives_onError gives_pair)

lemmas gives_intros = gives_withMetadata gives_onError gives_onErrorDB gives_onErrorKV gives_if gives_pair gives_createError gives_ok

lemma user_replies:
  "gives ''UserResponse'' (h_GetUser E gl ctx uid)" "gives ''SimpleUserResponse'' (h_GetSimpleUser E gl ctx uid)"
  "gives ''AddUserResponse'' (h_AddUser E gl ctx uq)" "gives ''UserResponse'' (h_UpdateUser E gl ctx uid uq)"
  "gives ''MessageResponse'' (h_DeleteUser E gl ctx uid)" "gives ''UsersResponse'' (h_GetUsers E gl ctx lq)"
  "gives ''MessageResponse'' (h_UpdateUserPassword E ctx pq)" "gives ''UserPasswordResponse'' (h_ResetUserPassword E gl ctx uid)"
  unfolding h_GetUser_def h_GetSimpleUser_def h_AddUser_def h_UpdateUser_def h_DeleteUser_def h_GetUsers_def
    h_UpdateUserPassword_def h_ResetUserPassword_def
  by (intro gives_intros; simp)+

lemma group_replies:
  "gives ''GroupsResponse'' (h_GetGroups E ctx name)" "gives ''GroupResponse'' (h_GetGroup E ctx gid)"
  "gives ''GroupResponse'' (h_AddGroup E ctx gq)" "gives ''GroupResponse'' (h_UpdateGroup E ctx gid gq)"
  "gives ''MessageResponse'' (h_DeleteGroup E ctx gid)" "gives ''UsersResponse'' (h_SetGroupUsers E ctx gid us)"
  "gives ''RolesResponse'' (h_GetRoles E ctx sol role)"
  unfolding h_GetGroups_def h_GetGroup_def h_AddGroup_def h_UpdateGroup_def h_DeleteGroup_def h_SetGroupUsers_def h_GetRoles_def
  by (intro gives_intros; simp)+

lemma session_replies:
  "gives ''UserResponse'' (h_Login E gl ctx lq)" "gives ''MessageResponse'' (h_Logout E ctx)"
  "gives ''UserResponse'' (h_VerifySession E gl ctx)" "gives ''MessageResponse'' (h_RevokeSession E gl ctx key)"
  "gives ''ConfigResponse'' (h_SetConfig E ctx cq)" "gives ''ConfigResponse'' (h_GetConfig E ctx)"
  unfolding h_Login_def h_Logout_def h_VerifySession_def h_RevokeSession_def h_SetConfig_def h_GetConfig_def
  by (intro gives_intros; simp)+

lemma tenant_replies:
  "gives ''TenantsResponse'' (h_GetTenants E ctx name)" "gives ''TenantResponse'' (h_GetTenant E ctx tid)"
  "gives ''TenantResponse'' (h_AddTenant E ctx tq)" "gives ''TenantResponse'' (h_UpdateTenant E ctx tid tq)"
  "gives ''TenantResponse'' (h_ActivateTenant E ctx tid)" "gives ''TenantResponse'' (h_DeactivateTenant E ctx tid)"
  unfolding h_GetTenants_def h_GetTenant_def h_AddTenant_def h_UpdateTenant_def h_ActivateTenant_def h_DeactivateTenant_def
  by (intro gives_intros; simp)+

section \<open>The identity service\<close>

definition stub_at :: "string \<Rightarrow> stub" where
  "stub_at m = the (find (\<lambda>x. sb_Method x = m) identity_stubs)"

abbreviation stub_of :: "request \<Rightarrow> stub" where
  "stub_of q \<equiv> stub_at (fst (request_type q))"

lemma stub_of_fits:
  "find (\<lambda>x. sb_Method x = fst (request_type q)) identity_stubs = Some (stub_of q) \<and> fits RegisterIdentityHandler (request_type q) (stub_of q)"
  by (cases q; simp only: request_type.simps fst_conv; code_simp)

lemma stub_outs:
  "sb_Out (stub_at ''GetUser'') = ''UserResponse''" "sb_Out (stub_at ''GetSimpleUser'') = ''SimpleUserResponse''"
  "sb_Out (stub_at ''AddUser'') = ''AddUserResponse''" "sb_Out (stub_at ''UpdateUser'') = ''UserResponse''"
  "sb_Out (stub_at ''DeleteUser'') = ''MessageResponse''" "sb_Out (stub_at ''GetUsers'') = ''UsersResponse''"
  "sb_Out (stub_at ''UpdateUserPassword'') = ''MessageResponse''" "sb_Out (stub_at ''ResetUserPassword'') = ''UserPasswordResponse''"
  "sb_Out (stub_at ''GetGroups'') = ''GroupsResponse''" "sb_Out (stub_at ''GetGroup'') = ''GroupResponse''"
  "sb_Out (stub_at ''AddGroup'') = ''GroupResponse''" "sb_Out (stub_at ''UpdateGroup'') = ''GroupResponse''"
  "sb_Out (stub_at ''DeleteGroup'') = ''MessageResponse''" "sb_Out (stub_at ''SetGroupUsers'') = ''UsersResponse''"
  "sb_Out (stub_at ''GetRoles'') = ''RolesResponse''" "sb_Out (stub_at ''Login'') = ''UserResponse''"
  "sb_Out (stub_at ''Logout'') = ''MessageResponse''" "sb_Out (stub_at ''VerifySession'') = ''UserResponse''"
  "sb_Out (stub_at ''RevokeSession'') = ''MessageResponse''" "sb_Out (stub_at ''SetConfig'') = ''ConfigResponse''"
  "sb_Out (stub_at ''GetConfig'') = ''ConfigResponse''" "sb_Out (stub_at ''CheckAuthorization'') = ''MessageResponse''"
  "sb_Out (stub_at ''GetTenants'') = ''TenantsResponse''" "sb_Out (stub_at ''AddTenant'') = ''TenantResponse''"
  "sb_Out (stub_at ''GetTenant'') = ''TenantResponse''" "sb_Out (stub_at ''UpdateTenant'') = ''TenantResponse''"
  "sb_Out (stub_at ''ActivateTenant'') = ''TenantResponse''" "sb_Out (stub_at ''DeactivateTenant'') = ''TenantResponse''"
  by code_simp+

lemma handle_gives:
  assumes "handle gl ctx q = Some body"
  shows "gives (sb_Out (stub_of q)) (body E)"
  using assms by (cases q) (auto simp only: handle.simps option.inject option.distinct request_type.simps fst_conv stub_outs
      user_replies group_replies session_replies tenant_replies)

lemma Transaction_gives:
  assumes "Transaction tr body s = Some (Ok r, s')" and "\<And>E. gives t (body E)"
  shows "response_type r = t"
  using Transaction_Ok [OF assms(1)] assms(2) by (auto simp: gives_def)

lemma enforceRoles_reply: "enforceRoles E gl ctx ep rs s = (Ok r, s') \<Longrightarrow> r = MessageResponse"
  by (induction rs) (auto simp: ok_Ok_iff split: prod.splits bool.splits option.splits)

lemma serve_reply:
  assumes "serve gl c q s = Some (Ok r, s')"
  shows "response_type r = sb_Out (stub_of q)"
proof (cases "handle gl (c_ctx c) q")
  case (Some body)
  with assms have "Transaction (c_trial c) body s = Some (Ok r, s')" by (simp add: serve_def)
  then show ?thesis by (rule Transaction_gives) (rule handle_gives [OF Some])
next
  case None
  then consider lq where "q = Login lq" | ep where "q = CheckAuthorization ep" by (cases q) simp_all
  then show ?thesis
  proof cases
    case 1
    with assms obtain s1 where "Transaction (c_trial c) (\<lambda>E. h_Login E gl (c_ctx c) lq) s = Some (Ok r, s1)"
      by (auto simp: serve_def serve_Login_def split: option.splits if_splits res.splits)
    then show ?thesis unfolding 1 request_type.simps fst_conv stub_outs by (rule Transaction_gives) (rule session_replies)
  next
    case 2
    with assms obtain E s1 rs where "enforceRoles E gl (c_ctx c) ep rs s1 = (Ok r, s')"
      by (auto simp: serve_def h_CheckAuthorization_def split: res.splits prod.splits option.splits if_splits)
    then have "r = MessageResponse" by (rule enforceRoles_reply)
    then show ?thesis unfolding 2 request_type.simps fst_conv stub_outs by simp
  qed
qed

interpretation identity_rpc: rpc_contract request_type response_type identity_stubs RegisterIdentityHandler identityHandler
proof unfold_locales
  fix q
  have "srv c ctx q s = Some (Ok r, s') \<Longrightarrow> response_type r = sb_Out (stub_of q)" if "srv = identityHandler" for srv c ctx s r s'
    using that by (cases c) (auto dest: serve_reply)
  with stub_of_fits [of q]
  show "\<exists>st. find (\<lambda>x. sb_Method x = fst (request_type q)) identity_stubs = Some st \<and> fits RegisterIdentityHandler (request_type q) st \<and>
      (\<forall>c ctx s r s'. identityHandler c ctx q s = Some (Ok r, s') \<longrightarrow> response_type r = sb_Out st)"
    by blast
qed (simp_all add: RegisterIdentityHandler_def)

section \<open>The notification service\<close>

fun n_response_type :: "n_response \<Rightarrow> string" where
  "n_response_type (N_ConfigResponse _) = ''GetConfigResponse''"
| "n_response_type (N_EventResponse _) = ''GetEventResponse''"
| "n_response_type (N_EventsResponse _ _) = ''GetEventsResponse''"
| "n_response_type (N_ClassificationsResponse _) = ''GetEventClassificationsResponse''"
| "n_response_type (N_ReceivesResponse _) = ''EventReceivesResponse''"
| "n_response_type N_MessageResponse = ''MessageResponse''"

definition n_gives :: "string \<Rightarrow> (sys \<Rightarrow> n_result) \<Rightarrow> bool" where
  "n_gives t m \<longleftrightarrow> (\<forall>s r s'. m s = Some (Ok r, s') \<longrightarrow> n_response_type r = t)"

lemma n_gives_ok: "n_response_type r = t \<Longrightarrow> n_gives t (n_ok E ctx rpc r)"
  by (auto simp: n_gives_def dest: n_ok_Ok)

lemma n_gives_error: "n_gives t (\<lambda>s. Some (n_createError E ctx code e s))"
  by (simp add: n_gives_def)

lemma n_gives_onError: "(\<And>x. n_gives t (k x)) \<Longrightarrow> n_gives t (n_onError E ctx code m k)"
  unfolding n_gives_def by (blast dest: n_onError_Ok)

lemma n_gives_inTx: "(\<And>x. n_gives t (k x)) \<Longrightarrow> n_gives t (n_inTx E ctx code run k)"
  unfolding n_gives_def by (blast dest: n_inTx_Ok)

lemma n_gives_withHeader: "(\<And>tid u. n_gives t (k tid u)) \<Longrightarrow> n_gives t (withHeader E ctx rpc k)"
  unfolding n_gives_def by (blast dest: withHeader_Ok)

lemma n_gives_if: "n_gives t m \<Longrightarrow> n_gives t m' \<Longrightarrow> n_gives t (\<lambda>s. if b then m s else m' s)"
  by (cases b) simp_all

lemma n_gives_pair: "(\<And>x y. n_gives t (k x y)) \<Longrightarrow> n_gives t (case p of (x, y) \<Rightarrow> k x y)"
  by (cases p) simp

lemmas n_gives_intros = n_gives_withHeader n_gives_onError n_gives_inTx n_gives_if n_gives_pair n_gives_error n_gives_ok

lemma notification_replies:
  "n_gives ''GetConfigResponse'' (nh_GetConfig N tr E ctx)" "n_gives ''GetConfigResponse'' (nh_SetConfig N tr E ctx cq)"
  "n_gives ''GetEventResponse'' (nh_GetEvent tr E ctx i)" "n_gives ''GetEventsResponse'' (nh_GetEvents N tr E ctx eq)"
  "n_gives ''GetEventClassificationsResponse'' (nh_GetEventClassifications tr E ctx)"
  "n_gives ''EventReceivesResponse'' (nh_GetTenantEventReceives tr E ctx rq)"
  "n_gives ''MessageResponse'' (nh_SetTenantEventReceives tr E ctx items)"
  "n_gives ''EventReceivesResponse'' (nh_GetUserEventReceives tr E ctx rq)"
  "n_gives ''MessageResponse'' (nh_SetUserEventReceives tr E ctx items)"
  "n_gives ''MessageResponse'' (nh_ResetUserEventReceives tr E ctx)"
  unfolding nh_GetConfig_def nh_SetConfig_def nh_GetEvent_def nh_GetEvents_def nh_GetEventClassifications_def
    nh_GetTenantEventReceives_def nh_SetTenantEventReceives_def nh_GetUserEventReceives_def nh_SetUserEventReceives_def
    nh_ResetUserEventReceives_def
  by (intro n_gives_intros; simp)+

definition n_stub_at :: "string \<Rightarrow> stub" where
  "n_stub_at m = the (find (\<lambda>x. sb_Method x = m) notification_stubs)"

abbreviation n_stub_of :: "n_request \<Rightarrow> stub" where
  "n_stub_of q \<equiv> n_stub_at (fst (n_request_type q))"

lemma n_stub_of_fits:
  "find (\<lambda>x. sb_Method x = fst (n_request_type q)) notification_stubs = Some (n_stub_of q) \<and>
   fits RegisterNotificationHandler (n_request_type q) (n_stub_of q)"
  by (cases q; simp only: n_request_type.simps fst_conv; code_simp)

lemma n_stub_outs:
  "sb_Out (n_stub_at ''GetEvent'') = ''GetEventResponse''" "sb_Out (n_stub_at ''GetEvents'') = ''GetEventsResponse''"
  "sb_Out (n_stub_at ''GetEventClassifications'') = ''GetEventClassificationsResponse''"
  "sb_Out (n_stub_at ''GetTenantEventReceives'') = ''EventReceivesResponse''"
  "sb_Out (n_stub_at ''SetTenantEventReceives'') = ''MessageResponse''"
  "sb_Out (n_stub_at ''GetUserEventReceives'') = ''EventReceivesResponse''"
  "sb_Out (n_stub_at ''SetUserEventReceives'') = ''MessageResponse''"
  "sb_Out (n_stub_at ''ResetUserEventReceives'') = ''MessageResponse''"
  "sb_Out (n_stub_at ''GetConfig'') = ''GetConfigResponse''" "sb_Out (n_stub_at ''SetConfig'') = ''GetConfigResponse''"
  by code_simp+

lemma n_serve_gives: "n_gives (sb_Out (n_stub_of q)) (n_serve N tr E ctx q)"
  by (cases q) (simp_all only: n_request_type.simps fst_conv n_stub_outs n_serve.simps notification_replies)

interpretation notification_rpc: rpc_contract n_request_type n_response_type notification_stubs RegisterNotificationHandler notificationHandler
proof unfold_locales
  fix q
  have "n_response_type r = sb_Out (n_stub_of q)" if "notificationHandler c ctx q s = Some (Ok r, s')" for c ctx s r s'
  proof -
    obtain N tr E where "c = (N, tr, E)" by (cases c)
    with that n_serve_gives [of q N tr E ctx] show ?thesis unfolding n_gives_def by auto
  qed
  with n_stub_of_fits [of q]
  show "\<exists>st. find (\<lambda>x. sb_Method x = fst (n_request_type q)) notification_stubs = Some st \<and>
      fits RegisterNotificationHandler (n_request_type q) st \<and>
      (\<forall>c ctx s r s'. notificationHandler c ctx q s = Some (Ok r, s') \<longrightarrow> n_response_type r = sb_Out st)"
    by blast
qed (simp_all add: RegisterNotificationHandler_def)

section \<open>Calls between the services\<close>

lemma identity_transparent:
  assumes "wire_ok K request_type response_type"
  shows "NewIdentityService K net arrive (\<lambda>i. grpc_server K RegisterIdentityHandler (identityHandler (gl, c i))) ServiceIdentity ctx q s =
    client_Call (net (fst (request_type q))) arrive (\<lambda>i. recovering (serve gl ((c i)\<lparr>c_ctx := ctx\<rparr>) q)) s"
proof -
  have name: "CHR ''/'' \<notin> set ServiceIdentity" by (simp add: ServiceIdentity_def)
  have "identityHandler (gl, c i) ctx q = serve gl ((c i)\<lparr>c_ctx := ctx\<rparr>) q" for i by (simp add: fun_eq_iff)
  then show ?thesis unfolding NewIdentityService_def identity_rpc.transparent [OF assms name, where c = "\<lambda>i. (gl, c i)"] by simp
qed

lemma notification_transparent:
  assumes "wire_ok K n_request_type n_response_type"
  shows "NewNotificationService K net arrive (\<lambda>i. grpc_server K RegisterNotificationHandler (notificationHandler (N, n i)))
      ServiceNotification ctx nq s =
    client_Call (net (fst (n_request_type nq))) arrive (\<lambda>i. recovering (n_serve N (fst (n i)) (snd (n i)) ctx nq)) s"
proof -
  have name: "CHR ''/'' \<notin> set ServiceNotification" by (simp add: ServiceNotification_def)
  have "notificationHandler (N, n i) ctx nq = n_serve N (fst (n i)) (snd (n i)) ctx nq" for i by (cases "n i") (simp add: fun_eq_iff)
  then show ?thesis
    unfolding NewNotificationService_def notification_rpc.transparent [OF assms name, where c = "\<lambda>i. (N, n i)"] by simp
qed

text \<open>
  Claim C7.  A call through a generated stub is the call of the handler: its name on the wire finds the method of
  the registered struct, the request arrives as it was sent and is of the type the method takes, the reply is of the
  type that the stub allocates, and a panic comes back as an error.  What remains is what the client of go-micro does with
  faults: a call whose attempt failed with an internal error or a timeout of the service runs a second time.  The identity
  service and the notification service alike; and the two calls of the gateway are calls of such a client.
\<close>

theorem rpc_transparent:
  assumes "wire_ok K request_type response_type" and "wire_ok K' n_request_type n_response_type"
  shows "NewIdentityService K net arrive (\<lambda>i. grpc_server K RegisterIdentityHandler (identityHandler (gl, c i))) ServiceIdentity ctx q s =
      client_Call (net (fst (request_type q))) arrive (\<lambda>i. recovering (serve gl ((c i)\<lparr>c_ctx := ctx\<rparr>) q)) s \<and>
    NewNotificationService K' net arrive (\<lambda>i. grpc_server K' RegisterNotificationHandler (notificationHandler (N, n i)))
        ServiceNotification ctx nq s =
      client_Call (net (fst (n_request_type nq))) arrive (\<lambda>i. recovering (n_serve N (fst (n i)) (snd (n i)) ctx nq)) s \<and>
    identityClient G gl c ctx (fst (request_type q)) q s =
      NewIdentityService K (g_net G) (g_arrive G) (\<lambda>i. grpc_server K RegisterIdentityHandler (identityHandler (gl, c i))) ServiceIdentity ctx q s"
  unfolding identity_transparent [OF assms(1)] notification_transparent [OF assms(2)] identityClient_def by (intro conjI refl)

section \<open>Registered endpoints\<close>

text \<open>Two templates that some path matches both: segment by segment one is a variable or they are equal.\<close>

definition is_var :: "string \<Rightarrow> bool" where
  "is_var t \<longleftrightarrow> t \<noteq> [] \<and> hd t = CHR ''{''"

definition overlap :: "string \<Rightarrow> string \<Rightarrow> bool" where
  "overlap t t' \<longleftrightarrow> list_all2 (\<lambda>a b. is_var a \<or> is_var b \<or> a = b) (SplitChar (CHR ''/'') t) (SplitChar (CHR ''/'') t')"

lemma list_all2_both:
  "list_all2 P xs zs \<Longrightarrow> list_all2 Q ys zs \<Longrightarrow> (\<And>x y z. P x z \<Longrightarrow> Q y z \<Longrightarrow> R x y) \<Longrightarrow> list_all2 R xs ys"
  by (auto simp: list_all2_conv_all_nth)

lemma template_overlap: "template_match t p \<Longrightarrow> template_match t' p \<Longrightarrow> overlap t t'"
  unfolding template_match_def overlap_def
  by (erule (1) list_all2_both) (auto simp: segment_match_def is_var_def)

abbreviation endpoints :: "endpoint list" where
  "endpoints \<equiv> rg_Endpoints RegisterIdentityHandler @ rg_Endpoints RegisterNotificationHandler"

lemma endpoints_apart:
  "list_all (\<lambda>e. list_all (\<lambda>e'. ep_Name e = ep_Name e' \<or> list_all (\<lambda>m. m \<notin> set (ep_Method e')) (ep_Method e) \<or>
     list_all (\<lambda>t. list_all (\<lambda>t'. \<not> overlap t t') (ep_Path e')) (ep_Path e)) endpoints) endpoints"
  by code_simp

lemma endpoints_names: "distinct (map ep_Name endpoints)"
  by code_simp

lemma endpoints_tables:
  "rg_Endpoints RegisterIdentityHandler = NewIdentityEndpoints" "rg_Endpoints RegisterNotificationHandler = NewNotificationEndpoints"
  by code_simp+

definition served :: "endpoint \<Rightarrow> bool" where
  "served e \<longleftrightarrow> (case ServiceMethod (ep_Name e) of
     None \<Rightarrow> False
   | Some (svc, m) \<Rightarrow> (\<exists>R \<in> set [RegisterIdentityHandler, RegisterNotificationHandler].
       rg_Name R = svc \<and> (ep_Stream e \<or> m \<in> rm_Name ` set (rg_Methods R))))"

lemma endpoints_served: "list_all served endpoints"
  by code_simp

text \<open>
  Claim C8.  Routing is unambiguous: of all endpoints that the two servers register, and these are the tables that
  the gateway's router is given, at most one matches a request, so the endpoint that a user is authorized for is
  the one that runs, and its name is that of a method of the server.
\<close>

theorem routing_unambiguous:
  assumes "e \<in> set (rg_Endpoints RegisterIdentityHandler @ rg_Endpoints RegisterNotificationHandler)"
    and "e' \<in> set (NewIdentityEndpoints @ NewNotificationEndpoints)" and "endpoint_match e r" "endpoint_match e' r"
  shows "e' = e \<and> served e"
proof -
  have e': "e' \<in> set endpoints" using assms(2) by (simp only: endpoints_tables)
  obtain t t' where t: "t \<in> set (ep_Path e)" "template_match t (hr_Path r)" "t' \<in> set (ep_Path e')" "template_match t' (hr_Path r)"
    and m: "hr_Method r \<in> set (ep_Method e)" "hr_Method r \<in> set (ep_Method e')"
    using assms(3,4) by (auto simp: endpoint_match_def)
  have "overlap t t'" by (rule template_overlap [OF t(2,4)])
  moreover have "list_all (\<lambda>e'. ep_Name e = ep_Name e' \<or> list_all (\<lambda>m. m \<notin> set (ep_Method e')) (ep_Method e) \<or>
     list_all (\<lambda>t. list_all (\<lambda>t'. \<not> overlap t t') (ep_Path e')) (ep_Path e)) endpoints"
    by (rule endpoints_apart [unfolded list_all_iff [of _ endpoints], THEN bspec, OF assms(1), folded list_all_iff])
  ultimately have "ep_Name e = ep_Name e'" using e' t m unfolding list_all_iff by blast
  then have "e' = e" using endpoints_names assms(1) e' inj_onD [of ep_Name "set endpoints" e e'] by (simp only: distinct_map)
  moreover have "served e" using endpoints_served assms(1) by (simp only: list_all_iff)
  ultimately show ?thesis by blast
qed

section \<open>Witnesses\<close>

text \<open>Messages that travel as they are.\<close>

definition plain_codec :: "('q \<Rightarrow> string \<times> string) \<Rightarrow> ('r \<Rightarrow> string) \<Rightarrow> ('q, 'r, 'q + 'r) codec" where
  "plain_codec qt rt =
     \<lparr>k_Request = Inl,
      k_Decode = (\<lambda>m t w. case w of Inl q \<Rightarrow> if qt q = (m, t) then Some q else None | Inr _ \<Rightarrow> None),
      k_Reply = Inr,
      k_Result = (\<lambda>t w. case w of Inr r \<Rightarrow> if rt r = t then Some r else None | Inl _ \<Rightarrow> None)\<rparr>"

lemma plain_codec_ok: "wire_ok (plain_codec qt rt) qt rt"
  by (simp add: wire_ok_def plain_codec_def)

abbreviation sample_server :: "nat \<Rightarrow> string \<Rightarrow> (request + response, request + response) rpc_service" where
  "sample_server \<equiv> (\<lambda>i. grpc_server (plain_codec request_type response_type) RegisterIdentityHandler
     (identityHandler (sample_globals, sample_call ''root'')))"

text \<open>The connection fails once: the call succeeds at its second attempt.\<close>

definition flaky :: "string \<Rightarrow> nat \<Rightarrow> delivery" where
  "flaky m i = (if i = 0 then NotSent (MicroErr 500 ''connection refused'' None) else Delivered)"

theorem rpc_transparent_witness:
  "\<exists>r s'. NewIdentityService (plain_codec request_type response_type) flaky id sample_server ServiceIdentity
      (sample_ctx ''root'') (GetUser 2) sample_sys = Some (Ok r, s') \<and> response_type r = ''UserResponse''"
proof -
  have "case client_Call (flaky ''GetUser'') id
        (\<lambda>i. recovering (serve sample_globals ((sample_call ''root'')\<lparr>c_ctx := sample_ctx ''root''\<rparr>) (GetUser 2))) sample_sys of
      Some (Ok r, s') \<Rightarrow> response_type r = ''UserResponse'' | _ \<Rightarrow> False"
    by code_simp
  then obtain r s' where r: "client_Call (flaky ''GetUser'') id
        (\<lambda>i. recovering (serve sample_globals ((sample_call ''root'')\<lparr>c_ctx := sample_ctx ''root''\<rparr>) (GetUser 2))) sample_sys = Some (Ok r, s')"
    "response_type r = ''UserResponse''"
    by (auto split: option.splits res.splits)
  note t = rpc_transparent [OF plain_codec_ok plain_codec_ok, of flaky id sample_globals "\<lambda>_. sample_call ''root''"
      "sample_ctx ''root''" "GetUser 2" sample_sys, THEN conjunct1]
  show ?thesis unfolding t by (intro exI [of _ r] exI [of _ s'] conjI r(2)) (use r(1) in simp)
qed

theorem routing_unambiguous_witness:
  "served (api_endpoint ''Identity.GetUser'' [''/identity/users/{user_id}''] [''GET''] '''')"
proof -
  let ?e = "api_endpoint ''Identity.GetUser'' [''/identity/users/{user_id}''] [''GET''] ''''"
  have m: "endpoint_match ?e (sample_req ''/identity/users/2'' [])"
    by (simp add: endpoint_match_def api_endpoint_def template_match_def segment_match_def sample_req_def)
  have e: "?e \<in> set (NewIdentityEndpoints @ NewNotificationEndpoints)" by (simp add: NewIdentityEndpoints_def)
  show ?thesis using routing_unambiguous [OF _ e m m] e by (simp only: endpoints_tables)
qed

end
