(* ===== verification/Spec_Platform.thy ===== *)
theory Spec_Platform
  imports Platform Sample_Notification
begin

text \<open>
  What holds of the shared database in every state that the two services reach together: integrity, the holders
  of the admin role, the stored events, and the types and bounds of the settings.
\<close>

section \<open>Settings are well-typed\<close>

text \<open>
  The values that a setting can have.  The restriction time is a signed 64-bit number of the message
  (\<open>in_i64\<close>).
\<close>

definition setting_ok :: "string \<Rightarrow> string \<Rightarrow> bool" where
  "setting_ok k v \<longleftrightarrow>
     (k = GlobalLanguageSet \<longrightarrow> v \<in> set languageBoundary) \<and>
     (k = UserReuseOldPassword \<or> k = UserLoginRestrictionEnable \<longrightarrow> ParseBool v \<noteq> None) \<and>
     (k = UserPasswordChangeCycle \<longrightarrow> (\<exists>u. ParseUint v = Some u \<and> u \<le> 180)) \<and>
     (k = UserSessionTimeout \<longrightarrow> (\<exists>u. ParseUint v = Some u \<and> u \<noteq> 0 \<and> u \<le> 1440)) \<and>
     (k = UserLoginRestrictionTryCount \<longrightarrow> (\<exists>u. ParseUint v = Some u \<and> 5 \<le> u \<and> u \<le> 30)) \<and>
     (k = UserLoginRestrictionTime \<longrightarrow> (\<exists>i. v = Itoa i \<and> (in_i64 i \<longrightarrow> 10 \<le> i \<and> i \<le> 7200)))"

definition settings_typed :: "db \<Rightarrow> bool" where
  "settings_typed d \<longleftrightarrow> (\<forall>c \<in> set (t_tenant_config d). setting_ok (mtc_Key c) (mtc_Value c))"

lemma settings_typed_save:
  "settings_typed d \<Longrightarrow> tenant_config_save E c d = Ok d' \<Longrightarrow> setting_ok (mtc_Key c) (mtc_Value c) \<Longrightarrow> settings_typed d'"
  by (drule tenant_config_save_Ok) (auto simp: settings_typed_def)

lemma ParseUint_Itoa:
  assumes "u \<le> 7200"
  shows "ParseUint (Itoa (int_of_u64 u)) = Some u"
proof -
  have u: "uint u \<le> 7200" using assms by (simp add: word_le_def)
  then have "uint u < 2 ^ 63" by simp
  then have "int_of_u64 u = uint u" by (rule int_of_u64_small)
  moreover have "FormatInt (uint u) = FormatUint u" unfolding FormatInt_def FormatUint_def unat_eq_nat_uint by simp
  ultimately show ?thesis by (simp only: Itoa_def ParseUint_FormatUint)
qed

lemma restriction_time_bounds:
  assumes "minMax userLoginRestrictionTimeBoundary (u64_of_int i)" and "in_i64 i"
  shows "10 \<le> i \<and> i \<le> 7200"
proof -
  have b: "10 \<le> i mod 2 ^ 64" "i mod 2 ^ 64 \<le> 7200"
    using assms(1) by (simp_all add: boundary_defs word_le_def word_less_def uint_u64_of_int not_less)
  have "0 \<le> i"
  proof (rule ccontr)
    assume "\<not> 0 \<le> i"
    then have "(i + 2 ^ 64) mod 2 ^ 64 = i + 2 ^ 64" using assms(2) by (intro mod_pos_pos_trivial) (auto simp: in_i64_def)
    then have "i mod 2 ^ 64 = i + 2 ^ 64" by simp
    with b assms(2) show False by (simp add: in_i64_def)
  qed
  with b assms(2) show ?thesis by (simp add: in_i64_def)
qed

lemma config_rows_ok:
  assumes "validateConfig E (Some c) = Ok ()" and "(k, v) \<in> set (config_rows c)"
  shows "setting_ok k v"
proof -
  have lang: "val_str (pc_GlobalLanguageSet c) \<in> set languageBoundary"
    and cycle: "get0 (pc_UserPasswordChangeCycle c) \<le> 180"
    and timeout: "get0 (pc_UserSessionTimeout c) \<noteq> 0" "get0 (pc_UserSessionTimeout c) \<le> 1440"
    and restr: "val_bool (pc_UserLoginRestrictionEnable c) \<Longrightarrow> checkRestriction c = Ok ()"
    using assms(1) by (auto simp: validateConfig_def res_simps boundary_defs not_less)
  have count: "5 \<le> get0 (pc_UserLoginRestrictionTryCount c)" "get0 (pc_UserLoginRestrictionTryCount c) \<le> 30"
    "minMax userLoginRestrictionTimeBoundary (u64_of_int (get0 (pc_UserLoginRestrictionTime c)))"
    if "val_bool (pc_UserLoginRestrictionEnable c)"
    using restr [OF that] by (auto simp: checkRestriction_def res_simps userLoginRestrictionTryCountBoundary_def minMax_def not_less)
  have le: "u \<le> 180 \<Longrightarrow> u \<le> 7200" "u \<le> 1440 \<Longrightarrow> u \<le> 7200" "u \<le> 30 \<Longrightarrow> u \<le> 7200" for u :: u64
    by (auto intro: order.trans)
  have bool: "ParseBool (FormatBool b) \<noteq> None" for b by (cases b) (simp_all add: ParseBool_def FormatBool_def)
  show ?thesis using assms(2) lang cycle timeout count bool ParseUint_Itoa le restriction_time_bounds
    unfolding config_rows_def
    by (auto simp: setting_ok_def config_keys split: if_splits)
qed

lemma setConfig_typed:
  assumes "setConfig E tid req d = Ok d'" and "settings_typed d"
  shows "settings_typed d'"
proof -
  from assms(1) obtain c where v: "validateConfig E (Some c) = Ok ()"
    and f: "foldR (\<lambda>(k, v). tenant_config_save E \<lparr>mtc_TenantID = tid, mtc_Key = k, mtc_Value = v\<rparr>) (config_rows c) d = Ok d'"
    by (cases req) (auto simp: setConfig_def bindR_Ok_iff orUnusable_Ok_iff)
  from f assms(2) show ?thesis
    by (rule foldR_invariant) (auto elim!: settings_typed_save simp: config_rows_ok [OF v])
qed

lemma settings_typed_step: "settings_typed d \<Longrightarrow> db_step gl d d' \<Longrightarrow> settings_typed d'"
  using db_step_apart [of gl d d'] by (auto simp: apart_def settings_typed_def dest: setConfig_typed [unfolded settings_typed_def])

subsection \<open>The settings of the notification service are others\<close>

lemmas event_keys = EventNotificationEnable_def EventEmailNotificationEnable_def EventDesktopNotificationEnable_def
  EventPopupNotificationEnable_def EventSmsNotificationEnable_def EventCustomNotificationEnable_def EventStorePeriod_def
  EventEmailNotifier_def EventSMSNotifier_def

lemma event_setting_ok: "take 6 k = ''event_'' \<Longrightarrow> setting_ok k v"
  by (auto simp: setting_ok_def config_keys)

lemma setConfigValue_typed:
  "setConfigValue p E tid k v d = Ok d' \<Longrightarrow> settings_typed d \<Longrightarrow> take 6 k = ''event_'' \<Longrightarrow> settings_typed d'"
  by (drule setConfigValue_save) (auto elim!: settings_typed_save simp: event_setting_ok)

lemma n_SetConfig_typed: "n_SetConfig N E tid c d = Ok d' \<Longrightarrow> settings_typed d \<Longrightarrow> settings_typed d'"
  unfolding n_SetConfig_def setters bindR_Ok_iff
  by (elim exE conjE) (drule (1) setConfigValue_typed, simp add: event_keys)+

lemma n_settings_typed_step: "n_db_step N d d' \<Longrightarrow> settings_typed d \<Longrightarrow> settings_typed d'"
proof (induction rule: n_db_step.induct)
  case (n_set_config E tid c d d')
  then show ?case by (blast intro: n_SetConfig_typed)
qed (auto simp: settings_typed_def ResetUserEventReceives_def res_simps
    dest: receives_rows user_receive_delete_Ok createEvent_Ok cleanExpiredTenantEvent_Ok)

section \<open>Invariants of the platform\<close>

lemma setConfig_rows: "setConfig E tid req d = Ok d' \<Longrightarrow> \<exists>rows. d' = d\<lparr>t_tenant_config := rows\<rparr>"
proof -
  assume "setConfig E tid req d = Ok d'"
  then obtain c where "foldR (\<lambda>(k, v). tenant_config_save E \<lparr>mtc_TenantID = tid, mtc_Key = k, mtc_Value = v\<rparr>) (config_rows c) d = Ok d'"
    by (cases req) (auto simp: setConfig_def bindR_Ok_iff orUnusable_Ok_iff)
  then show ?thesis
    by (rule foldR_invariant) (auto dest!: tenant_config_save_rows intro: exI [of _ "t_tenant_config d"])
qed

lemma events_wf_step: "events_wf d \<Longrightarrow> db_step gl d d' \<Longrightarrow> events_wf d'"
  using db_step_apart [of gl d d'] by (auto simp: apart_def events_wf_def dest: setConfig_rows)

interpretation plat_integrity: platform_invariant gl N db_wf for gl N
  by unfold_locales

interpretation plat_settings: platform_invariant gl N settings_typed for gl N
  by unfold_locales (auto intro: settings_typed_step n_settings_typed_step)

interpretation plat_events: platform_invariant gl N events_wf for gl N
  by unfold_locales (auto intro: events_wf_step)

interpretation plat_holders: platform_invariant gl N "\<lambda>d. admin_safe gl d \<and> set (admin_holders gl d) \<subseteq> H" for gl N H
proof unfold_locales
  fix d d' assume I: "admin_safe gl d \<and> set (admin_holders gl d) \<subseteq> H" and s: "n_db_step N d d'"
  have "t_user_role d' = t_user_role d" using n_db_step_accounts [OF s] by (simp add: accounts_def)
  moreover have "db_wf d'" using n_db_step_wf [OF s] I by (simp add: admin_safe_def)
  ultimately show "admin_safe gl d' \<and> set (admin_holders gl d') \<subseteq> H" using I by (simp add: admin_safe_def admin_holders_def)
qed

text \<open>
  Claim C5.  However the calls of the identity service, the calls, reports, deliveries and cleanings of the
  notification service, their faults and their retries interleave on the shared database: its integrity
  holds, the admin account keeps its role and nobody else gains it, and the stored events have unique ids
  below the sequence and tenants that exist.
\<close>

theorem platform_safe:
  assumes "p_reachable gl N s0 s" and "admin_safe gl (s_db s0)" and "events_wf (s_db s0)"
  shows "db_wf (s_db s) \<and> admin_safe gl (s_db s) \<and> set (admin_holders gl (s_db s)) \<subseteq> set (admin_holders gl (s_db s0)) \<and> events_wf (s_db s)"
proof (intro conjI)
  show "db_wf (s_db s)" by (rule plat_integrity.p_reachable_I [OF assms(1)]) (use assms(2) in \<open>simp add: admin_safe_def\<close>)
  have "admin_safe gl (s_db s) \<and> set (admin_holders gl (s_db s)) \<subseteq> set (admin_holders gl (s_db s0))"
    by (rule plat_holders.p_reachable_I [OF assms(1)]) (use assms(2) in simp)
  then show "admin_safe gl (s_db s)" "set (admin_holders gl (s_db s)) \<subseteq> set (admin_holders gl (s_db s0))" by simp_all
  show "events_wf (s_db s)" by (rule plat_events.p_reachable_I [OF assms(1,3)])
qed

section \<open>Reading the settings\<close>

lemma TenantConfig_typed:
  assumes "settings_typed d" and "TenantConfig E d tid key = Some v"
  shows "setting_ok key v"
proof -
  from assms(2) obtain c where "find (\<lambda>c. mtc_TenantID c = tid \<and> mtc_Key c = key) (t_tenant_config d) = Some c" "v = mtc_Value c"
    by (auto simp: TenantConfig_def cfg_value_def db_First_Ok_iff split: res.splits)
  then have "c \<in> set (t_tenant_config d)" "mtc_Key c = key" "mtc_Value c = v" by (auto simp: find_Some_iff in_set_conv_nth)
  with assms(1) show ?thesis by (auto simp: settings_typed_def)
qed

lemma read_cfg_typed:
  assumes "settings_typed d"
  shows "read_cfg E d tid key parse = Ok x \<Longrightarrow> \<exists>v. setting_ok key v \<and> parse v = Ok x"
    and "read_cfg E d tid key parse = Fail e \<Longrightarrow>
      e = notfoundTenantConfig key \<or> (\<exists>v e'. setting_ok key v \<and> parse v = Fail e' \<and> e = invalidTenantConfig key v)"
proof -
  show "read_cfg E d tid key parse = Ok x \<Longrightarrow> \<exists>v. setting_ok key v \<and> parse v = Ok x"
    using TenantConfig_typed [OF assms, of E tid key] by (auto simp: read_cfg_def mapE_Ok_iff split: option.splits)
  assume "read_cfg E d tid key parse = Fail e"
  then show "e = notfoundTenantConfig key \<or> (\<exists>v e'. setting_ok key v \<and> parse v = Fail e' \<and> e = invalidTenantConfig key v)"
    using TenantConfig_typed [OF assms, of E tid key]
    by (auto simp: read_cfg_def split: option.splits elim!: mapE.elims)
qed

lemma typed_values:
  "setting_ok UserPasswordChangeCycle v \<Longrightarrow> \<exists>u. Value_Uint64 v = Ok u \<and> u \<le> 180"
  "setting_ok UserSessionTimeout v \<Longrightarrow> \<exists>u. Value_Uint64 v = Ok u \<and> u \<noteq> 0 \<and> u \<le> 1440"
  "setting_ok UserLoginRestrictionTryCount v \<Longrightarrow> \<exists>u. Value_Uint64 v = Ok u \<and> 5 \<le> u \<and> u \<le> 30"
  "setting_ok UserReuseOldPassword v \<Longrightarrow> \<exists>b. Value_Bool v = Ok b"
  "setting_ok UserLoginRestrictionEnable v \<Longrightarrow> \<exists>b. Value_Bool v = Ok b"
proof -
  have D: "setting_ok UserPasswordChangeCycle v \<Longrightarrow> \<exists>u. ParseUint v = Some u \<and> u \<le> 180"
    "setting_ok UserSessionTimeout v \<Longrightarrow> \<exists>u. ParseUint v = Some u \<and> u \<noteq> 0 \<and> u \<le> 1440"
    "setting_ok UserLoginRestrictionTryCount v \<Longrightarrow> \<exists>u. ParseUint v = Some u \<and> 5 \<le> u \<and> u \<le> 30"
    "setting_ok UserReuseOldPassword v \<Longrightarrow> \<exists>b. ParseBool v = Some b"
    "setting_ok UserLoginRestrictionEnable v \<Longrightarrow> \<exists>b. ParseBool v = Some b"
    unfolding setting_ok_def by blast+
  note V = Value_Uint64_def Value_Bool_def value_err_def
  show "setting_ok UserPasswordChangeCycle v \<Longrightarrow> \<exists>u. Value_Uint64 v = Ok u \<and> u \<le> 180" using D(1) by (auto simp: V)
  show "setting_ok UserSessionTimeout v \<Longrightarrow> \<exists>u. Value_Uint64 v = Ok u \<and> u \<noteq> 0 \<and> u \<le> 1440" using D(2) by (auto simp: V)
  show "setting_ok UserLoginRestrictionTryCount v \<Longrightarrow> \<exists>u. Value_Uint64 v = Ok u \<and> 5 \<le> u \<and> u \<le> 30" using D(3) by (auto simp: V)
  show "setting_ok UserReuseOldPassword v \<Longrightarrow> \<exists>b. Value_Bool v = Ok b" using D(4) by (auto simp: V)
  show "setting_ok UserLoginRestrictionEnable v \<Longrightarrow> \<exists>b. Value_Bool v = Ok b" using D(5) by (auto simp: V)
qed

lemma getConfig_bounds:
  assumes "settings_typed d" and "getConfig E d tid = Ok cfg"
  shows "(\<exists>u. pc_UserPasswordChangeCycle cfg = Some u \<and> u \<le> 180) \<and> (\<exists>u. pc_UserSessionTimeout cfg = Some u \<and> u \<noteq> 0 \<and> u \<le> 1440) \<and>
    (\<forall>n. pc_UserLoginRestrictionTryCount cfg = Some n \<longrightarrow> 5 \<le> n \<and> n \<le> 30)"
proof -
  from assms(2) obtain cycle timeout where
    c: "read_cfg E d tid UserPasswordChangeCycle Value_Uint64 = Ok cycle" "pc_UserPasswordChangeCycle cfg = Some cycle"
      "read_cfg E d tid UserSessionTimeout Value_Uint64 = Ok timeout" "pc_UserSessionTimeout cfg = Some timeout"
      "pc_UserLoginRestrictionTryCount cfg = None \<or>
        (\<exists>n. pc_UserLoginRestrictionTryCount cfg = Some n \<and> read_cfg E d tid UserLoginRestrictionTryCount Value_Uint64 = Ok n)"
    unfolding getConfig_def bindR_Ok_iff Let_def by (elim exE conjE) (auto simp: bindR_Ok_iff split: if_splits)
  have read: "P x" if "read_cfg E d tid key Value_Uint64 = Ok x" and "\<And>v. setting_ok key v \<Longrightarrow> \<exists>u. Value_Uint64 v = Ok u \<and> P u" for key x P
    using read_cfg_typed(1) [OF assms(1) that(1)] that(2) by fastforce
  have "cycle \<le> 180" by (rule read [OF c(1)]) (rule typed_values(1))
  moreover have "timeout \<noteq> 0 \<and> timeout \<le> 1440" by (rule read [OF c(3)]) (rule typed_values(2))
  moreover have "5 \<le> n \<and> n \<le> 30" if "pc_UserLoginRestrictionTryCount cfg = Some n" for n
    using c(5) that by (auto dest!: read [where P = "\<lambda>n. 5 \<le> n \<and> n \<le> 30", OF _ typed_values(3)])
  ultimately show ?thesis using c(2,4) by blast
qed

lemma getConfig_errors:
  assumes "settings_typed d" and "getConfig E d tid = Fail e"
  shows "(\<exists>k. e = notfoundTenantConfig k) \<or> (\<exists>v. e = invalidTenantConfig UserLoginRestrictionTime v)"
proof -
  have typed: "\<exists>k. e = notfoundTenantConfig k"
    if "read_cfg E d tid key parse = Fail e" "\<And>v. setting_ok key v \<Longrightarrow> \<exists>x. parse v = Ok x"
    for key and parse :: "string \<Rightarrow> (goerr, 'a) res"
    using read_cfg_typed(2) [OF assms(1) that(1)] that(2) by fastforce
  have num: "\<exists>k. e = notfoundTenantConfig k"
    if "read_cfg E d tid key Value_Uint64 = Fail e" "key \<in> {UserPasswordChangeCycle, UserSessionTimeout, UserLoginRestrictionTryCount}" for key
    using that(2) typed_values(1-3) by (intro typed [OF that(1)]) blast
  have bool: "\<exists>k. e = notfoundTenantConfig k"
    if "read_cfg E d tid key Value_Bool = Fail e" "key \<in> {UserReuseOldPassword, UserLoginRestrictionEnable}" for key
    using that(2) typed_values(4-5) by (intro typed [OF that(1)]) blast
  have plain: "\<exists>k. e = notfoundTenantConfig k" if "read_cfg E d tid key Ok = Fail e" for key
    by (rule typed [OF that]) blast
  have time: "(\<exists>k. e = notfoundTenantConfig k) \<or> (\<exists>v. e = invalidTenantConfig UserLoginRestrictionTime v)"
    if "read_cfg E d tid UserLoginRestrictionTime Value_Int64 = Fail e"
    using read_cfg_typed(2) [OF assms(1) that] by blast
  from assms(2) show ?thesis
    unfolding getConfig_def bindR_Fail_iff Let_def
    by (elim disjE exE conjE) (auto simp: bindR_Fail_iff split: if_splits dest!: time num bool plain)
qed

lemma Value_no_Panic: "Value_Bool v \<noteq> Panic" "Value_Int64 v \<noteq> Panic" "Value_Uint64 v \<noteq> Panic"
  by (simp_all add: Value_Bool_def Value_Int64_def Value_Uint64_def value_err_def split: option.split)

lemma read_cfg_no_Panic: "(\<And>v. parse v \<noteq> Panic) \<Longrightarrow> read_cfg E d tid key parse \<noteq> Panic"
  by (auto simp: read_cfg_def split: option.splits elim!: mapE.elims)

lemma getConfig_no_Panic: "getConfig E d tid \<noteq> Panic"
  by (auto simp: getConfig_def bindR_Panic_iff Let_def Value_no_Panic split: if_splits dest!: read_cfg_no_Panic [THEN notE, rotated])

text \<open>
  Claim C10.  The settings that guard the accounts keep their types in every state that the two services reach:
  a password change cycle of at most 180 days, a session timeout of 1 to 1440 minutes, 5 to 30 login attempts, flags
  that are flags.  So \<open>getConfig\<close>, wherever it is called, returns values within these bounds, and it fails
  only on a setting that was never stored or on a restriction time outside the 64 bits of its message field.
\<close>

theorem settings_stay_typed:
  assumes "p_reachable gl N s0 s" and "settings_typed (s_db s0)"
  shows "settings_typed (s_db s) \<and>
    (case getConfig E (s_db s) tid of
       Ok cfg \<Rightarrow> (\<exists>u. pc_UserPasswordChangeCycle cfg = Some u \<and> u \<le> 180) \<and>
         (\<exists>u. pc_UserSessionTimeout cfg = Some u \<and> u \<noteq> 0 \<and> u \<le> 1440) \<and>
         (\<forall>n. pc_UserLoginRestrictionTryCount cfg = Some n \<longrightarrow> 5 \<le> n \<and> n \<le> 30)
     | Fail e \<Rightarrow> (\<exists>k. e = notfoundTenantConfig k) \<or> (\<exists>v. e = invalidTenantConfig UserLoginRestrictionTime v)
     | Panic \<Rightarrow> False)"
proof -
  have typed: "settings_typed (s_db s)" by (rule plat_settings.p_reachable_I [OF assms])
  with getConfig_bounds [OF typed] getConfig_errors [OF typed] getConfig_no_Panic show ?thesis by (simp split: res.split)
qed

section \<open>Witnesses\<close>

text \<open>The admin changes the settings of the tenant, then the notification service cleans its events.\<close>

definition sample_settings :: p_config where
  "sample_settings = \<lparr>pc_GlobalTimezone = Some ''UTC'', pc_GlobalLanguageSet = Some ''eng'',
     pc_UserLoginRestrictionEnable = Some True, pc_UserLoginRestrictionTryCount = Some 7,
     pc_UserLoginRestrictionTime = Some 60, pc_UserReuseOldPassword = Some True,
     pc_UserPasswordChangeCycle = Some 90, pc_UserSessionTimeout = Some 30\<rparr>"

definition sample_set :: "((goerr, response) res \<times> sys) option" where
  "sample_set = serve sample_globals (sample_call ''root'') (SetConfig (Some sample_settings)) sample_nsys"

definition sample_plat :: sys where
  "sample_plat = (case sample_set of Some (_, s) \<Rightarrow>
     (case cleanExpiredEvent sample_trial sample_env 1 s of Some s' \<Rightarrow> s' | None \<Rightarrow> s) | None \<Rightarrow> sample_nsys)"

lemma sample_plat_reached: "p_reachable sample_globals sample_nprm sample_nsys sample_plat"
proof (cases sample_set)
  case None
  then show ?thesis by (simp add: sample_plat_def p_reachable_init)
next
  case (Some p)
  obtain r s where set: "sample_set = Some (r, s)" using Some by (cases p) simp
  then have "step sample_globals sample_nsys s" unfolding sample_set_def by (rule step_call)
  then have s: "p_reachable sample_globals sample_nprm sample_nsys s"
    by (rule p_reachable_step [OF p_reachable_init p_identity])
  have "p_reachable sample_globals sample_nprm sample_nsys s'" if "cleanExpiredEvent sample_trial sample_env 1 s = Some s'" for s'
    by (rule p_reachable_step [OF s p_notification [OF n_step_clean [OF that]]])
  with s show ?thesis by (simp add: sample_plat_def set split: option.split)
qed

lemma sample_plat_start: "admin_safe sample_globals (s_db sample_nsys)" "events_wf (s_db sample_nsys)" "settings_typed (s_db sample_nsys)"
  by (simp_all add: admin_safe_def admin_pair_def sample_globals_def db_wf_def wf_defs same_email_def login_wf_def cfg_key_def events_wf_def
      settings_typed_def setting_ok_def config_keys n_keys sample_defs sample_nsys_def sample_ndb_def sample_event_def)

theorem platform_safe_witness:
  "events_wf (s_db sample_plat) \<and> set (admin_holders sample_globals (s_db sample_plat)) \<subseteq> {1}"
proof -
  have "set (admin_holders sample_globals (s_db sample_nsys)) \<subseteq> {1}" by code_simp
  with platform_safe [OF sample_plat_reached sample_plat_start(1,2)] show ?thesis by blast
qed

definition settled_sys :: sys where
  "settled_sys = sample_sys\<lparr>s_db := sample_db\<lparr>t_tenant_config := map sample_config (config_rows sample_settings)\<rparr>\<rparr>"

lemma settled_sys_typed: "settings_typed (s_db settled_sys)"
proof -
  have "validateConfig sample_env (Some sample_settings) = Ok ()" by code_simp
  then show ?thesis
    using config_rows_ok [of sample_env sample_settings] by (auto simp: settled_sys_def settings_typed_def sample_config_def)
qed

theorem settings_stay_typed_witness: "\<exists>cfg n. getConfig sample_env (s_db settled_sys) 1 = Ok cfg \<and>
   pc_UserLoginRestrictionTryCount cfg = Some n \<and> 5 \<le> n \<and> n \<le> 30"
proof -
  have "p_reachable sample_globals sample_nprm settled_sys (settled_sys\<lparr>s_kv := kv_expire ''k'' (s_kv settled_sys)\<rparr>)"
    by (rule p_reachable_step [OF p_reachable_init p_identity [OF step_expire]])
  note t = settings_stay_typed [OF this settled_sys_typed, of sample_env 1]
  have "case getConfig sample_env (s_db settled_sys) 1 of Ok cfg \<Rightarrow> pc_UserLoginRestrictionTryCount cfg \<noteq> None | _ \<Rightarrow> False"
    by code_simp
  with t show ?thesis by (auto split: res.splits)
qed

end
