(* ===== verification/Spec_Front.thy ===== *)
theory Spec_Front
  imports Front Spec_Rpc Spec_Platform
begin

text \<open>
  What holds of the shared database behind the gateway: which operations an HTTP request can amount to, that the
  invariants of the platform hold for every sequence of requests, and whose request can change it.
\<close>

section \<open>Frames\<close>

abbreviation gdb :: "gateway \<Rightarrow> db" where
  "gdb g \<equiv> s_db (gt_sys g)"

lemma StatusErr_db [simp]: "s_db (snd (StatusErr code E ctx ev er c s)) = s_db s"
  by (simp add: StatusErr_def)

lemma route_db [simp]: "s_db (snd (route G ctx r s)) = s_db s"
  by (simp add: route_def split_beta split: res.split)

lemma endpoint_of_db [simp]: "gdb (snd (endpoint_of G ctx r g)) = gdb g"
proof -
  obtain x s where e: "route G ctx r (gt_sys g) = (x, s)" by (cases "route G ctx r (gt_sys g)")
  have "s_db s = gdb g" using route_db [of G ctx r "gt_sys g"] by (simp add: e)
  then show ?thesis by (simp add: endpoint_of_def e split: res.split option.split)
qed

section \<open>What the wrappers add\<close>

text \<open>A relation on databases that is kept by doing nothing and by doing one thing after another.\<close>

definition moves :: "(db \<Rightarrow> db \<Rightarrow> bool) \<Rightarrow> handler \<Rightarrow> bool" where
  "moves P h \<longleftrightarrow> (\<forall>r g. P (gdb g) (gdb (snd (snd (h r g)))))"

lemma movesD: "moves P h \<Longrightarrow> h r g = (ops, f, g') \<Longrightarrow> P (gdb g) (gdb g')"
  unfolding moves_def by (metis snd_conv)

locale db_relation =
  fixes P :: "db \<Rightarrow> db \<Rightarrow> bool"
  assumes P_refl: "P d d" and P_trans: "P d d' \<Longrightarrow> P d' d'' \<Longrightarrow> P d d''"
begin

lemma authorize_moves:
  assumes "moves P next"
  shows "P (gdb g) (gdb (snd (snd (authorize G gl next user r g))))"
proof (cases "g_MarshalUser G user")
  case (Ok b)
  obtain e g1 where e: "endpoint_of G (check_ctx r b) r g = (e, g1)" by (cases "endpoint_of G (check_ctx r b) r g")
  have g1: "gdb g1 = gdb g" using endpoint_of_db [of G "check_ctx r b" r g] by (simp add: e)
  show ?thesis
  proof (cases e)
    case (Ok ep)
    show ?thesis
    proof (cases "identityClient G gl (g_check G) (check_ctx r b) ''CheckAuthorization'' (CheckAuthorization ep) (gt_sys g1)")
      case None
      then show ?thesis by (simp add: authorize_def \<open>g_MarshalUser G user = Ok b\<close> e Ok g1 P_refl)
    next
      case (Some q)
      obtain c s2 where q: "q = (c, s2)" by (cases q)
      have s2: "s_db s2 = gdb g" using identityClient_reads [OF Some [unfolded q]] g1 by simp
      have "P (s_db s2) (gdb (snd (snd (next r' (g1\<lparr>gt_sys := s2\<rparr>)))))" for r'
        using assms [unfolded moves_def, rule_format, of "g1\<lparr>gt_sys := s2\<rparr>" r'] by simp
      then show ?thesis
        by (cases c) (simp_all add: authorize_def \<open>g_MarshalUser G user = Ok b\<close> e Ok Some q s2 P_refl)
    qed
  qed (simp_all add: authorize_def Ok e g1 P_refl)
qed (simp_all add: authorize_def split_beta P_refl)

lemma auth_moves:
  assumes "moves P next"
  shows "moves P (authHandler G gl next)"
  unfolding moves_def
proof (intro allI)
  fix r g
  show "P (gdb g) (gdb (snd (snd (authHandler G gl next r g))))"
  proof (cases "exempt r")
    case True
    with assms show ?thesis by (simp add: authHandler_def moves_def)
  next
    case False
    show ?thesis
    proof (cases "identityClient G gl (g_verify G) (verify_ctx r) ''VerifySession'' VerifySession (gt_sys g)")
      case None
      with False show ?thesis by (simp add: authHandler_def P_refl)
    next
      case (Some q)
      obtain v s1 where q: "q = (v, s1)" by (cases q)
      have s1: "s_db s1 = gdb g" using identityClient_reads [OF Some [unfolded q]] by simp
      have "P (gdb g) (gdb (snd (snd (authorize G gl next user r (g\<lparr>gt_sys := s1\<rparr>)))))" for user
        using authorize_moves [OF assms, of "g\<lparr>gt_sys := s1\<rparr>"] by (simp add: s1)
      then show ?thesis using False Some q s1
        by (simp add: authHandler_def P_refl split: res.split response.split option.split) (simp add: split_beta)
    qed
  qed
qed

lemma wrapper_moves:
  assumes "moves P next"
  shows "moves P (errorFilterHandler G next)" and "moves P (errorConversionHandler G next)" and "moves P (websocketHandler next)"
    and "moves P (corsHandler next)"
proof -
  have n: "P (gdb g) (gdb (snd (snd (next r g))))" for r g using assms by (simp add: moves_def)
  show "moves P (errorFilterHandler G next)"
    unfolding moves_def errorFilterHandler_def using n by (simp add: split_beta Let_def)
  show "moves P (errorConversionHandler G next)"
    unfolding moves_def errorConversionHandler_def using n by (simp add: split_beta)
  show "moves P (websocketHandler next)"
    unfolding moves_def websocketHandler_def using n by (simp add: P_refl split: option.split)
  show "moves P (corsHandler next)"
    unfolding moves_def corsHandler_def using n by (simp add: P_refl split_beta)
qed

lemma gateway_moves: "moves P rpc \<Longrightarrow> moves P (gateway_handler G gl rpc)"
  unfolding gateway_handler_def NewAPIGatewayHandler_def by (simp add: wrapper_moves auth_moves)

end

interpretation same_db: db_relation "(=)"
  by unfold_locales simp_all

section \<open>Operations behind the gateway\<close>

text \<open>The operations of either service.\<close>

abbreviation p_db :: "globals \<Rightarrow> nprm \<Rightarrow> db \<Rightarrow> db \<Rightarrow> bool" where
  "p_db gl N \<equiv> (\<lambda>d d'. db_step gl d d' \<or> n_db_step N d d')\<^sup>*\<^sup>*"

interpretation operations: db_relation "p_db gl N" for gl N
  by unfold_locales (simp, erule (1) rtranclp_trans)

lemma p_db_identity: "(db_step gl)\<^sup>*\<^sup>* d d' \<Longrightarrow> p_db gl N d d'"
  by (induction rule: rtranclp_induct) (auto intro: rtranclp.rtrancl_into_rtrancl)

lemma p_db_notification: "n_stays N d d' \<Longrightarrow> p_db gl N d d'"
  by (induction rule: rtranclp_induct) (auto intro: rtranclp.rtrancl_into_rtrancl)

lemma p_step_p_db: "p_step gl N s s' \<Longrightarrow> p_db gl N (s_db s) (s_db s')"
  by (induction rule: p_step.induct) (auto intro: p_db_identity step_db p_db_notification n_step_stays)

text \<open>A server does what its handler does, or nothing.\<close>

lemma grpc_server_cases:
  assumes "grpc_server K R srv full ctx w s = Some (x, s')"
  shows "s' = s \<or> (\<exists>m t q r. ServiceMethod full = Some (rg_Name R, m) \<and> k_Decode K m t w = Some q \<and> srv ctx q s = Some (r, s'))"
  using assms unfolding grpc_server_def by (auto split: option.splits if_splits prod.splits dest!: recovering_runs)

lemma backend_p_db:
  assumes "backend F gl N i name full ctx w s = Some (x, s')"
  shows "p_db gl N (s_db s) (s_db s')"
proof -
  obtain tr E where ntf: "f_Ntf F i = (tr, E)" by (cases "f_Ntf F i")
  consider "s' = s" | q r where "identityHandler (gl, f_Call F i) ctx q s = Some (r, s')"
    | nq nr where "notificationHandler (N, f_Ntf F i) ctx nq s = Some (nr, s')"
    using assms unfolding backend_def by (auto split: if_splits dest: grpc_server_cases)
  then show ?thesis
  proof cases
    case 1
    then show ?thesis by simp
  next
    case 2
    then show ?thesis by (auto intro: p_db_identity serve_db)
  next
    case 3
    then show ?thesis by (auto simp: ntf intro: p_db_notification n_serve_stays)
  qed
qed

text \<open>A call does what its attempts do.\<close>

lemma front_call_rel:
  assumes "front_call F gl N name ep ctx w s = Some (x, s')"
    and "\<And>i s y s'. backend F gl N i name (methodToGRPC name ep) ctx w s = Some (y, s') \<Longrightarrow> P (s_db s) (s_db s')"
    and "\<And>d. P d d" and "\<And>d d' d''. P d d' \<Longrightarrow> P d' d'' \<Longrightarrow> P d d''"
  shows "P (s_db s) (s_db s')"
  using assms(1) unfolding front_call_def
  by (rule client_Call_rel [where P = "\<lambda>s s'. P (s_db s) (s_db s')"]) (blast intro: assms(2-4))+

lemma front_call_p_db:
  "front_call F gl N name ep ctx w s = Some (x, s') \<Longrightarrow> p_db gl N (s_db s) (s_db s')"
  by (erule front_call_rel, erule backend_p_db, rule operations.P_refl, erule (1) operations.P_trans)

lemma stream_reads:
  assumes "snd (handler_GetEventsStream first E ctx is s) = Some (x, s')"
  shows "s_db s' = s_db s"
proof -
  have open_db: "s_db s1 = s_db s" if "stream_open E ctx q s = (y, s1)" for q y s1
    using that unfolding stream_open_def
    by (auto simp: Let_def split: res.splits if_splits option.splits prod.splits dest: n_createError_eq_frame)
  show ?thesis
  proof (cases first)
    case (Ok m)
    obtain y s1 where o: "stream_open E ctx m s = (y, s1)" by (cases "stream_open E ctx m s")
    have "s_db s' = s_db s1"
      using assms Ok o by (cases y)
        (auto simp: handler_GetEventsStream_def nh_GetEventsStream_def Let_def dest: n_createError_eq_frame
          split: option.splits res.splits unit.splits)
    with open_db [OF o] show ?thesis by simp
  qed (use assms in \<open>simp_all add: handler_GetEventsStream_def\<close>)
qed

text \<open>What the RPC handler changes, a call of a service changed.\<close>

lemma rpcHandler_cases:
  assumes "rpcHandler F G gl N r g = (ops, f, g')"
  shows "gdb g' = gdb g \<or> (\<exists>name ep w x s'. f_Route F r = Ok (name, ep) \<and>
    front_call F gl N name ep (front_ctx G r) w (gt_sys g) = Some (x, s') \<and> s_db s' = gdb g')"
proof (cases "f_Route F r")
  case (Ok p)
  obtain name ep where p: "p = (name, ep)" by (cases p)
  show ?thesis
  proof (cases "f_Stream F r")
    case (Some q)
    obtain first "is" where q: "q = (first, is)" by (cases q)
    have "rpcHandler F G gl N r g = serveWebsocket F G first is r g" by (simp add: rpcHandler_def Ok p Some q)
    with assms show ?thesis by (auto simp: serveWebsocket_def dest: stream_reads split: option.splits)
  next
    case None
    show ?thesis
    proof (cases "f_Payload F r")
      case (Ok w)
      note w = this
      show ?thesis
      proof (cases "front_call F gl N name ep (front_ctx G r) w (gt_sys g)")
        case None
        with assms show ?thesis by (simp add: rpcHandler_def \<open>f_Route F r = Ok p\<close> p \<open>f_Stream F r = None\<close> w)
      next
        case (Some y)
        obtain x s' where y: "y = (x, s')" by (cases y)
        have "gt_sys g' = s'"
          using assms by (cases x) (auto simp: rpcHandler_def \<open>f_Route F r = Ok p\<close> p \<open>f_Stream F r = None\<close> w Some y)
        with Some y Ok p \<open>f_Route F r = Ok p\<close> show ?thesis by blast
      qed
    qed (use assms in \<open>simp_all add: rpcHandler_def Ok p None\<close>)
  qed
qed (use assms in \<open>simp_all add: rpcHandler_def\<close>)

lemma rpcHandler_moves: "moves (p_db gl N) (rpcHandler F G gl N)"
  unfolding moves_def
proof (intro allI)
  fix r g
  obtain ops f g' where h: "rpcHandler F G gl N r g = (ops, f, g')" by (cases "rpcHandler F G gl N r g")
  from rpcHandler_cases [OF h] have "p_db gl N (gdb g) (gdb g')"
  proof (elim disjE exE conjE)
    fix name ep w x s'
    assume "front_call F gl N name ep (front_ctx G r) w (gt_sys g) = Some (x, s')" and s': "s_db s' = gdb g'"
    then show ?thesis using front_call_p_db unfolding s' [symmetric] by blast
  qed simp
  then show "p_db gl N (gdb g) (gdb (snd (snd (rpcHandler F G gl N r g))))" by (simp add: h)
qed

lemma gateway_p_db:
  "gateway_handler G gl (rpcHandler F G gl N) r g = (ops, f, g') \<Longrightarrow> p_db gl N (gdb g) (gdb g')"
  by (rule movesD [OF operations.gateway_moves [OF rpcHandler_moves]])

lemma g_step_p_db: "g_step gl N g g' \<Longrightarrow> p_db gl N (gdb g) (gdb g')"
  by (induction rule: g_step.induct) (auto intro: gateway_p_db p_step_p_db)

context platform_invariant
begin

lemma p_db_I: "p_db gl N d d' \<Longrightarrow> I d \<Longrightarrow> I d'"
  by (induction rule: rtranclp_induct) (auto intro: idn.I_step ntf.I_step)

lemma g_reachable_I: "g_reachable gl N g0 g \<Longrightarrow> I (gdb g0) \<Longrightarrow> I (gdb g)"
  by (induction rule: g_reachable.induct) (auto intro: p_db_I g_step_p_db)

end

text \<open>
  Claim C4.  The platform behind the gateway: after any sequence of HTTP requests, whatever their paths, headers,
  payloads and faults, with the services' own work in between, the database is intact, the admin account keeps its role
  and nobody has gained it, the stored events are well-formed and the settings within their types and bounds; and every
  single request changed it by a sequence of operations of the two services.
\<close>

theorem front_safe:
  assumes "g_reachable gl N g0 g" and "admin_safe gl (gdb g0)" and "events_wf (gdb g0)" and "settings_typed (gdb g0)"
    and "gateway_handler G gl (rpcHandler F G gl N) r g = (ops, f, g')"
  shows "db_wf (gdb g') \<and> admin_safe gl (gdb g') \<and> set (admin_holders gl (gdb g')) \<subseteq> set (admin_holders gl (gdb g0)) \<and>
    events_wf (gdb g') \<and> settings_typed (gdb g') \<and> (\<lambda>d d'. db_step gl d d' \<or> n_db_step N d d')\<^sup>*\<^sup>* (gdb g) (gdb g')"
proof (intro conjI)
  have reach: "g_reachable gl N g0 g'" by (rule g_reachable_step [OF assms(1) g_request [OF assms(5)]])
  have holders: "admin_safe gl (gdb g') \<and> set (admin_holders gl (gdb g')) \<subseteq> set (admin_holders gl (gdb g0))"
    by (rule plat_holders.g_reachable_I [OF reach]) (use assms(2) in simp)
  then show "admin_safe gl (gdb g')" "set (admin_holders gl (gdb g')) \<subseteq> set (admin_holders gl (gdb g0))" by simp_all
  from holders show "db_wf (gdb g')" by (simp add: admin_safe_def)
  show "events_wf (gdb g')" by (rule plat_events.g_reachable_I [OF reach assms(3)])
  show "settings_typed (gdb g')" by (rule plat_settings.g_reachable_I [OF reach assms(4)])
  show "p_db gl N (gdb g) (gdb g')" by (rule gateway_p_db [OF assms(5)])
qed

section \<open>Whose request changes the database\<close>

definition websocket_request :: "http_req \<Rightarrow> http_req option" where
  "websocket_request r =
     (case query_header HeaderAuthenticatedSession r of
        None \<Rightarrow> None
      | Some r1 \<Rightarrow>
          (case query_header HeaderTenantID r1 of
             None \<Rightarrow> None
           | Some r2 \<Rightarrow> Some (r2\<lparr>hr_Query := (hr_Query r2)(HeaderAuthenticatedSession := None, HeaderTenantID := None)\<rparr>)))"

lemma websocket_eq:
  "websocketHandler next r g = (case websocket_request r of None \<Rightarrow> ([], Panicked, g) | Some r2 \<Rightarrow> next r2 g)"
  by (simp add: websocketHandler_def websocket_request_def split: option.split)

lemma query_header_path: "query_header k r = Some r' \<Longrightarrow> hr_Method r' = hr_Method r \<and> hr_Path r' = hr_Path r"
  by (auto simp: query_header_def Header_Set_def split: option.splits list.splits)

lemma websocket_request_exempt: "websocket_request r = Some r2 \<Longrightarrow> exempt r2 = exempt r"
  by (auto simp: websocket_request_def exempt_path split: option.splits dest!: query_header_path)

lemma errorFilter_db:
  "next r g = (ops, f, g1) \<Longrightarrow> gdb (snd (snd (errorFilterHandler G next r g))) = gdb g1"
  by (simp add: errorFilterHandler_def Let_def split_beta)

lemma gateway_stack:
  assumes "gateway_handler G gl rpc r g = (ops, f, g')"
  shows "gdb g' = gdb g \<or> (\<exists>r2 ops1 f1 g1. websocket_request r = Some r2 \<and> authHandler G gl rpc r2 g = (ops1, f1, g1) \<and> gdb g' = gdb g1)"
proof (cases "ToUpper (hr_Method r) = ''OPTIONS''")
  case True
  with assms show ?thesis by (auto simp: gateway_handler_def NewAPIGatewayHandler_def corsHandler_def)
next
  case False
  let ?conv = "errorConversionHandler G (errorFilterHandler G (authHandler G gl rpc))"
  have w: "gdb g' = gdb (snd (snd (websocketHandler ?conv r g)))"
    using assms False by (auto simp: gateway_handler_def NewAPIGatewayHandler_def corsHandler_def split: prod.splits)
  show ?thesis
  proof (cases "websocket_request r")
    case None
    with w show ?thesis by (simp add: websocket_eq)
  next
    case (Some r2)
    obtain ops1 f1 g1 where a: "authHandler G gl rpc r2 g = (ops1, f1, g1)" by (cases "authHandler G gl rpc r2 g")
    have "gdb (snd (snd (?conv r2 g))) = gdb g1"
      using errorFilter_db [of "authHandler G gl rpc", OF a, of G] by (simp add: errorConversionHandler_def split_beta)
    with w Some a show ?thesis by (auto simp: websocket_eq)
  qed
qed

text \<open>The frames of the two outcomes of \<open>authHandler\<close>: instantiate the wrapped handler by one that does nothing.\<close>

lemma auth_forwards:
  assumes "\<not> exempt r" and "user_codec G" and "authHandler G gl next r g = (ops, f, g')"
  shows "gdb g' = gdb g \<or> (\<exists>user b ep g1 ops1 f1. verified G r (gt_sys g) user \<and> g_MarshalUser G user = Ok b \<and>
    authorized G gl r user ep \<and> g_route G r = Ok ep \<and> gdb g1 = gdb g \<and> next (forwarded G r b) g1 = (ops1, f1, g'))"
proof -
  let ?idle = "\<lambda>r g. ([], Finished, g) :: wop list \<times> fate \<times> gateway"
  have idle: "gdb (snd (snd (authHandler G gl ?idle r g))) = gdb g"
    using same_db.auth_moves [of ?idle G gl] by (simp add: moves_def)
  from auth_cases [OF assms(1,2), of gl g] show ?thesis
  proof (elim disjE exE conjE)
    fix out assume "\<forall>next. authHandler G gl next r g = out"
    then have "authHandler G gl next r g = authHandler G gl ?idle r g" by simp
    with idle assms(3) show ?thesis by simp
  next
    fix user key b ep g1
    assume u: "verified G r (gt_sys g) user" "g_MarshalUser G user = Ok b" "authorized G gl r user ep" "g_route G r = Ok ep"
      and all: "\<forall>next. authHandler G gl next r g =
        (case next (forwarded G r b) g1 of (ops, f, g') \<Rightarrow> (SetHeader HeaderAuthenticatedSession key # ops, f, g'))"
    from idle all [THEN spec, of ?idle] have "gdb g1 = gdb g" by simp
    moreover obtain ops1 f1 where "next (forwarded G r b) g1 = (ops1, f1, g')"
      using assms(3) all [THEN spec, of "next"] by (auto split: prod.splits)
    ultimately show ?thesis using u by blast
  qed
qed

text \<open>
  What is relied on of go-micro: both routers give a request the same endpoint; an endpoint given to a request that is not
  authenticated is one of the registered tables and matches it; a payload is decoded into the message of the method.
\<close>

definition same_router :: "front \<Rightarrow> genv \<Rightarrow> bool" where
  "same_router F G \<longleftrightarrow> (\<forall>r b name ep. f_Route F (forwarded G r b) = Ok (name, ep) \<longrightarrow> g_route G r = Ok ep)"

definition table_router :: "front \<Rightarrow> bool" where
  "table_router F \<longleftrightarrow> (\<forall>r name ep. exempt r \<and> f_Route F r = Ok (name, ep) \<longrightarrow>
     (\<exists>e \<in> set (NewIdentityEndpoints @ NewNotificationEndpoints). ep_Name e = ep \<and> endpoint_match e r))"

definition typed_codec :: "front \<Rightarrow> bool" where
  "typed_codec F \<longleftrightarrow> (\<forall>m t w q. k_Decode (f_K F) m t w = Some q \<longrightarrow> request_type q = (m, t))"

lemma request_of_method:
  "fst (request_type q) = ''Login'' \<Longrightarrow> \<exists>lq. q = Login lq" "fst (request_type q) = ''VerifySession'' \<Longrightarrow> q = VerifySession"
  by (cases q; simp)+

text \<open>A call of \<open>Login\<close> or \<open>VerifySession\<close> changes the database only by logins, one in each of its attempts.\<close>

definition login_step :: "front \<Rightarrow> globals \<Rightarrow> ctx \<Rightarrow> db \<Rightarrow> db \<Rightarrow> bool" where
  "login_step F gl ctx d d' \<longleftrightarrow>
     (\<exists>i lq s r s'. serve_Login gl ((f_Call F i)\<lparr>c_ctx := ctx\<rparr>) lq s = Some (r, s') \<and> s_db s = d \<and> s_db s' = d')"

lemma exempt_attempt:
  assumes "backend F gl N i name (methodToGRPC name ep) ctx w s = Some (y, s')"
    and "ep \<in> {''Identity.Login'', ''Identity.VerifySession''}" and "typed_codec F"
  shows "s_db s' = s_db s \<or> login_step F gl ctx (s_db s) (s_db s')"
proof -
  let ?c = "(f_Call F i)\<lparr>c_ctx := ctx\<rparr>"
  obtain m where ep: "ep = ''Identity'' @ ''.'' @ m" and m: "m = ''Login'' \<or> m = ''VerifySession''"
    using assms(2) by auto
  have full: "ServiceMethod (methodToGRPC name ep) = Some (''Identity'', m)" if "name = ServiceIdentity \<or> name = ServiceNotification"
    unfolding ep by (rule ServiceMethod_methodToGRPC) (use that m in \<open>auto simp: ServiceIdentity_def ServiceNotification_def\<close>)
  have "s' = s \<or> (\<exists>q r. fst (request_type q) = m \<and> serve gl ?c q s = Some (r, s'))"
  proof (cases "name = ServiceIdentity")
    case True
    with assms(1) have "grpc_server (f_K F) RegisterIdentityHandler (identityHandler (gl, f_Call F i)) (methodToGRPC name ep) ctx w s = Some (y, s')"
      by (simp add: backend_def)
    from grpc_server_cases [OF this] show ?thesis
      using full True assms(3) unfolding typed_codec_def by fastforce
  next
    case False
    have "rg_Name RegisterNotificationHandler \<noteq> ''Identity''" by (simp add: RegisterNotificationHandler_def)
    with assms(1) False full show ?thesis by (auto simp: backend_def split: if_splits dest: grpc_server_cases)
  qed
  then show ?thesis
    using m request_of_method serve_reads [of gl ?c VerifySession s _ s'] unfolding login_step_def
    by (fastforce simp: serve_def)
qed

lemma exempt_call:
  assumes "front_call F gl N name ep ctx w s = Some (x, s')" and "ep \<in> {''Identity.Login'', ''Identity.VerifySession''}"
    and "typed_codec F"
  shows "(login_step F gl ctx)\<^sup>*\<^sup>* (s_db s) (s_db s')"
proof (rule front_call_rel [OF assms(1)])
  fix i s y s'
  assume "backend F gl N i name (methodToGRPC name ep) ctx w s = Some (y, s')"
  then show "(login_step F gl ctx)\<^sup>*\<^sup>* (s_db s) (s_db s')" using exempt_attempt [OF _ assms(2,3)] by (metis r_into_rtranclp rtranclp.rtrancl_refl)
qed simp_all

text \<open>The user that the services read from the metadata of a forwarded request is the verified one.\<close>

lemma forwarded_ctx:
  assumes "g_MarshalUser G user = Ok b" and "user_codec G"
  shows "GetAuthenticatedUser (c_env (g_check G i)) (front_ctx G (forwarded G r b)) = Ok user"
proof -
  have "hr_Header (forwarded G r b) HeaderAuthenticatedUser = Some [b]" by (simp add: forwarded_def Header_Set_def)
  then have "front_ctx G (forwarded G r b) HeaderAuthenticatedUser = Some b" by (simp add: front_ctx_def forwarded_user)
  with assms show ?thesis by (simp add: GetAuthenticatedUser_def user_codec_def)
qed

text \<open>
  Claim C2.  No HTTP request changes the database behind the back of the identity service.  If one does, either it is a
  login (made again when its first attempt failed), or a session was verified for it whose user has a role that is allowed exactly the endpoint that ran and may act
  in the tenant of the request, and the service that ran it was told this user and no other.
\<close>

theorem database_guarded:
  assumes "user_codec G" and "same_router F G" and "table_router F" and "typed_codec F"
    and "gateway_handler G gl (rpcHandler F G gl N) r g = (ops, f, g')"
  shows "gdb g' = gdb g \<or> (\<exists>r2. websocket_request r = Some r2 \<and>
    (if exempt r then
       (login_step F gl (front_ctx G (Header_Set HeaderClientIP (remoteIP r2) r2)))\<^sup>*\<^sup>* (gdb g) (gdb g')
     else
       (\<exists>user b name ep w s x s'. verified G r2 (gt_sys g) user \<and> authorized G gl r2 user ep \<and>
          f_Route F (forwarded G r2 b) = Ok (name, ep) \<and>
          (\<forall>i. GetAuthenticatedUser (c_env (g_check G i)) (front_ctx G (forwarded G r2 b)) = Ok user) \<and>
          front_call F gl N name ep (front_ctx G (forwarded G r2 b)) w s = Some (x, s') \<and> s_db s = gdb g \<and> s_db s' = gdb g')))"
proof (cases "gdb g' = gdb g")
  case False
  with gateway_stack [OF assms(5)] obtain r2 ops1 f1 g1 where r2: "websocket_request r = Some r2"
    and a: "authHandler G gl (rpcHandler F G gl N) r2 g = (ops1, f1, g1)" and g1: "gdb g' = gdb g1"
    by blast
  have ex: "exempt r2 = exempt r" by (rule websocket_request_exempt [OF r2])
  show ?thesis
  proof (cases "exempt r")
    case True
    let ?r3 = "Header_Set HeaderClientIP (remoteIP r2) r2"
    have "rpcHandler F G gl N ?r3 g = (ops1, f1, g1)" using a True ex by (simp add: authHandler_def)
    from rpcHandler_cases [OF this] False g1 obtain name ep w x s' where c: "f_Route F ?r3 = Ok (name, ep)"
      "front_call F gl N name ep (front_ctx G ?r3) w (gt_sys g) = Some (x, s')" "s_db s' = gdb g'"
      by auto
    have r3: "exempt ?r3" using True ex by (simp add: exempt_path Header_Set_def)
    with assms(3) c(1) obtain e where "e \<in> set (NewIdentityEndpoints @ NewNotificationEndpoints)" "ep_Name e = ep" "endpoint_match e ?r3"
      unfolding table_router_def by blast
    then have "ep \<in> {''Identity.Login'', ''Identity.VerifySession''}" using exempt_endpoints [OF r3] by auto
    with exempt_call [OF c(2) this assms(4)] c(3) r2 True show ?thesis by auto
  next
    case not_exempt: False
    from auth_forwards [OF _ assms(1) a] not_exempt ex False g1 obtain user b ep g2 ops2 f2 where u:
      "verified G r2 (gt_sys g) user" "g_MarshalUser G user = Ok b" "authorized G gl r2 user ep" "g_route G r2 = Ok ep" "gdb g2 = gdb g"
      and n: "rpcHandler F G gl N (forwarded G r2 b) g2 = (ops2, f2, g1)"
      by auto
    from rpcHandler_cases [OF n] False g1 u(5) obtain name ep' w x s' where c: "f_Route F (forwarded G r2 b) = Ok (name, ep')"
      "front_call F gl N name ep' (front_ctx G (forwarded G r2 b)) w (gt_sys g2) = Some (x, s')" "s_db s' = gdb g'"
      by auto
    have "ep' = ep" using assms(2) c(1) u(4) unfolding same_router_def by fastforce
    then have "\<exists>user b name ep w s x s'. verified G r2 (gt_sys g) user \<and> authorized G gl r2 user ep \<and>
        f_Route F (forwarded G r2 b) = Ok (name, ep) \<and>
        (\<forall>i. GetAuthenticatedUser (c_env (g_check G i)) (front_ctx G (forwarded G r2 b)) = Ok user) \<and>
        front_call F gl N name ep (front_ctx G (forwarded G r2 b)) w s = Some (x, s') \<and> s_db s = gdb g \<and> s_db s' = gdb g'"
      using u(1,3,5) c forwarded_ctx [OF u(2) assms(1)] by blast
    with r2 not_exempt show ?thesis by simp
  qed
qed simp

section \<open>Witnesses\<close>

text \<open>Alice adds a group over HTTP; the policy of the installation allows her to.\<close>

definition ops_group :: p_group where
  "ops_group = \<lparr>pg_Id = 0, pg_Tenant = Some sample_tenant, pg_Name = ''ops'', pg_Remarks = [], pg_CreatedAt = 0, pg_UpdatedAt = 0\<rparr>"

definition sample_front :: front where
  "sample_front =
     \<lparr>f_K = \<lparr>k_Request = (\<lambda>_. []), k_Decode = (\<lambda>m t _. if m = ''AddGroup'' \<and> t = ''AddGroupRequest'' then Some (AddGroup (Some ops_group)) else None),
             k_Reply = (\<lambda>_. ''{}''), k_Result = (\<lambda>_ _. None)\<rparr>,
      f_N = \<lparr>k_Request = (\<lambda>_. []), k_Decode = (\<lambda>_ _ _. None), k_Reply = (\<lambda>_. ''{}''), k_Result = (\<lambda>_ _. None)\<rparr>,
      f_Route = (\<lambda>r. if hr_Path r = ''/identity/groups'' then Ok (ServiceIdentity, ''Identity.AddGroup'') else Fail registry_ErrNotFound),
      f_Stream = (\<lambda>_. None), f_Payload = (\<lambda>_. Ok ''{}''), f_Net = (\<lambda>_ _ _. Delivered), f_Arrive = id,
      f_Error = (\<lambda>_ _. [WriteHeader 500]), f_Write = (\<lambda>_ b. [WriteBody b]), f_Call = (\<lambda>_. gate_call), f_Ntf = (\<lambda>_. (sample_trial, sample_env))\<rparr>"

definition group_genv :: genv where
  "group_genv = sample_genv\<lparr>g_route := \<lambda>_. Ok ''Identity.AddGroup''\<rparr>"

definition group_globals :: globals where
  "group_globals = sample_globals\<lparr>gl_policy := [(''user'', ''CDM-Cloud'', ''Identity.AddGroup'')]\<rparr>"

definition group_req :: http_req where
  "group_req = (sample_req ''/identity/groups'' ''.'')\<lparr>hr_Method := ''POST''\<rparr>"

lemma sample_front_laws:
  "user_codec group_genv" "same_router sample_front group_genv" "table_router sample_front" "typed_codec sample_front"
proof -
  show "user_codec group_genv" using sample_codec by (simp add: user_codec_def group_genv_def)
  show "same_router sample_front group_genv"
    by (simp add: same_router_def sample_front_def group_genv_def)
  show "table_router sample_front"
    by (auto simp: table_router_def sample_front_def exempt_path loginPath_def sessionCheckPath_def split: if_splits)
  show "typed_codec sample_front"
    by (auto simp: typed_codec_def sample_front_def split: if_splits)
qed

abbreviation group_run :: "wop list \<times> fate \<times> gateway" where
  "group_run \<equiv> gateway_handler group_genv group_globals (rpcHandler sample_front group_genv group_globals sample_nprm) group_req sample_gateway"

lemma group_added: "length (t_group (gdb (snd (snd group_run)))) = 3"
  by code_simp

lemma group_run_eq: "group_run = (fst group_run, fst (snd group_run), snd (snd group_run))"
  by simp

theorem database_guarded_witness:
  "\<exists>r2 user. websocket_request group_req = Some r2 \<and> verified group_genv r2 session_sys user \<and>
     authorized group_genv group_globals r2 user ''Identity.AddGroup''"
proof -
  have "length (t_group (gdb sample_gateway)) = 2" by code_simp
  with group_added have changed: "gdb (snd (snd group_run)) \<noteq> gdb sample_gateway" by auto
  have "\<not> exempt group_req" by (simp add: exempt_path group_req_def sample_req_def loginPath_def sessionCheckPath_def)
  with database_guarded [OF sample_front_laws group_run_eq] changed obtain r2 user b name ep where
    w: "websocket_request group_req = Some r2" "verified group_genv r2 (gt_sys sample_gateway) user"
      "authorized group_genv group_globals r2 user ep" "f_Route sample_front (forwarded group_genv r2 b) = Ok (name, ep)"
    by auto
  from w(4) have "ep = ''Identity.AddGroup''" by (auto simp: sample_front_def split: if_splits)
  with w show ?thesis by (auto simp: sample_gateway_def)
qed

lemma sample_front_start:
  "admin_safe group_globals (gdb sample_gateway)" "events_wf (gdb sample_gateway)" "settings_typed (gdb sample_gateway)"
proof -
  note start = sample_defs sample_gateway_def session_sys_def
  show "admin_safe group_globals (gdb sample_gateway)" "events_wf (gdb sample_gateway)"
    by (simp_all add: admin_safe_def admin_pair_def group_globals_def db_wf_def wf_defs same_email_def login_wf_def cfg_key_def
        events_wf_def config_keys start)
  have num: "ParseUint ''5'' = Some 5" "Itoa 60 = ''60''" "ParseBool ''true'' = Some True" by code_simp+
  have "\<exists>i. ''60'' = Itoa i \<and> (in_i64 i \<longrightarrow> 10 \<le> i \<and> i \<le> 7200)" by (rule exI [of _ 60]) (simp add: num)
  then show "settings_typed (gdb sample_gateway)" by (auto simp: settings_typed_def setting_ok_def config_keys start num)
qed

theorem front_safe_witness:
  "set (admin_holders group_globals (gdb (snd (snd group_run)))) \<subseteq> {1} \<and> db_wf (gdb (snd (snd group_run)))"
proof -
  have "set (admin_holders group_globals (gdb sample_gateway)) \<subseteq> {1}" by code_simp
  with front_safe [OF g_reachable_init sample_front_start group_run_eq] show ?thesis by blast
qed

end
