(* ===== verification/Spec2Isabelle.thy ===== *)
theory Spec2Isabelle
  imports Spec_Status Spec_Notification Spec_Log_Files Spec_Services Spec_Facade Spec_Front
begin

text \<open>
  CDM-Cloud is a cloud management platform in Go.  Its programs are go-micro processes that share a
  CockroachDB database, an etcd key-value store and a RabbitMQ broker: the API gateway, which
  authenticates every request through the identity service and passes the tenant, the user, the session
  and the client address on as metadata; the identity service (accounts, groups, roles, tenants, settings,
  sessions, authorization); the notification service (events that other services report, who receives them, and
  their delivery by mail); and \<open>registerd\<close>, which registers a backing service.  They are built on the
  packages of \<open>src/common\<close>.  This development models all of them, down to the clients of the broker, of etcd and of the
  database, and proves what their users, their administrators and each other rely on.

  How the model corresponds to the code.  One definition per Go function, under its name where HOL allows it
  (\<open>h_\<close> and \<open>nh_\<close> before the RPC handlers; a prefix where two packages use one name), structs are records, options are
  datatypes, and every error, early return and nil dereference is a branch of \<open>('e, 'a) res\<close>: \<open>Ok\<close>, \<open>Fail\<close>, \<open>Panic\<close>.  The
  shared state is the record \<open>sys\<close>: the tables, the key-value store, and what was published.  A call takes an environment
  \<open>env\<close> that answers for everything outside the repository at that moment: the clock, faults of the database, the
  store and the broker, random numbers, signatures, JSON.  Loops that go on while the outside fails
  (\<open>crdb.ExecuteInTx\<close>, the loops of the connections) are driven by lists of answers or by step relations.

  The library:
    \<^item> \<open>Prelude\<close>: results and the loops that stop at an error, 64-bit arithmetic, tables with a key, the locale
      \<open>codec\<close> (round trips).
    \<^item> \<open>Go_Std\<close>: \<open>utf8\<close>, \<open>strconv\<close>, \<open>strings\<close>, \<open>encoding/hex\<close>, \<open>encoding/base64\<close>, as interpretations of \<open>codec\<close>.
    \<^item> \<open>Data_Model\<close>: the rows of \<open>common/database/model\<close>, the messages of the protocols, the errors, \<open>sys\<close> and \<open>env\<close>.
    \<^item> \<open>Errors\<close>: \<open>common/errors\<close>, \<open>common/metadata\<close>, \<open>common/event\<close>, \<open>common/util\<close>.
    \<^item> \<open>Database\<close>: gorm's statements on the tables with the constraints of the schema, \<open>common/config\<close>, and
      \<open>database.Transaction\<close> with the retries of \<open>crdb.ExecuteInTx\<close>; \<open>Schema\<close>: the integrity invariant \<open>db_wf\<close> and that
      every write keeps it.
    \<^item> \<open>Store\<close>: \<open>common/store\<close>, with the locale \<open>kv_store\<close> interpreted on the contents of etcd.

  The identity service, \<open>services/identity/handler\<close>:
    \<^item> \<open>Identity_Convert\<close>, \<open>Identity_Tenant\<close>, \<open>Identity_Group\<close>, \<open>Identity_Config\<close>, \<open>Identity_Session\<close>, \<open>Identity_User\<close>: its files.
    \<^item> \<open>Identity_Handler\<close>: the RPC handlers, a call with its transaction (\<open>serve\<close>) and the running service (\<open>step\<close>,
      \<open>reachable\<close>).
    \<^item> \<open>Identity_Invariants\<close>: the abstract service \<open>db_step\<close> of validated operations that the handlers refine, and the locale
      \<open>db_invariant\<close> with its interpretations: integrity, the admin account, the holders of the admin role.

  The gateway and the wire:
    \<^item> \<open>Gateway\<close>: the wrappers of \<open>services/api-gateway/handler\<close> and their composition, calling the identity service, and
      the tables of endpoints.
    \<^item> \<open>Rpc\<close>: the generated \<open>identity.pb.micro.go\<close> and \<open>notification.pb.micro.go\<close>, stubs and registrations, and a call from
      the one to the other through the gRPC client and server of the vendored go-micro, with the second attempt that the
      client makes when the first one failed (\<open>client_Call\<close> of \<open>Gateway\<close>).
    \<^item> \<open>Front\<close>: go-micro's RPC handler behind the wrappers, with both services behind it, and the platform that
      answers HTTP requests (\<open>g_step\<close>, \<open>g_reachable\<close>).

  The notification service, \<open>services/notification\<close>:
    \<^item> \<open>Notification_Config\<close>, \<open>Notification_Notifier\<close>, \<open>Notification_Event\<close>, \<open>Notification_Handler\<close>: its packages, with the mail
      conversation, the event stream and the running service (\<open>n_step\<close>, \<open>n_reachable\<close>).
    \<^item> \<open>Notification_Invariants\<close>: the abstract service \<open>n_db_step\<close> and the locale \<open>n_invariant\<close>.

  The clients and the programs:
    \<^item> \<open>Discovery\<close>: what the clients make of the answer of the service registry.
    \<^item> \<open>Broker\<close>: \<open>common/broker\<close>, with the loops of a connection and of its subscriptions as the step relation \<open>bstep\<close>.
    \<^item> \<open>Etcd\<close>: the clients of etcd of \<open>common/store\<close> and \<open>common/sync\<close>, leaders and mutexes; \<open>Facade\<close>: the calls of the
      default store with their options, and how errors are rendered.
    \<^item> \<open>Connection\<close>: \<open>common/database\<close>, data sources, handles, the loop \<open>dstep\<close>, and the ways to run a block.
    \<^item> \<open>Logger\<close>: \<open>common/logger\<close> and its watcher; \<open>Log_Files\<close>: \<open>common/config/util.go\<close>.
    \<^item> \<open>Command\<close>: \<open>common/command.go\<close>, how a process is set up from its flags and torn down.
    \<^item> \<open>Services\<close>: the \<open>main\<close> functions of the two services, the loop of the cleaner, \<open>registerd\<close>.
    \<^item> \<open>Platform\<close>: the two services on one database, and the locale \<open>platform_invariant\<close>, which joins \<open>db_invariant\<close> and
      \<open>n_invariant\<close>.

  The properties:
    \<^item> this theory: no request escalates privileges, integrity, and the refinement of the abstract identity service.
    \<^item> \<open>Spec_Status\<close>: what a call answers and that it ends.  \<open>Spec_Session\<close>, \<open>Spec_Login\<close>, \<open>Spec_User\<close>, \<open>Spec_Query\<close>: sessions,
      login, the operations on users, and lists with their pages.
    \<^item> \<open>Spec_Gateway\<close>: which requests are forwarded, as whom and on whose authority.  \<open>Spec_Rpc\<close>: the locale
      \<open>rpc_contract\<close> of a client and a server that fit, interpreted for both services, so that a call over the wire is
      the call of the handler; and that routing is unambiguous.  \<open>Spec_Front\<close>: the locale \<open>db_relation\<close> carries what the handlers
      do to the database through the wrappers: invariants behind the gateway, and whose request can change the database.
    \<^item> \<open>Spec_Notification\<close>: settings, stored events, lists and streams, who is notified and what reaches the mail server.
    \<^item> \<open>Spec_Platform\<close>: what holds of the shared database however the two services interleave, the types and bounds of
      the settings among it.
    \<^item> \<open>Spec_Broker\<close>, \<open>Spec_Connection\<close>: what the loops keep (the locales \<open>b_invariant\<close> and \<open>d_invariant\<close>), that an attempt to connect
      ends, how deliveries are answered, handles, and what becomes of a failing block.
    \<^item> \<open>Spec_Command\<close>, \<open>Spec_Services\<close>, \<open>Spec_Log_Files\<close>: a process and a service from start to end, the level of the
      logger, the endpoints of the clients, the midnights of the cleaner, what \<open>registerd\<close> registers, which log files go.
    \<^item> \<open>Spec_Facade\<close>: what the callers of the default store can rely on.
    \<^item> \<open>Sample\<close>, \<open>Sample_Notification\<close>: an installation with concrete values for the code outside, on which the witnesses are
      evaluated.

  Bounds.  Numbers of the protocol are 64-bit words (\<open>u64\<close>) or integers with the wrap-around written out; sequences
  end at their limit.  There is no fuel in the handlers.  \<open>executeInTx\<close> runs through a list of attempts and
  is \<open>None\<close> when they all conflict; \<open>serve_terminates\<close> shows that one attempt that settles is enough, and the properties hold
  for lists of every length.  \<open>declare_queue\<close> repeats until the broker accepts (\<open>partial_function\<close>);
  \<open>attempt_terminates\<close> shows that it returns as soon as the broker answers from some moment on.
  What the network does with each attempt of a call (\<open>delivery\<close>) is arbitrary: delivered, not sent, its reply lost, or
  given up at the deadline with or without having run.

  Hypotheses on code outside the repository.  The session properties assume that the JSON of a payload reads back,
  that what was signed verifies, and that the hash is one function (\<open>crypto_ok\<close>); the gateway's, that the JSON of a user
  reads back (\<open>user_codec\<close>); the settings of the notification service, the same of the JSON of the notifiers; calls over
  the wire, that messages are decoded as they were encoded (\<open>wire_ok\<close>); requests behind the gateway, that its two routers agree,
  that a path which is not authenticated is routed by the registered endpoints, and that a payload is decoded into the
  type of its method (\<open>same_router\<close>, \<open>table_router\<close>, \<open>typed_codec\<close>).  Each has a witness on \<open>Sample\<close>.  Other hypotheses on the environment of a call say which faults do not occur.

  Not modelled.  The generated messages beyond those that the services compute with, and their encoding; SQL
  and gorm beyond the statements that the services issue (the tables are lists, the isolation of CockroachDB is
  serializable); the rows of schedules and backups, which no program of the repository reads; TLS, SMTP and AMQP
  below the calls of their libraries; go-micro beyond the paths of a call that \<open>Rpc\<close> and \<open>Front\<close> follow (the protobuf
  payloads of the RPC handler, the frames of a web socket, the selection of a node, the backoff between attempts); \<open>wrapper_record.go\<close>, which is not installed;
  the support of the tests.  Concurrency is the interleaving of whole calls, of the steps of the loops, and of the
  expiry of leases: the mutexes of the clients and the goroutines inside one call of the event stream are not modelled,
  because what they add is the memory model of Go.
\<close>

section \<open>The running service\<close>

lemma admin_holders_iff:
  "uid \<in> set (admin_holders gl d) \<longleftrightarrow> \<lparr>mur_UserID = uid, mur_RoleID = gl_Admin gl\<rparr> \<in> set (t_user_role d)"
proof
  assume "uid \<in> set (admin_holders gl d)"
  then obtain r where r: "r \<in> set (t_user_role d)" "mur_RoleID r = gl_Admin gl" "uid = mur_UserID r"
    by (auto simp: admin_holders_def)
  then have "r = \<lparr>mur_UserID = uid, mur_RoleID = gl_Admin gl\<rparr>" by (intro m_user_role.equality) simp_all
  with r(1) show "\<lparr>mur_UserID = uid, mur_RoleID = gl_Admin gl\<rparr> \<in> set (t_user_role d)" by simp
next
  assume "\<lparr>mur_UserID = uid, mur_RoleID = gl_Admin gl\<rparr> \<in> set (t_user_role d)"
  then show "uid \<in> set (admin_holders gl d)"
    unfolding admin_holders_def set_map
    by (intro image_eqI [where x = "\<lparr>mur_UserID = uid, mur_RoleID = gl_Admin gl\<rparr>"]) simp_all
qed

text \<open>
  Claim C1.  No request escalates privileges: in every state that the service reaches, whatever the
  calls, the faults and the retries, the users with the admin role held it from the start, and the admin
  account exists and holds it.
\<close>

theorem no_privilege_escalation:
  assumes "db_wf (s_db s0)" and "\<lparr>mur_UserID = gl_adminUser gl, mur_RoleID = gl_Admin gl\<rparr> \<in> set (t_user_role (s_db s0))"
    and "reachable gl s0 s"
  shows "\<lparr>mur_UserID = gl_adminUser gl, mur_RoleID = gl_Admin gl\<rparr> \<in> set (t_user_role (s_db s)) \<and>
    gl_adminUser gl \<in> mu_ID ` set (t_user (s_db s)) \<and>
    (\<forall>uid. \<lparr>mur_UserID = uid, mur_RoleID = gl_Admin gl\<rparr> \<in> set (t_user_role (s_db s)) \<longrightarrow>
       \<lparr>mur_UserID = uid, mur_RoleID = gl_Admin gl\<rparr> \<in> set (t_user_role (s_db s0)))"
proof -
  have s: "admin_safe gl (s_db s) \<and> set (admin_holders gl (s_db s)) \<subseteq> set (admin_holders gl (s_db s0))"
    by (rule holders.reachable_I [OF assms(3)]) (use assms(1,2) in \<open>simp add: admin_safe_def admin_pair_def\<close>)
  then show ?thesis
    using admin_holders_iff [of _ gl "s_db s"] admin_holders_iff [of _ gl "s_db s0"]
    by (auto simp: admin_safe_def admin_pair_def db_wf_def user_roles_wf_def)
qed

text \<open>A run of the sample installation: one call.\<close>

definition sample_after :: sys where
  "sample_after = (case serve sample_globals (sample_call ''root'') (DeactivateTenant 1) sample_sys of Some (_, s) \<Rightarrow> s | None \<Rightarrow> sample_sys)"

lemma sample_reachable: "reachable sample_globals sample_sys sample_after"
proof (cases "serve sample_globals (sample_call ''root'') (DeactivateTenant 1) sample_sys")
  case None
  then show ?thesis by (simp add: sample_after_def reachable_init)
next
  case (Some p)
  then have "step sample_globals sample_sys (snd p)" by (intro step_call [of _ _ _ _ "fst p"]) simp
  with reachable_step [OF reachable_init this] Some show ?thesis by (simp add: sample_after_def split_beta)
qed

lemma sample_sys_simps [simp]: "s_db sample_sys = sample_db" "gl_Admin sample_globals = 1" "gl_adminUser sample_globals = 1"
  by (simp_all add: sample_sys_def sample_globals_def)

theorem no_privilege_escalation_witness:
  "\<lparr>mur_UserID = 1, mur_RoleID = 1\<rparr> \<in> set (t_user_role (s_db sample_after)) \<and>
   \<lparr>mur_UserID = 2, mur_RoleID = 1\<rparr> \<notin> set (t_user_role (s_db sample_after))"
proof -
  have "\<lparr>mur_UserID = 1, mur_RoleID = 1\<rparr> \<in> set (t_user_role sample_db)" by (simp add: sample_db_def)
  with no_privilege_escalation [OF _ _ sample_reachable] sample_db_wf
  show ?thesis by (auto simp: sample_db_def)
qed

text \<open>
  The integrity of the database (unique keys and accounts, references that resolve, members
  of a group in its tenant, a time with every counted login failure) holds in every reachable state.
\<close>

theorem integrity_reachable:
  assumes "db_wf (s_db s0)" and "reachable gl s0 s"
  shows "db_wf (s_db s)"
  using assms by (rule integrity.reachable_I [rotated])

theorem integrity_reachable_witness: "db_wf (s_db sample_after)"
  by (rule integrity_reachable [OF _ sample_reachable]) (simp add: sample_db_wf)



end
